(* ===== verification/Nexus_Prelude.thy ===== *)
theory Nexus_Prelude
  imports Main "HOL-Library.Word"
begin

text \<open>
  Shared vocabulary of the development.

  \<^item> Types of the Go program: \<open>uint64\<close> and \<open>int64\<close> are 64-bit words (an \<open>int64\<close> is read with
    \<open>sint\<close>), \<open>common.Hash\<close> and \<open>common.Address\<close> are the 32-byte and 20-byte arrays as words,
    strings and byte slices are lists of bytes (\<open>string\<close>).
  \<^item> Go's \<open>error\<close> values (\<open>go_error\<close>), with the text \<open>err.Error()\<close> and the chain that
    \<open>errors.Is\<close> walks.
  \<^item> \<open>'a outcome\<close>: what a call returns: a value, an error, or a panic.
  \<^item> \<open>('w, 'a) proc\<close>: a call that also changes a state \<open>'w\<close> and may fail to return (\<open>None\<close>).
\<close>

section \<open>Types\<close>

type_synonym u64 = "64 word"
type_synonym i64 = "64 word"
type_synonym hash = "256 word"
type_synonym address = "160 word"
type_synonym bytes = string

section \<open>Rule collections\<close>

named_theorems outcome_simps \<open>unfolding of outcome and proc combinators\<close>
named_theorems model_defs \<open>definitions that a component's proofs unfold\<close>

section \<open>Errors\<close>

text \<open>
  \<open>New\<close> is \<open>errors.New\<close> and \<open>fmt.Errorf\<close> without \<open>%w\<close>; \<open>Wrapf pre e post\<close> is \<open>fmt.Errorf\<close>
  with one \<open>%w\<close> between the texts \<open>pre\<close> and \<open>post\<close>; \<open>Sentinel\<close> is a package-level error value
  compared by identity; \<open>NumError\<close> is \<open>*strconv.NumError\<close>.
\<close>

datatype num_kind = ErrSyntax | ErrRange

datatype go_error =
    New string
  | Wrapf string go_error string
  | Sentinel string
  | NumError string string num_kind

fun errors_Is :: "go_error \<Rightarrow> go_error \<Rightarrow> bool" where
  "errors_Is (Wrapf pre e post) t \<longleftrightarrow> Wrapf pre e post = t \<or> errors_Is e t"
| "errors_Is e t \<longleftrightarrow> e = t"

fun num_kind_text :: "num_kind \<Rightarrow> string" where
  "num_kind_text ErrSyntax = ''invalid syntax''"
| "num_kind_text ErrRange = ''value out of range''"

fun error_text :: "go_error \<Rightarrow> string" where
  "error_text (New s) = s"
| "error_text (Wrapf pre e post) = pre @ error_text e @ post"
| "error_text (Sentinel s) = s"
| "error_text (NumError f s k) =
     ''strconv.'' @ f @ '': parsing '' @ [CHR 0x22] @ s @ [CHR 0x22] @ '': '' @ num_kind_text k"

section \<open>Outcomes\<close>

datatype 'a outcome = Ok 'a | Err go_error | Panic go_error

fun bindO :: "'a outcome \<Rightarrow> ('a \<Rightarrow> 'b outcome) \<Rightarrow> 'b outcome" where
  "bindO (Ok a) f = f a"
| "bindO (Err e) f = Err e"
| "bindO (Panic e) f = Panic e"

text \<open>\<open>if err != nil { return ..., fmt.Errorf("pre%wpost", err) }\<close>: a panic is not an error.\<close>

fun wrapO :: "string \<Rightarrow> string \<Rightarrow> 'a outcome \<Rightarrow> 'a outcome" where
  "wrapO pre post (Err e) = Err (Wrapf pre e post)"
| "wrapO pre post r = r"

text \<open>\<open>if err != nil { panic(fmt.Errorf("pre%wpost", err)) }\<close>.\<close>

fun panicO :: "string \<Rightarrow> string \<Rightarrow> 'a outcome \<Rightarrow> 'a outcome" where
  "panicO pre post (Err e) = Panic (Wrapf pre e post)"
| "panicO pre post r = r"

text \<open>\<open>if err != nil { panic(fmt.Sprintf("pre%v", err)) }\<close>: the panic holds the text only.\<close>

fun panicfO :: "string \<Rightarrow> 'a outcome \<Rightarrow> 'a outcome" where
  "panicfO pre (Err e) = Panic (New (pre @ error_text e))"
| "panicfO pre r = r"

text \<open>\<open>if err != nil { panic(err) }\<close>.\<close>

fun mustO :: "'a outcome \<Rightarrow> 'a outcome" where
  "mustO (Err e) = Panic e"
| "mustO r = r"

definition guardO :: "bool \<Rightarrow> go_error \<Rightarrow> unit outcome" where
  "guardO b e = (if b then Ok () else Err e)"

lemma bindO_Ok [outcome_simps]: "bindO m f = Ok b \<longleftrightarrow> (\<exists>a. m = Ok a \<and> f a = Ok b)"
  by (cases m) auto

lemma bindO_Err [outcome_simps]:
  "bindO m f = Err e \<longleftrightarrow> m = Err e \<or> (\<exists>a. m = Ok a \<and> f a = Err e)"
  by (cases m) auto

lemma bindO_Panic [outcome_simps]:
  "bindO m f = Panic e \<longleftrightarrow> m = Panic e \<or> (\<exists>a. m = Ok a \<and> f a = Panic e)"
  by (cases m) auto

text \<open>A chain of early returns that gave a value took none of them.\<close>

lemma if_Err_Ok [outcome_simps]: "(if b then Err e else m) = Ok a \<longleftrightarrow> \<not> b \<and> m = Ok a"
  by simp

lemma if_Panic_Ok [outcome_simps]: "(if b then Panic e else m) = Ok a \<longleftrightarrow> \<not> b \<and> m = Ok a"
  by simp

lemma guardO_Ok [outcome_simps]: "guardO b e = Ok u \<longleftrightarrow> b"
  by (auto simp: guardO_def)

lemma wrapO_Ok [outcome_simps]: "wrapO pre post m = Ok a \<longleftrightarrow> m = Ok a"
  by (cases m) auto

lemma panicO_Ok [outcome_simps]: "panicO pre post m = Ok a \<longleftrightarrow> m = Ok a"
  by (cases m) auto

lemma panicfO_Ok [outcome_simps]: "panicfO pre m = Ok a \<longleftrightarrow> m = Ok a"
  by (cases m) simp_all

lemma panicfO_not_Err [outcome_simps]: "panicfO pre m \<noteq> Err e"
  by (cases m) simp_all

text \<open>A missing value that is an error or a panic.\<close>

lemma case_option_Ok [outcome_simps]:
  "(case m of None \<Rightarrow> Err e | Some x \<Rightarrow> f x) = Ok b \<longleftrightarrow> (\<exists>x. m = Some x \<and> f x = Ok b)"
  "(case m of None \<Rightarrow> Panic e | Some x \<Rightarrow> f x) = Ok b \<longleftrightarrow> (\<exists>x. m = Some x \<and> f x = Ok b)"
  by (cases m; simp)+

lemma mustO_Ok [outcome_simps]: "mustO m = Ok a \<longleftrightarrow> m = Ok a"
  by (cases m) auto

lemma bindO_assoc: "bindO (bindO m f) g = bindO m (\<lambda>a. bindO (f a) g)"
  by (cases m) auto

lemma bindO_cong [fundef_cong]:
  "m = m' \<Longrightarrow> (\<And>a. m' = Ok a \<Longrightarrow> f a = f' a) \<Longrightarrow> bindO m f = bindO m' f'"
  by (cases m') auto

lemma mustO_not_Err [outcome_simps]: "mustO m \<noteq> Err e"
  by (cases m) auto

lemma panicO_not_Err [outcome_simps]: "panicO pre post m \<noteq> Err e"
  by (cases m) auto

section \<open>Calls over a state\<close>

type_synonym ('w, 'a) proc = "'w \<Rightarrow> ('a outcome \<times> 'w) option"

definition pureP :: "'a outcome \<Rightarrow> ('w, 'a) proc" where
  "pureP r = (\<lambda>w. Some (r, w))"

definition bindP :: "('w, 'a) proc \<Rightarrow> ('a \<Rightarrow> ('w, 'b) proc) \<Rightarrow> ('w, 'b) proc" where
  "bindP m f = (\<lambda>w. case m w of
      None \<Rightarrow> None
    | Some (Ok a, w') \<Rightarrow> f a w'
    | Some (Err e, w') \<Rightarrow> Some (Err e, w')
    | Some (Panic e, w') \<Rightarrow> Some (Panic e, w'))"

lemma bindP_pure_Ok [simp]: "bindP (pureP (Ok a)) f = f a"
  by (simp add: bindP_def pureP_def)

lemma bindP_pure_Err [simp]: "bindP (pureP (Err e)) f = pureP (Err e)"
  by (simp add: bindP_def pureP_def)

lemma bindP_pure_Panic [simp]: "bindP (pureP (Panic e)) f = pureP (Panic e)"
  by (simp add: bindP_def pureP_def)

lemma pureP_Some [outcome_simps]: "pureP r w = Some (r', w') \<longleftrightarrow> r = r' \<and> w' = w"
  by (auto simp: pureP_def)

text \<open>A call that returned a value: every call before it returned one too.\<close>

lemma bindP_Ok [outcome_simps]:
  "bindP m f w = Some (Ok b, w') \<longleftrightarrow> (\<exists>a w1. m w = Some (Ok a, w1) \<and> f a w1 = Some (Ok b, w'))"
  by (auto simp: bindP_def split: option.splits prod.splits outcome.splits)

lemma bindP_step: "m w = Some (Ok a, w1) \<Longrightarrow> bindP m f w = f a w1"
  by (simp add: bindP_def)

lemma bindP_step_Err: "m w = Some (Err e, w1) \<Longrightarrow> bindP m f w = Some (Err e, w1)"
  by (simp add: bindP_def)

lemma bindP_step_None: "m w = None \<Longrightarrow> bindP m f w = None"
  by (simp add: bindP_def)

subsection \<open>Frames\<close>

text \<open>
  \<open>keeps p m\<close>: the call leaves the projection \<open>p\<close> of the state as it was, however it ends;
  \<open>keeps_fail p m\<close>: it does so whenever it ends with an error or a panic. The rules follow the
  combinators, so that a handler's frame is found by \<open>(intro keeps_intros)\<close>.
\<close>

definition keeps :: "('w \<Rightarrow> 'b) \<Rightarrow> ('w, 'a) proc \<Rightarrow> bool" where
  "keeps p m \<longleftrightarrow> (\<forall>w r w'. m w = Some (r, w') \<longrightarrow> p w' = p w)"

definition keeps_fail :: "('w \<Rightarrow> 'b) \<Rightarrow> ('w, 'a) proc \<Rightarrow> bool" where
  "keeps_fail p m \<longleftrightarrow> (\<forall>w r w'. m w = Some (r, w') \<longrightarrow> (\<forall>a. r \<noteq> Ok a) \<longrightarrow> p w' = p w)"

named_theorems keeps_intros \<open>frame rules of calls\<close>

lemma keepsD: "keeps p m \<Longrightarrow> m w = Some (r, w') \<Longrightarrow> p w' = p w"
  by (simp add: keeps_def)

lemma keeps_failD: "keeps_fail p m \<Longrightarrow> m w = Some (r, w') \<Longrightarrow> (\<And>a. r \<noteq> Ok a) \<Longrightarrow> p w' = p w"
  by (simp add: keeps_fail_def)

lemma keeps_imp_fail: "keeps p m \<Longrightarrow> keeps_fail p m"
  by (auto simp: keeps_def keeps_fail_def)

lemma keeps_pureP [keeps_intros]: "keeps p (pureP r)"
  by (simp add: keeps_def pureP_def)

lemma keeps_fail_pureP [keeps_intros]: "keeps_fail p (pureP r)"
  by (simp add: keeps_fail_def pureP_def)

lemma keeps_bindP [keeps_intros]:
  "keeps p m \<Longrightarrow> (\<And>a. keeps p (f a)) \<Longrightarrow> keeps p (bindP m f)"
  unfolding keeps_def bindP_def by (fastforce split: option.splits outcome.splits)

lemma keeps_fail_bindP [keeps_intros]:
  "keeps p m \<Longrightarrow> (\<And>a. keeps_fail p (f a)) \<Longrightarrow> keeps_fail p (bindP m f)"
  unfolding keeps_def keeps_fail_def bindP_def by (fastforce split: option.splits outcome.splits)

lemma keeps_if [keeps_intros]:
  "(b \<Longrightarrow> keeps p m) \<Longrightarrow> (\<not> b \<Longrightarrow> keeps p n) \<Longrightarrow> keeps p (if b then m else n)"
  by simp

lemma keeps_fail_if [keeps_intros]:
  "(b \<Longrightarrow> keeps_fail p m) \<Longrightarrow> (\<not> b \<Longrightarrow> keeps_fail p n) \<Longrightarrow> keeps_fail p (if b then m else n)"
  by simp

section \<open>Words\<close>

text \<open>Order and successor on unsigned words, without the wrap at the top.\<close>

lemma word_less_Suc [simp]: "x < x + 1 \<longleftrightarrow> x \<noteq> - 1" for x :: "'n::len word"
  by (metis inc_less_eq_self_iff_eq not_less)

end
