(* ===== verification/Go_Std.thy ===== *)
theory Go_Std
  imports Nexus_Prelude
begin

text \<open>
  The parts of Go's standard library that the node calls on strings and integers:
  \<open>strconv\<close> (\<open>ParseUint\<close>, \<open>ParseInt\<close>, \<open>ParseBool\<close>, \<open>Itoa\<close> and the \<open>%d\<close> verb), \<open>strings\<close> and
  \<open>bytes\<close> (\<open>TrimSpace\<close>, \<open>TrimPrefix\<close>, \<open>ToLower\<close>, \<open>Contains\<close>), \<open>encoding/hex\<close>, and the integer
  conversions and the truncating division of the language. Strings are byte strings; case and
  space handling is that of the ASCII range.
\<close>

section \<open>Decimal numbers\<close>

definition digit_char :: "nat \<Rightarrow> char" where
  "digit_char d = char_of (48 + d)"

definition char_digit :: "char \<Rightarrow> nat option" where
  "char_digit c = (let n = of_char c :: nat in if 48 \<le> n \<and> n \<le> 57 then Some (n - 48) else None)"

fun show_nat :: "nat \<Rightarrow> string" where
  "show_nat n = (if n < 10 then [digit_char n] else show_nat (n div 10) @ [digit_char (n mod 10)])"

declare show_nat.simps [simp del]

definition show_u64 :: "u64 \<Rightarrow> string" where
  "show_u64 w = show_nat (unat w)"

definition show_int :: "int \<Rightarrow> string" where
  "show_int i = (if i < 0 then CHR ''-'' # show_nat (nat (- i)) else show_nat (nat i))"

definition show_i64 :: "i64 \<Rightarrow> string" where
  "show_i64 w = show_int (sint w)"

text \<open>
  \<open>strconv.ParseUint(s, 10, 64)\<close>: the bytes are read from the left; a byte that is not a digit
  is a syntax error, and the first digit that takes the value above the maximum is a range error,
  whichever comes first.
\<close>

fun parse_digits :: "nat \<Rightarrow> string \<Rightarrow> num_kind + nat" where
  "parse_digits n [] = Inr n"
| "parse_digits n (c # cs) =
     (case char_digit c of
        None \<Rightarrow> Inl ErrSyntax
      | Some d \<Rightarrow> if 10 * n + d \<ge> 2 ^ 64 then Inl ErrRange else parse_digits (10 * n + d) cs)"

definition ParseUint :: "string \<Rightarrow> u64 outcome" where
  "ParseUint s =
     (if s = [] then Err (NumError ''ParseUint'' s ErrSyntax)
      else case parse_digits 0 s of
             Inl k \<Rightarrow> Err (NumError ''ParseUint'' s k)
           | Inr n \<Rightarrow> Ok (of_nat n))"

text \<open>\<open>strconv.ParseInt(s, 10, 64)\<close>.\<close>

definition ParseInt :: "string \<Rightarrow> int outcome" where
  "ParseInt s =
     (let (neg, ds) = (case s of
          [] \<Rightarrow> (False, [])
        | c # cs \<Rightarrow> if c = CHR ''+'' then (False, cs) else if c = CHR ''-'' then (True, cs) else (False, s))
      in if s = [] \<or> ds = [] then Err (NumError ''ParseInt'' s ErrSyntax)
         else case parse_digits 0 ds of
                Inl k \<Rightarrow> Err (NumError ''ParseInt'' s k)
              | Inr n \<Rightarrow> if \<not> neg \<and> n \<ge> 2 ^ 63 \<or> neg \<and> n > 2 ^ 63
                        then Err (NumError ''ParseInt'' s ErrRange)
                        else Ok (if neg then - int n else int n))"

definition ParseBool :: "string \<Rightarrow> bool outcome" where
  "ParseBool s =
     (if s \<in> {''1'', ''t'', ''T'', ''TRUE'', ''true'', ''True''} then Ok True
      else if s \<in> {''0'', ''f'', ''F'', ''FALSE'', ''false'', ''False''} then Ok False
      else Err (NumError ''ParseBool'' s ErrSyntax))"

section \<open>Strings\<close>

definition is_space :: "char \<Rightarrow> bool" where
  "is_space c \<longleftrightarrow> c \<in> {CHR 0x09, CHR 0x0A, CHR 0x0B, CHR 0x0C, CHR 0x0D, CHR 0x20}"

definition TrimSpace :: "string \<Rightarrow> string" where
  "TrimSpace s = rev (dropWhile is_space (rev (dropWhile is_space s)))"

fun HasPrefix :: "string \<Rightarrow> string \<Rightarrow> bool" where
  "HasPrefix s [] \<longleftrightarrow> True"
| "HasPrefix [] (p # ps) \<longleftrightarrow> False"
| "HasPrefix (c # cs) (p # ps) \<longleftrightarrow> c = p \<and> HasPrefix cs ps"

definition TrimPrefix :: "string \<Rightarrow> string \<Rightarrow> string" where
  "TrimPrefix s p = (if HasPrefix s p then drop (length p) s else s)"

fun Contains :: "string \<Rightarrow> string \<Rightarrow> bool" where
  "Contains [] p \<longleftrightarrow> p = []"
| "Contains (c # cs) p \<longleftrightarrow> HasPrefix (c # cs) p \<or> Contains cs p"

definition lower_char :: "char \<Rightarrow> char" where
  "lower_char c = (let n = of_char c :: nat in if 65 \<le> n \<and> n \<le> 90 then char_of (n + 32) else c)"

definition ToLower :: "string \<Rightarrow> string" where
  "ToLower s = map lower_char s"

text \<open>\<open>%q\<close> and \<open>%v\<close> of lists of strings; a byte outside the ASCII range is taken to be printable.\<close>

definition quote_char :: "char \<Rightarrow> string" where
  "quote_char c = (let n = of_char c :: nat; esc = (\<lambda>x. [CHR 0x5C, x]) in
     if n = 34 \<or> n = 92 then esc c
     else if n = 7 then esc CHR ''a'' else if n = 8 then esc CHR ''b'' else if n = 12 then esc CHR ''f''
     else if n = 10 then esc CHR ''n'' else if n = 13 then esc CHR ''r'' else if n = 9 then esc CHR ''t''
     else if n = 11 then esc CHR ''v''
     else if n < 32 \<or> n = 127
     then let h = (\<lambda>d. char_of (if d < 10 then 48 + d else 87 + d)) in esc CHR ''x'' @ [h (n div 16), h (n mod 16)]
     else [c])"

definition Quote :: "string \<Rightarrow> string" where
  "Quote s = [CHR 0x22] @ concat (map quote_char s) @ [CHR 0x22]"

fun show_strings :: "string list \<Rightarrow> string" where
  "show_strings [] = []"
| "show_strings [x] = x"
| "show_strings (x # xs) = x @ '' '' @ show_strings xs"

section \<open>Integers\<close>

text \<open>
  The conversions \<open>uint64(x)\<close> and \<open>int64(x)\<close> keep the bits, so they are the identity on words.
  \<open>/\<close> on \<open>int64\<close> truncates towards zero. Comparisons of \<open>int64\<close> values are those of \<open>sint\<close>.
\<close>

definition quot_i64 :: "i64 \<Rightarrow> i64 \<Rightarrow> i64" where
  "quot_i64 a b = word_of_int (sgn (sint a) * sgn (sint b) * (\<bar>sint a\<bar> div \<bar>sint b\<bar>))"

section \<open>Hexadecimal\<close>

definition hex_char :: "nat \<Rightarrow> char" where
  "hex_char d = (if d < 10 then char_of (48 + d) else char_of (87 + d))"

definition hex_value :: "char \<Rightarrow> nat option" where
  "hex_value c = (let n = of_char c :: nat in
     if 48 \<le> n \<and> n \<le> 57 then Some (n - 48)
     else if 97 \<le> n \<and> n \<le> 102 then Some (n - 87)
     else if 65 \<le> n \<and> n \<le> 70 then Some (n - 55)
     else None)"

text \<open>\<open>hex.EncodeToString\<close> and \<open>hex.DecodeString\<close>.\<close>

fun hex_encode :: "bytes \<Rightarrow> string" where
  "hex_encode [] = []"
| "hex_encode (b # bs) =
     hex_char (of_char b div 16) # hex_char (of_char b mod 16) # hex_encode bs"

fun hex_decode :: "string \<Rightarrow> bytes outcome" where
  "hex_decode [] = Ok []"
| "hex_decode [c] = (case hex_value c of
       None \<Rightarrow> Err (Wrapf ''encoding/hex: invalid byte: '' (New [c]) [])
     | Some _ \<Rightarrow> Err (Sentinel ''encoding/hex: odd length hex string''))"
| "hex_decode (c # d # s) =
     (case hex_value c of
        None \<Rightarrow> Err (Wrapf ''encoding/hex: invalid byte: '' (New [c]) [])
      | Some a \<Rightarrow> (case hex_value d of
           None \<Rightarrow> Err (Wrapf ''encoding/hex: invalid byte: '' (New [d]) [])
         | Some b \<Rightarrow> bindO (hex_decode s) (\<lambda>bs. Ok (char_of (16 * a + b) # bs))))"

section \<open>Lemmas\<close>

subsection \<open>Decimal numbers\<close>

lemma char_digit_digit_char [simp]: "d < 10 \<Longrightarrow> char_digit (digit_char d) = Some d"
  by (simp add: char_digit_def digit_char_def)

lemma char_digit_less: "char_digit c = Some d \<Longrightarrow> d < 10"
  by (auto simp: char_digit_def Let_def split: if_splits)

lemma show_nat_nonempty [simp]: "show_nat n \<noteq> []"
  by (subst show_nat.simps) simp

lemma digit_char_inject: "m < 10 \<Longrightarrow> n < 10 \<Longrightarrow> digit_char m = digit_char n \<longleftrightarrow> m = n"
  by (metis char_digit_digit_char option.inject)

lemma show_nat_inject [simp]: "show_nat m = show_nat n \<longleftrightarrow> m = n"
proof
  show "show_nat m = show_nat n \<Longrightarrow> m = n"
  proof (induction m arbitrary: n rule: less_induct)
    case (less m)
    show ?case
    proof (cases "m < 10 \<or> n < 10")
      case True
      then have "m < 10 \<and> n < 10"
        using less.prems by (subst (asm) (1 2) show_nat.simps)
          (auto split: if_splits dest: arg_cong [of "[]" _ length])
      then show ?thesis using less.prems by (simp add: show_nat.simps digit_char_inject)
    next
      case False
      then have "show_nat (m div 10) = show_nat (n div 10)" and d: "digit_char (m mod 10) = digit_char (n mod 10)"
        using less.prems by (subst (asm) (1 2) show_nat.simps, simp)+
      then have "m div 10 = n div 10" using less.IH [of "m div 10"] False by simp
      moreover have "m mod 10 = n mod 10" using d by (simp add: digit_char_inject)
      ultimately show ?thesis by (metis div_mult_mod_eq)
    qed
  qed
qed simp

lemma show_int_inject_nonneg: "0 \<le> a \<Longrightarrow> 0 \<le> b \<Longrightarrow> show_int a = show_int b \<longleftrightarrow> a = b"
  by (auto simp: show_int_def)

lemma parse_digits_append:
  "parse_digits n (xs @ ys) = (case parse_digits n xs of Inl k \<Rightarrow> Inl k | Inr m \<Rightarrow> parse_digits m ys)"
  by (induction xs arbitrary: n) (auto split: option.splits)

lemma parse_digits_show_nat: "n < 2 ^ 64 \<Longrightarrow> parse_digits 0 (show_nat n) = Inr n"
proof (induction n rule: show_nat.induct)
  case (1 n)
  show ?case
  proof (cases "n < 10")
    case True
    then show ?thesis by (simp add: show_nat.simps [of n])
  next
    case False
    then have "parse_digits 0 (show_nat (n div 10)) = Inr (n div 10)"
      using "1.IH" "1.prems" by simp
    with False "1.prems" show ?thesis
      by (simp add: show_nat.simps [of n] parse_digits_append)
  qed
qed

lemma parse_digits_bound: "parse_digits n s = Inr m \<Longrightarrow> n < 2 ^ 64 \<Longrightarrow> m < 2 ^ 64"
  by (induction n s rule: parse_digits.induct) (auto split: option.splits if_splits)

lemma ParseUint_show_u64 [simp]: "ParseUint (show_u64 w) = Ok w"
proof -
  have "unat w < 2 ^ LENGTH(64)" by (rule unsigned_less)
  then have "unat w < 2 ^ 64" by simp
  then show ?thesis
    by (simp add: ParseUint_def show_u64_def parse_digits_show_nat)
qed

lemma ParseUint_not_Panic [simp]: "ParseUint s \<noteq> Panic e"
  by (auto simp: ParseUint_def split: sum.splits)

lemma ParseInt_range: "ParseInt s = Ok i \<Longrightarrow> - (2 ^ 63) \<le> i \<and> i < 2 ^ 63"
  by (auto simp: ParseInt_def Let_def split: list.splits sum.splits if_splits)

lemma show_nat_first: "\<exists>d cs. show_nat n = digit_char d # cs \<and> d < 10"
proof (induction n rule: show_nat.induct)
  case (1 n)
  then show ?case by (cases "n < 10") (auto simp: show_nat.simps [of n])
qed

lemma ParseInt_show_int [simp]:
  assumes "- (2 ^ 63) \<le> i" and "i < 2 ^ 63"
  shows "ParseInt (show_int i) = Ok i"
proof (cases "i < 0")
  case True
  with assms have "nat (- i) < 2 ^ 64" and "\<not> nat (- i) > 2 ^ 63" by simp_all
  with True show ?thesis
    by (simp add: ParseInt_def show_int_def parse_digits_show_nat)
next
  case False
  with assms have b: "nat i < 2 ^ 64" "\<not> nat i \<ge> 2 ^ 63" by simp_all
  obtain d cs where s: "show_nat (nat i) = digit_char d # cs" and d: "d < 10"
    using show_nat_first by blast
  from d have "digit_char d \<noteq> CHR ''+''" and "digit_char d \<noteq> CHR ''-''"
    using char_digit_digit_char [OF d] by (auto simp: char_digit_def)
  with False b s parse_digits_show_nat [OF b(1)] show ?thesis
    by (simp add: ParseInt_def show_int_def)
qed

subsection \<open>Strings\<close>

lemma HasPrefix_append [simp]: "HasPrefix (p @ s) p"
  by (induction p) auto

lemma HasPrefix_iff: "HasPrefix s p \<longleftrightarrow> (\<exists>t. s = p @ t)"
  by (induction s p rule: HasPrefix.induct) auto

lemma Contains_iff: "Contains s p \<longleftrightarrow> (\<exists>a b. s = a @ p @ b)"
proof (induction s)
  case Nil
  then show ?case by simp
next
  case (Cons c cs)
  have "(\<exists>a b. c # cs = a @ p @ b) \<longleftrightarrow> (\<exists>b. c # cs = p @ b) \<or> (\<exists>a b. cs = a @ p @ b)"
    by (metis Cons_eq_append_conv append_Cons append_Nil)
  with Cons show ?case by (simp add: HasPrefix_iff)
qed

lemma Contains_append: "Contains s p \<Longrightarrow> Contains (a @ s @ b) p"
  by (metis Contains_iff append_assoc)

lemma ToLower_append [simp]: "ToLower (a @ b) = ToLower a @ ToLower b"
  by (simp add: ToLower_def)

lemma TrimSpace_Nil [simp]: "TrimSpace [] = []"
  by (simp add: TrimSpace_def)

subsection \<open>Hexadecimal\<close>

lemma hex_value_hex_char [simp]: "d < 16 \<Longrightarrow> hex_value (hex_char d) = Some d"
  by (auto simp: hex_value_def hex_char_def)

lemma hex_decode_encode [simp]: "hex_decode (hex_encode bs) = Ok bs"
proof (induction bs)
  case Nil
  then show ?case by simp
next
  case (Cons b bs)
  have "(of_char b :: nat) < 256" by simp
  then have "of_char b div 16 < (16 :: nat)" by linarith
  with Cons show ?case by (simp add: mult.commute [of 16])
qed

lemma length_hex_encode [simp]: "length (hex_encode bs) = 2 * length bs"
  by (induction bs) auto

lemma hex_decode_length: "hex_decode s = Ok bs \<Longrightarrow> length s = 2 * length bs"
  by (induction s arbitrary: bs rule: hex_decode.induct)
    (auto simp: outcome_simps split: option.splits)

end
