(* ===== verification/Json.thy ===== *)
theory Json
  imports Go_Std
begin

text \<open>
  The part of Go's \<open>encoding/json\<close> that the node uses: the text of strings and integers as \<open>Marshal\<close>
  writes them, and \<open>Unmarshal\<close> as a parser to a value followed by decoding into the fields of a
  struct. Strings are byte strings; a byte outside the ASCII range is part of a valid UTF-8 sequence,
  which both directions copy. The texts of syntax and type errors are one sentinel each. A value of an
  object carries its own text, which a \<open>json.RawMessage\<close> field receives.
\<close>

section \<open>Encoding\<close>

text \<open>The escapes of \<open>Marshal\<close>: quotes, control characters, the HTML characters and two line separators.\<close>

definition hex4_text :: "nat \<Rightarrow> string" where
  "hex4_text n = [hex_char (n div 4096 mod 16), hex_char (n div 256 mod 16), hex_char (n div 16 mod 16), hex_char (n mod 16)]"

definition u_escape :: "nat \<Rightarrow> string" where
  "u_escape n = [CHR 0x5C, CHR ''u''] @ hex4_text n"

definition json_escape_char :: "char \<Rightarrow> string" where
  "json_escape_char c = (let esc = (\<lambda>x. [CHR 0x5C, x]) in
     if c = CHR 0x22 \<or> c = CHR 0x5C then esc c
     else if c = CHR 0x08 then esc CHR ''b'' else if c = CHR 0x0C then esc CHR ''f'' else if c = CHR 0x0A then esc CHR ''n''
     else if c = CHR 0x0D then esc CHR ''r'' else if c = CHR 0x09 then esc CHR ''t''
     else if of_char c < (32::nat) \<or> c = CHR ''<'' \<or> c = CHR ''>'' \<or> c = CHR ''&'' then u_escape (of_char c)
     else [c])"

fun json_escape :: "string \<Rightarrow> string" where
  "json_escape [] = []"
| "json_escape (c # cs) =
     (if c = CHR 0xE2 \<and> take 2 cs = [CHR 0x80, CHR 0xA8] then u_escape 0x2028 @ json_escape (drop 2 cs)
      else if c = CHR 0xE2 \<and> take 2 cs = [CHR 0x80, CHR 0xA9] then u_escape 0x2029 @ json_escape (drop 2 cs)
      else json_escape_char c @ json_escape cs)"

definition quotation :: char where "quotation = CHR 0x22"

definition marshal_string :: "string \<Rightarrow> string" where
  "marshal_string s = [quotation] @ json_escape s @ [quotation]"

text \<open>A struct whose fields are given as a name and a text.\<close>

fun marshal_fields :: "(string \<times> string) list \<Rightarrow> string" where
  "marshal_fields [] = []"
| "marshal_fields [(k, v)] = marshal_string k @ '':'' @ v"
| "marshal_fields ((k, v) # kvs) = marshal_string k @ '':'' @ v @ '','' @ marshal_fields kvs"

definition marshal_struct :: "(string \<times> string) list \<Rightarrow> string" where
  "marshal_struct kvs = ''{'' @ marshal_fields kvs @ ''}''"

section \<open>Parsing\<close>

datatype json =
    JNull
  | JBool bool
  | JNum string
  | JStr string
  | JArr "json list"
  | JObj "(string \<times> string \<times> json) list"

definition json_syntax_error :: go_error where "json_syntax_error = Sentinel ''json: syntax error''"
definition json_type_error :: go_error where "json_type_error = Sentinel ''json: cannot unmarshal value into Go value''"

definition skip_ws :: "string \<Rightarrow> string" where
  "skip_ws = dropWhile (\<lambda>c. c \<in> {CHR 0x20, CHR 0x09, CHR 0x0A, CHR 0x0D})"

definition utf8 :: "nat \<Rightarrow> string" where
  "utf8 r =
     (if r < 0x80 then [char_of r]
      else if r < 0x800 then [char_of (0xC0 + r div 64), char_of (0x80 + r mod 64)]
      else if r < 0x10000 then [char_of (0xE0 + r div 4096), char_of (0x80 + r div 64 mod 64), char_of (0x80 + r mod 64)]
      else [char_of (0xF0 + r div 262144), char_of (0x80 + r div 4096 mod 64), char_of (0x80 + r div 64 mod 64),
            char_of (0x80 + r mod 64)])"

definition hex4 :: "string \<Rightarrow> nat option" where
  "hex4 s = (case map hex_value s of
       [Some a, Some b, Some c, Some d] \<Rightarrow> Some (4096 * a + 256 * b + 16 * c + d)
     | _ \<Rightarrow> None)"

definition simple_escape :: "char \<Rightarrow> char option" where
  "simple_escape c = map_of [(CHR 0x22, CHR 0x22), (CHR 0x5C, CHR 0x5C), (CHR ''/'', CHR ''/''),
     (CHR ''b'', CHR 0x08), (CHR ''f'', CHR 0x0C), (CHR ''n'', CHR 0x0A), (CHR ''r'', CHR 0x0D), (CHR ''t'', CHR 0x09)] c"

text \<open>
  An escape after its backslash, with the number of characters it takes: a surrogate pair is one
  character, a lone surrogate the replacement character.
\<close>

definition read_escape :: "string \<Rightarrow> (string \<times> nat) option" where
  "read_escape s =
     (case s of
        [] \<Rightarrow> None
      | c # cs \<Rightarrow>
          if c = CHR ''u'' then
            (case hex4 (take 4 cs) of
               None \<Rightarrow> None
             | Some r \<Rightarrow>
                 if 0xD800 \<le> r \<and> r < 0xE000 then
                   (case (if r < 0xDC00 \<and> take 2 (drop 4 cs) = [CHR 0x5C, CHR ''u''] then hex4 (take 4 (drop 6 cs)) else None) of
                      Some r2 \<Rightarrow> if 0xDC00 \<le> r2 \<and> r2 < 0xE000
                        then Some (utf8 (0x10000 + (r - 0xD800) * 0x400 + (r2 - 0xDC00)), 11)
                        else Some (utf8 0xFFFD, 5)
                    | None \<Rightarrow> Some (utf8 0xFFFD, 5))
                 else Some (utf8 r, 5))
          else map_option (\<lambda>x. ([x], 1)) (simple_escape c))"

text \<open>A string after its opening quotation mark: the value and the text after the closing one.\<close>

function json_string :: "string \<Rightarrow> (string \<times> string) option" where
  "json_string [] = None"
| "json_string (c # cs) =
     (if c = quotation then Some ([], cs)
      else if c = CHR 0x5C then
        (case read_escape cs of
           None \<Rightarrow> None
         | Some (x, n) \<Rightarrow> map_option (\<lambda>(v, rest). (x @ v, rest)) (json_string (drop n cs)))
      else if of_char c < (32::nat) then None
      else map_option (\<lambda>(v, rest). (c # v, rest)) (json_string cs))"
  by pat_completeness auto
termination by (relation "measure length") auto

text \<open>A number: the text of the literal and what follows.\<close>

definition is_digit :: "char \<Rightarrow> bool" where "is_digit c \<longleftrightarrow> char_digit c \<noteq> None"

definition json_int_part :: "string \<Rightarrow> (string \<times> string) option" where
  "json_int_part s =
     (case s of
        [] \<Rightarrow> None
      | c # cs \<Rightarrow> if c = CHR ''0'' then Some ([c], cs)
                  else if is_digit c then Some (takeWhile is_digit s, dropWhile is_digit s) else None)"

definition json_digits :: "string \<Rightarrow> (string \<times> string) option" where
  "json_digits s = (if takeWhile is_digit s = [] then None else Some (takeWhile is_digit s, dropWhile is_digit s))"

definition json_frac :: "string \<Rightarrow> (string \<times> string) option" where
  "json_frac s =
     (case s of
        c # cs \<Rightarrow> if c = CHR ''.'' then map_option (\<lambda>(d, r). (c # d, r)) (json_digits cs) else Some ([], s)
      | [] \<Rightarrow> Some ([], s))"

definition json_exp :: "string \<Rightarrow> (string \<times> string) option" where
  "json_exp s =
     (case s of
        c # cs \<Rightarrow>
          if c = CHR ''e'' \<or> c = CHR ''E'' then
            (case cs of
               g # ds \<Rightarrow> if g = CHR ''+'' \<or> g = CHR ''-''
                 then map_option (\<lambda>(d, r). (c # g # d, r)) (json_digits ds)
                 else map_option (\<lambda>(d, r). (c # d, r)) (json_digits cs)
             | [] \<Rightarrow> None)
          else Some ([], s)
      | [] \<Rightarrow> Some ([], s))"

definition json_number :: "string \<Rightarrow> (string \<times> string) option" where
  "json_number s =
     (let (sign, s1) = (if take 1 s = ''-'' then (''-'', drop 1 s) else ([], s))
      in Option.bind (json_int_part s1) (\<lambda>(i, s2).
         Option.bind (json_frac s2) (\<lambda>(f, s3).
         Option.bind (json_exp s3) (\<lambda>(e, s4). Some (sign @ i @ f @ e, s4)))))"

definition json_literal :: "string \<Rightarrow> (json \<times> string) option" where
  "json_literal s =
     (if HasPrefix s ''null'' then Some (JNull, drop 4 s)
      else if HasPrefix s ''true'' then Some (JBool True, drop 4 s)
      else if HasPrefix s ''false'' then Some (JBool False, drop 5 s)
      else map_option (\<lambda>(n, r). (JNum n, r)) (json_number s))"

text \<open>
  A value, the elements of an array and the members of an object. The first argument is fuel, of which
  every call that recurs uses one and takes a character of the text; \<open>d\<close> is the nesting depth, at most
  10000 in the library.
\<close>

fun json_value :: "nat \<Rightarrow> nat \<Rightarrow> string \<Rightarrow> (json \<times> string) option"
and json_elems :: "nat \<Rightarrow> nat \<Rightarrow> string \<Rightarrow> (json list \<times> string) option"
and json_members :: "nat \<Rightarrow> nat \<Rightarrow> string \<Rightarrow> ((string \<times> string \<times> json) list \<times> string) option" where
  "json_value 0 d s = None"
| "json_value (Suc n) d s =
     (case skip_ws s of
        [] \<Rightarrow> None
      | c # cs \<Rightarrow>
          if c = quotation then map_option (\<lambda>(v, r). (JStr v, r)) (json_string cs)
          else if c = CHR ''['' then
            (if d \<ge> 10000 then None
             else if take 1 (skip_ws cs) = '']'' then Some (JArr [], drop 1 (skip_ws cs))
             else map_option (\<lambda>(vs, r). (JArr vs, r)) (json_elems n (d + 1) cs))
          else if c = CHR ''{'' then
            (if d \<ge> 10000 then None
             else if take 1 (skip_ws cs) = ''}'' then Some (JObj [], drop 1 (skip_ws cs))
             else map_option (\<lambda>(ms, r). (JObj ms, r)) (json_members n (d + 1) cs))
          else json_literal (c # cs))"
| "json_elems 0 d s = None"
| "json_elems (Suc n) d s =
     (case json_value n d s of
        None \<Rightarrow> None
      | Some (v, r) \<Rightarrow>
          (case skip_ws r of
             [] \<Rightarrow> None
           | c # cs \<Rightarrow> if c = CHR '']'' then Some ([v], cs)
                       else if c = CHR '','' then map_option (\<lambda>(vs, r'). (v # vs, r')) (json_elems n d cs)
                       else None))"
| "json_members 0 d s = None"
| "json_members (Suc n) d s =
     (case skip_ws s of
        [] \<Rightarrow> None
      | q # cs \<Rightarrow>
          if q \<noteq> quotation then None
          else (case json_string cs of
             None \<Rightarrow> None
           | Some (k, r) \<Rightarrow>
               (case skip_ws r of
                  [] \<Rightarrow> None
                | c # vs \<Rightarrow>
                    if c \<noteq> CHR '':'' then None
                    else (case json_value n d vs of
                       None \<Rightarrow> None
                     | Some (v, r2) \<Rightarrow>
                         let raw = take (length (skip_ws vs) - length r2) (skip_ws vs)
                         in (case skip_ws r2 of
                               [] \<Rightarrow> None
                             | c2 # cs2 \<Rightarrow>
                                 if c2 = CHR ''}'' then Some ([(k, raw, v)], cs2)
                                 else if c2 = CHR '','' then
                                   map_option (\<lambda>(ms, r'). ((k, raw, v) # ms, r')) (json_members n d cs2)
                                 else None)))))"

definition json_parse :: "string \<Rightarrow> json outcome" where
  "json_parse s =
     (case json_value (2 * length s + 1) 0 s of
        Some (v, rest) \<Rightarrow> if skip_ws rest = [] then Ok v else Err json_syntax_error
      | None \<Rightarrow> Err json_syntax_error)"

section \<open>Decoding\<close>

text \<open>
  Decoding a value into a variable that holds \<open>old\<close>: \<open>null\<close> leaves it, a value of another kind is an
  error.
\<close>

fun decode_string :: "json \<Rightarrow> string \<Rightarrow> string outcome" where
  "decode_string JNull old = Ok old"
| "decode_string (JStr s) old = Ok s"
| "decode_string _ old = Err json_type_error"

fun decode_uint64 :: "json \<Rightarrow> u64 \<Rightarrow> u64 outcome" where
  "decode_uint64 JNull old = Ok old"
| "decode_uint64 (JNum t) old = (case ParseUint t of Ok v \<Rightarrow> Ok v | _ \<Rightarrow> Err json_type_error)"
| "decode_uint64 _ old = Err json_type_error"

fun decode_int64 :: "json \<Rightarrow> int \<Rightarrow> int outcome" where
  "decode_int64 JNull old = Ok old"
| "decode_int64 (JNum t) old = (case ParseInt t of Ok v \<Rightarrow> Ok v | _ \<Rightarrow> Err json_type_error)"
| "decode_int64 _ old = Err json_type_error"

text \<open>A pointer, which \<open>null\<close> clears.\<close>

fun decode_bool_ptr :: "json \<Rightarrow> bool option outcome" where
  "decode_bool_ptr JNull = Ok None"
| "decode_bool_ptr (JBool b) = Ok (Some b)"
| "decode_bool_ptr _ = Err json_type_error"

text \<open>
  A struct: the members in order, each stored into the field that its name selects, exactly or else
  up to the case of ASCII letters; other members are ignored.
\<close>

definition select_field :: "(string \<times> 'f) list \<Rightarrow> string \<Rightarrow> 'f option" where
  "select_field fields key =
     (case map_of fields key of
        Some f \<Rightarrow> Some f
      | None \<Rightarrow> map_option snd (find (\<lambda>(name, f). ToLower name = ToLower key) fields))"

fun decode_members ::
    "(string \<times> (string \<Rightarrow> json \<Rightarrow> 'm \<Rightarrow> 'm outcome)) list \<Rightarrow> (string \<times> string \<times> json) list \<Rightarrow> 'm \<Rightarrow> 'm outcome" where
  "decode_members fields [] m = Ok m"
| "decode_members fields ((key, raw, v) # ms) m =
     (case select_field fields key of
        None \<Rightarrow> decode_members fields ms m
      | Some f \<Rightarrow> bindO (f raw v m) (decode_members fields ms))"

fun decode_struct ::
    "(string \<times> (string \<Rightarrow> json \<Rightarrow> 'm \<Rightarrow> 'm outcome)) list \<Rightarrow> json \<Rightarrow> 'm \<Rightarrow> 'm outcome" where
  "decode_struct fields JNull m = Ok m"
| "decode_struct fields (JObj ms) m = decode_members fields ms m"
| "decode_struct fields _ m = Err json_type_error"

text \<open>\<open>map[string]string\<close>: the members in order, a later one replacing an earlier one.\<close>

fun decode_string_members :: "(string \<times> string \<times> json) list \<Rightarrow> (string \<Rightarrow> string option) \<Rightarrow> (string \<Rightarrow> string option) outcome" where
  "decode_string_members [] m = Ok m"
| "decode_string_members ((key, raw, v) # ms) m =
     bindO (decode_string v []) (\<lambda>s. decode_string_members ms (m(key \<mapsto> s)))"

fun decode_string_map :: "json \<Rightarrow> (string \<Rightarrow> string option) outcome" where
  "decode_string_map JNull = Ok Map.empty"
| "decode_string_map (JObj ms) = decode_string_members ms Map.empty"
| "decode_string_map _ = Err json_type_error"

section \<open>Lemmas\<close>

declare json_string.simps [simp del]

subsection \<open>Strings\<close>

lemma hex4_text_value:
  fixes n :: nat
  assumes "n < 65536"
  shows "4096 * (n div 4096 mod 16) + 256 * (n div 256 mod 16) + 16 * (n div 16 mod 16) + n mod 16 = n"
proof -
  have "n div 4096 < 16" using assms by simp
  then have a: "n div 4096 mod 16 = n div 4096" by simp
  have b: "n div 256 = 16 * (n div 4096) + n div 256 mod 16"
    using div_mult_mod_eq [of "n div 256" 16] by (simp add: div_mult2_eq [symmetric])
  have c: "n div 16 = 16 * (n div 256) + n div 16 mod 16"
    using div_mult_mod_eq [of "n div 16" 16] by (simp add: div_mult2_eq [symmetric])
  have d: "n = 16 * (n div 16) + n mod 16" by simp
  show ?thesis unfolding a using b c d by linarith
qed

lemma hex4_of_text [simp]: "n < 65536 \<Longrightarrow> hex4 (hex4_text n) = Some n"
  using hex4_text_value [of n] by (simp add: hex4_def hex4_text_def)

lemma length_hex4_text [simp]: "length (hex4_text n) = 4"
  by (simp add: hex4_text_def)

lemma json_string_u_escape:
  assumes "n < 55296"
  shows "json_string (u_escape n @ rest) = map_option (\<lambda>(v, r). (utf8 n @ v, r)) (json_string rest)"
proof -
  have "read_escape (CHR ''u'' # hex4_text n @ rest) = Some (utf8 n, 5)"
    using assms by (simp add: read_escape_def)
  then show ?thesis by (simp add: u_escape_def json_string.simps quotation_def)
qed

lemma utf8_ascii: "of_char c < (128::nat) \<Longrightarrow> utf8 (of_char c) = [c]"
  by (simp add: utf8_def)

lemma char_of_codes: "char_of (226::nat) = CHR 0xE2" "char_of (128::nat) = CHR 0x80" "char_of (168::nat) = CHR 0xA8"
    "char_of (169::nat) = CHR 0xA9" "char_of (48::nat) = CHR ''0''"
  by code_simp+

lemma utf8_separators: "utf8 8232 = [CHR 0xE2, CHR 0x80, CHR 0xA8]" "utf8 8233 = [CHR 0xE2, CHR 0x80, CHR 0xA9]"
  by (simp_all add: utf8_def char_of_codes)

lemma json_string_escape_char:
  "json_string (json_escape_char c @ rest) = map_option (\<lambda>(v, r). (c # v, r)) (json_string rest)"
proof (cases "c \<in> {CHR 0x22, CHR 0x5C, CHR 0x08, CHR 0x0C, CHR 0x0A, CHR 0x0D, CHR 0x09}")
  case True
  then show ?thesis
    by (auto simp: json_escape_char_def json_string.simps quotation_def read_escape_def simple_escape_def)
next
  case False
  show ?thesis
  proof (cases "of_char c < (32::nat) \<or> c = CHR ''<'' \<or> c = CHR ''>'' \<or> c = CHR ''&''")
    case True
    with False have "json_escape_char c = u_escape (of_char c)" by (simp add: json_escape_char_def)
    moreover have "of_char c < (128::nat)" using True by auto
    ultimately show ?thesis by (simp add: json_string_u_escape utf8_ascii)
  next
    case plain: False
    with False have "json_escape_char c = [c]" by (simp add: json_escape_char_def)
    then show ?thesis using plain False by (simp add: json_string.simps quotation_def)
  qed
qed

lemma map_option_append:
  "map_option (\<lambda>(v, r). (a @ v, r)) (map_option (\<lambda>(v, r). (b @ v, r)) x) = map_option (\<lambda>(v, r). ((a @ b) @ v, r)) x"
  by (cases x) auto

lemma json_string_separator:
  assumes "json_string (json_escape ds @ rest) = map_option (\<lambda>(v, r). (ds @ v, r)) (json_string rest)" "n < 55296"
  shows "json_string (u_escape n @ json_escape ds @ rest) = map_option (\<lambda>(v, r). ((utf8 n @ ds) @ v, r)) (json_string rest)"
  unfolding json_string_u_escape [OF assms(2)] assms(1) by (rule map_option_append)

lemma json_string_escape: "json_string (json_escape s @ rest) = map_option (\<lambda>(v, r). (s @ v, r)) (json_string rest)"
proof (induction s rule: json_escape.induct)
  case 1
  then show ?case by (simp add: option.map_ident case_prod_unfold)
next
  case (2 c cs)
  have sep: "c # cs = [CHR 0xE2, CHR 0x80, x] @ drop 2 cs" if "c = CHR 0xE2 \<and> take 2 cs = [CHR 0x80, x]" for x
    using that append_take_drop_id [of 2 cs] by simp
  show ?case
  proof (cases "c = CHR 0xE2 \<and> take 2 cs = [CHR 0x80, CHR 0xA8]")
    case ls: True
    then have e: "json_escape (c # cs) = u_escape 8232 @ json_escape (drop 2 cs)" by simp
    have q: "utf8 8232 @ drop 2 cs = c # cs" unfolding utf8_separators using sep [OF ls] by (rule sym)
    show ?thesis
      unfolding e append_assoc using json_string_separator [OF 2(1) [OF ls], of 8232, unfolded q] by simp
  next
    case False
    note nls = this
    show ?thesis
    proof (cases "c = CHR 0xE2 \<and> take 2 cs = [CHR 0x80, CHR 0xA9]")
      case ps: True
      then have e: "json_escape (c # cs) = u_escape 8233 @ json_escape (drop 2 cs)" using nls by simp
      have q: "utf8 8233 @ drop 2 cs = c # cs" unfolding utf8_separators using sep [OF ps] by (rule sym)
      show ?thesis
        unfolding e append_assoc using json_string_separator [OF 2(2) [OF nls ps], of 8233, unfolded q] by simp
    next
      case nps: False
      then have e: "json_escape (c # cs) = json_escape_char c @ json_escape cs" using nls by auto
      show ?thesis
        unfolding e append_assoc json_string_escape_char 2(3) [OF nls nps]
        using map_option_append [of "[c]" cs "json_string rest"] by simp
    qed
  qed
qed

text \<open>A string literal is read back.\<close>

lemma json_string_marshal: "json_string (json_escape s @ quotation # rest) = Some (s, rest)"
  by (simp add: json_string_escape json_string.simps(2))

subsection \<open>Numbers\<close>

lemma is_digit_digit_char [simp]: "d < 10 \<Longrightarrow> is_digit (digit_char d)"
  by (simp add: is_digit_def)

lemma show_nat_digits: "\<forall>c \<in> set (show_nat n). is_digit c"
  by (induction n rule: show_nat.induct) (subst show_nat.simps, auto)

lemma show_nat_head: "n \<noteq> 0 \<Longrightarrow> hd (show_nat n) \<noteq> CHR ''0''"
proof (induction n rule: show_nat.induct)
  case (1 n)
  have "digit_char n \<noteq> CHR ''0''" if "n < 10" "n \<noteq> 0"
  proof
    assume "digit_char n = CHR ''0''"
    then have "of_char (digit_char n) = (48::nat)" by simp
    with that show False by (simp add: digit_char_def)
  qed
  moreover have "n div 10 \<noteq> 0" if "\<not> n < 10" using that by simp
  ultimately show ?case using 1 by (subst show_nat.simps) (auto simp: hd_append)
qed

text \<open>What may follow a number in an object or an array.\<close>

definition ends_value :: "string \<Rightarrow> bool" where
  "ends_value rest \<longleftrightarrow> (case rest of c # cs \<Rightarrow> c = CHR '','' \<or> c = CHR ''}'' \<or> c = CHR '']'' | [] \<Rightarrow> True)"

lemma ends_value_tail:
  assumes "ends_value rest"
  shows "takeWhile is_digit rest = []" "dropWhile is_digit rest = rest" "json_frac rest = Some ([], rest)"
    "json_exp rest = Some ([], rest)"
  using assms by (cases rest; auto simp: ends_value_def is_digit_def char_digit_def json_frac_def json_exp_def)+

lemma json_int_part_show:
  assumes "ends_value rest"
  shows "json_int_part (show_nat n @ rest) = Some (show_nat n, rest)"
proof (cases "n = 0")
  case True
  have "show_nat 0 = ''0''" by (subst show_nat.simps) (simp add: digit_char_def char_of_codes)
  with True show ?thesis by (simp add: json_int_part_def)
next
  case False
  obtain c cs where c: "show_nat n = c # cs" by (cases "show_nat n") auto
  with show_nat_head [OF False] show_nat_digits [of n] have "c \<noteq> CHR ''0''" "is_digit c" "\<forall>x \<in> set cs. is_digit x"
    by auto
  then show ?thesis
    unfolding c json_int_part_def using ends_value_tail(1,2) [OF assms]
    by (simp add: takeWhile_append2 dropWhile_append2)
qed

lemma show_nat_no_sign: "take 1 (show_nat n @ rest) \<noteq> ''-''"
proof -
  obtain c cs where c: "show_nat n = c # cs" by (cases "show_nat n") auto
  with show_nat_digits [of n] have "is_digit c" by simp
  then have "c \<noteq> CHR ''-''" by (auto simp: is_digit_def char_digit_def)
  with c show ?thesis by simp
qed

lemma json_number_show:
  assumes "ends_value rest"
  shows "json_number (show_nat n @ rest) = Some (show_nat n, rest)"
  using show_nat_no_sign [of n rest] ends_value_tail(3,4) [OF assms]
  by (simp add: json_number_def json_int_part_show [OF assms])

subsection \<open>Structs\<close>

text \<open>A text that is read as a value in front of whatever may follow, with any fuel.\<close>

definition reads_as :: "string \<Rightarrow> json \<Rightarrow> bool" where
  "reads_as t v \<longleftrightarrow> t \<noteq> [] \<and> hd t \<notin> {CHR 0x20, CHR 0x09, CHR 0x0A, CHR 0x0D} \<and>
     (\<forall>n d rest. ends_value rest \<longrightarrow> json_value (Suc n) d (t @ rest) = Some (v, rest))"

lemma skip_ws_Cons: "skip_ws (c # cs) = c # cs" if "c \<notin> {CHR 0x20, CHR 0x09, CHR 0x0A, CHR 0x0D}"
  using that by (simp add: skip_ws_def)

lemma reads_as_string: "reads_as (marshal_string s) (JStr s)"
proof -
  have q: "skip_ws (quotation # t) = quotation # t" for t by (rule skip_ws_Cons) (simp add: quotation_def)
  show ?thesis
    unfolding reads_as_def marshal_string_def
    by (auto simp: q json_string_marshal) (auto simp: quotation_def)
qed

lemma reads_as_nat: "reads_as (show_nat n) (JNum (show_nat n))"
proof -
  obtain c cs where c: "show_nat n = c # cs" by (cases "show_nat n") auto
  with show_nat_digits [of n] have dig: "is_digit c" by simp
  then have code: "48 \<le> (of_char c :: nat)" "(of_char c :: nat) \<le> 57"
    by (auto simp: is_digit_def char_digit_def Let_def split: if_splits)
  then have ne: "c \<notin> {CHR 0x20, CHR 0x09, CHR 0x0A, CHR 0x0D}" "c \<noteq> quotation" "c \<noteq> CHR ''[''" "c \<noteq> CHR ''{''"
    "c \<noteq> CHR ''n''" "c \<noteq> CHR ''t''" "c \<noteq> CHR ''f''"
    by (auto simp: quotation_def)
  have "json_value (Suc m) d (show_nat n @ rest) = Some (JNum (show_nat n), rest)" if "ends_value rest" for m d rest
  proof -
    have "json_literal (show_nat n @ rest) = Some (JNum (show_nat n), rest)"
      unfolding json_literal_def json_number_show [OF that] using ne by (simp add: c)
    then show ?thesis using ne skip_ws_Cons [OF ne(1)] by (simp add: c)
  qed
  then show ?thesis unfolding reads_as_def using ne(1) by (simp add: c)
qed

lemma ends_value_skip: "ends_value rest \<Longrightarrow> skip_ws rest = rest"
  by (cases rest) (auto simp: ends_value_def skip_ws_def)

lemma json_members_step:
  assumes "reads_as t v" "ends_value rest" "n > 0"
  shows "json_members (Suc n) d (marshal_string k @ '':'' @ t @ rest)
    = (case rest of [] \<Rightarrow> None
       | c # cs \<Rightarrow> if c = CHR ''}'' then Some ([(k, t, v)], cs)
                  else if c = CHR '','' then map_option (\<lambda>(ms, r'). ((k, t, v) # ms, r')) (json_members n d cs)
                  else None)"
proof -
  obtain m where n: "n = Suc m" using assms(3) by (cases n) auto
  have q: "skip_ws (quotation # x) = quotation # x" for x by (rule skip_ws_Cons) (simp add: quotation_def)
  have col: "skip_ws (CHR '':'' # x) = CHR '':'' # x" for x by (rule skip_ws_Cons) simp
  have t: "skip_ws (t @ rest) = t @ rest"
    using assms(1) by (cases t) (simp_all add: reads_as_def skip_ws_Cons)
  have v: "json_value n d (t @ rest) = Some (v, rest)" using assms(1,2) n by (simp add: reads_as_def)
  show ?thesis
    using v t ends_value_skip [OF assms(2)]
    by (simp add: marshal_string_def q col json_string_marshal Let_def split: list.splits)
qed

text \<open>The members of a struct that \<open>Marshal\<close> wrote, as a triple of name, text and value.\<close>

definition field_texts :: "(string \<times> string \<times> json) list \<Rightarrow> (string \<times> string) list" where
  "field_texts fs = map (\<lambda>(k, t, v). (k, t)) fs"

lemma json_members_fields:
  assumes "\<forall>(k, t, v) \<in> set fs. reads_as t v" "fs \<noteq> []" "n > length fs"
  shows "json_members n d (marshal_fields (field_texts fs) @ ''}'' @ rest) = Some (fs, rest)"
  using assms
proof (induction fs arbitrary: n)
  case (Cons f fs)
  obtain k t v where f: "f = (k, t, v)" by (cases f) auto
  obtain m where n: "n = Suc m" "m > length fs" "m > 0" using Cons.prems(3) by (cases n) auto
  have r: "reads_as t v" using Cons.prems(1) f by auto
  show ?case
  proof (cases fs)
    case Nil
    have "ends_value (''}'' @ rest)" by (simp add: ends_value_def)
    from json_members_step [OF r this n(3), of d k] show ?thesis by (simp add: f n(1) Nil field_texts_def)
  next
    case (Cons g gs)
    have e: "marshal_fields (field_texts (f # fs)) = marshal_string k @ '':'' @ t @ '','' @ marshal_fields (field_texts fs)"
      by (simp add: f Cons field_texts_def split: prod.splits)
    have "ends_value ('','' @ marshal_fields (field_texts fs) @ ''}'' @ rest)" by (simp add: ends_value_def)
    note step = json_members_step [OF r this n(3), of d k]
    have IH: "json_members m d (marshal_fields (field_texts fs) @ ''}'' @ rest) = Some (fs, rest)"
      using Cons.IH [OF _ _ n(2)] Cons.prems(1) Cons by simp
    show ?thesis using step IH unfolding e n(1) unfolding f by (simp del: json_members.simps)
  qed
qed simp

lemma length_marshal_fields: "length fs \<le> length (marshal_fields fs)"
  by (induction fs rule: marshal_fields.induct) (auto simp: marshal_string_def)

lemma marshal_fields_head: "fs \<noteq> [] \<Longrightarrow> \<exists>t. marshal_fields fs = quotation # t"
  by (cases fs rule: marshal_fields.cases) (auto simp: marshal_string_def)

lemma json_parse_struct:
  assumes "\<forall>(k, t, v) \<in> set fs. reads_as t v" "fs \<noteq> []"
  shows "json_parse (marshal_struct (field_texts fs)) = Ok (JObj fs)"
proof -
  let ?s = "marshal_struct (field_texts fs)"
  obtain t where t: "marshal_fields (field_texts fs) = quotation # t"
    using marshal_fields_head [of "field_texts fs"] assms(2) by (auto simp: field_texts_def)
  have "length fs \<le> length (marshal_fields (field_texts fs))"
    using length_marshal_fields [of "field_texts fs"] by (simp add: field_texts_def)
  then have "length fs < 2 * length ?s" by (simp add: marshal_struct_def)
  from json_members_fields [OF assms this, of 1 "[]"]
  have m: "json_members (2 * length ?s) 1 (marshal_fields (field_texts fs) @ ''}'') = Some (fs, [])" by simp
  have b: "skip_ws (CHR ''{'' # x) = CHR ''{'' # x" for x by (rule skip_ws_Cons) simp
  have q: "skip_ws (quotation # x) = quotation # x" for x by (rule skip_ws_Cons) (simp add: quotation_def)
  have "json_value (2 * length ?s + 1) 0 ?s = Some (JObj fs, [])"
    using m by (simp add: marshal_struct_def b t q) (simp add: quotation_def)
  then show ?thesis by (simp add: json_parse_def skip_ws_def)
qed

subsection \<open>Fuel\<close>

lemma length_skip_ws: "length (skip_ws s) \<le> length s"
  by (simp add: skip_ws_def length_dropWhile_le)

lemma json_string_shorter: "json_string s = Some (v, r) \<Longrightarrow> length r < length s"
proof (induction s arbitrary: v r rule: json_string.induct)
  case (2 c cs)
  show ?case
  proof (cases "c = quotation \<or> c \<noteq> CHR 0x5C")
    case True
    with 2 show ?thesis by (fastforce simp: json_string.simps(2) split: if_splits)
  next
    case False
    then obtain x n w where e: "read_escape cs = Some (x, n)" "json_string (drop n cs) = Some (w, r)"
      using 2(3) by (auto simp: json_string.simps(2) split: option.splits)
    with 2(1) [OF _ _ e(1)] False have "length r < length (drop n cs)" by auto
    then show ?thesis by simp
  qed
qed (simp add: json_string.simps)

lemma json_int_part_shorter: "json_int_part s = Some (i, r) \<Longrightarrow> length r < length s"
proof (cases s)
  case (Cons c cs)
  assume "json_int_part s = Some (i, r)"
  with Cons show ?thesis
    using length_dropWhile_le [of is_digit cs] by (auto simp: json_int_part_def split: if_splits)
qed (simp add: json_int_part_def)

lemma json_digits_shorter: "json_digits s = Some (i, r) \<Longrightarrow> length r \<le> length s"
  by (auto simp: json_digits_def length_dropWhile_le split: if_splits)

lemma json_frac_shorter: "json_frac s = Some (i, r) \<Longrightarrow> length r \<le> length s"
  by (auto simp: json_frac_def split: list.splits if_splits dest: json_digits_shorter)

lemma json_exp_shorter: "json_exp s = Some (i, r) \<Longrightarrow> length r \<le> length s"
  by (auto simp: json_exp_def split: list.splits if_splits dest!: json_digits_shorter)

lemma json_number_shorter: "json_number s = Some (i, r) \<Longrightarrow> length r < length s"
proof -
  assume "json_number s = Some (i, r)"
  then obtain s1 i' f e s2 s3 where "length s1 \<le> length s" "json_int_part s1 = Some (i', s2)"
    "json_frac s2 = Some (f, s3)" "json_exp s3 = Some (e, r)"
    by (cases "take 1 s = ''-''") (auto simp: json_number_def bind_eq_Some_conv intro: that [of s] that [of "drop 1 s"])
  then show ?thesis
    using json_int_part_shorter json_frac_shorter json_exp_shorter by (meson le_less_trans less_le_trans)
qed

lemma json_literal_shorter: "json_literal s = Some (v, r) \<Longrightarrow> length r < length s"
  by (auto simp: json_literal_def HasPrefix_iff split: if_splits dest: json_number_shorter)

lemma skip_ws_Cons_le: "skip_ws s = c # cs \<Longrightarrow> length cs < length s"
  using length_skip_ws [of s] by simp

lemma json_shorter:
  "(json_value n d s = Some (v, r) \<longrightarrow> length r < length s)
   \<and> (json_elems n d s = Some (vs, r) \<longrightarrow> length r < length s)
   \<and> (json_members n d s = Some (ms, r) \<longrightarrow> length r < length s)"
proof (induction n arbitrary: d s v vs ms r)
  case (Suc n)
  note val = Suc.IH [THEN conjunct1, rule_format]
    and els = Suc.IH [THEN conjunct2, THEN conjunct1, rule_format]
    and mem = Suc.IH [THEN conjunct2, THEN conjunct2, rule_format]
  show ?case
  proof (intro conjI impI)
    assume "json_value (Suc n) d s = Some (v, r)"
    then obtain c cs where c: "skip_ws s = c # cs" by (auto split: list.splits)
    have "length r \<le> length cs"
      using \<open>json_value (Suc n) d s = Some (v, r)\<close> c length_skip_ws [of cs]
      by (auto split: if_splits dest!: json_string_shorter els mem json_literal_shorter)
    with skip_ws_Cons_le [OF c] show "length r < length s" by simp
  next
    assume "json_elems (Suc n) d s = Some (vs, r)"
    then obtain v r1 c cs where 1: "json_value n d s = Some (v, r1)" "skip_ws r1 = c # cs"
      and "length r \<le> length cs"
      by (auto split: option.splits list.splits if_splits dest!: els)
    with skip_ws_Cons_le [OF 1(2)] val [OF 1(1)] show "length r < length s" by simp
  next
    assume "json_members (Suc n) d s = Some (ms, r)"
    then obtain q cs k r1 c vs v r2 c2 cs2 where 1: "skip_ws s = q # cs" "json_string cs = Some (k, r1)" "skip_ws r1 = c # vs"
      "json_value n d vs = Some (v, r2)" "skip_ws r2 = c2 # cs2" and "length r \<le> length cs2"
      by (auto simp: Let_def split: option.splits list.splits if_splits dest!: mem)
    with skip_ws_Cons_le [OF 1(1)] json_string_shorter [OF 1(2)] skip_ws_Cons_le [OF 1(3)] val [OF 1(4)]
      skip_ws_Cons_le [OF 1(5)]
    show "length r < length s" by simp
  qed
qed simp

text \<open>The fuel of \<open>json_parse\<close> is enough: more of it changes nothing.\<close>

lemma json_fuel:
  "(2 * length s < n \<longrightarrow> 2 * length s < m \<longrightarrow> json_value n d s = json_value m d s)
   \<and> (2 * length s + 1 < n \<longrightarrow> 2 * length s + 1 < m \<longrightarrow> json_elems n d s = json_elems m d s)
   \<and> (2 * length s < n \<longrightarrow> 2 * length s < m \<longrightarrow> json_members n d s = json_members m d s)"
proof (induction n arbitrary: m d s)
  case (Suc n)
  note val = Suc.IH [THEN conjunct1, rule_format]
    and els = Suc.IH [THEN conjunct2, THEN conjunct1, rule_format]
    and mem = Suc.IH [THEN conjunct2, THEN conjunct2, rule_format]
  show ?case
  proof (intro conjI impI)
    assume b: "2 * length s < Suc n" "2 * length s < m"
    then obtain k where m: "m = Suc k" by (cases m) auto
    have "json_elems n (d + 1) cs = json_elems k (d + 1) cs" "json_members n (d + 1) cs = json_members k (d + 1) cs"
      if "skip_ws s = c # cs" for c cs
      using skip_ws_Cons_le [OF that] b m by (auto intro!: els mem)
    then show "json_value (Suc n) d s = json_value m d s"
      by (simp add: m split: list.splits)
  next
    assume b: "2 * length s + 1 < Suc n" "2 * length s + 1 < m"
    then obtain k where m: "m = Suc k" by (cases m) auto
    have v: "json_value n d s = json_value k d s" using b m by (auto intro!: val)
    have "json_elems n d cs = json_elems k d cs"
      if "json_value k d s = Some (v, r)" "skip_ws r = c # cs" for v r c cs
      using skip_ws_Cons_le [OF that(2)] json_shorter [THEN conjunct1, rule_format, OF that(1)] b m
      by (auto intro!: els)
    then show "json_elems (Suc n) d s = json_elems m d s"
      by (simp add: m v split: option.splits list.splits)
  next
    assume b: "2 * length s < Suc n" "2 * length s < m"
    then obtain k where m: "m = Suc k" by (cases m) auto
    have v: "json_value n d vs = json_value k d vs"
      if "skip_ws s = q # cs" "json_string cs = Some (key, r1)" "skip_ws r1 = c # vs" for q cs key r1 c vs
      using skip_ws_Cons_le [OF that(1)] json_string_shorter [OF that(2)] skip_ws_Cons_le [OF that(3)] b m
      by (auto intro!: val)
    have "json_members n d cs2 = json_members k d cs2"
      if "skip_ws s = q # cs" "json_string cs = Some (key, r1)" "skip_ws r1 = c # vs"
        "json_value k d vs = Some (v, r2)" "skip_ws r2 = c2 # cs2" for q cs key r1 c vs v r2 c2 cs2
      using skip_ws_Cons_le [OF that(1)] json_string_shorter [OF that(2)] skip_ws_Cons_le [OF that(3)]
        json_shorter [THEN conjunct1, rule_format, OF that(4)] skip_ws_Cons_le [OF that(5)] b m
      by (auto intro!: mem)
    with v show "json_members (Suc n) d s = json_members m d s"
      by (simp add: m Let_def split: option.splits list.splits)
  qed
qed simp

end
