(* ===== verification/Chain_Spec.thy ===== *)
theory Chain_Spec
  imports Go_Std
begin

text \<open>
  The fork schedule (\<open>app/types/chain.go\<close>, \<open>app/chain.go\<close>, \<open>lib/config.go\<close>): the activation times
  of Prague, Osaka and Amsterdam, their validation, and the choice of the Engine API version for
  a payload timestamp. \<open>ReadConfigFile\<close> reads the file the environment names; the environment
  and the file system are its arguments. The YAML decoder is a parameter of \<open>LoadChainSpec\<close>.
\<close>

section \<open>The schedule\<close>

record ChainSpec =
  PragueTimestamp :: "u64 option"
  OsakaTimestamp :: "u64 option"
  AmsterdamTimestamp :: "u64 option"

definition ChainSpec_Validate :: "ChainSpec \<Rightarrow> unit outcome" where
  "ChainSpec_Validate c =
     bindO (case OsakaTimestamp c of
         None \<Rightarrow> Ok ()
       | Some osaka \<Rightarrow> (case PragueTimestamp c of
             None \<Rightarrow> Err (New ''osaka_timestamp is set but prague_timestamp is required (forks activate in order)'')
           | Some prague \<Rightarrow> if osaka < prague
               then Err (New (''osaka_timestamp ('' @ show_u64 osaka
                      @ '') must be >= prague_timestamp ('' @ show_u64 prague @ '')''))
               else Ok ()))
     (\<lambda>_. case AmsterdamTimestamp c of
         None \<Rightarrow> Ok ()
       | Some amsterdam \<Rightarrow> (case OsakaTimestamp c of
             None \<Rightarrow> Err (New ''amsterdam_timestamp is set but osaka_timestamp is required (forks activate in order)'')
           | Some osaka \<Rightarrow> if amsterdam < osaka
               then Err (New (''amsterdam_timestamp ('' @ show_u64 amsterdam
                      @ '') must be >= osaka_timestamp ('' @ show_u64 osaka @ '')''))
               else Ok ()))"

definition IsPragueActive :: "ChainSpec \<Rightarrow> u64 \<Rightarrow> bool" where
  "IsPragueActive c timestamp = (case PragueTimestamp c of None \<Rightarrow> False | Some t \<Rightarrow> timestamp \<ge> t)"

definition IsOsakaActive :: "ChainSpec \<Rightarrow> u64 \<Rightarrow> bool" where
  "IsOsakaActive c timestamp = (case OsakaTimestamp c of None \<Rightarrow> False | Some t \<Rightarrow> timestamp \<ge> t)"

definition IsAmsterdamActive :: "ChainSpec \<Rightarrow> u64 \<Rightarrow> bool" where
  "IsAmsterdamActive c timestamp = (case AmsterdamTimestamp c of None \<Rightarrow> False | Some t \<Rightarrow> timestamp \<ge> t)"

definition GetPayloadEngineRPCVersion :: "ChainSpec \<Rightarrow> u64 \<Rightarrow> int" where
  "GetPayloadEngineRPCVersion c timestamp =
     (if IsOsakaActive c timestamp then 5
      else if IsPragueActive c timestamp then 4
      else 3)"

definition NewPayloadEngineRPCVersion :: "ChainSpec \<Rightarrow> u64 \<Rightarrow> int" where
  "NewPayloadEngineRPCVersion c timestamp =
     (if IsAmsterdamActive c timestamp then 5
      else if IsPragueActive c timestamp then 4
      else 3)"

section \<open>The configuration file\<close>

text \<open>
  What \<open>os.Stat\<close> and \<open>os.ReadFile\<close> find at a path: nothing, a file that cannot be read, or its
  bytes.
\<close>

datatype file_state = NotExist | Unreadable go_error | Contents bytes

definition ReadConfigFile :: "(string \<Rightarrow> string) \<Rightarrow> (string \<Rightarrow> file_state) \<Rightarrow> bytes outcome" where
  "ReadConfigFile getenv files =
     (let path = getenv ''NEXUS_CONFIG_PATH''
      in if path = [] then Err (New ''config file path is empty'')
         else case files path of
                NotExist \<Rightarrow> Panic (New (''could not find file at path '' @ path))
              | Unreadable e \<Rightarrow> Panic (Wrapf ''failed to read config '' e [])
              | Contents d \<Rightarrow> Ok d)"

text \<open>The section \<open>forks\<close> of the file, as \<open>yaml.Unmarshal\<close> fills it in.\<close>

record Forks =
  prague_timestamp :: "u64 option"
  osaka_timestamp :: "u64 option"
  amsterdam_timestamp :: "u64 option"

definition LoadChainSpec :: "bytes outcome \<Rightarrow> (bytes \<Rightarrow> Forks outcome) \<Rightarrow> ChainSpec outcome" where
  "LoadChainSpec config yaml =
     (case config of
        Err _ \<Rightarrow> Ok \<lparr>PragueTimestamp = None, OsakaTimestamp = None, AmsterdamTimestamp = None\<rparr>
      | Panic e \<Rightarrow> Panic e
      | Ok data \<Rightarrow>
          bindO (panicO ''failed to decode config '' [] (yaml data)) (\<lambda>forks.
            let spec = \<lparr>PragueTimestamp = prague_timestamp forks,
                        OsakaTimestamp = osaka_timestamp forks,
                        AmsterdamTimestamp = amsterdam_timestamp forks\<rparr>
            in bindO (mustO (ChainSpec_Validate spec)) (\<lambda>_. Ok spec)))"

section \<open>Lemmas\<close>

lemmas fork_defs [model_defs] =
  IsPragueActive_def IsOsakaActive_def IsAmsterdamActive_def
  GetPayloadEngineRPCVersion_def NewPayloadEngineRPCVersion_def

text \<open>The declarative reading of the validation.\<close>

definition forks_ordered :: "ChainSpec \<Rightarrow> bool" where
  "forks_ordered c \<longleftrightarrow>
     (\<forall>osaka. OsakaTimestamp c = Some osaka \<longrightarrow>
        (\<exists>prague. PragueTimestamp c = Some prague \<and> prague \<le> osaka)) \<and>
     (\<forall>amsterdam. AmsterdamTimestamp c = Some amsterdam \<longrightarrow>
        (\<exists>osaka. OsakaTimestamp c = Some osaka \<and> osaka \<le> amsterdam))"

lemma ChainSpec_Validate_iff: "ChainSpec_Validate c = Ok () \<longleftrightarrow> forks_ordered c"
  by (auto simp: ChainSpec_Validate_def forks_ordered_def outcome_simps not_less
      split: option.splits if_splits)

lemma ChainSpec_Validate_not_Panic: "ChainSpec_Validate c \<noteq> Panic e"
  by (auto simp: ChainSpec_Validate_def split: option.splits if_splits)

lemma LoadChainSpec_ordered:
  assumes "LoadChainSpec config yaml = Ok c"
  shows "forks_ordered c"
proof (cases config)
  case (Ok data)
  with assms have "ChainSpec_Validate c = Ok ()"
    by (auto simp: LoadChainSpec_def Let_def outcome_simps split: outcome.splits)
  then show ?thesis by (simp add: ChainSpec_Validate_iff)
qed (use assms in \<open>auto simp: LoadChainSpec_def forks_ordered_def\<close>)

lemma osaka_prague: "forks_ordered c \<Longrightarrow> IsOsakaActive c t \<Longrightarrow> IsPragueActive c t"
  by (fastforce simp: forks_ordered_def IsOsakaActive_def IsPragueActive_def split: option.splits)

lemma amsterdam_osaka: "forks_ordered c \<Longrightarrow> IsAmsterdamActive c t \<Longrightarrow> IsOsakaActive c t"
  by (fastforce simp: forks_ordered_def IsAmsterdamActive_def IsOsakaActive_def split: option.splits)

lemma fork_active_mono:
  assumes "t \<le> t'"
  shows "IsPragueActive c t \<Longrightarrow> IsPragueActive c t'"
    and "IsOsakaActive c t \<Longrightarrow> IsOsakaActive c t'"
    and "IsAmsterdamActive c t \<Longrightarrow> IsAmsterdamActive c t'"
  using assms by (auto simp: fork_defs split: option.splits)

section \<open>Properties\<close>

text \<open>
  A fork schedule that \<open>LoadChainSpec\<close> returns routes the Engine API as the version matrix of
  \<open>chain.go\<close> says. Exactly one of the four rows applies at any timestamp, getPayload never runs at
  a lower version than newPayload, and neither version decreases as the timestamp grows.
\<close>

theorem loaded_chain_spec_routes_engine_api:
  assumes load: "LoadChainSpec config yaml = Ok c" and le: "t \<le> t'"
  shows "(GetPayloadEngineRPCVersion c t, NewPayloadEngineRPCVersion c t) =
           (if \<not> IsPragueActive c t then (3, 3)
            else if \<not> IsOsakaActive c t then (4, 4)
            else if \<not> IsAmsterdamActive c t then (5, 4)
            else (5, 5))
         \<and> NewPayloadEngineRPCVersion c t \<le> GetPayloadEngineRPCVersion c t
         \<and> GetPayloadEngineRPCVersion c t \<le> GetPayloadEngineRPCVersion c t'
         \<and> NewPayloadEngineRPCVersion c t \<le> NewPayloadEngineRPCVersion c t'"
proof -
  note ord = LoadChainSpec_ordered [OF load]
  note up = osaka_prague [OF ord] amsterdam_osaka [OF ord]
  note mono = fork_active_mono [OF le, of c]
  show ?thesis
    using up [of t] up [of t'] mono
    by (auto simp: GetPayloadEngineRPCVersion_def NewPayloadEngineRPCVersion_def)
qed

theorem loaded_chain_spec_routes_engine_api_witness:
  "NewPayloadEngineRPCVersion
     \<lparr>PragueTimestamp = Some 10, OsakaTimestamp = Some 20, AmsterdamTimestamp = Some 30\<rparr> 25
   \<le> GetPayloadEngineRPCVersion
     \<lparr>PragueTimestamp = Some 10, OsakaTimestamp = Some 20, AmsterdamTimestamp = Some 30\<rparr> 25"
proof -
  let ?yaml = "\<lambda>_. Ok \<lparr>prague_timestamp = Some 10, osaka_timestamp = Some 20, amsterdam_timestamp = Some 30\<rparr>"
  let ?c = "\<lparr>PragueTimestamp = Some 10, OsakaTimestamp = Some 20, AmsterdamTimestamp = Some 30\<rparr>"
  have load: "LoadChainSpec (Ok ''forks'') ?yaml = Ok ?c"
    by (simp add: LoadChainSpec_def ChainSpec_Validate_def)
  show ?thesis
    using loaded_chain_spec_routes_engine_api [OF load, of 25 30] by simp
qed

end
