(* ===== verification/Evm_Types.thy ===== *)
theory Evm_Types
  imports Chain_Spec
begin

text \<open>
  The data of the \<open>x/evm\<close> module (\<open>x/evm/types\<close>) and of the libraries it exchanges data with.

  The structs of go-ethereum's \<open>beacon/engine\<close> package are records with the fields this program
  reads or writes; \<open>OtherFields\<close> stands for the fields of a payload that it only passes on.
  Functions of libraries outside the repository are the fields of the record \<open>Ext\<close>, which the
  definitions take as an argument; the predicates at the end of this theory state what the code
  relies on of them.
\<close>

section \<open>Types of the module\<close>

definition ModuleName :: string where "ModuleName = ''evm''"

text \<open>20 MiB, in bytes.\<close>

definition MaxTxSize :: nat where "MaxTxSize = 20 * 1024 * 1024"

record BlockState =
  Hash :: hash
  Height :: u64
  Timestamp :: u64

definition NewBlockState :: "hash \<Rightarrow> u64 \<Rightarrow> u64 \<Rightarrow> BlockState" where
  "NewBlockState hash height timestamp = \<lparr>Hash = hash, Height = height, Timestamp = timestamp\<rparr>"

record MsgExecutionPayload =
  msg_Authority :: string
  msg_ExecutionPayload :: bytes

text \<open>\<open>Params\<close> has no fields.\<close>

datatype Params = Params

definition NewParams :: Params where "NewParams = Params"
definition DefaultParams :: Params where "DefaultParams = NewParams"
definition Params_Validate :: "Params \<Rightarrow> unit outcome" where "Params_Validate p = Ok ()"

record MsgUpdateParams =
  upd_Authority :: string
  upd_Params :: Params

text \<open>The requests of a block for the consensus layer; the elements of the lists are not nil.\<close>

record WithdrawalRequest =
  SourceAddress :: bytes
  ValidatorPubkey :: bytes
  wr_Amount :: u64

record DepositRequest =
  Pubkey :: bytes
  WithdrawalCredentials :: bytes
  dr_Amount :: u64
  Signature :: bytes
  Index :: u64

record ConsensusRequests =
  Deposits :: "DepositRequest list"
  RequestWithdrawals :: "WithdrawalRequest list"

section \<open>Types of the Engine API\<close>

datatype payload_status = VALID | INVALID | SYNCING | ACCEPTED | OtherStatus string

fun status_text :: "payload_status \<Rightarrow> string" where
  "status_text VALID = ''VALID''"
| "status_text INVALID = ''INVALID''"
| "status_text SYNCING = ''SYNCING''"
| "status_text ACCEPTED = ''ACCEPTED''"
| "status_text (OtherStatus s) = s"

record ExecutableData =
  ParentHash :: hash
  BlockHash :: hash
  Number :: u64
  PayloadTimestamp :: u64
  Transactions :: "bytes list"
  Withdrawals :: "bytes list option"
  BlobGasUsed :: "u64 option"
  ExcessBlobGas :: "u64 option"
  ExecutionWitness :: "bytes option"
  OtherFields :: bytes

record ForkchoiceStateV1 =
  HeadBlockHash :: hash
  SafeBlockHash :: hash
  FinalizedBlockHash :: hash

record PayloadAttributes =
  AttrTimestamp :: u64
  Random :: hash
  AttrFeeRecipient :: address
  AttrWithdrawals :: "bytes list"
  BeaconRoot :: "hash option"

type_synonym PayloadID = bytes

record ForkChoiceResponse =
  ResponseStatus :: payload_status
  ResponsePayloadID :: "PayloadID option"

section \<open>Contexts\<close>

datatype exec_mode =
    ExecModeCheck | ExecModeReCheck | ExecModeSimulate | ExecModePrepareProposal
  | ExecModeProcessProposal | ExecModeVoteExtension | ExecModeVerifyVoteExtension
  | ExecModeFinalize

text \<open>What the handlers read of \<open>sdk.Context\<close>; \<open>BlockTime\<close> is \<open>BlockTime().Unix()\<close>.\<close>

record SdkContext =
  HeaderHeight :: i64
  AppHash :: bytes
  BlockTime :: i64
  ExecMode :: exec_mode

section \<open>Library functions\<close>

record Ext =
  BytesToHash :: "bytes \<Rightarrow> hash"
  HexToHash :: "string \<Rightarrow> hash"
  HashHex :: "hash \<Rightarrow> string"
  IsHexAddress :: "string \<Rightarrow> bool"
  HexToAddress :: "string \<Rightarrow> address"
  NewModuleAddress :: "string \<Rightarrow> bytes"
  AddressString :: "bytes \<Rightarrow> string"
  UnmarshalPayload :: "bytes \<Rightarrow> ExecutableData outcome"
  MarshalPayload :: "ExecutableData \<Rightarrow> bytes outcome"
  TxBlobHashes :: "bytes \<Rightarrow> hash list outcome"
  UnknownPayloadText :: string

text \<open>\<open>collections.Item\<close>: one stored value, over the store part \<open>'s\<close> of the context.\<close>

record ('s, 'v) Item =
  item_Get :: "'s \<Rightarrow> 'v outcome"
  item_Set :: "'v \<Rightarrow> 's \<Rightarrow> unit outcome \<times> 's"
  item_Has :: "'s \<Rightarrow> bool outcome"

definition ErrNotFound :: go_error where "ErrNotFound = Sentinel ''collections: not found''"

text \<open>A value that was stored is what a read returns; a write that failed stored nothing.\<close>

definition item_law :: "('s, 'v) Item \<Rightarrow> bool" where
  "item_law it \<longleftrightarrow>
     (\<forall>v s s'. item_Set it v s = (Ok (), s') \<longrightarrow> item_Get it s' = Ok v) \<and>
     (\<forall>v s e s'. item_Set it v s = (Err e, s') \<longrightarrow> item_Get it s' = item_Get it s) \<and>
     (\<forall>v s e s'. item_Set it v s \<noteq> (Panic e, s'))"

text \<open>The JSON encoding of a payload decodes to the payload.\<close>

definition payload_codec_law :: "Ext \<Rightarrow> bool" where
  "payload_codec_law X \<longleftrightarrow>
     (\<forall>p b. MarshalPayload X p = Ok b \<longrightarrow> UnmarshalPayload X b = Ok p)"

text \<open>The hexadecimal form of a hash is \<open>0x\<close> and 64 digits, and reads back as the hash.\<close>

definition hash_hex_law :: "Ext \<Rightarrow> bool" where
  "hash_hex_law X \<longleftrightarrow>
     (\<forall>h. HexToHash X (HashHex X h) = h \<and>
          (\<exists>ds. HashHex X h = ''0x'' @ ds \<and> length ds = 64 \<and> (\<forall>c\<in>set ds. hex_value c \<noteq> None)))"

lemma item_Get_Set: "item_law it \<Longrightarrow> item_Set it v s = (Ok (), s') \<Longrightarrow> item_Get it s' = Ok v"
  by (simp add: item_law_def)

lemma item_Get_Set_Err:
  "item_law it \<Longrightarrow> item_Set it v s = (Err e, s') \<Longrightarrow> item_Get it s' = item_Get it s"
  by (simp add: item_law_def)

lemma item_Set_not_Panic: "item_law it \<Longrightarrow> item_Set it v s \<noteq> (Panic e, s')"
  by (simp add: item_law_def)

section \<open>Calls on the two parts of the state\<close>

text \<open>
  A handler runs over a pair: the store \<open>'s\<close> of the SDK context and the outside \<open>'e\<close> (the execution
  client, the clock, the network). Reads and writes of the store leave the outside alone and calls
  of the execution client leave the store alone.
\<close>

definition readS :: "('s \<Rightarrow> 'a outcome) \<Rightarrow> ('s \<times> 'e, 'a) proc" where
  "readS f = (\<lambda>(s, e). Some (f s, (s, e)))"

definition writeS :: "('s \<Rightarrow> 'a outcome \<times> 's) \<Rightarrow> ('s \<times> 'e, 'a) proc" where
  "writeS f = (\<lambda>(s, e). case f s of (r, s') \<Rightarrow> Some (r, (s', e)))"

definition callE :: "('e \<Rightarrow> 'a outcome \<times> 'e) \<Rightarrow> ('s \<times> 'e, 'a) proc" where
  "callE f = (\<lambda>(s, e). case f e of (r, e') \<Rightarrow> Some (r, (s, e')))"

lemma readS_Some [outcome_simps]: "readS f w = Some (r, w') \<longleftrightarrow> f (fst w) = r \<and> w' = w"
  by (cases w) (auto simp: readS_def)

lemma callE_Some [outcome_simps]:
  "callE f w = Some (r, w') \<longleftrightarrow> f (snd w) = (r, snd w') \<and> fst w' = fst w"
  by (cases w; cases w') (auto simp: callE_def split: prod.splits)

lemma writeS_Some [outcome_simps]:
  "writeS f w = Some (r, w') \<longleftrightarrow> f (fst w) = (r, fst w') \<and> snd w' = snd w"
  by (cases w; cases w') (auto simp: writeS_def split: prod.splits)

lemma keeps_readS [keeps_intros]: "keeps p (readS f)"
  by (auto simp: keeps_def outcome_simps)

lemma keeps_callE [keeps_intros]: "keeps (\<lambda>w. p (fst w)) (callE f)"
  by (auto simp: keeps_def outcome_simps)

lemma keeps_fail_item_Set:
  "item_law it \<Longrightarrow> keeps_fail (\<lambda>w. item_Get it (fst w)) (writeS (item_Set it v))"
  unfolding keeps_fail_def writeS_Some
  by (metis item_Get_Set_Err item_Set_not_Panic outcome.exhaust)

end
