(* ===== verification/Engine_Client.thy ===== *)
theory Engine_Client
  imports Evm_Types
begin

text \<open>
  The client of the execution layer (\<open>lib/engine.go\<close>, \<open>x/evm/types/consensus.go\<close>). The Go interface
  \<open>EngineClient\<close> is a record of functions over the state \<open>'e\<close> of the outside. \<open>engineClient\<close> is the
  implementation over a JSON-RPC connection, which is its argument; \<open>stubEngineClient\<close> is the one
  used when no connection is configured. The locale \<open>engine_client\<close> states what the keeper relies
  on; both implementations satisfy it.
\<close>

section \<open>The interface\<close>

text \<open>Encoding the requests for the consensus layer is not implemented and panics.\<close>

definition ConsensusRequests_Encode :: "ConsensusRequests \<Rightarrow> bytes list outcome" where
  "ConsensusRequests_Encode c = Panic (New ''not implemented'')"

record 'e EngineClient =
  NewPayloadV3 :: "ExecutableData \<Rightarrow> hash list \<Rightarrow> hash option \<Rightarrow> 'e \<Rightarrow> payload_status outcome \<times> 'e"
  NewPayloadV4 :: "ExecutableData \<Rightarrow> hash list \<Rightarrow> hash option \<Rightarrow> ConsensusRequests option
     \<Rightarrow> 'e \<Rightarrow> payload_status outcome \<times> 'e"
  NewPayloadV5 :: "ExecutableData \<Rightarrow> hash list \<Rightarrow> hash option \<Rightarrow> ConsensusRequests option
     \<Rightarrow> 'e \<Rightarrow> payload_status outcome \<times> 'e"
  ForkchoiceUpdatedV3 :: "ForkchoiceStateV1 \<Rightarrow> PayloadAttributes option
     \<Rightarrow> 'e \<Rightarrow> ForkChoiceResponse outcome \<times> 'e"
  GetPayloadV3 :: "PayloadID \<Rightarrow> 'e \<Rightarrow> ExecutableData outcome \<times> 'e"
  GetPayloadV4 :: "PayloadID \<Rightarrow> 'e \<Rightarrow> ExecutableData outcome \<times> 'e"
  GetPayloadV5 :: "PayloadID \<Rightarrow> 'e \<Rightarrow> ExecutableData outcome \<times> 'e"

section \<open>The JSON-RPC implementation\<close>

text \<open>
  \<open>rpc.Client.CallContext\<close>: the decoded response, or an error with the text \<open>%v\<close> prints for the
  response variable as the failed call left it.
\<close>

datatype 'a rpc_reply = Reply 'a | Failed go_error string

record 'e RpcClient =
  call_newPayload :: "string \<Rightarrow> ExecutableData \<Rightarrow> hash list \<Rightarrow> hash option \<Rightarrow> bytes list option
     \<Rightarrow> 'e \<Rightarrow> payload_status rpc_reply \<times> 'e"
  call_forkchoiceUpdated :: "string \<Rightarrow> ForkchoiceStateV1 \<Rightarrow> PayloadAttributes option
     \<Rightarrow> 'e \<Rightarrow> ForkChoiceResponse rpc_reply \<times> 'e"
  call_getPayload :: "string \<Rightarrow> PayloadID \<Rightarrow> 'e \<Rightarrow> ExecutableData rpc_reply \<times> 'e"
  show_response :: "ForkChoiceResponse \<Rightarrow> string"

text \<open>\<open>if err == nil { return response, nil }; return ..., fmt.Errorf("what: %w, response: %v", ...)\<close>.\<close>

fun rpc_outcome :: "string \<Rightarrow> 'a rpc_reply \<times> 'e \<Rightarrow> 'a outcome \<times> 'e" where
  "rpc_outcome what (Reply a, e) = (Ok a, e)"
| "rpc_outcome what (Failed err resp, e) = (Err (Wrapf (what @ '': '') err ('', response: '' @ resp)), e)"

text \<open>
  \<open>NewPayloadV4\<close> and \<open>NewPayloadV5\<close>: the requests are the empty list when the argument is nil and
  their encoding otherwise.
\<close>

definition new_payload_requests ::
    "'e RpcClient \<Rightarrow> string \<Rightarrow> string \<Rightarrow> ExecutableData \<Rightarrow> hash list \<Rightarrow> hash option
     \<Rightarrow> ConsensusRequests option \<Rightarrow> 'e \<Rightarrow> payload_status outcome \<times> 'e" where
  "new_payload_requests rpc method what params versionedHashes beaconRoot requests e =
     (case (case requests of None \<Rightarrow> Ok [] | Some r \<Rightarrow> ConsensusRequests_Encode r) of
        Ok requestsData \<Rightarrow>
          rpc_outcome what (call_newPayload rpc method params versionedHashes beaconRoot (Some requestsData) e)
      | Err err \<Rightarrow> (Err err, e)
      | Panic err \<Rightarrow> (Panic err, e))"

definition engine_ForkchoiceUpdatedV3 ::
    "'e RpcClient \<Rightarrow> ForkchoiceStateV1 \<Rightarrow> PayloadAttributes option \<Rightarrow> 'e
     \<Rightarrow> ForkChoiceResponse outcome \<times> 'e" where
  "engine_ForkchoiceUpdatedV3 rpc update attrs e =
     (case call_forkchoiceUpdated rpc ''engine_forkchoiceUpdatedV3'' update attrs e of
        (Reply response, e') \<Rightarrow>
          if ResponseStatus response = ACCEPTED
          then (Err (New (''unexpected status accepted: '' @ show_response rpc response)), e')
          else (Ok response, e')
      | (Failed err resp, e') \<Rightarrow>
          (Err (Wrapf ''forkchoice updated v3: '' err ('', response: '' @ resp)), e'))"

definition engineClient :: "'e RpcClient \<Rightarrow> 'e EngineClient" where
  "engineClient rpc = \<lparr>
     NewPayloadV3 = (\<lambda>params versionedHashes beaconRoot e. rpc_outcome ''new payload v3''
       (call_newPayload rpc ''engine_newPayloadV3'' params versionedHashes beaconRoot None e)),
     NewPayloadV4 = new_payload_requests rpc ''engine_newPayloadV4'' ''new payload v4'',
     NewPayloadV5 = new_payload_requests rpc ''engine_newPayloadV5'' ''new payload v5'',
     ForkchoiceUpdatedV3 = engine_ForkchoiceUpdatedV3 rpc,
     GetPayloadV3 = (\<lambda>payloadID e. rpc_outcome ''get payload v3''
       (call_getPayload rpc ''engine_getPayloadV3'' payloadID e)),
     GetPayloadV4 = (\<lambda>payloadID e. rpc_outcome ''get payload v4''
       (call_getPayload rpc ''engine_getPayloadV4'' payloadID e)),
     GetPayloadV5 = (\<lambda>payloadID e. rpc_outcome ''get payload v5''
       (call_getPayload rpc ''engine_getPayloadV5'' payloadID e))\<rparr>"

section \<open>The stub\<close>

definition stub_not_enabled :: go_error where
  "stub_not_enabled = New ''EVM not enabled (set EVM_ENABLED=true to enable)''"

definition stubEngineClient :: "'e EngineClient" where
  "stubEngineClient = \<lparr>
     NewPayloadV3 = (\<lambda>_ _ _ e. (Ok SYNCING, e)),
     NewPayloadV4 = (\<lambda>_ _ _ _ e. (Ok SYNCING, e)),
     NewPayloadV5 = (\<lambda>_ _ _ _ e. (Ok SYNCING, e)),
     ForkchoiceUpdatedV3 = (\<lambda>_ _ e. (Ok \<lparr>ResponseStatus = SYNCING, ResponsePayloadID = None\<rparr>, e)),
     GetPayloadV3 = (\<lambda>_ e. (Err stub_not_enabled, e)),
     GetPayloadV4 = (\<lambda>_ e. (Err stub_not_enabled, e)),
     GetPayloadV5 = (\<lambda>_ e. (Err stub_not_enabled, e))\<rparr>"

section \<open>What the keeper relies on\<close>

text \<open>
  No call panics as the keeper makes it (without execution requests), and a fork choice never
  answers \<open>ACCEPTED\<close> without an error.
\<close>

locale engine_client =
  fixes client :: "'e EngineClient"
  assumes fc_not_accepted:
      "ForkchoiceUpdatedV3 client st attrs e = (Ok resp, e') \<Longrightarrow> ResponseStatus resp \<noteq> ACCEPTED"
    and fc_no_panic: "ForkchoiceUpdatedV3 client st attrs e \<noteq> (Panic err, e')"
    and newPayload_no_panic:
      "NewPayloadV3 client p hs root e \<noteq> (Panic err, e')"
      "NewPayloadV4 client p hs root None e \<noteq> (Panic err, e')"
      "NewPayloadV5 client p hs root None e \<noteq> (Panic err, e')"
    and getPayload_no_panic:
      "GetPayloadV3 client i e \<noteq> (Panic err, e')"
      "GetPayloadV4 client i e \<noteq> (Panic err, e')"
      "GetPayloadV5 client i e \<noteq> (Panic err, e')"

lemma rpc_outcome_not_Panic [simp]: "rpc_outcome what r \<noteq> (Panic err, e')"
  by (cases "(what, r)" rule: rpc_outcome.cases) auto

lemma rpc_outcome_Ok: "rpc_outcome what r = (Ok a, e') \<longleftrightarrow> r = (Reply a, e')"
  by (cases "(what, r)" rule: rpc_outcome.cases) auto

interpretation rpc_engine: engine_client "engineClient rpc"
  by unfold_locales
    (auto simp: engineClient_def engine_ForkchoiceUpdatedV3_def new_payload_requests_def
      split: rpc_reply.splits prod.splits if_splits)

interpretation stub_engine: engine_client stubEngineClient
  by unfold_locales (auto simp: stubEngineClient_def)

end
