(* ===== verification/Go_Context.thy ===== *)
theory Go_Context
  imports Go_Std
begin

text \<open>
  Deadlines and retries: the behaviour of Go's \<open>context\<close> and \<open>time\<close> packages that the handlers use,
  and \<open>retry\<close> of \<open>x/evm/keeper/async.go\<close>. Durations and times are milliseconds. The clock and the
  scheduler are part of the outside \<open>'e\<close>; \<open>Runtime\<close> holds the functions that read and advance it.
\<close>

section \<open>Time and contexts\<close>

text \<open>
  \<open>select_after ctx d\<close> is \<open>select { case <-time.After(d): case <-ctx.Done(): }\<close>: \<open>None\<close> when the timer
  was received and \<open>Some err\<close> when the context was, with \<open>err\<close> the context's error.
\<close>

record 'e Context =
  deadline :: "nat option"
  cancelled :: "'e \<Rightarrow> bool"

record 'e Runtime =
  now :: "'e \<Rightarrow> nat"
  Sleep :: "nat \<Rightarrow> 'e \<Rightarrow> 'e"
  select_after :: "'e Context \<Rightarrow> nat \<Rightarrow> 'e \<Rightarrow> go_error option \<times> 'e"

definition Canceled :: go_error where "Canceled = Sentinel ''context canceled''"
definition DeadlineExceeded :: go_error where "DeadlineExceeded = Sentinel ''context deadline exceeded''"

text \<open>\<open>ctx.Err()\<close>, and \<open>context.WithTimeout\<close>: the earlier of the two deadlines wins.\<close>

definition ctx_Err :: "'e Runtime \<Rightarrow> 'e Context \<Rightarrow> 'e \<Rightarrow> go_error option" where
  "ctx_Err rt ctx e =
     (if cancelled ctx e then Some Canceled
      else case deadline ctx of
             None \<Rightarrow> None
           | Some d \<Rightarrow> if d \<le> now rt e then Some DeadlineExceeded else None)"

definition WithTimeout :: "'e Runtime \<Rightarrow> 'e Context \<Rightarrow> nat \<Rightarrow> 'e \<Rightarrow> 'e Context" where
  "WithTimeout rt ctx d e =
     ctx\<lparr>deadline := Some (case deadline ctx of
                            None \<Rightarrow> now rt e + d
                          | Some d0 \<Rightarrow> min d0 (now rt e + d))\<rparr>"

section \<open>Retry\<close>

definition retryDelay :: nat where "retryDelay = 10"
definition requestTimeout :: nat where "requestTimeout = 10000"

text \<open>
  The loop of \<open>retry\<close>. The state \<open>'w\<close> holds the outside together with the variables the closure
  \<open>fn\<close> assigns; \<open>err\<close> reads the context's error and \<open>sleep\<close> is the pause between two attempts. The
  per-attempt deadline of \<open>requestTimeout\<close> is visible to \<open>fn\<close> only, as an error of the call it makes.
\<close>

partial_function (option) retry ::
    "('w \<Rightarrow> go_error option) \<Rightarrow> ('w \<Rightarrow> 'w) \<Rightarrow> ('w \<Rightarrow> (bool outcome \<times> 'w) option)
     \<Rightarrow> 'w \<Rightarrow> (unit outcome \<times> 'w) option" where
  "retry err sleep fn w =
     (case fn w of
        None \<Rightarrow> None
      | Some (r, w') \<Rightarrow>
         (case r of
            Err e \<Rightarrow> Some (Err e, w')
          | Panic e \<Rightarrow> Some (Panic e, w')
          | Ok ok \<Rightarrow>
             if ok then Some (Ok (), w')
             else (case err w' of
                     Some e \<Rightarrow> Some (Err e, w')
                   | None \<Rightarrow> retry err sleep fn (sleep w'))))"

section \<open>Lemmas\<close>

lemma retry_Ok: "fn w = Some (Ok True, w') \<Longrightarrow> retry err sleep fn w = Some (Ok (), w')"
  by (simp add: retry.simps)

lemma retry_Err: "fn w = Some (Err e, w') \<Longrightarrow> retry err sleep fn w = Some (Err e, w')"
  by (simp add: retry.simps)

lemma retry_expired:
  "fn w = Some (Ok False, w') \<Longrightarrow> err w' = Some e \<Longrightarrow> retry err sleep fn w = Some (Err e, w')"
  by (simp add: retry.simps)

lemma retry_again:
  "fn w = Some (Ok False, w') \<Longrightarrow> err w' = None \<Longrightarrow>
   retry err sleep fn w = retry err sleep fn (sleep w')"
  by (simp add: retry.simps)

text \<open>
  Partial correctness: an invariant of the attempts and of the pauses holds where the loop ends,
  and the last attempt is the one that decided.
\<close>

lemma retry_last:
  assumes ret: "retry err sleep fn w = Some (r, w')" and init: "I w"
    and step: "\<And>w1 w2. I w1 \<Longrightarrow> fn w1 = Some (Ok False, w2) \<Longrightarrow> err w2 = None \<Longrightarrow> I (sleep w2)"
  shows "\<exists>w0. I w0 \<and>
    (r = Ok () \<and> fn w0 = Some (Ok True, w') \<or>
     (\<exists>e. r = Err e \<and> (fn w0 = Some (Err e, w') \<or> fn w0 = Some (Ok False, w') \<and> err w' = Some e)) \<or>
     (\<exists>e. r = Panic e \<and> fn w0 = Some (Panic e, w')))"
proof -
  let ?Q = "\<lambda>w (r, w'). I w \<longrightarrow> (\<exists>w0. I w0 \<and>
    (r = Ok () \<and> fn w0 = Some (Ok True, w') \<or>
     (\<exists>e. r = Err e \<and> (fn w0 = Some (Err e, w') \<or> fn w0 = Some (Ok False, w') \<and> err w' = Some e)) \<or>
     (\<exists>e. r = Panic e \<and> fn w0 = Some (Panic e, w'))))"
  let ?P = "\<lambda>er sl f w rw. er = err \<longrightarrow> sl = sleep \<longrightarrow> f = fn \<longrightarrow> ?Q w rw"
  have "?P err sleep fn w (r, w')"
  proof (rule retry.raw_induct [where P = ?P, OF _ ret], intro impI)
    fix loop er sl f w rw
    assume IH: "\<And>er sl f w rw. loop er sl f w = Some rw \<Longrightarrow> ?P er sl f w rw"
      and eq: "(case f w of None \<Rightarrow> None | Some (r, w') \<Rightarrow> (case r of
            Ok ok \<Rightarrow> if ok then Some (Ok (), w')
              else (case er w' of None \<Rightarrow> loop er sl f (sl w') | Some e \<Rightarrow> Some (Err e, w'))
          | Err e \<Rightarrow> Some (Err e, w') | Panic e \<Rightarrow> Some (Panic e, w'))) = Some rw"
      and [simp]: "er = err" "sl = sleep" "f = fn"
    show "?Q w rw"
    proof (cases "\<exists>w2. fn w = Some (Ok False, w2) \<and> err w2 = None")
      case True
      then obtain w2 where w2: "fn w = Some (Ok False, w2)" "err w2 = None" by blast
      with eq have "loop err sleep fn (sleep w2) = Some rw" by simp
      then have "?Q (sleep w2) rw" using IH by blast
      with step [OF _ w2] show ?thesis by (cases rw) blast
    next
      case False
      with eq show ?thesis
        by (auto split: option.splits outcome.splits prod.splits if_splits)
    qed
  qed
  with init show ?thesis by simp
qed

lemma keeps_retry:
  assumes fn: "keeps p fn" and sl: "\<And>w. p (sleep w) = p w"
  shows "keeps p (retry err sleep fn)"
  unfolding keeps_def
proof (intro allI impI)
  fix w r w'
  assume "retry err sleep fn w = Some (r, w')"
  from retry_last [OF this, of "\<lambda>v. p v = p w"] obtain w0 where "p w0 = p w" and
    "\<exists>q. fn w0 = Some (q, w')"
    using keepsD [OF fn] sl by (metis (no_types, lifting))
  with keepsD [OF fn] show "p w' = p w" by fastforce
qed

text \<open>Termination: the loop returns when a measure that each unsuccessful round decreases bounds it.\<close>

lemma retry_terminates:
  fixes m :: "'w \<Rightarrow> nat"
  assumes "I w"
    and fn: "\<And>w. I w \<Longrightarrow> fn w \<noteq> None"
    and step: "\<And>w w'. I w \<Longrightarrow> fn w = Some (Ok False, w') \<Longrightarrow> err w' = None \<Longrightarrow>
        I (sleep w') \<and> m (sleep w') < m w"
  shows "\<exists>r w'. retry err sleep fn w = Some (r, w')"
  using assms(1)
proof (induction "m w" arbitrary: w rule: less_induct)
  case less
  obtain r w' where f: "fn w = Some (r, w')" using fn [OF less.prems] by force
  show ?case
  proof (cases "r = Ok False \<and> err w' = None")
    case True
    then have "I (sleep w')" "m (sleep w') < m w" using step less.prems f by auto
    then obtain r' w2 where "retry err sleep fn (sleep w') = Some (r', w2)"
      using less.hyps by blast
    with True f show ?thesis by (auto simp: retry_again)
  next
    case False
    with f show ?thesis
      by (cases r) (auto simp: retry.simps split: option.splits)
  qed
qed

text \<open>Divergence: where every attempt asks for another one and the context never ends.\<close>

lemma retry_diverges:
  assumes init: "I w"
    and step: "\<And>w. I w \<Longrightarrow> \<exists>w'. fn w = Some (Ok False, w') \<and> err w' = None \<and> I (sleep w')"
  shows "retry err sleep fn w = None"
proof (rule ccontr)
  assume "retry err sleep fn w \<noteq> None"
  then obtain r w' where "retry err sleep fn w = Some (r, w')" by force
  from retry_last [OF this, of I, OF init] step obtain w0 where "I w0" and
    "r = Ok () \<and> fn w0 = Some (Ok True, w') \<or>
     (\<exists>e. r = Err e \<and> (fn w0 = Some (Err e, w') \<or> fn w0 = Some (Ok False, w') \<and> err w' = Some e)) \<or>
     (\<exists>e. r = Panic e \<and> fn w0 = Some (Panic e, w'))"
    by fastforce
  with step [of w0] show False by auto
qed

section \<open>A deadline bounds the attempts\<close>

text \<open>Sleeping advances the clock by at least the duration asked for.\<close>

definition clock_law :: "'e Runtime \<Rightarrow> bool" where
  "clock_law rt \<longleftrightarrow> (\<forall>d e. now rt e + d \<le> now rt (Sleep rt d e))"

lemma ctx_Err_None: "ctx_Err rt ctx e = None \<Longrightarrow> deadline ctx = Some d \<Longrightarrow> now rt e < d"
  by (auto simp: ctx_Err_def split: if_splits)

lemma deadline_WithTimeout: "deadline (WithTimeout rt ctx d e) \<noteq> None"
  by (simp add: WithTimeout_def)

text \<open>
  With a deadline, a clock that runs and attempts that do not turn it back, the loop returns: the
  time left before the deadline shrinks by \<open>retryDelay\<close> in every round.
\<close>

lemma retry_deadline_terminates:
  fixes out :: "'w \<Rightarrow> 'e"
  assumes clock: "clock_law rt" and d: "deadline ctx = Some d" and inv: "I w"
    and fn: "\<And>w. I w \<Longrightarrow> \<exists>r w'. fn w = Some (r, w') \<and> now rt (out w) \<le> now rt (out w')"
    and I_step: "\<And>w w'. I w \<Longrightarrow> fn w = Some (Ok False, w') \<Longrightarrow> I (sleep w')"
    and sl: "\<And>w. out (sleep w) = Sleep rt retryDelay (out w)"
  shows "\<exists>r w'. retry (\<lambda>w. ctx_Err rt ctx (out w)) sleep fn w = Some (r, w')"
proof (rule retry_terminates [where I = I and m = "\<lambda>w. d + retryDelay - now rt (out w)"])
  show "I w" by (rule inv)
  show "fn w \<noteq> None" if "I w" for w using fn [OF that] by auto
  show "I (sleep w') \<and> d + retryDelay - now rt (out (sleep w')) < d + retryDelay - now rt (out w)"
    if I: "I w" and f: "fn w = Some (Ok False, w')" and "ctx_Err rt ctx (out w') = None" for w w'
  proof -
    have "now rt (out w') < d" using that d by (blast intro: ctx_Err_None)
    moreover have "now rt (out w) \<le> now rt (out w')" using fn [OF I] f by auto
    moreover have "now rt (out w') + retryDelay \<le> now rt (out (sleep w'))"
      using clock by (simp add: clock_law_def sl)
    ultimately show ?thesis using I_step [OF I f] by (auto simp: retryDelay_def)
  qed
qed

end
