(* ===== verification/Samples.thy ===== *)
theory Samples
  imports Engine_Client Go_Context
begin

text \<open>
  Concrete instances of the parameters of the model, used by the witnesses of the properties: a
  store that holds one block state, a clock that counts milliseconds, an execution client that
  accepts everything, and library functions that satisfy the laws of \<open>Evm_Types\<close>. Nothing of the
  model rests on them.
\<close>

section \<open>Hexadecimal hashes\<close>

fun hex_digits :: "nat \<Rightarrow> nat \<Rightarrow> string" where
  "hex_digits 0 n = []"
| "hex_digits (Suc k) n = hex_digits k (n div 16) @ [hex_char (n mod 16)]"

definition hex_number :: "string \<Rightarrow> nat" where
  "hex_number s = foldl (\<lambda>n c. 16 * n + (case hex_value c of None \<Rightarrow> 0 | Some d \<Rightarrow> d)) 0 s"

lemma length_hex_digits [simp]: "length (hex_digits k n) = k"
  by (induction k arbitrary: n) auto

lemma hex_digits_hex: "c \<in> set (hex_digits k n) \<Longrightarrow> hex_value c \<noteq> None"
  by (induction k arbitrary: n) auto

lemma hex_number_hex_digits: "n < 16 ^ k \<Longrightarrow> hex_number (hex_digits k n) = n"
proof (induction k arbitrary: n)
  case 0
  then show ?case by (simp add: hex_number_def)
next
  case (Suc k)
  then have "n div 16 < 16 ^ k" by (simp add: less_mult_imp_div_less mult.commute)
  with Suc.IH have "hex_number (hex_digits k (n div 16)) = n div 16" by blast
  then show ?case by (simp add: hex_number_def)
qed

definition sample_hex :: "hash \<Rightarrow> string" where
  "sample_hex h = ''0x'' @ hex_digits 64 (unat h)"

definition sample_unhex :: "string \<Rightarrow> hash" where
  "sample_unhex s = of_nat (hex_number (TrimPrefix s ''0x''))"

lemma sample_unhex_hex [simp]: "sample_unhex (sample_hex h) = h"
proof -
  have "unat h < 2 ^ LENGTH(256)" by (rule unsigned_less)
  then have "unat h < 16 ^ 64" by simp
  then show ?thesis
    by (simp add: sample_unhex_def sample_hex_def TrimPrefix_def hex_number_hex_digits)
qed

section \<open>Library functions\<close>

definition sample_payload :: ExecutableData where
  "sample_payload = \<lparr>ParentHash = 1, BlockHash = 2, Number = 1, PayloadTimestamp = 100,
     Transactions = [], Withdrawals = Some [], BlobGasUsed = Some 0, ExcessBlobGas = Some 0,
     ExecutionWitness = None, OtherFields = []\<rparr>"

text \<open>A payload with one transaction that carries seven blobs.\<close>

definition blob_payload :: ExecutableData where
  "blob_payload = sample_payload\<lparr>Transactions := [''blobs'']\<rparr>"

definition sample_ext :: Ext where
  "sample_ext = \<lparr>BytesToHash = (\<lambda>b. of_nat (length b)), HexToHash = sample_unhex, HashHex = sample_hex,
     IsHexAddress = (\<lambda>s. HasPrefix s ''0x''), HexToAddress = (\<lambda>s. of_nat (length s)),
     NewModuleAddress = (\<lambda>s. s), AddressString = (\<lambda>s. ''nexus1'' @ s),
     UnmarshalPayload = (\<lambda>b. if b = ''payload'' then Ok sample_payload
        else if b = ''blobs'' then Ok blob_payload else Err (New ''unexpected end of JSON input'')),
     MarshalPayload = (\<lambda>p. if p = sample_payload then Ok ''payload''
        else if p = blob_payload then Ok ''blobs'' else Err (New ''unsupported'')),
     TxBlobHashes = (\<lambda>b. if b = ''blobs'' then Ok [1, 2, 3, 4, 5, 6, 7] else Ok []),
     UnknownPayloadText = ''Unknown payload''\<rparr>"

lemma sample_hash_hex_law: "hash_hex_law sample_ext"
  unfolding hash_hex_law_def
proof (intro allI conjI)
  fix h
  show "HexToHash sample_ext (HashHex sample_ext h) = h" by (simp add: sample_ext_def)
  have "HashHex sample_ext h = ''0x'' @ hex_digits 64 (unat h)"
    by (simp add: sample_ext_def sample_hex_def)
  moreover have "\<forall>c\<in>set (hex_digits 64 (unat h)). hex_value c \<noteq> None"
    using hex_digits_hex by blast
  ultimately show "\<exists>ds. HashHex sample_ext h = ''0x'' @ ds \<and> length ds = 64 \<and> (\<forall>c\<in>set ds. hex_value c \<noteq> None)"
    using length_hex_digits by blast
qed

lemma sample_payload_codec_law: "payload_codec_law sample_ext"
  by (simp add: payload_codec_law_def sample_ext_def)

section \<open>Store, clock and client\<close>

definition sample_item :: "(BlockState option, BlockState) Item" where
  "sample_item = \<lparr>item_Get = (\<lambda>s. case s of None \<Rightarrow> Err ErrNotFound | Some b \<Rightarrow> Ok b),
     item_Set = (\<lambda>b s. (Ok (), Some b)), item_Has = (\<lambda>s. Ok (s \<noteq> None))\<rparr>"

lemma sample_item_law: "item_law sample_item"
  by (simp add: item_law_def sample_item_def)

definition sample_params_item :: "('s, Params) Item" where
  "sample_params_item = \<lparr>item_Get = (\<lambda>_. Ok Params), item_Set = (\<lambda>_ s. (Ok (), s)), item_Has = (\<lambda>_. Ok True)\<rparr>"

definition sample_runtime :: "nat Runtime" where
  "sample_runtime = \<lparr>now = (\<lambda>e. e), Sleep = (\<lambda>d e. e + d), select_after = (\<lambda>_ d e. (None, e + d))\<rparr>"

lemma sample_clock_law: "clock_law sample_runtime"
  by (simp add: clock_law_def sample_runtime_def)

definition background :: "'e Context" where
  "background = \<lparr>deadline = None, cancelled = (\<lambda>_. False)\<rparr>"

definition sample_engine :: "nat EngineClient" where
  "sample_engine = \<lparr>
     NewPayloadV3 = (\<lambda>_ _ _ e. (Ok VALID, e + 1)),
     NewPayloadV4 = (\<lambda>_ _ _ _ e. (Ok VALID, e + 1)),
     NewPayloadV5 = (\<lambda>_ _ _ _ e. (Ok VALID, e + 1)),
     ForkchoiceUpdatedV3 = (\<lambda>_ attrs e. (Ok \<lparr>ResponseStatus = VALID,
        ResponsePayloadID = map_option (\<lambda>_. ''id'') attrs\<rparr>, e + 1)),
     GetPayloadV3 = (\<lambda>_ e. (Ok sample_payload, e + 1)),
     GetPayloadV4 = (\<lambda>_ e. (Ok sample_payload, e + 1)),
     GetPayloadV5 = (\<lambda>_ e. (Ok sample_payload, e + 1))\<rparr>"

definition sample_state :: BlockState where
  "sample_state = \<lparr>Hash = 1, Height = 0, Timestamp = 50\<rparr>"

definition sample_ctx :: SdkContext where
  "sample_ctx = \<lparr>HeaderHeight = 2, AppHash = ''a'', BlockTime = 100, ExecMode = ExecModeFinalize\<rparr>"

end
