(* ===== verification/Block_State.thy ===== *)
theory Block_State
  imports Json Samples
begin

text \<open>
  The encoding under which the head of the chain is stored (\<open>x/evm/types/types.go\<close>): a JSON object of
  the hash and the two numbers, and the value codec of the collection. \<open>json.Marshal\<close> of a value with
  a \<open>MarshalJSON\<close> method compacts what the method returns, which is the identity on the compact text
  it returns here.
\<close>

section \<open>Definitions\<close>

definition BlockState_MarshalJSON :: "Ext \<Rightarrow> BlockState \<Rightarrow> bytes outcome" where
  "BlockState_MarshalJSON X bs =
     Ok (marshal_struct [(''hash'', marshal_string (HashHex X (Hash bs))),
                         (''height'', show_u64 (Height bs)),
                         (''timestamp'', show_u64 (Timestamp bs))])"

text \<open>The anonymous struct that the text is decoded into.\<close>

record BlockStateTemp =
  temp_Hash :: string
  temp_Height :: u64
  temp_Timestamp :: u64

definition temp_fields :: "(string \<times> (string \<Rightarrow> json \<Rightarrow> BlockStateTemp \<Rightarrow> BlockStateTemp outcome)) list" where
  "temp_fields =
     [(''hash'', \<lambda>raw v t. bindO (decode_string v (temp_Hash t)) (\<lambda>x. Ok (t\<lparr>temp_Hash := x\<rparr>))),
      (''height'', \<lambda>raw v t. bindO (decode_uint64 v (temp_Height t)) (\<lambda>x. Ok (t\<lparr>temp_Height := x\<rparr>))),
      (''timestamp'', \<lambda>raw v t. bindO (decode_uint64 v (temp_Timestamp t)) (\<lambda>x. Ok (t\<lparr>temp_Timestamp := x\<rparr>)))]"

definition BlockState_UnmarshalJSON :: "Ext \<Rightarrow> bytes \<Rightarrow> BlockState outcome" where
  "BlockState_UnmarshalJSON X d =
     bindO (json_parse d) (\<lambda>v.
     bindO (decode_struct temp_fields v \<lparr>temp_Hash = [], temp_Height = 0, temp_Timestamp = 0\<rparr>) (\<lambda>temp.
     Ok \<lparr>Hash = HexToHash X (temp_Hash temp), Height = temp_Height temp, Timestamp = temp_Timestamp temp\<rparr>))"

definition BlockState_Marshal :: "Ext \<Rightarrow> BlockState \<Rightarrow> bytes outcome" where
  "BlockState_Marshal X bs = BlockState_MarshalJSON X bs"

text \<open>\<open>json.Unmarshal\<close> checks the text before it calls the method of the value.\<close>

definition BlockState_Unmarshal :: "Ext \<Rightarrow> bytes \<Rightarrow> BlockState outcome" where
  "BlockState_Unmarshal X d = bindO (json_parse d) (\<lambda>_. BlockState_UnmarshalJSON X d)"

definition BlockStateValue_Encode :: "Ext \<Rightarrow> BlockState \<Rightarrow> bytes outcome" where
  "BlockStateValue_Encode X = BlockState_Marshal X"

definition BlockStateValue_Decode :: "Ext \<Rightarrow> bytes \<Rightarrow> BlockState outcome" where
  "BlockStateValue_Decode X = BlockState_Unmarshal X"

definition BlockStateValue_EncodeJSON :: "Ext \<Rightarrow> BlockState \<Rightarrow> bytes outcome" where
  "BlockStateValue_EncodeJSON X bs = BlockState_MarshalJSON X bs"

definition BlockStateValue_DecodeJSON :: "Ext \<Rightarrow> bytes \<Rightarrow> BlockState outcome" where
  "BlockStateValue_DecodeJSON X d = bindO (json_parse d) (\<lambda>_. BlockState_UnmarshalJSON X d)"

definition BlockStateValue_Stringify :: "Ext \<Rightarrow> BlockState \<Rightarrow> string" where
  "BlockStateValue_Stringify X bs = HashHex X (Hash bs) @ '':'' @ show_u64 (Height bs) @ '':'' @ show_u64 (Timestamp bs)"

definition BlockStateValue_ValueType :: string where
  "BlockStateValue_ValueType = ''nexus/x/evm/types.BlockState''"

text \<open>An item of a collection over stored bytes: it encodes on a write and decodes on a read.\<close>

definition coded_item ::
    "('v \<Rightarrow> bytes outcome) \<Rightarrow> (bytes \<Rightarrow> 'v outcome) \<Rightarrow> ('s, bytes) Item \<Rightarrow> ('s, 'v) Item" where
  "coded_item enc dec raw =
     \<lparr>item_Get = (\<lambda>s. bindO (item_Get raw s) dec),
      item_Set = (\<lambda>v s. case enc v of Ok b \<Rightarrow> item_Set raw b s | Err e \<Rightarrow> (Err e, s) | Panic e \<Rightarrow> (Panic e, s)),
      item_Has = item_Has raw\<rparr>"

section \<open>Lemmas\<close>

lemma select_temp_fields:
  "select_field temp_fields ''hash'' = Some (\<lambda>raw v t. bindO (decode_string v (temp_Hash t)) (\<lambda>x. Ok (t\<lparr>temp_Hash := x\<rparr>)))"
  "select_field temp_fields ''height'' = Some (\<lambda>raw v t. bindO (decode_uint64 v (temp_Height t)) (\<lambda>x. Ok (t\<lparr>temp_Height := x\<rparr>)))"
  "select_field temp_fields ''timestamp'' =
     Some (\<lambda>raw v t. bindO (decode_uint64 v (temp_Timestamp t)) (\<lambda>x. Ok (t\<lparr>temp_Timestamp := x\<rparr>)))"
  by (simp_all add: select_field_def temp_fields_def)

lemma reads_as_u64: "reads_as (show_u64 w) (JNum (show_u64 w))"
  unfolding show_u64_def by (rule reads_as_nat)

text \<open>The text of a state is read back as its three members.\<close>

lemma json_parse_BlockState:
  "BlockState_MarshalJSON X bs = Ok d \<Longrightarrow>
   json_parse d = Ok (JObj [(''hash'', marshal_string (HashHex X (Hash bs)), JStr (HashHex X (Hash bs))),
     (''height'', show_u64 (Height bs), JNum (show_u64 (Height bs))),
     (''timestamp'', show_u64 (Timestamp bs), JNum (show_u64 (Timestamp bs)))])"
  using json_parse_struct [of "[(''hash'', marshal_string (HashHex X (Hash bs)), JStr (HashHex X (Hash bs))),
     (''height'', show_u64 (Height bs), JNum (show_u64 (Height bs))),
     (''timestamp'', show_u64 (Timestamp bs), JNum (show_u64 (Timestamp bs)))]"]
  by (auto simp: field_texts_def reads_as_string reads_as_u64 BlockState_MarshalJSON_def)

lemma BlockState_codec:
  assumes "hash_hex_law X" "BlockState_MarshalJSON X bs = Ok d"
  shows "BlockState_UnmarshalJSON X d = Ok bs"
proof -
  have "HexToHash X (HashHex X (Hash bs)) = Hash bs" using assms(1) by (simp add: hash_hex_law_def)
  then show ?thesis
    using json_parse_BlockState [OF assms(2)] by (simp add: BlockState_UnmarshalJSON_def select_temp_fields)
qed

lemma coded_item_law:
  assumes raw: "item_law raw" and rt: "\<And>v b. enc v = Ok b \<Longrightarrow> dec b = Ok v" and ok: "\<And>v e. enc v \<noteq> Panic e"
  shows "item_law (coded_item enc dec raw)"
proof -
  have "item_Get raw s' = item_Get raw s" if "item_Set (coded_item enc dec raw) v s = (Err e, s')" for v s e s'
    using that item_Get_Set_Err [OF raw] by (auto simp: coded_item_def split: outcome.splits)
  moreover have "item_Get (coded_item enc dec raw) s' = Ok v" if "item_Set (coded_item enc dec raw) v s = (Ok (), s')" for v s s'
    using that item_Get_Set [OF raw] rt by (auto simp: coded_item_def split: outcome.splits)
  moreover have "item_Set (coded_item enc dec raw) v s \<noteq> (Panic e, s')" for v s e s'
    using item_Set_not_Panic [OF raw] ok by (auto simp: coded_item_def split: outcome.splits)
  ultimately show ?thesis unfolding item_law_def by (auto simp: coded_item_def)
qed

section \<open>Properties\<close>

text \<open>
  The stored form of the head is faithful: every block state encodes, and both decoders of the
  value codec give it back.
\<close>

theorem block_state_round_trip:
  assumes "hash_hex_law X"
  shows "\<exists>b. BlockStateValue_Encode X bs = Ok b \<and> BlockStateValue_Decode X b = Ok bs
    \<and> BlockStateValue_EncodeJSON X bs = Ok b \<and> BlockStateValue_DecodeJSON X b = Ok bs"
proof -
  obtain d where d: "BlockState_MarshalJSON X bs = Ok d" by (simp add: BlockState_MarshalJSON_def)
  with json_parse_BlockState [OF d] BlockState_codec [OF assms d] show ?thesis
    by (simp add: BlockStateValue_Encode_def BlockStateValue_Decode_def BlockStateValue_EncodeJSON_def
        BlockStateValue_DecodeJSON_def BlockState_Marshal_def BlockState_Unmarshal_def)
qed

theorem block_state_round_trip_witness:
  "\<exists>b. BlockStateValue_Encode sample_ext \<lparr>Hash = 1, Height = 7, Timestamp = 1700000000\<rparr> = Ok b
     \<and> BlockStateValue_Decode sample_ext b = Ok \<lparr>Hash = 1, Height = 7, Timestamp = 1700000000\<rparr>"
  using block_state_round_trip [OF sample_hash_hex_law, of "\<lparr>Hash = 1, Height = 7, Timestamp = 1700000000\<rparr>"] by blast

text \<open>
  C29. The collection that stores the head keeps its law: over a store of bytes that returns what was
  written, an item with the codec of \<open>BlockState\<close> returns the block state that was written, and a
  write that fails changes nothing.
\<close>

theorem block_state_item_law:
  assumes "hash_hex_law X" and "item_law raw"
  shows "item_law (coded_item (BlockStateValue_Encode X) (BlockStateValue_Decode X) raw)"
proof (rule coded_item_law [OF assms(2)])
  show "BlockStateValue_Decode X b = Ok v" if "BlockStateValue_Encode X v = Ok b" for v b
    using that json_parse_BlockState [of X v b] BlockState_codec [OF assms(1), of v b]
    by (simp add: BlockStateValue_Encode_def BlockStateValue_Decode_def BlockState_Marshal_def BlockState_Unmarshal_def)
  show "BlockStateValue_Encode X v \<noteq> Panic e" for v e
    by (simp add: BlockStateValue_Encode_def BlockState_Marshal_def BlockState_MarshalJSON_def)
qed

text \<open>A store of one byte string.\<close>

definition sample_raw_item :: "(bytes option, bytes) Item" where
  "sample_raw_item = \<lparr>item_Get = (\<lambda>s. case s of None \<Rightarrow> Err ErrNotFound | Some b \<Rightarrow> Ok b),
     item_Set = (\<lambda>b s. (Ok (), Some b)), item_Has = (\<lambda>s. Ok (s \<noteq> None))\<rparr>"

theorem block_state_item_law_witness:
  "item_law (coded_item (BlockStateValue_Encode sample_ext) (BlockStateValue_Decode sample_ext) sample_raw_item)"
  by (rule block_state_item_law [OF sample_hash_hex_law]) (simp add: item_law_def sample_raw_item_def)

end
