(* ===== verification/Proto.thy ===== *)
theory Proto
  imports Go_Std
begin

text \<open>
  The code that the protobuf compiler generates for the messages of the two modules (the
  \<open>*.pb.go\<close> files): variable-length integers, the encoder that fills a buffer of the computed size
  from its end, and the decoder loop with its skipping of unknown fields. What every generated file
  repeats is one definition here; the messages are in \<open>Proto_Messages\<close>. A buffer is a list of bytes
  and an index is a natural number; an index or slice out of range is a panic. The decoder's outer
  loop is a partial function, so that its termination is a theorem.
\<close>

unbundle bit_operations_syntax

section \<open>Errors\<close>

definition ErrInvalidLength :: go_error where
  "ErrInvalidLength = Sentinel ''proto: negative length found during unmarshaling''"
definition ErrIntOverflow :: go_error where
  "ErrIntOverflow = Sentinel ''proto: integer overflow''"
definition ErrUnexpectedEndOfGroup :: go_error where
  "ErrUnexpectedEndOfGroup = Sentinel ''proto: unexpected end of group''"
definition ErrUnexpectedEOF :: go_error where
  "ErrUnexpectedEOF = Sentinel ''unexpected EOF''"

definition index_out_of_range :: go_error where
  "index_out_of_range = New ''runtime error: index out of range''"
definition slice_out_of_range :: go_error where
  "slice_out_of_range = New ''runtime error: slice bounds out of range''"

section \<open>Encoding\<close>

text \<open>\<open>bits.Len64\<close>, and the size of a variable-length integer.\<close>

fun Len64 :: "nat \<Rightarrow> nat" where
  "Len64 n = (if n = 0 then 0 else Suc (Len64 (n div 2)))"

declare Len64.simps [simp del]

definition sov :: "u64 \<Rightarrow> nat" where
  "sov x = (Len64 (unat (x OR 1)) + 6) div 7"

definition uint8 :: "u64 \<Rightarrow> char" where
  "uint8 w = char_of (unat w mod 256)"

text \<open>The loop of \<open>encodeVarint\<close>, writing upwards from \<open>offset\<close>.\<close>

function encode_loop :: "bytes \<Rightarrow> nat \<Rightarrow> u64 \<Rightarrow> bytes outcome" where
  "encode_loop dAtA offset v =
     (if offset \<ge> length dAtA then Panic index_out_of_range
      else if v \<ge> 128 then encode_loop (dAtA[offset := uint8 (v AND 0x7f OR 0x80)]) (offset + 1) (drop_bit 7 v)
      else Ok (dAtA[offset := uint8 v]))"
  by auto
termination by (relation "measure (\<lambda>(dAtA, offset, v). length dAtA - offset)") auto

declare encode_loop.simps [simp del]

text \<open>The operations of the encoder on a buffer and the index \<open>i\<close> below which it is still to be filled.\<close>

definition encodeVarint :: "u64 \<Rightarrow> bytes \<times> nat \<Rightarrow> (bytes \<times> nat) outcome" where
  "encodeVarint v = (\<lambda>(dAtA, offset).
     if sov v > offset then Panic index_out_of_range
     else bindO (encode_loop dAtA (offset - sov v) v) (\<lambda>d. Ok (d, offset - sov v)))"

text \<open>\<open>i--; dAtA[i] = b\<close>.\<close>

definition put_byte :: "nat \<Rightarrow> bytes \<times> nat \<Rightarrow> (bytes \<times> nat) outcome" where
  "put_byte b = (\<lambda>(dAtA, i).
     if i = 0 \<or> i > length dAtA then Panic index_out_of_range else Ok (dAtA[i - 1 := char_of b], i - 1))"

text \<open>\<open>i -= len(s); copy(dAtA[i:], s)\<close>.\<close>

definition put_copy :: "bytes \<Rightarrow> bytes \<times> nat \<Rightarrow> (bytes \<times> nat) outcome" where
  "put_copy s = (\<lambda>(dAtA, i).
     if length s > i \<or> i > length dAtA then Panic slice_out_of_range
     else Ok (take (i - length s) dAtA @ s @ drop i dAtA, i - length s))"

definition seqB ::
    "('a \<Rightarrow> 'a outcome) \<Rightarrow> ('a \<Rightarrow> 'a outcome) \<Rightarrow> 'a \<Rightarrow> 'a outcome" where
  "seqB p q = (\<lambda>w. bindO (p w) q)"

text \<open>
  The encoding of one field, by kind: an integer and a byte slice are written when they are not the
  zero value, a message always. A message is marshalled into \<open>dAtA[:i]\<close>.
\<close>

definition put_uint :: "nat \<Rightarrow> u64 \<Rightarrow> bytes \<times> nat \<Rightarrow> (bytes \<times> nat) outcome" where
  "put_uint tag v = (if v \<noteq> 0 then seqB (encodeVarint v) (put_byte tag) else Ok)"

definition put_bytes :: "nat \<Rightarrow> bytes \<Rightarrow> bytes \<times> nat \<Rightarrow> (bytes \<times> nat) outcome" where
  "put_bytes tag s =
     (if length s > 0 then seqB (put_copy s) (seqB (encodeVarint (of_nat (length s))) (put_byte tag)) else Ok)"

definition put_message ::
    "nat \<Rightarrow> (bytes \<Rightarrow> (bytes \<times> nat) outcome) \<Rightarrow> bytes \<times> nat \<Rightarrow> (bytes \<times> nat) outcome" where
  "put_message tag marshalToSizedBuffer = (\<lambda>(dAtA, i).
     if i > length dAtA then Panic slice_out_of_range
     else bindO (marshalToSizedBuffer (take i dAtA)) (\<lambda>(d, size).
       if size > i then Panic index_out_of_range
       else seqB (encodeVarint (of_nat size)) (put_byte tag) (d @ drop i dAtA, i - size)))"

text \<open>The loop over a repeated field, from the last element to the first.\<close>

fun put_messages ::
    "nat \<Rightarrow> ('m \<Rightarrow> bytes \<Rightarrow> (bytes \<times> nat) outcome) \<Rightarrow> 'm list \<Rightarrow> bytes \<times> nat \<Rightarrow> (bytes \<times> nat) outcome" where
  "put_messages tag marshalToSizedBuffer [] = Ok"
| "put_messages tag marshalToSizedBuffer (m # ms) =
     seqB (put_messages tag marshalToSizedBuffer ms) (put_message tag (marshalToSizedBuffer m))"

text \<open>The frame of \<open>MarshalToSizedBuffer\<close> around the fields of a message, and \<open>Marshal\<close>.\<close>

definition marshalToSizedBuffer ::
    "(bytes \<times> nat \<Rightarrow> (bytes \<times> nat) outcome) \<Rightarrow> bytes \<Rightarrow> (bytes \<times> nat) outcome" where
  "marshalToSizedBuffer fields dAtA =
     bindO (fields (dAtA, length dAtA)) (\<lambda>(d, i). Ok (d, length d - i))"

definition marshal :: "nat \<Rightarrow> (bytes \<Rightarrow> (bytes \<times> nat) outcome) \<Rightarrow> bytes outcome" where
  "marshal sz toSizedBuffer =
     bindO (toSizedBuffer (replicate sz (CHR 0x00))) (\<lambda>(d, n).
       if n > length d then Panic slice_out_of_range else Ok (take n d))"

text \<open>\<open>MarshalTo\<close>: into the first \<open>size\<close> bytes of a buffer; the result is the buffer and the count.\<close>

definition marshalTo :: "nat \<Rightarrow> (bytes \<Rightarrow> (bytes \<times> nat) outcome) \<Rightarrow> bytes \<Rightarrow> (bytes \<times> nat) outcome" where
  "marshalTo sz toSizedBuffer dAtA =
     (if sz > length dAtA then Panic slice_out_of_range
      else bindO (toSizedBuffer (take sz dAtA)) (\<lambda>(d, n). Ok (d @ drop sz dAtA, n)))"

section \<open>Decoding\<close>

definition byte_at :: "bytes \<Rightarrow> nat \<Rightarrow> u64" where
  "byte_at dAtA i = of_nat (of_char (dAtA ! i) :: nat)"

text \<open>The loop that reads a variable-length integer at index \<open>i\<close>.\<close>

function readVarint :: "bytes \<Rightarrow> nat \<Rightarrow> u64 \<Rightarrow> nat \<Rightarrow> (u64 \<times> nat) outcome" where
  "readVarint dAtA shift acc i =
     (if shift \<ge> 64 then Err ErrIntOverflow
      else if i \<ge> length dAtA then Err ErrUnexpectedEOF
      else let b = byte_at dAtA i; acc' = acc OR push_bit shift (b AND 0x7F)
           in if b < 0x80 then Ok (acc', i + 1) else readVarint dAtA (shift + 7) acc' (i + 1))"
  by auto
termination by (relation "measure (\<lambda>(dAtA, shift, acc, i). 64 - shift)") auto

declare readVarint.simps [simp del]

text \<open>
  A length-delimited field: the bytes and the index after them. An \<open>int\<close> is negative from \<open>2 ^ 63\<close>
  on, so a sum of indices that reaches it is the wrapped, negative one of the code.
\<close>

definition readBytes :: "bytes \<Rightarrow> nat \<Rightarrow> (bytes \<times> nat) outcome" where
  "readBytes dAtA i =
     bindO (readVarint dAtA 0 0 i) (\<lambda>(len, iNdEx).
       if sint len < 0 then Err ErrInvalidLength
       else let postIndex = iNdEx + unat len
            in if postIndex \<ge> 2 ^ 63 then Err ErrInvalidLength
               else if postIndex > length dAtA then Err ErrUnexpectedEOF
               else Ok (take (unat len) (drop iNdEx dAtA), postIndex))"

lemma readVarint_gt: "readVarint d s a i = Ok (v, j) \<Longrightarrow> i < j \<and> j \<le> length d"
proof (induction d s a i rule: readVarint.induct)
  case (1 d s a i)
  then show ?case
    by (subst (asm) (2) readVarint.simps) (fastforce simp: Let_def split: if_splits)
qed

lemma readVarint_not_Panic: "readVarint d s a i \<noteq> Panic e"
proof (induction d s a i rule: readVarint.induct)
  case (1 d s a i)
  then show ?case by (subst readVarint.simps) (simp add: Let_def)
qed

text \<open>The switch of \<open>skip\<close> on the wire type: the new depth and index.\<close>

definition skip_switch :: "bytes \<Rightarrow> nat \<Rightarrow> nat \<Rightarrow> nat \<Rightarrow> (nat \<times> nat) outcome" where
  "skip_switch dAtA wireType depth i =
     (if wireType = 0 then bindO (readVarint dAtA 0 0 i) (\<lambda>(_, i'). Ok (depth, i'))
      else if wireType = 1 then Ok (depth, i + 8)
      else if wireType = 2 then bindO (readVarint dAtA 0 0 i) (\<lambda>(len, i').
        if sint len < 0 then Err ErrInvalidLength else Ok (depth, i' + unat len))
      else if wireType = 3 then Ok (depth + 1, i)
      else if wireType = 4 then
        (if depth = 0 then Err ErrUnexpectedEndOfGroup else Ok (depth - 1, i))
      else if wireType = 5 then Ok (depth, i + 4)
      else Err (New (''proto: illegal wireType '' @ show_nat wireType)))"

lemma skip_switch_cases:
  "(\<exists>e. skip_switch d t depth i = Err e) \<or> (\<exists>depth' j. skip_switch d t depth i = Ok (depth', j) \<and> i \<le> j)"
proof (cases "readVarint d 0 0 i")
  case (Ok p)
  obtain v j where p: "p = (v, j)" by force
  with Ok have "i < j" by (auto dest: readVarint_gt)
  with Ok p show ?thesis by (auto simp: skip_switch_def)
qed (auto simp: skip_switch_def readVarint_not_Panic)

text \<open>\<open>skip\<close>: the length of the field at the start of the slice, groups included.\<close>

function skip :: "bytes \<Rightarrow> nat \<Rightarrow> nat \<Rightarrow> nat outcome" where
  "skip dAtA depth iNdEx =
     (if iNdEx \<ge> length dAtA then Err ErrUnexpectedEOF
      else case readVarint dAtA 0 0 iNdEx of
        Err e \<Rightarrow> Err e
      | Panic e \<Rightarrow> Panic e
      | Ok (wire, i) \<Rightarrow>
          (case skip_switch dAtA (unat (wire AND 0x7)) depth i of
             Err e \<Rightarrow> Err e
           | Panic e \<Rightarrow> Panic e
           | Ok (depth', i') \<Rightarrow>
               if i' \<ge> 2 ^ 63 then Err ErrInvalidLength
               else if depth' = 0 then Ok i' else skip dAtA depth' i'))"
  by auto
termination
proof (relation "measure (\<lambda>(dAtA, depth, iNdEx). length dAtA - iNdEx)", goal_cases)
  case (2 dAtA depth iNdEx x1 wire i x1a depth' i')
  have "i \<le> i'" using skip_switch_cases [of dAtA "unat (wire AND 0x7)" depth i] 2(4,5) by auto
  moreover have "iNdEx < i" using 2(2,3) by (auto dest: readVarint_gt)
  ultimately show ?case using 2(1) by auto
qed simp

declare skip.simps [simp del]

text \<open>A field of a known number, by kind; \<open>upd\<close> stores the value into the message.\<close>

definition wrongWireType :: "nat \<Rightarrow> string \<Rightarrow> go_error" where
  "wrongWireType wireType name =
     New (''proto: wrong wireType = '' @ show_nat wireType @ '' for field '' @ name)"

definition get_uint ::
    "string \<Rightarrow> (u64 \<Rightarrow> 'm) \<Rightarrow> nat \<Rightarrow> bytes \<Rightarrow> nat \<Rightarrow> ('m \<times> nat) outcome option" where
  "get_uint name upd wireType dAtA i =
     Some (if wireType \<noteq> 0 then Err (wrongWireType wireType name)
           else bindO (readVarint dAtA 0 0 i) (\<lambda>(v, i'). Ok (upd v, i')))"

definition get_bytes ::
    "string \<Rightarrow> (bytes \<Rightarrow> 'm) \<Rightarrow> nat \<Rightarrow> bytes \<Rightarrow> nat \<Rightarrow> ('m \<times> nat) outcome option" where
  "get_bytes name upd wireType dAtA i =
     Some (if wireType \<noteq> 2 then Err (wrongWireType wireType name)
           else bindO (readBytes dAtA i) (\<lambda>(s, i'). Ok (upd s, i')))"

definition get_message ::
    "string \<Rightarrow> (bytes \<Rightarrow> 'n outcome option) \<Rightarrow> ('n \<Rightarrow> 'm) \<Rightarrow> nat \<Rightarrow> bytes \<Rightarrow> nat
     \<Rightarrow> ('m \<times> nat) outcome option" where
  "get_message name unmarshal upd wireType dAtA i =
     (if wireType \<noteq> 2 then Some (Err (wrongWireType wireType name))
      else case readBytes dAtA i of
             Err e \<Rightarrow> Some (Err e)
           | Panic e \<Rightarrow> Some (Panic e)
           | Ok (s, i') \<Rightarrow>
               (case unmarshal s of
                  None \<Rightarrow> None
                | Some r \<Rightarrow> Some (bindO r (\<lambda>n. Ok (upd n, i')))))"

text \<open>
  The loop of \<open>Unmarshal\<close>: \<open>field\<close> is the switch on the field number, \<open>None\<close> its default case.
\<close>

type_synonym 'm switch = "int \<Rightarrow> nat \<Rightarrow> bytes \<Rightarrow> nat \<Rightarrow> 'm \<Rightarrow> ('m \<times> nat) outcome option option"

partial_function (option) unmarshal_loop ::
    "string \<Rightarrow> 'm switch \<Rightarrow> bytes \<Rightarrow> nat \<Rightarrow> 'm \<Rightarrow> 'm outcome option" where
  "unmarshal_loop name field dAtA iNdEx m =
     (if iNdEx > length dAtA then Some (Err ErrUnexpectedEOF)
      else if iNdEx = length dAtA then Some (Ok m)
      else (case readVarint dAtA 0 0 iNdEx of
        Err e \<Rightarrow> Some (Err e)
      | Panic e \<Rightarrow> Some (Panic e)
      | Ok (wire, i) \<Rightarrow>
          let fieldNum = sint (ucast (drop_bit 3 wire) :: 32 word); wireType = unat (wire AND 0x7)
          in if wireType = 4
             then Some (Err (New (''proto: '' @ name @ '': wiretype end group for non-group'')))
             else if fieldNum \<le> 0
             then Some (Err (New (''proto: '' @ name @ '': illegal tag '' @ show_int fieldNum
                    @ '' (wire type '' @ show_u64 wire @ '')'')))
             else (case field fieldNum wireType dAtA i m of
                     Some None \<Rightarrow> None
                   | Some (Some (Err e)) \<Rightarrow> Some (Err e)
                   | Some (Some (Panic e)) \<Rightarrow> Some (Panic e)
                   | Some (Some (Ok (m', i'))) \<Rightarrow> unmarshal_loop name field dAtA i' m'
                   | None \<Rightarrow>
                       (case skip (drop iNdEx dAtA) 0 0 of
                          Err e \<Rightarrow> Some (Err e)
                        | Panic e \<Rightarrow> Some (Panic e)
                        | Ok skippy \<Rightarrow>
                            if iNdEx + skippy \<ge> 2 ^ 63 then Some (Err ErrInvalidLength)
                            else if iNdEx + skippy > length dAtA then Some (Err ErrUnexpectedEOF)
                            else unmarshal_loop name field dAtA (iNdEx + skippy) m))))"

definition unmarshal :: "string \<Rightarrow> 'm switch \<Rightarrow> bytes \<Rightarrow> 'm \<Rightarrow> 'm outcome option" where
  "unmarshal name field dAtA m = unmarshal_loop name field dAtA 0 m"

section \<open>Lemmas\<close>

subsection \<open>Variable-length integers\<close>

text \<open>The reference encoding.\<close>

function varint :: "nat \<Rightarrow> bytes" where
  "varint n = (if n < 128 then [char_of n] else char_of (n mod 128 + 128) # varint (n div 128))"
  by auto
termination by (relation "measure id") auto

declare varint.simps [simp del]

lemma Len64_0 [simp]: "Len64 0 = 0"
  by (simp add: Len64.simps)

lemma Len64_pos: "0 < n \<Longrightarrow> Len64 n = Suc (Len64 (n div 2))"
  by (simp add: Len64.simps)

lemma Len64_div128:
  assumes "128 \<le> n"
  shows "Len64 n = 7 + Len64 (n div 128)"
proof -
  have "Len64 n = 7 + Len64 (n div 2 div 2 div 2 div 2 div 2 div 2 div 2)"
    using assms by (simp add: Len64_pos div_mult2_eq [symmetric])
  then show ?thesis by (simp add: div_mult2_eq [symmetric])
qed

lemma Len64_small: "0 < n \<Longrightarrow> n < 2 ^ k \<Longrightarrow> 1 \<le> Len64 n \<and> Len64 n \<le> k"
proof (induction k arbitrary: n)
  case (Suc k)
  then show ?case
    by (cases "n div 2 = 0") (auto simp: Len64_pos less_mult_imp_div_less)
qed simp

lemma Len64_or_1: "0 < n \<Longrightarrow> Len64 (n OR 1) = Len64 n"
  by (simp add: Len64_pos or_Suc_0_eq)

lemma length_varint: "length (varint n) = (Len64 (n OR 1) + 6) div 7"
proof (induction n rule: varint.induct)
  case (1 n)
  show ?case
  proof (cases "n < 128")
    case True
    then have "0 < n OR 1" "n OR 1 < 2 ^ 7" by (auto simp: or_Suc_0_eq elim!: evenE intro: odd_pos)
    from Len64_small [OF this] have "(Len64 (n OR 1) + 6) div 7 = 1" by linarith
    with True show ?thesis by (simp add: varint.simps)
  next
    case False
    then have "Len64 (n OR 1) = 7 + Len64 (n div 128 OR 1)"
      using Len64_or_1 [of n] Len64_or_1 [of "n div 128"] Len64_div128 [of n] by simp
    with False 1 show ?thesis by (simp add: varint.simps [of n])
  qed
qed

lemma unat_or_1: "unat (v OR 1 :: u64) = unat v OR 1"
  by (simp add: unsigned_or_eq)

lemma sov_eq: "sov v = length (varint (unat v))"
  unfolding sov_def length_varint unat_or_1 ..

lemma sov_bounds: "1 \<le> sov v" "sov v \<le> 10"
proof -
  have "unat (v OR 1) < 2 ^ LENGTH(64)" by (rule unsigned_less)
  moreover have "0 < unat (v OR 1)" by (auto simp: unat_or_1 or_Suc_0_eq intro: odd_pos)
  ultimately have "1 \<le> Len64 (unat (v OR 1)) \<and> Len64 (unat (v OR 1)) \<le> 64" by (intro Len64_small) simp_all
  then show "1 \<le> sov v" "sov v \<le> 10" unfolding sov_def by linarith+
qed

lemma low_bits: "unat (v AND 0x7f :: u64) = unat v mod 128"
proof -
  have "unat (v AND 0x7f) = unat v AND 127" by (simp add: unsigned_and_eq)
  also have "\<dots> = take_bit 7 (unat v)" by (simp add: take_bit_eq_mask mask_eq_exp_minus_1)
  finally show ?thesis by (simp add: take_bit_eq_mod)
qed

lemma or_push_bit: "a < 2 ^ k \<Longrightarrow> a OR push_bit k b = a + b * 2 ^ k" for a b :: nat
proof -
  assume "a < 2 ^ k"
  then have a: "take_bit k a = a" by (simp add: take_bit_nat_eq_self_iff)
  have "\<not> bit a n \<or> \<not> bit (push_bit k b) n" for n
    using arg_cong [OF a, of "\<lambda>x. bit x n"] by (auto simp: bit_simps)
  then have "a OR push_bit k b = a + push_bit k b" by (rule disjunctive_add [symmetric])
  then show ?thesis by (simp add: push_bit_eq_mult)
qed

lemma high_bit: "unat (v AND 0x7f OR 0x80 :: u64) = unat v mod 128 + 128"
proof -
  have "unat (v AND 0x7f OR 0x80) = unat v mod 128 OR 128" by (simp add: unsigned_or_eq low_bits)
  then show ?thesis using or_push_bit [of "unat v mod 128" 7 1] by (simp add: push_bit_eq_mult)
qed

lemma uint8_high: "128 \<le> v \<Longrightarrow> uint8 (v AND 0x7f OR 0x80) = char_of (unat v mod 128 + 128)"
  unfolding uint8_def high_bit by (simp add: mod_less)

lemma uint8_low: "v < 128 \<Longrightarrow> uint8 v = char_of (unat v)"
  by (simp add: uint8_def word_less_nat_alt)

lemma unat_drop_7: "unat (drop_bit 7 v :: u64) = unat v div 128"
  by (simp add: drop_bit_eq_div unat_div)

lemma encode_loop_eq:
  "offset + length (varint (unat v)) \<le> length d \<Longrightarrow>
   encode_loop d offset v = Ok (take offset d @ varint (unat v) @ drop (offset + length (varint (unat v))) d)"
proof (induction d offset v rule: encode_loop.induct)
  case (1 d offset v)
  show ?case
  proof (cases "v \<ge> 128")
    case False
    then have "unat v < 128" by (simp add: word_le_nat_alt)
    then have v: "varint (unat v) = [char_of (unat v)]" by (simp add: varint.simps)
    with 1(2) False show ?thesis
      by (simp add: encode_loop.simps [of d] uint8_low upd_conv_take_nth_drop)
  next
    case True
    then have "\<not> unat v < 128" by (simp add: word_le_nat_alt)
    then have v: "varint (unat v) = char_of (unat v mod 128 + 128) # varint (unat (drop_bit 7 v))"
      by (simp add: varint.simps [of "unat v"] unat_drop_7)
    with 1(2) True 1(1) show ?thesis
      by (simp add: encode_loop.simps [of d] uint8_high take_Suc_conv_app_nth take_update_swap
          list_update_append)
  qed
qed

subsection \<open>What the encoder writes\<close>

text \<open>
  \<open>writes p w\<close>: given room for \<open>w\<close> below the index, \<open>p\<close> puts \<open>w\<close> just below it, leaves the rest of
  the buffer, and moves the index to the start of \<open>w\<close>.
\<close>

definition writes :: "(bytes \<times> nat \<Rightarrow> (bytes \<times> nat) outcome) \<Rightarrow> bytes \<Rightarrow> bool" where
  "writes p w \<longleftrightarrow> (\<forall>d i. length w \<le> i \<longrightarrow> i \<le> length d \<longrightarrow>
     p (d, i) = Ok (take (i - length w) d @ w @ drop i d, i - length w))"

named_theorems writes_intros \<open>what the operations of the encoder write\<close>

lemma writesD:
  "writes p w \<Longrightarrow> length w \<le> i \<Longrightarrow> i \<le> length d \<Longrightarrow>
   p (d, i) = Ok (take (i - length w) d @ w @ drop i d, i - length w)"
  by (simp add: writes_def)

lemma writes_Ok [writes_intros]: "writes Ok []"
  by (simp add: writes_def)

lemma writes_put_byte [writes_intros]: "writes (put_byte b) [char_of b]"
  unfolding writes_def
proof (intro allI impI)
  fix d :: bytes and i :: nat
  assume "length [char_of b :: char] \<le> i" "i \<le> length d"
  then obtain j where "i = Suc j" "j < length d" by (cases i) auto
  then show "put_byte b (d, i) = Ok (take (i - length [char_of b :: char]) d @ [char_of b] @ drop i d,
      i - length [char_of b :: char])"
    by (simp add: put_byte_def upd_conv_take_nth_drop)
qed

lemma writes_put_copy [writes_intros]: "writes (put_copy s) s"
  by (simp add: writes_def put_copy_def)

lemma writes_encodeVarint [writes_intros]: "writes (encodeVarint v) (varint (unat v))"
  unfolding writes_def encodeVarint_def sov_eq by (auto simp: encode_loop_eq)

lemma writes_seqB [writes_intros]:
  assumes p: "writes p w1" and q: "writes q w2"
  shows "writes (seqB p q) (w2 @ w1)"
  unfolding writes_def
proof (intro allI impI)
  fix d :: bytes and i :: nat
  assume l: "length (w2 @ w1) \<le> i" "i \<le> length d"
  let ?d = "take (i - length w1) d @ w1 @ drop i d"
  have "p (d, i) = Ok (?d, i - length w1)" using p l by (auto intro: writesD)
  moreover have "q (?d, i - length w1) =
      Ok (take (i - length w1 - length w2) ?d @ w2 @ drop (i - length w1) ?d, i - length w1 - length w2)"
    using l by (intro writesD [OF q]) auto
  ultimately show "seqB p q (d, i) =
      Ok (take (i - length (w2 @ w1)) d @ (w2 @ w1) @ drop i d, i - length (w2 @ w1))"
    using l by (simp add: seqB_def min_def add.commute)
qed

lemma writes_put_uint [writes_intros]:
  "writes (put_uint tag v) (if v \<noteq> 0 then char_of tag # varint (unat v) else [])"
  using writes_seqB [OF writes_encodeVarint writes_put_byte, of v tag]
  by (simp add: put_uint_def writes_Ok)

text \<open>A length-delimited field.\<close>

definition delimited :: "nat \<Rightarrow> bytes \<Rightarrow> bytes" where
  "delimited tag s = char_of tag # varint (unat (of_nat (length s) :: u64)) @ s"

lemma length_delimited: "length (delimited tag s) = 1 + length s + sov (of_nat (length s))"
  by (simp add: delimited_def sov_eq)

lemma writes_put_bytes [writes_intros]:
  "writes (put_bytes tag s) (if s \<noteq> [] then delimited tag s else [])"
  using writes_seqB [OF writes_put_copy writes_seqB [OF writes_encodeVarint writes_put_byte], of s "of_nat (length s)" tag]
  by (simp add: put_bytes_def writes_Ok delimited_def)

text \<open>\<open>MarshalToSizedBuffer\<close> of a message whose fields are written: at the end of the buffer.\<close>

lemma marshalToSizedBuffer_eq:
  assumes "writes fields w" "length w \<le> length d"
  shows "marshalToSizedBuffer fields d = Ok (take (length d - length w) d @ w, length w)"
  using writesD [OF assms(1), of "length d" d] assms(2) by (simp add: marshalToSizedBuffer_def)

lemma writes_put_message [writes_intros]:
  assumes "writes fields w"
  shows "writes (put_message tag (marshalToSizedBuffer fields)) (delimited tag w)"
  unfolding writes_def
proof (intro allI impI)
  fix d :: bytes and i :: nat
  assume l: "length (delimited tag w) \<le> i" "i \<le> length d"
  let ?d = "take (i - length w) d @ w @ drop i d"
  have wi: "length w \<le> i" using l by (simp add: delimited_def)
  then have w: "length w \<le> length (take i d)" using l by simp
  have "put_message tag (marshalToSizedBuffer fields) (d, i) =
      seqB (encodeVarint (of_nat (length w))) (put_byte tag) (?d, i - length w)"
    using l wi by (simp add: put_message_def marshalToSizedBuffer_eq [OF assms w] min_def)
  also have "\<dots> = Ok (take (i - length w - length ([char_of tag] @ varint (unat (of_nat (length w) :: u64)))) ?d
      @ ([char_of tag] @ varint (unat (of_nat (length w) :: u64))) @ drop (i - length w) ?d,
      i - length w - length ([char_of tag] @ varint (unat (of_nat (length w) :: u64))))"
    using l by (intro writesD [OF writes_seqB [OF writes_encodeVarint writes_put_byte]])
      (auto simp: delimited_def)
  finally show "put_message tag (marshalToSizedBuffer fields) (d, i) =
      Ok (take (i - length (delimited tag w)) d @ delimited tag w @ drop i d, i - length (delimited tag w))"
    using l by (simp add: delimited_def min_def add.commute)
qed

lemma writes_put_messages [writes_intros]:
  assumes "\<And>m. writes (fields m) (w m)"
  shows "writes (put_messages tag (\<lambda>m. marshalToSizedBuffer (fields m)) ms) (concat (map (\<lambda>m. delimited tag (w m)) ms))"
proof (induction ms)
  case (Cons m ms)
  then show ?case
    using writes_seqB [OF Cons writes_put_message [OF assms [of m]], of tag] by simp
qed (simp add: writes_Ok)

subsection \<open>Reading what was written\<close>

lemma drop_ConsD: "drop i d = b # r \<Longrightarrow> i < length d \<and> d ! i = b \<and> drop (Suc i) d = r"
  by (metis Cons_nth_drop_Suc drop_all list.discI list.inject not_less)

lemma unat_or_shift:
  assumes "unat acc < 2 ^ shift" "unat x * 2 ^ shift < 2 ^ 64"
  shows "unat (acc OR push_bit shift x :: u64) = unat acc + unat x * 2 ^ shift"
proof -
  have "unat (push_bit shift x) = take_bit 64 (push_bit shift (unat x))"
    using unsigned_push_bit_eq [of shift x, where 'a = nat] by simp
  also have "\<dots> = push_bit shift (unat x)"
    using assms(2) by (simp add: push_bit_eq_mult take_bit_nat_eq_self_iff)
  finally have "unat (acc OR push_bit shift x) = unat acc OR push_bit shift (unat x)"
    by (simp add: unsigned_or_eq)
  with or_push_bit [OF assms(1)] show ?thesis by simp
qed

lemma byte_at_char: "drop i d = char_of n # r \<Longrightarrow> n < 256 \<Longrightarrow> byte_at d i = of_nat n"
  by (simp add: byte_at_def drop_ConsD)

lemma readVarint_step:
  assumes "drop i d = char_of b # r" "b < 256" "shift < 64" "unat acc < 2 ^ shift" "b mod 128 * 2 ^ shift < 2 ^ 64"
  shows "\<exists>acc'. unat acc' = unat acc + b mod 128 * 2 ^ shift \<and>
    readVarint d shift acc i = (if b < 128 then Ok (acc', i + 1) else readVarint d (shift + 7) acc' (i + 1))"
proof -
  have b: "byte_at d i = of_nat b" using assms(1,2) by (rule byte_at_char)
  have u: "unat (of_nat b :: u64) = b" using assms(2) by (simp add: unsigned_of_nat take_bit_nat_eq_self_iff)
  have x: "unat ((of_nat b :: u64) AND 0x7F) = b mod 128" using low_bits [of "of_nat b"] u by simp
  have lt: "(of_nat b :: u64) < 0x80 \<longleftrightarrow> b < 128" using u by (simp add: word_less_nat_alt)
  have "i < length d" using assms(1) by (simp add: drop_ConsD)
  then show ?thesis
    using unat_or_shift [OF assms(4), of "of_nat b AND 0x7F"] assms(3,5) x
    by (subst readVarint.simps) (auto simp: b lt Let_def)
qed

lemma readVarint_acc:
  "drop i d = varint n @ r \<Longrightarrow> n * 2 ^ shift < 2 ^ 64 \<Longrightarrow> shift < 64 \<Longrightarrow> unat acc < 2 ^ shift \<Longrightarrow>
   \<exists>w. unat w = unat acc + n * 2 ^ shift \<and> readVarint d shift acc i = Ok (w, i + length (varint n))"
proof (induction n arbitrary: i shift acc rule: varint.induct)
  case (1 n)
  show ?case
  proof (cases "n < 128")
    case True
    then have v: "varint n = [char_of n]" by (simp add: varint.simps)
    with 1(2) have "drop i d = char_of n # r" by simp
    from readVarint_step [OF this, of shift acc] True 1 v show ?thesis by auto
  next
    case False
    then have v: "varint n = char_of (n mod 128 + 128) # varint (n div 128)" by (simp add: varint.simps [of n])
    with 1(2) have d: "drop i d = char_of (n mod 128 + 128) # varint (n div 128) @ r" by simp
    have split: "n * 2 ^ shift = n mod 128 * 2 ^ shift + n div 128 * 2 ^ (shift + 7)"
    proof -
      have "n * 2 ^ shift = (n div 128 * 128 + n mod 128) * 2 ^ shift" by simp
      then show ?thesis unfolding distrib_right power_add by simp
    qed
    have "2 ^ (shift + 7) \<le> n * 2 ^ shift" using False by (simp add: power_add)
    with 1(3) have "2 ^ (shift + 7) < (2 ^ 64 :: nat)" by linarith
    then have sh: "shift + 7 < 64" by (rule power_less_imp_less_exp [rotated]) simp
    from readVarint_step [OF d, of shift acc] 1(3-5) split obtain acc' where
      a: "unat acc' = unat acc + n mod 128 * 2 ^ shift"
      and rd: "readVarint d shift acc i = readVarint d (shift + 7) acc' (i + 1)" by auto
    have "n mod 128 * 2 ^ shift \<le> 127 * 2 ^ shift" by (intro mult_right_mono) auto
    moreover have "2 ^ (shift + 7) = 128 * (2 ^ shift :: nat)" by (simp add: power_add)
    ultimately have "unat acc' < 2 ^ (shift + 7)" using a 1(5) by linarith
    with 1(1) [OF False, of "i + 1" "shift + 7" acc'] d sh 1(3) split obtain w where
      "unat w = unat acc' + n div 128 * 2 ^ (shift + 7)"
      "readVarint d (shift + 7) acc' (i + 1) = Ok (w, i + 1 + length (varint (n div 128)))"
      by (auto dest: drop_ConsD)
    with rd a v split show ?thesis by auto
  qed
qed

lemma readVarint_varint:
  assumes "drop i d = varint (unat v) @ r"
  shows "readVarint d 0 0 i = Ok (v, i + length (varint (unat v)))"
proof -
  have "unat v < 2 ^ LENGTH(64)" by (rule unsigned_less)
  with readVarint_acc [OF assms, of 0 0] obtain w where
    "unat w = unat v" "readVarint d 0 0 i = Ok (w, i + length (varint (unat v)))" by auto
  then show ?thesis by (metis unsigned_word_eqI)
qed

lemma readVarint_tag:
  assumes "drop i d = char_of tag # r" "tag < 128"
  shows "readVarint d 0 0 i = Ok (of_nat tag, i + 1)"
proof -
  have u: "unat (of_nat tag :: u64) = tag" using assms(2) by (simp add: unsigned_of_nat take_bit_nat_eq_self_iff)
  have "drop i d = varint (unat (of_nat tag :: u64)) @ r" using assms by (simp add: u varint.simps)
  from readVarint_varint [OF this] show ?thesis using assms(2) by (simp add: u varint.simps)
qed

lemma readBytes_delimited:
  assumes d: "drop i d = varint (unat (of_nat (length s) :: u64)) @ s @ r" and len: "length d < 2 ^ 63"
  shows "readBytes d i = Ok (s, i + length (varint (unat (of_nat (length s) :: u64))) + length s)"
proof -
  let ?v = "varint (unat (of_nat (length s) :: u64))"
  from arg_cong [OF d, of length] have l: "i + length ?v + length s + length r = length d"
    by (cases "i \<le> length d") (auto simp: varint.simps [of "unat (of_nat (length s) :: u64)"] split: if_splits)
  have s: "length s < 2 ^ 63" using l len by linarith
  then have u: "unat (of_nat (length s) :: u64) = length s"
    by (simp add: unsigned_of_nat take_bit_nat_eq_self_iff)
  have sg: "sint (of_nat (length s) :: u64) = int (length s)"
    using s by (simp add: signed_of_nat signed_take_bit_int_eq_self)
  have "drop (i + length ?v) d = s @ r"
    using arg_cong [OF d, of "drop (length ?v)"] by (simp add: add.commute)
  then show ?thesis
    using readVarint_varint [OF d] l len s by (simp add: readBytes_def u sg)
qed

subsection \<open>Decoding a message\<close>

text \<open>
  \<open>consumes name field w m m'\<close>: where \<open>w\<close> stands at the index, the loop stores its fields, turning
  \<open>m\<close> into \<open>m'\<close>, and goes on after it.
\<close>

definition consumes :: "string \<Rightarrow> 'm switch \<Rightarrow> bytes \<Rightarrow> 'm \<Rightarrow> 'm \<Rightarrow> bool" where
  "consumes name field w m m' \<longleftrightarrow> (\<forall>d i r. drop i d = w @ r \<longrightarrow> i \<le> length d \<longrightarrow> length d < 2 ^ 63 \<longrightarrow>
     unmarshal_loop name field d i m = unmarshal_loop name field d (i + length w) m')"

lemma consumes_Nil: "consumes name field [] m m"
  by (simp add: consumes_def)

lemma consumes_append:
  assumes "consumes name field w m m1" "consumes name field w' m1 m2"
  shows "consumes name field (w @ w') m m2"
  unfolding consumes_def
proof (intro allI impI)
  fix d r :: bytes and i :: nat
  assume d: "drop i d = (w @ w') @ r" "i \<le> length d" "length d < 2 ^ 63"
  have "drop (i + length w) d = w' @ r"
    using arg_cong [OF d(1), of "drop (length w)"] by (simp add: add.commute)
  moreover have "i + length w \<le> length d"
    using arg_cong [OF d(1), of length] d(2) by auto
  ultimately show "unmarshal_loop name field d i m = unmarshal_loop name field d (i + length (w @ w')) m2"
    using assms d unfolding consumes_def by (simp add: add.assoc)
qed

lemma unmarshal_consumes:
  assumes "consumes name field w m m'" "length w < 2 ^ 63"
  shows "unmarshal name field w m = Some (Ok m')"
  using assms(1) [unfolded consumes_def, rule_format, of 0 w "[]"] assms(2)
  by (simp add: unmarshal_def unmarshal_loop.simps [of _ _ _ "length w"])

text \<open>A tag of one byte: the field number and the wire type it carries.\<close>

lemma tag_parts:
  assumes "tag < 128"
  shows "sint (ucast (drop_bit 3 (of_nat tag :: u64)) :: 32 word) = int (tag div 8)"
    and "unat ((of_nat tag :: u64) AND 0x7) = tag mod 8"
proof -
  have u: "unat (of_nat tag :: u64) = tag" using assms by (simp add: unsigned_of_nat take_bit_nat_eq_self_iff)
  have u8: "unat (of_nat (tag div 8) :: u64) = tag div 8"
    using assms by (simp add: unsigned_of_nat take_bit_nat_eq_self_iff)
  have "drop_bit 3 (of_nat tag :: u64) = of_nat (tag div 8)"
    by (rule unsigned_word_eqI [where 'a = nat]) (simp only: u8, simp add: drop_bit_eq_div unat_div u)
  then show "sint (ucast (drop_bit 3 (of_nat tag :: u64)) :: 32 word) = int (tag div 8)"
    using assms by (simp add: unsigned_of_nat take_bit_nat_eq_self signed_of_nat signed_take_bit_int_eq_self)
  have "unat ((of_nat tag :: u64) AND 0x7) = take_bit 3 (unat (of_nat tag :: u64))"
    by (simp add: unsigned_and_eq take_bit_eq_mask mask_eq_exp_minus_1)
  then show "unat ((of_nat tag :: u64) AND 0x7) = tag mod 8" by (simp add: u take_bit_eq_mod)
qed

lemma loop_field:
  assumes d: "drop i d = char_of tag # r" and i: "i \<le> length d" and tag: "8 \<le> tag" "tag < 128" "tag mod 8 \<noteq> 4"
    and f: "field (int (tag div 8)) (tag mod 8) d (i + 1) m = Some (Some (Ok (m', j)))"
  shows "unmarshal_loop name field d i m = unmarshal_loop name field d j m'"
proof -
  have "i < length d" using d by (simp add: drop_ConsD)
  moreover have "\<not> int (tag div 8) \<le> 0" using tag(1) by auto
  ultimately show ?thesis
    by (subst unmarshal_loop.simps)
      (use f in \<open>simp add: readVarint_tag [OF d tag(2)] tag_parts [OF tag(2)] tag(3)\<close>)
qed

lemma consumes_uint:
  assumes "tag = 8 * n" "0 < n" "n < 16"
    and "\<And>d i. field (int n) 0 d i m = Some (get_uint nm upd 0 d i)"
  shows "consumes name field (char_of tag # varint (unat v)) m (upd v)"
  unfolding consumes_def
proof (intro allI impI)
  fix d r :: bytes and i :: nat
  assume d: "drop i d = (char_of tag # varint (unat v)) @ r" "i \<le> length d"
  have t: "tag div 8 = n" "tag mod 8 = 0" "8 \<le> tag" "tag < 128" using assms(1-3) by presburger+
  from d have "drop (Suc i) d = varint (unat v) @ r" by (auto dest: drop_ConsD)
  from readVarint_varint [OF this] have
    "field (int (tag div 8)) (tag mod 8) d (i + 1) m = Some (Some (Ok (upd v, i + length (char_of tag # varint (unat v)))))"
    using assms(4) t by (simp add: get_uint_def)
  with d t show "unmarshal_loop name field d i m =
      unmarshal_loop name field d (i + length (char_of tag # varint (unat v))) (upd v)"
    by (intro loop_field) auto
qed

lemma consumes_bytes:
  assumes "tag = 8 * n + 2" "0 < n" "n < 15"
    and "\<And>d i. field (int n) 2 d i m = Some (get_bytes nm upd 2 d i)"
  shows "consumes name field (delimited tag s) m (upd s)"
  unfolding consumes_def
proof (intro allI impI)
  fix d r :: bytes and i :: nat
  assume d: "drop i d = delimited tag s @ r" "i \<le> length d" "length d < 2 ^ 63"
  have t: "tag div 8 = n" "tag mod 8 = 2" "8 \<le> tag" "tag < 128" using assms(1-3) by presburger+
  from d have "drop (Suc i) d = varint (unat (of_nat (length s) :: u64)) @ s @ r"
    by (auto simp: delimited_def dest: drop_ConsD)
  from readBytes_delimited [OF this d(3)] have
    "field (int (tag div 8)) (tag mod 8) d (i + 1) m = Some (Some (Ok (upd s, i + length (delimited tag s))))"
    using assms(4) t by (simp add: get_bytes_def delimited_def add.assoc)
  with d t show "unmarshal_loop name field d i m =
      unmarshal_loop name field d (i + length (delimited tag s)) (upd s)"
    by (intro loop_field) (auto simp: delimited_def)
qed

lemma consumes_message:
  assumes "tag = 8 * n + 2" "0 < n" "n < 15"
    and "\<And>d i. field (int n) 2 d i m = Some (get_message nm unm upd 2 d i)"
    and "unm s = Some (Ok x)"
  shows "consumes name field (delimited tag s) m (upd x)"
  unfolding consumes_def
proof (intro allI impI)
  fix d r :: bytes and i :: nat
  assume d: "drop i d = delimited tag s @ r" "i \<le> length d" "length d < 2 ^ 63"
  have t: "tag div 8 = n" "tag mod 8 = 2" "8 \<le> tag" "tag < 128" using assms(1-3) by presburger+
  from d have "drop (Suc i) d = varint (unat (of_nat (length s) :: u64)) @ s @ r"
    by (auto simp: delimited_def dest: drop_ConsD)
  from readBytes_delimited [OF this d(3)] have
    "field (int (tag div 8)) (tag mod 8) d (i + 1) m = Some (Some (Ok (upd x, i + length (delimited tag s))))"
    using assms(4,5) t by (simp add: get_message_def delimited_def add.assoc)
  with d t show "unmarshal_loop name field d i m =
      unmarshal_loop name field d (i + length (delimited tag s)) (upd x)"
    by (intro loop_field) (auto simp: delimited_def)
qed

text \<open>Optional fields: absent when the value is the zero value, which the message then still holds.\<close>

lemma consumes_uint_opt:
  assumes "tag = 8 * n" "0 < n" "n < 16"
    and "\<And>d i. field (int n) 0 d i m = Some (get_uint nm upd 0 d i)" and "upd 0 = m"
  shows "consumes name field (if v \<noteq> 0 then char_of tag # varint (unat v) else []) m (upd v)"
  using consumes_uint [where field = field and upd = upd, OF assms(1-4)] assms(5) by (auto simp: consumes_Nil)

lemma consumes_bytes_opt:
  assumes "tag = 8 * n + 2" "0 < n" "n < 15"
    and "\<And>d i. field (int n) 2 d i m = Some (get_bytes nm upd 2 d i)" and "upd [] = m"
  shows "consumes name field (if s \<noteq> [] then delimited tag s else []) m (upd s)"
  using consumes_bytes [where field = field and upd = upd, OF assms(1-4)] assms(5) by (auto simp: consumes_Nil)

text \<open>A repeated field.\<close>

lemma consumes_list:
  "(\<And>m x. x \<in> set xs \<Longrightarrow> consumes name field (w x) m (add x m)) \<Longrightarrow>
   consumes name field (concat (map w xs)) m (fold add xs m)"
  by (induction xs arbitrary: m) (auto intro: consumes_Nil consumes_append)

lemma length_in_concat: "x \<in> set xs \<Longrightarrow> length (w x) \<le> length (concat (map (\<lambda>e. delimited tag (w e)) xs))"
  by (induction xs) (auto simp: delimited_def)

subsection \<open>The decoder ends on every input\<close>

text \<open>The switch of a message reads forward, inside the input, and neither diverges nor panics.\<close>

definition forward :: "('m \<times> nat) outcome option \<Rightarrow> nat \<Rightarrow> nat \<Rightarrow> bool" where
  "forward r i l \<longleftrightarrow> (\<exists>e. r = Some (Err e)) \<or> (\<exists>m j. r = Some (Ok (m, j)) \<and> i \<le> j \<and> j \<le> l)"

definition safe_switch :: "'m switch \<Rightarrow> bool" where
  "safe_switch field \<longleftrightarrow> (\<forall>n t d i m r. field n t d i m = Some r \<longrightarrow> forward r i (length d))"

lemma readBytes_forward:
  "(\<exists>e. readBytes d i = Err e) \<or> (\<exists>s j. readBytes d i = Ok (s, j) \<and> i \<le> j \<and> j \<le> length d)"
proof (cases "readVarint d 0 0 i")
  case (Ok p)
  obtain v j where p: "p = (v, j)" by force
  with Ok have "i < j" by (auto dest: readVarint_gt)
  with Ok p show ?thesis
    by (cases "sint v < 0"; cases "length d < j + unat v") (simp_all add: readBytes_def Let_def)
qed (auto simp: readBytes_def readVarint_not_Panic)

lemma forward_uint: "forward (get_uint nm upd t d i) i (length d)"
  by (cases "readVarint d 0 0 i")
    (auto simp: forward_def get_uint_def readVarint_not_Panic dest: readVarint_gt)

lemma forward_bytes: "forward (get_bytes nm upd t d i) i (length d)"
  using readBytes_forward [of d i] by (auto simp: forward_def get_bytes_def)

lemma forward_message:
  assumes "\<And>s. (\<exists>e. unm s = Some (Err e)) \<or> (\<exists>x. unm s = Some (Ok x))"
  shows "forward (get_message nm unm upd t d i) i (length d)"
proof (cases "readBytes d i")
  case (Ok p)
  obtain s j where p: "p = (s, j)" by force
  with Ok readBytes_forward [of d i] assms [of s] show ?thesis
    by (auto simp: forward_def get_message_def)
qed (use readBytes_forward [of d i] in \<open>auto simp: forward_def get_message_def\<close>)

lemma skip_cases: "(\<exists>e. skip d depth i = Err e) \<or> (\<exists>j. skip d depth i = Ok j \<and> i < j)"
proof (induction d depth i rule: skip.induct)
  case (1 d depth i)
  show ?case
  proof (cases "i \<ge> length d \<or> (\<exists>e. readVarint d 0 0 i = Err e)")
    case True
    then show ?thesis by (subst (1 2) skip.simps) auto
  next
    case False
    then obtain wire j where j: "readVarint d 0 0 i = Ok (wire, j)"
      by (cases "readVarint d 0 0 i") (auto simp: readVarint_not_Panic)
    then have ij: "i < j" by (auto dest: readVarint_gt)
    consider e where "skip_switch d (unat (wire AND 7)) depth j = Err e"
      | depth' j' where "skip_switch d (unat (wire AND 7)) depth j = Ok (depth', j')" "j \<le> j'"
      using skip_switch_cases by metis
    then show ?thesis
    proof cases
      case 1
      with False j show ?thesis by (subst (1 2) skip.simps) simp
    next
      case 2
      with False j 1 [OF _ j _ 2(1)] ij show ?thesis
        by (subst (1 2) skip.simps) (auto intro: less_trans)
    qed
  qed
qed

lemma unmarshal_loop_total:
  assumes safe: "safe_switch field"
  shows "(\<exists>e. unmarshal_loop name field d i m = Some (Err e)) \<or> (\<exists>m'. unmarshal_loop name field d i m = Some (Ok m'))"
proof (induction "length d - i" arbitrary: i m rule: less_induct)
  case less
  show ?case
  proof (cases "i \<ge> length d \<or> (\<exists>e. readVarint d 0 0 i = Err e)")
    case True
    then show ?thesis by (subst (1 2) unmarshal_loop.simps) auto
  next
    case False
    then obtain wire j where j: "readVarint d 0 0 i = Ok (wire, j)"
      by (cases "readVarint d 0 0 i") (auto simp: readVarint_not_Panic)
    then have ij: "i < j" by (auto dest: readVarint_gt)
    let ?n = "sint (ucast (drop_bit 3 wire) :: 32 word)" and ?t = "unat (wire AND 7)"
    note step = unmarshal_loop.simps [of name field d i m]
    show ?thesis
    proof (cases "?t = 4 \<or> ?n \<le> 0")
      case True
      with False j show ?thesis unfolding step by (auto simp: Let_def)
    next
      case tag: False
      show ?thesis
      proof (cases "field ?n ?t d j m")
        case (Some r)
        with safe have "forward r j (length d)" by (auto simp: safe_switch_def)
        then consider e where "r = Some (Err e)" | m' k where "r = Some (Ok (m', k))" "j \<le> k" "k \<le> length d"
          by (auto simp: forward_def)
        then show ?thesis
        proof cases
          case 2
          then have "unmarshal_loop name field d i m = unmarshal_loop name field d k m'"
            using tag Some False j unfolding step by (simp add: Let_def)
          with less [of k m'] 2 ij False show ?thesis by auto
        qed (use tag Some False j in \<open>simp add: step Let_def\<close>)
      next
        case None
        consider e where "skip (drop i d) 0 0 = Err e" | k where "skip (drop i d) 0 0 = Ok k" "0 < k"
          using skip_cases [of "drop i d" 0 0] by blast
        then show ?thesis
        proof cases
          case 2
          show ?thesis
          proof (cases "2 ^ 63 \<le> i + k \<or> length d < i + k")
            case True
            with tag None False j 2 show ?thesis unfolding step by (auto simp: Let_def)
          next
            case k: False
            with tag None False j 2 have "unmarshal_loop name field d i m = unmarshal_loop name field d (i + k) m"
              unfolding step by (simp add: Let_def)
            with less [of "i + k" m] 2 k False show ?thesis by auto
          qed
        qed (use tag None False j in \<open>simp add: step Let_def\<close>)
      qed
    qed
  qed
qed

lemma unmarshal_total:
  "safe_switch field \<Longrightarrow> (\<exists>e. unmarshal name field d m = Some (Err e)) \<or> (\<exists>m'. unmarshal name field d m = Some (Ok m'))"
  unfolding unmarshal_def by (rule unmarshal_loop_total)

section \<open>The contract of a message\<close>

text \<open>
  What the generated code of one message promises: its computed size is that of the reference
  encoding \<open>wire\<close>, its fields are written as \<open>wire\<close>, its switch is safe and stores what \<open>wire\<close> holds.
  A message of \<open>2 ^ 63\<close> bytes or more does not exist, a Go slice being shorter.
\<close>

locale proto_message =
  fixes msg_size :: "'m \<Rightarrow> nat"
    and fields :: "'m \<Rightarrow> bytes \<times> nat \<Rightarrow> (bytes \<times> nat) outcome"
    and name :: string and switch :: "'m switch" and zero :: 'm and wire :: "'m \<Rightarrow> bytes"
  assumes size_wire: "msg_size m = length (wire m)"
    and fields_wire: "writes (fields m) (wire m)"
    and switch_safe: "safe_switch switch"
    and decodes: "length (wire m) < 2 ^ 63 \<Longrightarrow> consumes name switch (wire m) zero m"
begin

lemma marshal_wire: "marshal (msg_size m) (marshalToSizedBuffer (fields m)) = Ok (wire m)"
  using marshalToSizedBuffer_eq [OF fields_wire, of m "replicate (length (wire m)) (CHR 0x00)"]
  by (simp add: marshal_def size_wire)

lemma marshalTo_wire:
  "msg_size m \<le> length d \<Longrightarrow>
   marshalTo (msg_size m) (marshalToSizedBuffer (fields m)) d = Ok (wire m @ drop (length (wire m)) d, length (wire m))"
  using marshalToSizedBuffer_eq [OF fields_wire, of m "take (length (wire m)) d"]
  by (simp add: marshalTo_def size_wire min_def)

lemma marshal_fills:
  "msg_size m \<le> length d \<Longrightarrow>
   \<exists>b. marshal (msg_size m) (marshalToSizedBuffer (fields m)) = Ok b \<and> length b = msg_size m
     \<and> marshalTo (msg_size m) (marshalToSizedBuffer (fields m)) d = Ok (b @ drop (length b) d, length b)"
  using marshal_wire marshalTo_wire size_wire by simp

lemma unmarshal_wire: "length (wire m) < 2 ^ 63 \<Longrightarrow> unmarshal name switch (wire m) zero = Some (Ok m)"
  using decodes by (rule unmarshal_consumes)

lemma round_trip:
  "msg_size m < 2 ^ 63 \<Longrightarrow>
   bindO (marshal (msg_size m) (marshalToSizedBuffer (fields m))) (\<lambda>b. the (unmarshal name switch b zero)) = Ok m"
  by (subst marshal_wire) (simp add: unmarshal_wire size_wire)

lemma unmarshal_returns:
  "(\<exists>e. unmarshal name switch d m = Some (Err e)) \<or> (\<exists>m'. unmarshal name switch d m = Some (Ok m'))"
  using switch_safe by (rule unmarshal_total)

end

end
