(* ===== verification/Proto_Messages.thy ===== *)
theory Proto_Messages
  imports Proto Evm_Types
begin

text \<open>
  The protobuf messages of the two modules: for each, the size, the encoder, the decoder and their
  reference encoding, as the generated files have them (\<open>x/evm/types/*.pb.go\<close> and
  \<open>x/globalfee/types/module.pb.go\<close>; the two \<open>Module\<close> messages are the same). Each message is an
  instance of the contract \<open>proto_message\<close>.
\<close>

section \<open>Types\<close>

record GenesisState =
  gs_Params :: Params
  GenesisExecutionBlockHash :: string
  CurrentBlockHash :: string
  CurrentBlockHeight :: u64
  CurrentBlockTimestamp :: u64

datatype MsgUpdateParamsResponse = MsgUpdateParamsResponse

datatype MsgExecutionPayloadResponse = MsgExecutionPayloadResponse

datatype QueryParamsRequest = QueryParamsRequest

record QueryParamsResponse =
  qr_Params :: Params

record Module =
  mod_Authority :: string

section \<open>\<open>Params\<close>\<close>

definition Params_zero :: Params where
  "Params_zero = Params"

definition Params_Size :: "Params \<Rightarrow> nat" where
  "Params_Size m = 0"

definition Params_fields :: "Params \<Rightarrow> bytes \<times> nat \<Rightarrow> (bytes \<times> nat) outcome" where
  "Params_fields m = Ok"

definition Params_MarshalToSizedBuffer :: "Params \<Rightarrow> bytes \<Rightarrow> (bytes \<times> nat) outcome" where
  "Params_MarshalToSizedBuffer m = marshalToSizedBuffer (Params_fields m)"

definition Params_Marshal :: "Params \<Rightarrow> bytes outcome" where
  "Params_Marshal m = marshal (Params_Size m) (Params_MarshalToSizedBuffer m)"

definition Params_MarshalTo :: "Params \<Rightarrow> bytes \<Rightarrow> (bytes \<times> nat) outcome" where
  "Params_MarshalTo m = marshalTo (Params_Size m) (Params_MarshalToSizedBuffer m)"

definition Params_switch :: "Params switch" where
  "Params_switch fieldNum wireType dAtA i m =
     None"

definition Params_Unmarshal :: "bytes \<Rightarrow> Params \<Rightarrow> Params outcome option" where
  "Params_Unmarshal = unmarshal ''Params'' Params_switch"

text \<open>The reference encoding, and the contract.\<close>

definition Params_wire :: "Params \<Rightarrow> bytes" where
  "Params_wire m = []"

lemma Params_size: "Params_Size m = length (Params_wire m)"
  by (simp add: Params_Size_def Params_wire_def length_delimited sov_eq Let_def)

lemma Params_writes: "writes (Params_fields m) (Params_wire m)"
  unfolding Params_fields_def Params_wire_def
  by (intro writes_intros)

lemma Params_safe: "safe_switch Params_switch"
  unfolding safe_switch_def Params_switch_def
  by (auto split: if_splits intro!: forward_uint forward_bytes forward_message)

lemma Params_decodes: "consumes ''Params'' Params_switch (Params_wire m) Params_zero m"
  by (cases m) (simp add: Params_wire_def Params_zero_def consumes_Nil)

interpretation params_msg: proto_message Params_Size Params_fields "''Params''" Params_switch Params_zero Params_wire
  by unfold_locales (simp_all add: Params_size Params_writes Params_safe Params_decodes)

section \<open>\<open>GenesisState\<close>\<close>

definition GenesisState_zero :: GenesisState where
  "GenesisState_zero = \<lparr>gs_Params = Params_zero, GenesisExecutionBlockHash = [], CurrentBlockHash = [], CurrentBlockHeight = 0, CurrentBlockTimestamp = 0\<rparr>"

definition GenesisState_Size :: "GenesisState \<Rightarrow> nat" where
  "GenesisState_Size m = (let l = Params_Size (gs_Params m) in 1 + l + sov (of_nat l))
     + (let l = length (GenesisExecutionBlockHash m) in if l > 0 then 1 + l + sov (of_nat l) else 0)
     + (let l = length (CurrentBlockHash m) in if l > 0 then 1 + l + sov (of_nat l) else 0)
     + (if CurrentBlockHeight m \<noteq> 0 then 1 + sov (CurrentBlockHeight m) else 0)
     + (if CurrentBlockTimestamp m \<noteq> 0 then 1 + sov (CurrentBlockTimestamp m) else 0)"

definition GenesisState_fields :: "GenesisState \<Rightarrow> bytes \<times> nat \<Rightarrow> (bytes \<times> nat) outcome" where
  "GenesisState_fields m = seqB (put_uint 0x28 (CurrentBlockTimestamp m))
     (seqB (put_uint 0x20 (CurrentBlockHeight m))
     (seqB (put_bytes 0x1a (CurrentBlockHash m))
     (seqB (put_bytes 0x12 (GenesisExecutionBlockHash m))
     (put_message 0xa (Params_MarshalToSizedBuffer (gs_Params m))))))"

definition GenesisState_MarshalToSizedBuffer :: "GenesisState \<Rightarrow> bytes \<Rightarrow> (bytes \<times> nat) outcome" where
  "GenesisState_MarshalToSizedBuffer m = marshalToSizedBuffer (GenesisState_fields m)"

definition GenesisState_Marshal :: "GenesisState \<Rightarrow> bytes outcome" where
  "GenesisState_Marshal m = marshal (GenesisState_Size m) (GenesisState_MarshalToSizedBuffer m)"

definition GenesisState_MarshalTo :: "GenesisState \<Rightarrow> bytes \<Rightarrow> (bytes \<times> nat) outcome" where
  "GenesisState_MarshalTo m = marshalTo (GenesisState_Size m) (GenesisState_MarshalToSizedBuffer m)"

definition GenesisState_switch :: "GenesisState switch" where
  "GenesisState_switch fieldNum wireType dAtA i m =
     (if fieldNum = 1 then Some (get_message ''Params'' (\<lambda>b. Params_Unmarshal b (gs_Params m)) (\<lambda>p. m\<lparr>gs_Params := p\<rparr>) wireType dAtA i)
      else if fieldNum = 2 then Some (get_bytes ''GenesisExecutionBlockHash'' (\<lambda>s. m\<lparr>GenesisExecutionBlockHash := s\<rparr>) wireType dAtA i)
      else if fieldNum = 3 then Some (get_bytes ''CurrentBlockHash'' (\<lambda>s. m\<lparr>CurrentBlockHash := s\<rparr>) wireType dAtA i)
      else if fieldNum = 4 then Some (get_uint ''CurrentBlockHeight'' (\<lambda>v. m\<lparr>CurrentBlockHeight := v\<rparr>) wireType dAtA i)
      else if fieldNum = 5 then Some (get_uint ''CurrentBlockTimestamp'' (\<lambda>v. m\<lparr>CurrentBlockTimestamp := v\<rparr>) wireType dAtA i)
      else None)"

definition GenesisState_Unmarshal :: "bytes \<Rightarrow> GenesisState \<Rightarrow> GenesisState outcome option" where
  "GenesisState_Unmarshal = unmarshal ''GenesisState'' GenesisState_switch"

text \<open>The reference encoding, and the contract.\<close>

definition GenesisState_wire :: "GenesisState \<Rightarrow> bytes" where
  "GenesisState_wire m = (((delimited 0xa (Params_wire (gs_Params m))
     @ (if GenesisExecutionBlockHash m \<noteq> [] then delimited 0x12 (GenesisExecutionBlockHash m) else []))
     @ (if CurrentBlockHash m \<noteq> [] then delimited 0x1a (CurrentBlockHash m) else []))
     @ (if CurrentBlockHeight m \<noteq> 0 then char_of (0x20 :: nat) # varint (unat (CurrentBlockHeight m)) else []))
     @ (if CurrentBlockTimestamp m \<noteq> 0 then char_of (0x28 :: nat) # varint (unat (CurrentBlockTimestamp m)) else [])"

lemma GenesisState_size: "GenesisState_Size m = length (GenesisState_wire m)"
  by (simp add: GenesisState_Size_def GenesisState_wire_def length_delimited sov_eq Let_def params_msg.size_wire)

lemma GenesisState_writes: "writes (GenesisState_fields m) (GenesisState_wire m)"
  unfolding GenesisState_fields_def GenesisState_wire_def Params_MarshalToSizedBuffer_def
  by (intro writes_intros params_msg.fields_wire)

lemma GenesisState_safe: "safe_switch GenesisState_switch"
  unfolding safe_switch_def GenesisState_switch_def
  by (auto split: if_splits intro!: forward_uint forward_bytes forward_message params_msg.unmarshal_returns [folded Params_Unmarshal_def])

lemma GenesisState_decodes:
  assumes "length (GenesisState_wire m) < 2 ^ 63"
  shows "consumes ''GenesisState'' GenesisState_switch (GenesisState_wire m) GenesisState_zero m"
proof -
  have u1: "Params_Unmarshal (Params_wire (gs_Params m)) Params_zero = Some (Ok (gs_Params m))"
    using assms params_msg.unmarshal_wire by (simp add: Params_Unmarshal_def GenesisState_wire_def delimited_def)
  have f1: "consumes ''GenesisState'' GenesisState_switch (delimited 0xa (Params_wire (gs_Params m)))
      (GenesisState_zero) (GenesisState_zero\<lparr>gs_Params := gs_Params m\<rparr>)"
    by (rule consumes_message [where upd = "\<lambda>p. GenesisState_zero\<lparr>gs_Params := p\<rparr>" and n = 1 and nm = "''Params''"
        and unm = "\<lambda>b. Params_Unmarshal b Params_zero" and x = "gs_Params m"])
      (simp_all add: u1 GenesisState_switch_def GenesisState_zero_def)
  have f2: "consumes ''GenesisState'' GenesisState_switch (if GenesisExecutionBlockHash m \<noteq> [] then delimited 0x12 (GenesisExecutionBlockHash m) else [])
      (GenesisState_zero\<lparr>gs_Params := gs_Params m\<rparr>) (GenesisState_zero\<lparr>gs_Params := gs_Params m\<rparr>\<lparr>GenesisExecutionBlockHash := GenesisExecutionBlockHash m\<rparr>)"
    by (rule consumes_bytes_opt [where upd = "\<lambda>s. GenesisState_zero\<lparr>gs_Params := gs_Params m\<rparr>\<lparr>GenesisExecutionBlockHash := s\<rparr>" and n = 2 and nm = "''GenesisExecutionBlockHash''"])
      (simp_all add: GenesisState_switch_def GenesisState_zero_def)
  have f3: "consumes ''GenesisState'' GenesisState_switch (if CurrentBlockHash m \<noteq> [] then delimited 0x1a (CurrentBlockHash m) else [])
      (GenesisState_zero\<lparr>gs_Params := gs_Params m\<rparr>\<lparr>GenesisExecutionBlockHash := GenesisExecutionBlockHash m\<rparr>) (GenesisState_zero\<lparr>gs_Params := gs_Params m\<rparr>\<lparr>GenesisExecutionBlockHash := GenesisExecutionBlockHash m\<rparr>\<lparr>CurrentBlockHash := CurrentBlockHash m\<rparr>)"
    by (rule consumes_bytes_opt [where upd = "\<lambda>s. GenesisState_zero\<lparr>gs_Params := gs_Params m\<rparr>\<lparr>GenesisExecutionBlockHash := GenesisExecutionBlockHash m\<rparr>\<lparr>CurrentBlockHash := s\<rparr>" and n = 3 and nm = "''CurrentBlockHash''"])
      (simp_all add: GenesisState_switch_def GenesisState_zero_def)
  have f4: "consumes ''GenesisState'' GenesisState_switch (if CurrentBlockHeight m \<noteq> 0 then char_of (0x20 :: nat) # varint (unat (CurrentBlockHeight m)) else [])
      (GenesisState_zero\<lparr>gs_Params := gs_Params m\<rparr>\<lparr>GenesisExecutionBlockHash := GenesisExecutionBlockHash m\<rparr>\<lparr>CurrentBlockHash := CurrentBlockHash m\<rparr>) (GenesisState_zero\<lparr>gs_Params := gs_Params m\<rparr>\<lparr>GenesisExecutionBlockHash := GenesisExecutionBlockHash m\<rparr>\<lparr>CurrentBlockHash := CurrentBlockHash m\<rparr>\<lparr>CurrentBlockHeight := CurrentBlockHeight m\<rparr>)"
    by (rule consumes_uint_opt [where upd = "\<lambda>s. GenesisState_zero\<lparr>gs_Params := gs_Params m\<rparr>\<lparr>GenesisExecutionBlockHash := GenesisExecutionBlockHash m\<rparr>\<lparr>CurrentBlockHash := CurrentBlockHash m\<rparr>\<lparr>CurrentBlockHeight := s\<rparr>" and n = 4 and nm = "''CurrentBlockHeight''"])
      (simp_all add: GenesisState_switch_def GenesisState_zero_def)
  have f5: "consumes ''GenesisState'' GenesisState_switch (if CurrentBlockTimestamp m \<noteq> 0 then char_of (0x28 :: nat) # varint (unat (CurrentBlockTimestamp m)) else [])
      (GenesisState_zero\<lparr>gs_Params := gs_Params m\<rparr>\<lparr>GenesisExecutionBlockHash := GenesisExecutionBlockHash m\<rparr>\<lparr>CurrentBlockHash := CurrentBlockHash m\<rparr>\<lparr>CurrentBlockHeight := CurrentBlockHeight m\<rparr>) (GenesisState_zero\<lparr>gs_Params := gs_Params m\<rparr>\<lparr>GenesisExecutionBlockHash := GenesisExecutionBlockHash m\<rparr>\<lparr>CurrentBlockHash := CurrentBlockHash m\<rparr>\<lparr>CurrentBlockHeight := CurrentBlockHeight m\<rparr>\<lparr>CurrentBlockTimestamp := CurrentBlockTimestamp m\<rparr>)"
    by (rule consumes_uint_opt [where upd = "\<lambda>s. GenesisState_zero\<lparr>gs_Params := gs_Params m\<rparr>\<lparr>GenesisExecutionBlockHash := GenesisExecutionBlockHash m\<rparr>\<lparr>CurrentBlockHash := CurrentBlockHash m\<rparr>\<lparr>CurrentBlockHeight := CurrentBlockHeight m\<rparr>\<lparr>CurrentBlockTimestamp := s\<rparr>" and n = 5 and nm = "''CurrentBlockTimestamp''"])
      (simp_all add: GenesisState_switch_def GenesisState_zero_def)
  have "GenesisState_zero\<lparr>gs_Params := gs_Params m\<rparr>\<lparr>GenesisExecutionBlockHash := GenesisExecutionBlockHash m\<rparr>\<lparr>CurrentBlockHash := CurrentBlockHash m\<rparr>\<lparr>CurrentBlockHeight := CurrentBlockHeight m\<rparr>\<lparr>CurrentBlockTimestamp := CurrentBlockTimestamp m\<rparr> = m" by (cases m) (simp add: GenesisState_zero_def)
  then show ?thesis using consumes_append [OF consumes_append [OF consumes_append [OF consumes_append [OF f1 f2] f3] f4] f5] by (simp only: GenesisState_wire_def)
qed

interpretation genesisState_msg: proto_message GenesisState_Size GenesisState_fields "''GenesisState''" GenesisState_switch GenesisState_zero GenesisState_wire
  by unfold_locales (simp_all add: GenesisState_size GenesisState_writes GenesisState_safe GenesisState_decodes)

section \<open>\<open>MsgUpdateParams\<close>\<close>

definition MsgUpdateParams_zero :: MsgUpdateParams where
  "MsgUpdateParams_zero = \<lparr>upd_Authority = [], upd_Params = Params_zero\<rparr>"

definition MsgUpdateParams_Size :: "MsgUpdateParams \<Rightarrow> nat" where
  "MsgUpdateParams_Size m = (let l = length (upd_Authority m) in if l > 0 then 1 + l + sov (of_nat l) else 0)
     + (let l = Params_Size (upd_Params m) in 1 + l + sov (of_nat l))"

definition MsgUpdateParams_fields :: "MsgUpdateParams \<Rightarrow> bytes \<times> nat \<Rightarrow> (bytes \<times> nat) outcome" where
  "MsgUpdateParams_fields m = seqB (put_message 0x12 (Params_MarshalToSizedBuffer (upd_Params m)))
     (put_bytes 0xa (upd_Authority m))"

definition MsgUpdateParams_MarshalToSizedBuffer :: "MsgUpdateParams \<Rightarrow> bytes \<Rightarrow> (bytes \<times> nat) outcome" where
  "MsgUpdateParams_MarshalToSizedBuffer m = marshalToSizedBuffer (MsgUpdateParams_fields m)"

definition MsgUpdateParams_Marshal :: "MsgUpdateParams \<Rightarrow> bytes outcome" where
  "MsgUpdateParams_Marshal m = marshal (MsgUpdateParams_Size m) (MsgUpdateParams_MarshalToSizedBuffer m)"

definition MsgUpdateParams_MarshalTo :: "MsgUpdateParams \<Rightarrow> bytes \<Rightarrow> (bytes \<times> nat) outcome" where
  "MsgUpdateParams_MarshalTo m = marshalTo (MsgUpdateParams_Size m) (MsgUpdateParams_MarshalToSizedBuffer m)"

definition MsgUpdateParams_switch :: "MsgUpdateParams switch" where
  "MsgUpdateParams_switch fieldNum wireType dAtA i m =
     (if fieldNum = 1 then Some (get_bytes ''Authority'' (\<lambda>s. m\<lparr>upd_Authority := s\<rparr>) wireType dAtA i)
      else if fieldNum = 2 then Some (get_message ''Params'' (\<lambda>b. Params_Unmarshal b (upd_Params m)) (\<lambda>p. m\<lparr>upd_Params := p\<rparr>) wireType dAtA i)
      else None)"

definition MsgUpdateParams_Unmarshal :: "bytes \<Rightarrow> MsgUpdateParams \<Rightarrow> MsgUpdateParams outcome option" where
  "MsgUpdateParams_Unmarshal = unmarshal ''MsgUpdateParams'' MsgUpdateParams_switch"

text \<open>The reference encoding, and the contract.\<close>

definition MsgUpdateParams_wire :: "MsgUpdateParams \<Rightarrow> bytes" where
  "MsgUpdateParams_wire m = (if upd_Authority m \<noteq> [] then delimited 0xa (upd_Authority m) else [])
     @ delimited 0x12 (Params_wire (upd_Params m))"

lemma MsgUpdateParams_size: "MsgUpdateParams_Size m = length (MsgUpdateParams_wire m)"
  by (simp add: MsgUpdateParams_Size_def MsgUpdateParams_wire_def length_delimited sov_eq Let_def params_msg.size_wire)

lemma MsgUpdateParams_writes: "writes (MsgUpdateParams_fields m) (MsgUpdateParams_wire m)"
  unfolding MsgUpdateParams_fields_def MsgUpdateParams_wire_def Params_MarshalToSizedBuffer_def
  by (intro writes_intros params_msg.fields_wire)

lemma MsgUpdateParams_safe: "safe_switch MsgUpdateParams_switch"
  unfolding safe_switch_def MsgUpdateParams_switch_def
  by (auto split: if_splits intro!: forward_uint forward_bytes forward_message params_msg.unmarshal_returns [folded Params_Unmarshal_def])

lemma MsgUpdateParams_decodes:
  assumes "length (MsgUpdateParams_wire m) < 2 ^ 63"
  shows "consumes ''MsgUpdateParams'' MsgUpdateParams_switch (MsgUpdateParams_wire m) MsgUpdateParams_zero m"
proof -
  have f1: "consumes ''MsgUpdateParams'' MsgUpdateParams_switch (if upd_Authority m \<noteq> [] then delimited 0xa (upd_Authority m) else [])
      (MsgUpdateParams_zero) (MsgUpdateParams_zero\<lparr>upd_Authority := upd_Authority m\<rparr>)"
    by (rule consumes_bytes_opt [where upd = "\<lambda>s. MsgUpdateParams_zero\<lparr>upd_Authority := s\<rparr>" and n = 1 and nm = "''Authority''"])
      (simp_all add: MsgUpdateParams_switch_def MsgUpdateParams_zero_def)
  have u2: "Params_Unmarshal (Params_wire (upd_Params m)) Params_zero = Some (Ok (upd_Params m))"
    using assms params_msg.unmarshal_wire by (simp add: Params_Unmarshal_def MsgUpdateParams_wire_def delimited_def)
  have f2: "consumes ''MsgUpdateParams'' MsgUpdateParams_switch (delimited 0x12 (Params_wire (upd_Params m)))
      (MsgUpdateParams_zero\<lparr>upd_Authority := upd_Authority m\<rparr>) (MsgUpdateParams_zero\<lparr>upd_Authority := upd_Authority m\<rparr>\<lparr>upd_Params := upd_Params m\<rparr>)"
    by (rule consumes_message [where upd = "\<lambda>p. MsgUpdateParams_zero\<lparr>upd_Authority := upd_Authority m\<rparr>\<lparr>upd_Params := p\<rparr>" and n = 2 and nm = "''Params''"
        and unm = "\<lambda>b. Params_Unmarshal b Params_zero" and x = "upd_Params m"])
      (simp_all add: u2 MsgUpdateParams_switch_def MsgUpdateParams_zero_def)
  have "MsgUpdateParams_zero\<lparr>upd_Authority := upd_Authority m\<rparr>\<lparr>upd_Params := upd_Params m\<rparr> = m" by (cases m) (simp add: MsgUpdateParams_zero_def)
  then show ?thesis using consumes_append [OF f1 f2] by (simp only: MsgUpdateParams_wire_def)
qed

interpretation msgUpdateParams_msg: proto_message MsgUpdateParams_Size MsgUpdateParams_fields "''MsgUpdateParams''" MsgUpdateParams_switch MsgUpdateParams_zero MsgUpdateParams_wire
  by unfold_locales (simp_all add: MsgUpdateParams_size MsgUpdateParams_writes MsgUpdateParams_safe MsgUpdateParams_decodes)

section \<open>\<open>MsgUpdateParamsResponse\<close>\<close>

definition MsgUpdateParamsResponse_zero :: MsgUpdateParamsResponse where
  "MsgUpdateParamsResponse_zero = MsgUpdateParamsResponse"

definition MsgUpdateParamsResponse_Size :: "MsgUpdateParamsResponse \<Rightarrow> nat" where
  "MsgUpdateParamsResponse_Size m = 0"

definition MsgUpdateParamsResponse_fields :: "MsgUpdateParamsResponse \<Rightarrow> bytes \<times> nat \<Rightarrow> (bytes \<times> nat) outcome" where
  "MsgUpdateParamsResponse_fields m = Ok"

definition MsgUpdateParamsResponse_MarshalToSizedBuffer :: "MsgUpdateParamsResponse \<Rightarrow> bytes \<Rightarrow> (bytes \<times> nat) outcome" where
  "MsgUpdateParamsResponse_MarshalToSizedBuffer m = marshalToSizedBuffer (MsgUpdateParamsResponse_fields m)"

definition MsgUpdateParamsResponse_Marshal :: "MsgUpdateParamsResponse \<Rightarrow> bytes outcome" where
  "MsgUpdateParamsResponse_Marshal m = marshal (MsgUpdateParamsResponse_Size m) (MsgUpdateParamsResponse_MarshalToSizedBuffer m)"

definition MsgUpdateParamsResponse_MarshalTo :: "MsgUpdateParamsResponse \<Rightarrow> bytes \<Rightarrow> (bytes \<times> nat) outcome" where
  "MsgUpdateParamsResponse_MarshalTo m = marshalTo (MsgUpdateParamsResponse_Size m) (MsgUpdateParamsResponse_MarshalToSizedBuffer m)"

definition MsgUpdateParamsResponse_switch :: "MsgUpdateParamsResponse switch" where
  "MsgUpdateParamsResponse_switch fieldNum wireType dAtA i m =
     None"

definition MsgUpdateParamsResponse_Unmarshal :: "bytes \<Rightarrow> MsgUpdateParamsResponse \<Rightarrow> MsgUpdateParamsResponse outcome option" where
  "MsgUpdateParamsResponse_Unmarshal = unmarshal ''MsgUpdateParamsResponse'' MsgUpdateParamsResponse_switch"

text \<open>The reference encoding, and the contract.\<close>

definition MsgUpdateParamsResponse_wire :: "MsgUpdateParamsResponse \<Rightarrow> bytes" where
  "MsgUpdateParamsResponse_wire m = []"

lemma MsgUpdateParamsResponse_size: "MsgUpdateParamsResponse_Size m = length (MsgUpdateParamsResponse_wire m)"
  by (simp add: MsgUpdateParamsResponse_Size_def MsgUpdateParamsResponse_wire_def length_delimited sov_eq Let_def)

lemma MsgUpdateParamsResponse_writes: "writes (MsgUpdateParamsResponse_fields m) (MsgUpdateParamsResponse_wire m)"
  unfolding MsgUpdateParamsResponse_fields_def MsgUpdateParamsResponse_wire_def
  by (intro writes_intros)

lemma MsgUpdateParamsResponse_safe: "safe_switch MsgUpdateParamsResponse_switch"
  unfolding safe_switch_def MsgUpdateParamsResponse_switch_def
  by (auto split: if_splits intro!: forward_uint forward_bytes forward_message)

lemma MsgUpdateParamsResponse_decodes: "consumes ''MsgUpdateParamsResponse'' MsgUpdateParamsResponse_switch (MsgUpdateParamsResponse_wire m) MsgUpdateParamsResponse_zero m"
  by (cases m) (simp add: MsgUpdateParamsResponse_wire_def MsgUpdateParamsResponse_zero_def consumes_Nil)

interpretation msgUpdateParamsResponse_msg: proto_message MsgUpdateParamsResponse_Size MsgUpdateParamsResponse_fields "''MsgUpdateParamsResponse''" MsgUpdateParamsResponse_switch MsgUpdateParamsResponse_zero MsgUpdateParamsResponse_wire
  by unfold_locales (simp_all add: MsgUpdateParamsResponse_size MsgUpdateParamsResponse_writes MsgUpdateParamsResponse_safe MsgUpdateParamsResponse_decodes)

section \<open>\<open>MsgExecutionPayload\<close>\<close>

definition MsgExecutionPayload_zero :: MsgExecutionPayload where
  "MsgExecutionPayload_zero = \<lparr>msg_Authority = [], msg_ExecutionPayload = []\<rparr>"

definition MsgExecutionPayload_Size :: "MsgExecutionPayload \<Rightarrow> nat" where
  "MsgExecutionPayload_Size m = (let l = length (msg_Authority m) in if l > 0 then 1 + l + sov (of_nat l) else 0)
     + (let l = length (msg_ExecutionPayload m) in if l > 0 then 1 + l + sov (of_nat l) else 0)"

definition MsgExecutionPayload_fields :: "MsgExecutionPayload \<Rightarrow> bytes \<times> nat \<Rightarrow> (bytes \<times> nat) outcome" where
  "MsgExecutionPayload_fields m = seqB (put_bytes 0x12 (msg_ExecutionPayload m))
     (put_bytes 0xa (msg_Authority m))"

definition MsgExecutionPayload_MarshalToSizedBuffer :: "MsgExecutionPayload \<Rightarrow> bytes \<Rightarrow> (bytes \<times> nat) outcome" where
  "MsgExecutionPayload_MarshalToSizedBuffer m = marshalToSizedBuffer (MsgExecutionPayload_fields m)"

definition MsgExecutionPayload_Marshal :: "MsgExecutionPayload \<Rightarrow> bytes outcome" where
  "MsgExecutionPayload_Marshal m = marshal (MsgExecutionPayload_Size m) (MsgExecutionPayload_MarshalToSizedBuffer m)"

definition MsgExecutionPayload_MarshalTo :: "MsgExecutionPayload \<Rightarrow> bytes \<Rightarrow> (bytes \<times> nat) outcome" where
  "MsgExecutionPayload_MarshalTo m = marshalTo (MsgExecutionPayload_Size m) (MsgExecutionPayload_MarshalToSizedBuffer m)"

definition MsgExecutionPayload_switch :: "MsgExecutionPayload switch" where
  "MsgExecutionPayload_switch fieldNum wireType dAtA i m =
     (if fieldNum = 1 then Some (get_bytes ''Authority'' (\<lambda>s. m\<lparr>msg_Authority := s\<rparr>) wireType dAtA i)
      else if fieldNum = 2 then Some (get_bytes ''ExecutionPayload'' (\<lambda>s. m\<lparr>msg_ExecutionPayload := s\<rparr>) wireType dAtA i)
      else None)"

definition MsgExecutionPayload_Unmarshal :: "bytes \<Rightarrow> MsgExecutionPayload \<Rightarrow> MsgExecutionPayload outcome option" where
  "MsgExecutionPayload_Unmarshal = unmarshal ''MsgExecutionPayload'' MsgExecutionPayload_switch"

text \<open>The reference encoding, and the contract.\<close>

definition MsgExecutionPayload_wire :: "MsgExecutionPayload \<Rightarrow> bytes" where
  "MsgExecutionPayload_wire m = (if msg_Authority m \<noteq> [] then delimited 0xa (msg_Authority m) else [])
     @ (if msg_ExecutionPayload m \<noteq> [] then delimited 0x12 (msg_ExecutionPayload m) else [])"

lemma MsgExecutionPayload_size: "MsgExecutionPayload_Size m = length (MsgExecutionPayload_wire m)"
  by (simp add: MsgExecutionPayload_Size_def MsgExecutionPayload_wire_def length_delimited sov_eq Let_def)

lemma MsgExecutionPayload_writes: "writes (MsgExecutionPayload_fields m) (MsgExecutionPayload_wire m)"
  unfolding MsgExecutionPayload_fields_def MsgExecutionPayload_wire_def
  by (intro writes_intros)

lemma MsgExecutionPayload_safe: "safe_switch MsgExecutionPayload_switch"
  unfolding safe_switch_def MsgExecutionPayload_switch_def
  by (auto split: if_splits intro!: forward_uint forward_bytes forward_message)

lemma MsgExecutionPayload_decodes:
  assumes "length (MsgExecutionPayload_wire m) < 2 ^ 63"
  shows "consumes ''MsgExecutionPayload'' MsgExecutionPayload_switch (MsgExecutionPayload_wire m) MsgExecutionPayload_zero m"
proof -
  have f1: "consumes ''MsgExecutionPayload'' MsgExecutionPayload_switch (if msg_Authority m \<noteq> [] then delimited 0xa (msg_Authority m) else [])
      (MsgExecutionPayload_zero) (MsgExecutionPayload_zero\<lparr>msg_Authority := msg_Authority m\<rparr>)"
    by (rule consumes_bytes_opt [where upd = "\<lambda>s. MsgExecutionPayload_zero\<lparr>msg_Authority := s\<rparr>" and n = 1 and nm = "''Authority''"])
      (simp_all add: MsgExecutionPayload_switch_def MsgExecutionPayload_zero_def)
  have f2: "consumes ''MsgExecutionPayload'' MsgExecutionPayload_switch (if msg_ExecutionPayload m \<noteq> [] then delimited 0x12 (msg_ExecutionPayload m) else [])
      (MsgExecutionPayload_zero\<lparr>msg_Authority := msg_Authority m\<rparr>) (MsgExecutionPayload_zero\<lparr>msg_Authority := msg_Authority m\<rparr>\<lparr>msg_ExecutionPayload := msg_ExecutionPayload m\<rparr>)"
    by (rule consumes_bytes_opt [where upd = "\<lambda>s. MsgExecutionPayload_zero\<lparr>msg_Authority := msg_Authority m\<rparr>\<lparr>msg_ExecutionPayload := s\<rparr>" and n = 2 and nm = "''ExecutionPayload''"])
      (simp_all add: MsgExecutionPayload_switch_def MsgExecutionPayload_zero_def)
  have "MsgExecutionPayload_zero\<lparr>msg_Authority := msg_Authority m\<rparr>\<lparr>msg_ExecutionPayload := msg_ExecutionPayload m\<rparr> = m" by (cases m) (simp add: MsgExecutionPayload_zero_def)
  then show ?thesis using consumes_append [OF f1 f2] by (simp only: MsgExecutionPayload_wire_def)
qed

interpretation msgExecutionPayload_msg: proto_message MsgExecutionPayload_Size MsgExecutionPayload_fields "''MsgExecutionPayload''" MsgExecutionPayload_switch MsgExecutionPayload_zero MsgExecutionPayload_wire
  by unfold_locales (simp_all add: MsgExecutionPayload_size MsgExecutionPayload_writes MsgExecutionPayload_safe MsgExecutionPayload_decodes)

section \<open>\<open>MsgExecutionPayloadResponse\<close>\<close>

definition MsgExecutionPayloadResponse_zero :: MsgExecutionPayloadResponse where
  "MsgExecutionPayloadResponse_zero = MsgExecutionPayloadResponse"

definition MsgExecutionPayloadResponse_Size :: "MsgExecutionPayloadResponse \<Rightarrow> nat" where
  "MsgExecutionPayloadResponse_Size m = 0"

definition MsgExecutionPayloadResponse_fields :: "MsgExecutionPayloadResponse \<Rightarrow> bytes \<times> nat \<Rightarrow> (bytes \<times> nat) outcome" where
  "MsgExecutionPayloadResponse_fields m = Ok"

definition MsgExecutionPayloadResponse_MarshalToSizedBuffer :: "MsgExecutionPayloadResponse \<Rightarrow> bytes \<Rightarrow> (bytes \<times> nat) outcome" where
  "MsgExecutionPayloadResponse_MarshalToSizedBuffer m = marshalToSizedBuffer (MsgExecutionPayloadResponse_fields m)"

definition MsgExecutionPayloadResponse_Marshal :: "MsgExecutionPayloadResponse \<Rightarrow> bytes outcome" where
  "MsgExecutionPayloadResponse_Marshal m = marshal (MsgExecutionPayloadResponse_Size m) (MsgExecutionPayloadResponse_MarshalToSizedBuffer m)"

definition MsgExecutionPayloadResponse_MarshalTo :: "MsgExecutionPayloadResponse \<Rightarrow> bytes \<Rightarrow> (bytes \<times> nat) outcome" where
  "MsgExecutionPayloadResponse_MarshalTo m = marshalTo (MsgExecutionPayloadResponse_Size m) (MsgExecutionPayloadResponse_MarshalToSizedBuffer m)"

definition MsgExecutionPayloadResponse_switch :: "MsgExecutionPayloadResponse switch" where
  "MsgExecutionPayloadResponse_switch fieldNum wireType dAtA i m =
     None"

definition MsgExecutionPayloadResponse_Unmarshal :: "bytes \<Rightarrow> MsgExecutionPayloadResponse \<Rightarrow> MsgExecutionPayloadResponse outcome option" where
  "MsgExecutionPayloadResponse_Unmarshal = unmarshal ''MsgExecutionPayloadResponse'' MsgExecutionPayloadResponse_switch"

text \<open>The reference encoding, and the contract.\<close>

definition MsgExecutionPayloadResponse_wire :: "MsgExecutionPayloadResponse \<Rightarrow> bytes" where
  "MsgExecutionPayloadResponse_wire m = []"

lemma MsgExecutionPayloadResponse_size: "MsgExecutionPayloadResponse_Size m = length (MsgExecutionPayloadResponse_wire m)"
  by (simp add: MsgExecutionPayloadResponse_Size_def MsgExecutionPayloadResponse_wire_def length_delimited sov_eq Let_def)

lemma MsgExecutionPayloadResponse_writes: "writes (MsgExecutionPayloadResponse_fields m) (MsgExecutionPayloadResponse_wire m)"
  unfolding MsgExecutionPayloadResponse_fields_def MsgExecutionPayloadResponse_wire_def
  by (intro writes_intros)

lemma MsgExecutionPayloadResponse_safe: "safe_switch MsgExecutionPayloadResponse_switch"
  unfolding safe_switch_def MsgExecutionPayloadResponse_switch_def
  by (auto split: if_splits intro!: forward_uint forward_bytes forward_message)

lemma MsgExecutionPayloadResponse_decodes: "consumes ''MsgExecutionPayloadResponse'' MsgExecutionPayloadResponse_switch (MsgExecutionPayloadResponse_wire m) MsgExecutionPayloadResponse_zero m"
  by (cases m) (simp add: MsgExecutionPayloadResponse_wire_def MsgExecutionPayloadResponse_zero_def consumes_Nil)

interpretation msgExecutionPayloadResponse_msg: proto_message MsgExecutionPayloadResponse_Size MsgExecutionPayloadResponse_fields "''MsgExecutionPayloadResponse''" MsgExecutionPayloadResponse_switch MsgExecutionPayloadResponse_zero MsgExecutionPayloadResponse_wire
  by unfold_locales (simp_all add: MsgExecutionPayloadResponse_size MsgExecutionPayloadResponse_writes MsgExecutionPayloadResponse_safe MsgExecutionPayloadResponse_decodes)

section \<open>\<open>QueryParamsRequest\<close>\<close>

definition QueryParamsRequest_zero :: QueryParamsRequest where
  "QueryParamsRequest_zero = QueryParamsRequest"

definition QueryParamsRequest_Size :: "QueryParamsRequest \<Rightarrow> nat" where
  "QueryParamsRequest_Size m = 0"

definition QueryParamsRequest_fields :: "QueryParamsRequest \<Rightarrow> bytes \<times> nat \<Rightarrow> (bytes \<times> nat) outcome" where
  "QueryParamsRequest_fields m = Ok"

definition QueryParamsRequest_MarshalToSizedBuffer :: "QueryParamsRequest \<Rightarrow> bytes \<Rightarrow> (bytes \<times> nat) outcome" where
  "QueryParamsRequest_MarshalToSizedBuffer m = marshalToSizedBuffer (QueryParamsRequest_fields m)"

definition QueryParamsRequest_Marshal :: "QueryParamsRequest \<Rightarrow> bytes outcome" where
  "QueryParamsRequest_Marshal m = marshal (QueryParamsRequest_Size m) (QueryParamsRequest_MarshalToSizedBuffer m)"

definition QueryParamsRequest_MarshalTo :: "QueryParamsRequest \<Rightarrow> bytes \<Rightarrow> (bytes \<times> nat) outcome" where
  "QueryParamsRequest_MarshalTo m = marshalTo (QueryParamsRequest_Size m) (QueryParamsRequest_MarshalToSizedBuffer m)"

definition QueryParamsRequest_switch :: "QueryParamsRequest switch" where
  "QueryParamsRequest_switch fieldNum wireType dAtA i m =
     None"

definition QueryParamsRequest_Unmarshal :: "bytes \<Rightarrow> QueryParamsRequest \<Rightarrow> QueryParamsRequest outcome option" where
  "QueryParamsRequest_Unmarshal = unmarshal ''QueryParamsRequest'' QueryParamsRequest_switch"

text \<open>The reference encoding, and the contract.\<close>

definition QueryParamsRequest_wire :: "QueryParamsRequest \<Rightarrow> bytes" where
  "QueryParamsRequest_wire m = []"

lemma QueryParamsRequest_size: "QueryParamsRequest_Size m = length (QueryParamsRequest_wire m)"
  by (simp add: QueryParamsRequest_Size_def QueryParamsRequest_wire_def length_delimited sov_eq Let_def)

lemma QueryParamsRequest_writes: "writes (QueryParamsRequest_fields m) (QueryParamsRequest_wire m)"
  unfolding QueryParamsRequest_fields_def QueryParamsRequest_wire_def
  by (intro writes_intros)

lemma QueryParamsRequest_safe: "safe_switch QueryParamsRequest_switch"
  unfolding safe_switch_def QueryParamsRequest_switch_def
  by (auto split: if_splits intro!: forward_uint forward_bytes forward_message)

lemma QueryParamsRequest_decodes: "consumes ''QueryParamsRequest'' QueryParamsRequest_switch (QueryParamsRequest_wire m) QueryParamsRequest_zero m"
  by (cases m) (simp add: QueryParamsRequest_wire_def QueryParamsRequest_zero_def consumes_Nil)

interpretation queryParamsRequest_msg: proto_message QueryParamsRequest_Size QueryParamsRequest_fields "''QueryParamsRequest''" QueryParamsRequest_switch QueryParamsRequest_zero QueryParamsRequest_wire
  by unfold_locales (simp_all add: QueryParamsRequest_size QueryParamsRequest_writes QueryParamsRequest_safe QueryParamsRequest_decodes)

section \<open>\<open>QueryParamsResponse\<close>\<close>

definition QueryParamsResponse_zero :: QueryParamsResponse where
  "QueryParamsResponse_zero = \<lparr>qr_Params = Params_zero\<rparr>"

definition QueryParamsResponse_Size :: "QueryParamsResponse \<Rightarrow> nat" where
  "QueryParamsResponse_Size m = (let l = Params_Size (qr_Params m) in 1 + l + sov (of_nat l))"

definition QueryParamsResponse_fields :: "QueryParamsResponse \<Rightarrow> bytes \<times> nat \<Rightarrow> (bytes \<times> nat) outcome" where
  "QueryParamsResponse_fields m = put_message 0xa (Params_MarshalToSizedBuffer (qr_Params m))"

definition QueryParamsResponse_MarshalToSizedBuffer :: "QueryParamsResponse \<Rightarrow> bytes \<Rightarrow> (bytes \<times> nat) outcome" where
  "QueryParamsResponse_MarshalToSizedBuffer m = marshalToSizedBuffer (QueryParamsResponse_fields m)"

definition QueryParamsResponse_Marshal :: "QueryParamsResponse \<Rightarrow> bytes outcome" where
  "QueryParamsResponse_Marshal m = marshal (QueryParamsResponse_Size m) (QueryParamsResponse_MarshalToSizedBuffer m)"

definition QueryParamsResponse_MarshalTo :: "QueryParamsResponse \<Rightarrow> bytes \<Rightarrow> (bytes \<times> nat) outcome" where
  "QueryParamsResponse_MarshalTo m = marshalTo (QueryParamsResponse_Size m) (QueryParamsResponse_MarshalToSizedBuffer m)"

definition QueryParamsResponse_switch :: "QueryParamsResponse switch" where
  "QueryParamsResponse_switch fieldNum wireType dAtA i m =
     (if fieldNum = 1 then Some (get_message ''Params'' (\<lambda>b. Params_Unmarshal b (qr_Params m)) (\<lambda>p. m\<lparr>qr_Params := p\<rparr>) wireType dAtA i)
      else None)"

definition QueryParamsResponse_Unmarshal :: "bytes \<Rightarrow> QueryParamsResponse \<Rightarrow> QueryParamsResponse outcome option" where
  "QueryParamsResponse_Unmarshal = unmarshal ''QueryParamsResponse'' QueryParamsResponse_switch"

text \<open>The reference encoding, and the contract.\<close>

definition QueryParamsResponse_wire :: "QueryParamsResponse \<Rightarrow> bytes" where
  "QueryParamsResponse_wire m = delimited 0xa (Params_wire (qr_Params m))"

lemma QueryParamsResponse_size: "QueryParamsResponse_Size m = length (QueryParamsResponse_wire m)"
  by (simp add: QueryParamsResponse_Size_def QueryParamsResponse_wire_def length_delimited sov_eq Let_def params_msg.size_wire)

lemma QueryParamsResponse_writes: "writes (QueryParamsResponse_fields m) (QueryParamsResponse_wire m)"
  unfolding QueryParamsResponse_fields_def QueryParamsResponse_wire_def Params_MarshalToSizedBuffer_def
  by (intro writes_intros params_msg.fields_wire)

lemma QueryParamsResponse_safe: "safe_switch QueryParamsResponse_switch"
  unfolding safe_switch_def QueryParamsResponse_switch_def
  by (auto split: if_splits intro!: forward_uint forward_bytes forward_message params_msg.unmarshal_returns [folded Params_Unmarshal_def])

lemma QueryParamsResponse_decodes:
  assumes "length (QueryParamsResponse_wire m) < 2 ^ 63"
  shows "consumes ''QueryParamsResponse'' QueryParamsResponse_switch (QueryParamsResponse_wire m) QueryParamsResponse_zero m"
proof -
  have u1: "Params_Unmarshal (Params_wire (qr_Params m)) Params_zero = Some (Ok (qr_Params m))"
    using assms params_msg.unmarshal_wire by (simp add: Params_Unmarshal_def QueryParamsResponse_wire_def delimited_def)
  have f1: "consumes ''QueryParamsResponse'' QueryParamsResponse_switch (delimited 0xa (Params_wire (qr_Params m)))
      (QueryParamsResponse_zero) (QueryParamsResponse_zero\<lparr>qr_Params := qr_Params m\<rparr>)"
    by (rule consumes_message [where upd = "\<lambda>p. QueryParamsResponse_zero\<lparr>qr_Params := p\<rparr>" and n = 1 and nm = "''Params''"
        and unm = "\<lambda>b. Params_Unmarshal b Params_zero" and x = "qr_Params m"])
      (simp_all add: u1 QueryParamsResponse_switch_def QueryParamsResponse_zero_def)
  have "QueryParamsResponse_zero\<lparr>qr_Params := qr_Params m\<rparr> = m" by (cases m) (simp add: QueryParamsResponse_zero_def)
  then show ?thesis using f1 by (simp only: QueryParamsResponse_wire_def)
qed

interpretation queryParamsResponse_msg: proto_message QueryParamsResponse_Size QueryParamsResponse_fields "''QueryParamsResponse''" QueryParamsResponse_switch QueryParamsResponse_zero QueryParamsResponse_wire
  by unfold_locales (simp_all add: QueryParamsResponse_size QueryParamsResponse_writes QueryParamsResponse_safe QueryParamsResponse_decodes)

section \<open>\<open>Module\<close>\<close>

definition Module_zero :: Module where
  "Module_zero = \<lparr>mod_Authority = []\<rparr>"

definition Module_Size :: "Module \<Rightarrow> nat" where
  "Module_Size m = (let l = length (mod_Authority m) in if l > 0 then 1 + l + sov (of_nat l) else 0)"

definition Module_fields :: "Module \<Rightarrow> bytes \<times> nat \<Rightarrow> (bytes \<times> nat) outcome" where
  "Module_fields m = put_bytes 0xa (mod_Authority m)"

definition Module_MarshalToSizedBuffer :: "Module \<Rightarrow> bytes \<Rightarrow> (bytes \<times> nat) outcome" where
  "Module_MarshalToSizedBuffer m = marshalToSizedBuffer (Module_fields m)"

definition Module_Marshal :: "Module \<Rightarrow> bytes outcome" where
  "Module_Marshal m = marshal (Module_Size m) (Module_MarshalToSizedBuffer m)"

definition Module_MarshalTo :: "Module \<Rightarrow> bytes \<Rightarrow> (bytes \<times> nat) outcome" where
  "Module_MarshalTo m = marshalTo (Module_Size m) (Module_MarshalToSizedBuffer m)"

definition Module_switch :: "Module switch" where
  "Module_switch fieldNum wireType dAtA i m =
     (if fieldNum = 1 then Some (get_bytes ''Authority'' (\<lambda>s. m\<lparr>mod_Authority := s\<rparr>) wireType dAtA i)
      else None)"

definition Module_Unmarshal :: "bytes \<Rightarrow> Module \<Rightarrow> Module outcome option" where
  "Module_Unmarshal = unmarshal ''Module'' Module_switch"

text \<open>The reference encoding, and the contract.\<close>

definition Module_wire :: "Module \<Rightarrow> bytes" where
  "Module_wire m = (if mod_Authority m \<noteq> [] then delimited 0xa (mod_Authority m) else [])"

lemma Module_size: "Module_Size m = length (Module_wire m)"
  by (simp add: Module_Size_def Module_wire_def length_delimited sov_eq Let_def)

lemma Module_writes: "writes (Module_fields m) (Module_wire m)"
  unfolding Module_fields_def Module_wire_def
  by (intro writes_intros)

lemma Module_safe: "safe_switch Module_switch"
  unfolding safe_switch_def Module_switch_def
  by (auto split: if_splits intro!: forward_uint forward_bytes forward_message)

lemma Module_decodes:
  assumes "length (Module_wire m) < 2 ^ 63"
  shows "consumes ''Module'' Module_switch (Module_wire m) Module_zero m"
proof -
  have f1: "consumes ''Module'' Module_switch (if mod_Authority m \<noteq> [] then delimited 0xa (mod_Authority m) else [])
      (Module_zero) (Module_zero\<lparr>mod_Authority := mod_Authority m\<rparr>)"
    by (rule consumes_bytes_opt [where upd = "\<lambda>s. Module_zero\<lparr>mod_Authority := s\<rparr>" and n = 1 and nm = "''Authority''"])
      (simp_all add: Module_switch_def Module_zero_def)
  have "Module_zero\<lparr>mod_Authority := mod_Authority m\<rparr> = m" by (cases m) (simp add: Module_zero_def)
  then show ?thesis using f1 by (simp only: Module_wire_def)
qed

interpretation module_msg: proto_message Module_Size Module_fields "''Module''" Module_switch Module_zero Module_wire
  by unfold_locales (simp_all add: Module_size Module_writes Module_safe Module_decodes)

section \<open>\<open>WithdrawalRequest\<close>\<close>

definition WithdrawalRequest_zero :: WithdrawalRequest where
  "WithdrawalRequest_zero = \<lparr>SourceAddress = [], ValidatorPubkey = [], wr_Amount = 0\<rparr>"

definition WithdrawalRequest_Size :: "WithdrawalRequest \<Rightarrow> nat" where
  "WithdrawalRequest_Size m = (let l = length (SourceAddress m) in if l > 0 then 1 + l + sov (of_nat l) else 0)
     + (let l = length (ValidatorPubkey m) in if l > 0 then 1 + l + sov (of_nat l) else 0)
     + (if wr_Amount m \<noteq> 0 then 1 + sov (wr_Amount m) else 0)"

definition WithdrawalRequest_fields :: "WithdrawalRequest \<Rightarrow> bytes \<times> nat \<Rightarrow> (bytes \<times> nat) outcome" where
  "WithdrawalRequest_fields m = seqB (put_uint 0x18 (wr_Amount m))
     (seqB (put_bytes 0x12 (ValidatorPubkey m))
     (put_bytes 0xa (SourceAddress m)))"

definition WithdrawalRequest_MarshalToSizedBuffer :: "WithdrawalRequest \<Rightarrow> bytes \<Rightarrow> (bytes \<times> nat) outcome" where
  "WithdrawalRequest_MarshalToSizedBuffer m = marshalToSizedBuffer (WithdrawalRequest_fields m)"

definition WithdrawalRequest_Marshal :: "WithdrawalRequest \<Rightarrow> bytes outcome" where
  "WithdrawalRequest_Marshal m = marshal (WithdrawalRequest_Size m) (WithdrawalRequest_MarshalToSizedBuffer m)"

definition WithdrawalRequest_MarshalTo :: "WithdrawalRequest \<Rightarrow> bytes \<Rightarrow> (bytes \<times> nat) outcome" where
  "WithdrawalRequest_MarshalTo m = marshalTo (WithdrawalRequest_Size m) (WithdrawalRequest_MarshalToSizedBuffer m)"

definition WithdrawalRequest_switch :: "WithdrawalRequest switch" where
  "WithdrawalRequest_switch fieldNum wireType dAtA i m =
     (if fieldNum = 1 then Some (get_bytes ''SourceAddress'' (\<lambda>s. m\<lparr>SourceAddress := s\<rparr>) wireType dAtA i)
      else if fieldNum = 2 then Some (get_bytes ''ValidatorPubkey'' (\<lambda>s. m\<lparr>ValidatorPubkey := s\<rparr>) wireType dAtA i)
      else if fieldNum = 3 then Some (get_uint ''Amount'' (\<lambda>v. m\<lparr>wr_Amount := v\<rparr>) wireType dAtA i)
      else None)"

definition WithdrawalRequest_Unmarshal :: "bytes \<Rightarrow> WithdrawalRequest \<Rightarrow> WithdrawalRequest outcome option" where
  "WithdrawalRequest_Unmarshal = unmarshal ''WithdrawalRequest'' WithdrawalRequest_switch"

text \<open>The reference encoding, and the contract.\<close>

definition WithdrawalRequest_wire :: "WithdrawalRequest \<Rightarrow> bytes" where
  "WithdrawalRequest_wire m = ((if SourceAddress m \<noteq> [] then delimited 0xa (SourceAddress m) else [])
     @ (if ValidatorPubkey m \<noteq> [] then delimited 0x12 (ValidatorPubkey m) else []))
     @ (if wr_Amount m \<noteq> 0 then char_of (0x18 :: nat) # varint (unat (wr_Amount m)) else [])"

lemma WithdrawalRequest_size: "WithdrawalRequest_Size m = length (WithdrawalRequest_wire m)"
  by (simp add: WithdrawalRequest_Size_def WithdrawalRequest_wire_def length_delimited sov_eq Let_def)

lemma WithdrawalRequest_writes: "writes (WithdrawalRequest_fields m) (WithdrawalRequest_wire m)"
  unfolding WithdrawalRequest_fields_def WithdrawalRequest_wire_def
  by (intro writes_intros)

lemma WithdrawalRequest_safe: "safe_switch WithdrawalRequest_switch"
  unfolding safe_switch_def WithdrawalRequest_switch_def
  by (auto split: if_splits intro!: forward_uint forward_bytes forward_message)

lemma WithdrawalRequest_decodes:
  assumes "length (WithdrawalRequest_wire m) < 2 ^ 63"
  shows "consumes ''WithdrawalRequest'' WithdrawalRequest_switch (WithdrawalRequest_wire m) WithdrawalRequest_zero m"
proof -
  have f1: "consumes ''WithdrawalRequest'' WithdrawalRequest_switch (if SourceAddress m \<noteq> [] then delimited 0xa (SourceAddress m) else [])
      (WithdrawalRequest_zero) (WithdrawalRequest_zero\<lparr>SourceAddress := SourceAddress m\<rparr>)"
    by (rule consumes_bytes_opt [where upd = "\<lambda>s. WithdrawalRequest_zero\<lparr>SourceAddress := s\<rparr>" and n = 1 and nm = "''SourceAddress''"])
      (simp_all add: WithdrawalRequest_switch_def WithdrawalRequest_zero_def)
  have f2: "consumes ''WithdrawalRequest'' WithdrawalRequest_switch (if ValidatorPubkey m \<noteq> [] then delimited 0x12 (ValidatorPubkey m) else [])
      (WithdrawalRequest_zero\<lparr>SourceAddress := SourceAddress m\<rparr>) (WithdrawalRequest_zero\<lparr>SourceAddress := SourceAddress m\<rparr>\<lparr>ValidatorPubkey := ValidatorPubkey m\<rparr>)"
    by (rule consumes_bytes_opt [where upd = "\<lambda>s. WithdrawalRequest_zero\<lparr>SourceAddress := SourceAddress m\<rparr>\<lparr>ValidatorPubkey := s\<rparr>" and n = 2 and nm = "''ValidatorPubkey''"])
      (simp_all add: WithdrawalRequest_switch_def WithdrawalRequest_zero_def)
  have f3: "consumes ''WithdrawalRequest'' WithdrawalRequest_switch (if wr_Amount m \<noteq> 0 then char_of (0x18 :: nat) # varint (unat (wr_Amount m)) else [])
      (WithdrawalRequest_zero\<lparr>SourceAddress := SourceAddress m\<rparr>\<lparr>ValidatorPubkey := ValidatorPubkey m\<rparr>) (WithdrawalRequest_zero\<lparr>SourceAddress := SourceAddress m\<rparr>\<lparr>ValidatorPubkey := ValidatorPubkey m\<rparr>\<lparr>wr_Amount := wr_Amount m\<rparr>)"
    by (rule consumes_uint_opt [where upd = "\<lambda>s. WithdrawalRequest_zero\<lparr>SourceAddress := SourceAddress m\<rparr>\<lparr>ValidatorPubkey := ValidatorPubkey m\<rparr>\<lparr>wr_Amount := s\<rparr>" and n = 3 and nm = "''Amount''"])
      (simp_all add: WithdrawalRequest_switch_def WithdrawalRequest_zero_def)
  have "WithdrawalRequest_zero\<lparr>SourceAddress := SourceAddress m\<rparr>\<lparr>ValidatorPubkey := ValidatorPubkey m\<rparr>\<lparr>wr_Amount := wr_Amount m\<rparr> = m" by (cases m) (simp add: WithdrawalRequest_zero_def)
  then show ?thesis using consumes_append [OF consumes_append [OF f1 f2] f3] by (simp only: WithdrawalRequest_wire_def)
qed

interpretation withdrawalRequest_msg: proto_message WithdrawalRequest_Size WithdrawalRequest_fields "''WithdrawalRequest''" WithdrawalRequest_switch WithdrawalRequest_zero WithdrawalRequest_wire
  by unfold_locales (simp_all add: WithdrawalRequest_size WithdrawalRequest_writes WithdrawalRequest_safe WithdrawalRequest_decodes)

section \<open>\<open>DepositRequest\<close>\<close>

definition DepositRequest_zero :: DepositRequest where
  "DepositRequest_zero = \<lparr>Pubkey = [], WithdrawalCredentials = [], dr_Amount = 0, Signature = [], Index = 0\<rparr>"

definition DepositRequest_Size :: "DepositRequest \<Rightarrow> nat" where
  "DepositRequest_Size m = (let l = length (Pubkey m) in if l > 0 then 1 + l + sov (of_nat l) else 0)
     + (let l = length (WithdrawalCredentials m) in if l > 0 then 1 + l + sov (of_nat l) else 0)
     + (if dr_Amount m \<noteq> 0 then 1 + sov (dr_Amount m) else 0)
     + (let l = length (Signature m) in if l > 0 then 1 + l + sov (of_nat l) else 0)
     + (if Index m \<noteq> 0 then 1 + sov (Index m) else 0)"

definition DepositRequest_fields :: "DepositRequest \<Rightarrow> bytes \<times> nat \<Rightarrow> (bytes \<times> nat) outcome" where
  "DepositRequest_fields m = seqB (put_uint 0x28 (Index m))
     (seqB (put_bytes 0x22 (Signature m))
     (seqB (put_uint 0x18 (dr_Amount m))
     (seqB (put_bytes 0x12 (WithdrawalCredentials m))
     (put_bytes 0xa (Pubkey m)))))"

definition DepositRequest_MarshalToSizedBuffer :: "DepositRequest \<Rightarrow> bytes \<Rightarrow> (bytes \<times> nat) outcome" where
  "DepositRequest_MarshalToSizedBuffer m = marshalToSizedBuffer (DepositRequest_fields m)"

definition DepositRequest_Marshal :: "DepositRequest \<Rightarrow> bytes outcome" where
  "DepositRequest_Marshal m = marshal (DepositRequest_Size m) (DepositRequest_MarshalToSizedBuffer m)"

definition DepositRequest_MarshalTo :: "DepositRequest \<Rightarrow> bytes \<Rightarrow> (bytes \<times> nat) outcome" where
  "DepositRequest_MarshalTo m = marshalTo (DepositRequest_Size m) (DepositRequest_MarshalToSizedBuffer m)"

definition DepositRequest_switch :: "DepositRequest switch" where
  "DepositRequest_switch fieldNum wireType dAtA i m =
     (if fieldNum = 1 then Some (get_bytes ''Pubkey'' (\<lambda>s. m\<lparr>Pubkey := s\<rparr>) wireType dAtA i)
      else if fieldNum = 2 then Some (get_bytes ''WithdrawalCredentials'' (\<lambda>s. m\<lparr>WithdrawalCredentials := s\<rparr>) wireType dAtA i)
      else if fieldNum = 3 then Some (get_uint ''Amount'' (\<lambda>v. m\<lparr>dr_Amount := v\<rparr>) wireType dAtA i)
      else if fieldNum = 4 then Some (get_bytes ''Signature'' (\<lambda>s. m\<lparr>Signature := s\<rparr>) wireType dAtA i)
      else if fieldNum = 5 then Some (get_uint ''Index'' (\<lambda>v. m\<lparr>Index := v\<rparr>) wireType dAtA i)
      else None)"

definition DepositRequest_Unmarshal :: "bytes \<Rightarrow> DepositRequest \<Rightarrow> DepositRequest outcome option" where
  "DepositRequest_Unmarshal = unmarshal ''DepositRequest'' DepositRequest_switch"

text \<open>The reference encoding, and the contract.\<close>

definition DepositRequest_wire :: "DepositRequest \<Rightarrow> bytes" where
  "DepositRequest_wire m = ((((if Pubkey m \<noteq> [] then delimited 0xa (Pubkey m) else [])
     @ (if WithdrawalCredentials m \<noteq> [] then delimited 0x12 (WithdrawalCredentials m) else []))
     @ (if dr_Amount m \<noteq> 0 then char_of (0x18 :: nat) # varint (unat (dr_Amount m)) else []))
     @ (if Signature m \<noteq> [] then delimited 0x22 (Signature m) else []))
     @ (if Index m \<noteq> 0 then char_of (0x28 :: nat) # varint (unat (Index m)) else [])"

lemma DepositRequest_size: "DepositRequest_Size m = length (DepositRequest_wire m)"
  by (simp add: DepositRequest_Size_def DepositRequest_wire_def length_delimited sov_eq Let_def)

lemma DepositRequest_writes: "writes (DepositRequest_fields m) (DepositRequest_wire m)"
  unfolding DepositRequest_fields_def DepositRequest_wire_def
  by (intro writes_intros)

lemma DepositRequest_safe: "safe_switch DepositRequest_switch"
  unfolding safe_switch_def DepositRequest_switch_def
  by (auto split: if_splits intro!: forward_uint forward_bytes forward_message)

lemma DepositRequest_decodes:
  assumes "length (DepositRequest_wire m) < 2 ^ 63"
  shows "consumes ''DepositRequest'' DepositRequest_switch (DepositRequest_wire m) DepositRequest_zero m"
proof -
  have f1: "consumes ''DepositRequest'' DepositRequest_switch (if Pubkey m \<noteq> [] then delimited 0xa (Pubkey m) else [])
      (DepositRequest_zero) (DepositRequest_zero\<lparr>Pubkey := Pubkey m\<rparr>)"
    by (rule consumes_bytes_opt [where upd = "\<lambda>s. DepositRequest_zero\<lparr>Pubkey := s\<rparr>" and n = 1 and nm = "''Pubkey''"])
      (simp_all add: DepositRequest_switch_def DepositRequest_zero_def)
  have f2: "consumes ''DepositRequest'' DepositRequest_switch (if WithdrawalCredentials m \<noteq> [] then delimited 0x12 (WithdrawalCredentials m) else [])
      (DepositRequest_zero\<lparr>Pubkey := Pubkey m\<rparr>) (DepositRequest_zero\<lparr>Pubkey := Pubkey m\<rparr>\<lparr>WithdrawalCredentials := WithdrawalCredentials m\<rparr>)"
    by (rule consumes_bytes_opt [where upd = "\<lambda>s. DepositRequest_zero\<lparr>Pubkey := Pubkey m\<rparr>\<lparr>WithdrawalCredentials := s\<rparr>" and n = 2 and nm = "''WithdrawalCredentials''"])
      (simp_all add: DepositRequest_switch_def DepositRequest_zero_def)
  have f3: "consumes ''DepositRequest'' DepositRequest_switch (if dr_Amount m \<noteq> 0 then char_of (0x18 :: nat) # varint (unat (dr_Amount m)) else [])
      (DepositRequest_zero\<lparr>Pubkey := Pubkey m\<rparr>\<lparr>WithdrawalCredentials := WithdrawalCredentials m\<rparr>) (DepositRequest_zero\<lparr>Pubkey := Pubkey m\<rparr>\<lparr>WithdrawalCredentials := WithdrawalCredentials m\<rparr>\<lparr>dr_Amount := dr_Amount m\<rparr>)"
    by (rule consumes_uint_opt [where upd = "\<lambda>s. DepositRequest_zero\<lparr>Pubkey := Pubkey m\<rparr>\<lparr>WithdrawalCredentials := WithdrawalCredentials m\<rparr>\<lparr>dr_Amount := s\<rparr>" and n = 3 and nm = "''Amount''"])
      (simp_all add: DepositRequest_switch_def DepositRequest_zero_def)
  have f4: "consumes ''DepositRequest'' DepositRequest_switch (if Signature m \<noteq> [] then delimited 0x22 (Signature m) else [])
      (DepositRequest_zero\<lparr>Pubkey := Pubkey m\<rparr>\<lparr>WithdrawalCredentials := WithdrawalCredentials m\<rparr>\<lparr>dr_Amount := dr_Amount m\<rparr>) (DepositRequest_zero\<lparr>Pubkey := Pubkey m\<rparr>\<lparr>WithdrawalCredentials := WithdrawalCredentials m\<rparr>\<lparr>dr_Amount := dr_Amount m\<rparr>\<lparr>Signature := Signature m\<rparr>)"
    by (rule consumes_bytes_opt [where upd = "\<lambda>s. DepositRequest_zero\<lparr>Pubkey := Pubkey m\<rparr>\<lparr>WithdrawalCredentials := WithdrawalCredentials m\<rparr>\<lparr>dr_Amount := dr_Amount m\<rparr>\<lparr>Signature := s\<rparr>" and n = 4 and nm = "''Signature''"])
      (simp_all add: DepositRequest_switch_def DepositRequest_zero_def)
  have f5: "consumes ''DepositRequest'' DepositRequest_switch (if Index m \<noteq> 0 then char_of (0x28 :: nat) # varint (unat (Index m)) else [])
      (DepositRequest_zero\<lparr>Pubkey := Pubkey m\<rparr>\<lparr>WithdrawalCredentials := WithdrawalCredentials m\<rparr>\<lparr>dr_Amount := dr_Amount m\<rparr>\<lparr>Signature := Signature m\<rparr>) (DepositRequest_zero\<lparr>Pubkey := Pubkey m\<rparr>\<lparr>WithdrawalCredentials := WithdrawalCredentials m\<rparr>\<lparr>dr_Amount := dr_Amount m\<rparr>\<lparr>Signature := Signature m\<rparr>\<lparr>Index := Index m\<rparr>)"
    by (rule consumes_uint_opt [where upd = "\<lambda>s. DepositRequest_zero\<lparr>Pubkey := Pubkey m\<rparr>\<lparr>WithdrawalCredentials := WithdrawalCredentials m\<rparr>\<lparr>dr_Amount := dr_Amount m\<rparr>\<lparr>Signature := Signature m\<rparr>\<lparr>Index := s\<rparr>" and n = 5 and nm = "''Index''"])
      (simp_all add: DepositRequest_switch_def DepositRequest_zero_def)
  have "DepositRequest_zero\<lparr>Pubkey := Pubkey m\<rparr>\<lparr>WithdrawalCredentials := WithdrawalCredentials m\<rparr>\<lparr>dr_Amount := dr_Amount m\<rparr>\<lparr>Signature := Signature m\<rparr>\<lparr>Index := Index m\<rparr> = m" by (cases m) (simp add: DepositRequest_zero_def)
  then show ?thesis using consumes_append [OF consumes_append [OF consumes_append [OF consumes_append [OF f1 f2] f3] f4] f5] by (simp only: DepositRequest_wire_def)
qed

interpretation depositRequest_msg: proto_message DepositRequest_Size DepositRequest_fields "''DepositRequest''" DepositRequest_switch DepositRequest_zero DepositRequest_wire
  by unfold_locales (simp_all add: DepositRequest_size DepositRequest_writes DepositRequest_safe DepositRequest_decodes)

section \<open>\<open>ConsensusRequests\<close>\<close>

definition ConsensusRequests_zero :: ConsensusRequests where
  "ConsensusRequests_zero = \<lparr>Deposits = [], RequestWithdrawals = []\<rparr>"

definition ConsensusRequests_Size :: "ConsensusRequests \<Rightarrow> nat" where
  "ConsensusRequests_Size m = (\<Sum>e\<leftarrow>Deposits m. let l = DepositRequest_Size e in 1 + l + sov (of_nat l))
     + (\<Sum>e\<leftarrow>RequestWithdrawals m. let l = WithdrawalRequest_Size e in 1 + l + sov (of_nat l))"

definition ConsensusRequests_fields :: "ConsensusRequests \<Rightarrow> bytes \<times> nat \<Rightarrow> (bytes \<times> nat) outcome" where
  "ConsensusRequests_fields m = seqB (put_messages 0x12 WithdrawalRequest_MarshalToSizedBuffer (RequestWithdrawals m))
     (put_messages 0xa DepositRequest_MarshalToSizedBuffer (Deposits m))"

definition ConsensusRequests_MarshalToSizedBuffer :: "ConsensusRequests \<Rightarrow> bytes \<Rightarrow> (bytes \<times> nat) outcome" where
  "ConsensusRequests_MarshalToSizedBuffer m = marshalToSizedBuffer (ConsensusRequests_fields m)"

definition ConsensusRequests_Marshal :: "ConsensusRequests \<Rightarrow> bytes outcome" where
  "ConsensusRequests_Marshal m = marshal (ConsensusRequests_Size m) (ConsensusRequests_MarshalToSizedBuffer m)"

definition ConsensusRequests_MarshalTo :: "ConsensusRequests \<Rightarrow> bytes \<Rightarrow> (bytes \<times> nat) outcome" where
  "ConsensusRequests_MarshalTo m = marshalTo (ConsensusRequests_Size m) (ConsensusRequests_MarshalToSizedBuffer m)"

definition ConsensusRequests_switch :: "ConsensusRequests switch" where
  "ConsensusRequests_switch fieldNum wireType dAtA i m =
     (if fieldNum = 1 then Some (get_message ''Deposits'' (\<lambda>b. DepositRequest_Unmarshal b DepositRequest_zero)
       (\<lambda>e. m\<lparr>Deposits := Deposits m @ [e]\<rparr>) wireType dAtA i)
      else if fieldNum = 2 then Some (get_message ''Withdrawals'' (\<lambda>b. WithdrawalRequest_Unmarshal b WithdrawalRequest_zero)
       (\<lambda>e. m\<lparr>RequestWithdrawals := RequestWithdrawals m @ [e]\<rparr>) wireType dAtA i)
      else None)"

definition ConsensusRequests_Unmarshal :: "bytes \<Rightarrow> ConsensusRequests \<Rightarrow> ConsensusRequests outcome option" where
  "ConsensusRequests_Unmarshal = unmarshal ''ConsensusRequests'' ConsensusRequests_switch"

text \<open>The reference encoding, and the contract.\<close>

definition ConsensusRequests_wire :: "ConsensusRequests \<Rightarrow> bytes" where
  "ConsensusRequests_wire m = concat (map (\<lambda>e. delimited 0xa (DepositRequest_wire e)) (Deposits m))
     @ concat (map (\<lambda>e. delimited 0x12 (WithdrawalRequest_wire e)) (RequestWithdrawals m))"

lemma ConsensusRequests_size: "ConsensusRequests_Size m = length (ConsensusRequests_wire m)"
  by (simp add: ConsensusRequests_Size_def ConsensusRequests_wire_def length_delimited sov_eq Let_def depositRequest_msg.size_wire withdrawalRequest_msg.size_wire length_concat comp_def)

lemma ConsensusRequests_writes: "writes (ConsensusRequests_fields m) (ConsensusRequests_wire m)"
  unfolding ConsensusRequests_fields_def ConsensusRequests_wire_def DepositRequest_MarshalToSizedBuffer_def WithdrawalRequest_MarshalToSizedBuffer_def 
  by (intro writes_intros depositRequest_msg.fields_wire withdrawalRequest_msg.fields_wire)

lemma ConsensusRequests_safe: "safe_switch ConsensusRequests_switch"
  unfolding safe_switch_def ConsensusRequests_switch_def
  by (auto split: if_splits intro!: forward_uint forward_bytes forward_message depositRequest_msg.unmarshal_returns [folded DepositRequest_Unmarshal_def] withdrawalRequest_msg.unmarshal_returns [folded WithdrawalRequest_Unmarshal_def])

lemma fold_Deposits: "fold (\<lambda>x m. m\<lparr>Deposits := Deposits m @ [x]\<rparr>) xs m = m\<lparr>Deposits := Deposits m @ xs\<rparr>"
  by (induction xs arbitrary: m) auto

lemma fold_RequestWithdrawals: "fold (\<lambda>x m. m\<lparr>RequestWithdrawals := RequestWithdrawals m @ [x]\<rparr>) xs m = m\<lparr>RequestWithdrawals := RequestWithdrawals m @ xs\<rparr>"
  by (induction xs arbitrary: m) auto

lemma ConsensusRequests_decodes:
  assumes "length (ConsensusRequests_wire m) < 2 ^ 63"
  shows "consumes ''ConsensusRequests'' ConsensusRequests_switch (ConsensusRequests_wire m) ConsensusRequests_zero m"
proof -
  have u1: "DepositRequest_Unmarshal (DepositRequest_wire e) DepositRequest_zero = Some (Ok e)" if "e \<in> set (Deposits m)" for e
    using assms depositRequest_msg.unmarshal_wire [of e] length_in_concat [OF that, of DepositRequest_wire "0xa"]
    by (simp add: DepositRequest_Unmarshal_def ConsensusRequests_wire_def)
  have c1: "consumes ''ConsensusRequests'' ConsensusRequests_switch (delimited 0xa (DepositRequest_wire e)) x (x\<lparr>Deposits := Deposits x @ [e]\<rparr>)"
    if "e \<in> set (Deposits m)" for e x
    by (rule consumes_message [where upd = "\<lambda>e. x\<lparr>Deposits := Deposits x @ [e]\<rparr>" and n = 1 and nm = "''Deposits''"
        and unm = "\<lambda>b. DepositRequest_Unmarshal b DepositRequest_zero"])
      (simp_all add: u1 [OF that] ConsensusRequests_switch_def)
  have f1: "consumes ''ConsensusRequests'' ConsensusRequests_switch (concat (map (\<lambda>e. delimited 0xa (DepositRequest_wire e)) (Deposits m)))
      (ConsensusRequests_zero) (ConsensusRequests_zero\<lparr>Deposits := Deposits m\<rparr>)"
    using consumes_list [where add = "\<lambda>e x. x\<lparr>Deposits := Deposits x @ [e]\<rparr>", OF c1, of "Deposits m" "ConsensusRequests_zero"]
    by (simp add: fold_Deposits ConsensusRequests_zero_def)
  have u2: "WithdrawalRequest_Unmarshal (WithdrawalRequest_wire e) WithdrawalRequest_zero = Some (Ok e)" if "e \<in> set (RequestWithdrawals m)" for e
    using assms withdrawalRequest_msg.unmarshal_wire [of e] length_in_concat [OF that, of WithdrawalRequest_wire "0x12"]
    by (simp add: WithdrawalRequest_Unmarshal_def ConsensusRequests_wire_def)
  have c2: "consumes ''ConsensusRequests'' ConsensusRequests_switch (delimited 0x12 (WithdrawalRequest_wire e)) x (x\<lparr>RequestWithdrawals := RequestWithdrawals x @ [e]\<rparr>)"
    if "e \<in> set (RequestWithdrawals m)" for e x
    by (rule consumes_message [where upd = "\<lambda>e. x\<lparr>RequestWithdrawals := RequestWithdrawals x @ [e]\<rparr>" and n = 2 and nm = "''Withdrawals''"
        and unm = "\<lambda>b. WithdrawalRequest_Unmarshal b WithdrawalRequest_zero"])
      (simp_all add: u2 [OF that] ConsensusRequests_switch_def)
  have f2: "consumes ''ConsensusRequests'' ConsensusRequests_switch (concat (map (\<lambda>e. delimited 0x12 (WithdrawalRequest_wire e)) (RequestWithdrawals m)))
      (ConsensusRequests_zero\<lparr>Deposits := Deposits m\<rparr>) (ConsensusRequests_zero\<lparr>Deposits := Deposits m\<rparr>\<lparr>RequestWithdrawals := RequestWithdrawals m\<rparr>)"
    using consumes_list [where add = "\<lambda>e x. x\<lparr>RequestWithdrawals := RequestWithdrawals x @ [e]\<rparr>", OF c2, of "RequestWithdrawals m" "ConsensusRequests_zero\<lparr>Deposits := Deposits m\<rparr>"]
    by (simp add: fold_RequestWithdrawals ConsensusRequests_zero_def)
  have "ConsensusRequests_zero\<lparr>Deposits := Deposits m\<rparr>\<lparr>RequestWithdrawals := RequestWithdrawals m\<rparr> = m" by (cases m) (simp add: ConsensusRequests_zero_def)
  then show ?thesis using consumes_append [OF f1 f2] by (simp only: ConsensusRequests_wire_def)
qed

interpretation consensusRequests_msg: proto_message ConsensusRequests_Size ConsensusRequests_fields "''ConsensusRequests''" ConsensusRequests_switch ConsensusRequests_zero ConsensusRequests_wire
  by unfold_locales (simp_all add: ConsensusRequests_size ConsensusRequests_writes ConsensusRequests_safe ConsensusRequests_decodes)

section \<open>Properties\<close>

text \<open>
  C23. Encoding and decoding are inverse for every message: a message shorter than a Go slice can be
  is marshalled without error or panic, and unmarshalling the result gives it back.
\<close>

theorem protobuf_round_trip:
  assumes "GenesisState_Size m1 < 2 ^ 63"
    and "MsgExecutionPayload_Size m2 < 2 ^ 63"
    and "MsgUpdateParams_Size m3 < 2 ^ 63"
    and "QueryParamsResponse_Size m4 < 2 ^ 63"
    and "Module_Size m5 < 2 ^ 63"
    and "WithdrawalRequest_Size m6 < 2 ^ 63"
    and "DepositRequest_Size m7 < 2 ^ 63"
    and "ConsensusRequests_Size m8 < 2 ^ 63"
  shows "(\<exists>b. GenesisState_Marshal m1 = Ok b \<and> GenesisState_Unmarshal b GenesisState_zero = Some (Ok m1))
    \<and> (\<exists>b. MsgExecutionPayload_Marshal m2 = Ok b \<and> MsgExecutionPayload_Unmarshal b MsgExecutionPayload_zero = Some (Ok m2))
    \<and> (\<exists>b. MsgUpdateParams_Marshal m3 = Ok b \<and> MsgUpdateParams_Unmarshal b MsgUpdateParams_zero = Some (Ok m3))
    \<and> (\<exists>b. QueryParamsResponse_Marshal m4 = Ok b \<and> QueryParamsResponse_Unmarshal b QueryParamsResponse_zero = Some (Ok m4))
    \<and> (\<exists>b. Module_Marshal m5 = Ok b \<and> Module_Unmarshal b Module_zero = Some (Ok m5))
    \<and> (\<exists>b. WithdrawalRequest_Marshal m6 = Ok b \<and> WithdrawalRequest_Unmarshal b WithdrawalRequest_zero = Some (Ok m6))
    \<and> (\<exists>b. DepositRequest_Marshal m7 = Ok b \<and> DepositRequest_Unmarshal b DepositRequest_zero = Some (Ok m7))
    \<and> (\<exists>b. ConsensusRequests_Marshal m8 = Ok b \<and> ConsensusRequests_Unmarshal b ConsensusRequests_zero = Some (Ok m8))"
  unfolding GenesisState_Marshal_def GenesisState_MarshalToSizedBuffer_def GenesisState_Unmarshal_def MsgExecutionPayload_Marshal_def MsgExecutionPayload_MarshalToSizedBuffer_def MsgExecutionPayload_Unmarshal_def MsgUpdateParams_Marshal_def MsgUpdateParams_MarshalToSizedBuffer_def MsgUpdateParams_Unmarshal_def QueryParamsResponse_Marshal_def QueryParamsResponse_MarshalToSizedBuffer_def QueryParamsResponse_Unmarshal_def Module_Marshal_def Module_MarshalToSizedBuffer_def Module_Unmarshal_def WithdrawalRequest_Marshal_def WithdrawalRequest_MarshalToSizedBuffer_def WithdrawalRequest_Unmarshal_def DepositRequest_Marshal_def DepositRequest_MarshalToSizedBuffer_def DepositRequest_Unmarshal_def ConsensusRequests_Marshal_def ConsensusRequests_MarshalToSizedBuffer_def ConsensusRequests_Unmarshal_def
    genesisState_msg.marshal_wire msgExecutionPayload_msg.marshal_wire msgUpdateParams_msg.marshal_wire queryParamsResponse_msg.marshal_wire module_msg.marshal_wire withdrawalRequest_msg.marshal_wire depositRequest_msg.marshal_wire consensusRequests_msg.marshal_wire
  using assms by (simp add: genesisState_msg.unmarshal_wire genesisState_msg.size_wire msgExecutionPayload_msg.unmarshal_wire msgExecutionPayload_msg.size_wire msgUpdateParams_msg.unmarshal_wire msgUpdateParams_msg.size_wire queryParamsResponse_msg.unmarshal_wire queryParamsResponse_msg.size_wire module_msg.unmarshal_wire module_msg.size_wire withdrawalRequest_msg.unmarshal_wire withdrawalRequest_msg.size_wire depositRequest_msg.unmarshal_wire depositRequest_msg.size_wire consensusRequests_msg.unmarshal_wire consensusRequests_msg.size_wire)

theorem protobuf_round_trip_witness:
  "\<exists>b. MsgExecutionPayload_Marshal \<lparr>msg_Authority = ''nexus1evm'', msg_ExecutionPayload = ''payload''\<rparr> = Ok b
     \<and> MsgExecutionPayload_Unmarshal b MsgExecutionPayload_zero
       = Some (Ok \<lparr>msg_Authority = ''nexus1evm'', msg_ExecutionPayload = ''payload''\<rparr>)"
proof -
  have s: "MsgExecutionPayload_Size \<lparr>msg_Authority = ''nexus1evm'', msg_ExecutionPayload = ''payload''\<rparr> < 2 ^ 63"
    using sov_bounds(2) [of 9] sov_bounds(2) [of 7] by (simp add: MsgExecutionPayload_Size_def)
  show ?thesis
    using protobuf_round_trip [of GenesisState_zero _ MsgUpdateParams_zero QueryParamsResponse_zero Module_zero
        WithdrawalRequest_zero DepositRequest_zero ConsensusRequests_zero] s sov_bounds(2) [of 0]
    by (simp add: GenesisState_Size_def MsgUpdateParams_Size_def QueryParamsResponse_Size_def Module_Size_def
        WithdrawalRequest_Size_def DepositRequest_Size_def ConsensusRequests_Size_def Params_Size_def
        GenesisState_zero_def MsgUpdateParams_zero_def QueryParamsResponse_zero_def Module_zero_def
        WithdrawalRequest_zero_def DepositRequest_zero_def ConsensusRequests_zero_def)
qed


text \<open>
  The computed size is exact: \<open>Marshal\<close> allocates \<open>Size\<close> bytes and fills all of them, never
  writing outside, and \<open>MarshalTo\<close> puts the same bytes at the start of any buffer that has room.
\<close>

theorem marshal_fills_size:
  assumes "GenesisState_Size m1 \<le> length d"
    and "MsgExecutionPayload_Size m2 \<le> length d"
    and "MsgUpdateParams_Size m3 \<le> length d"
    and "QueryParamsResponse_Size m4 \<le> length d"
    and "Module_Size m5 \<le> length d"
    and "WithdrawalRequest_Size m6 \<le> length d"
    and "DepositRequest_Size m7 \<le> length d"
    and "ConsensusRequests_Size m8 \<le> length d"
  shows "(\<exists>b. GenesisState_Marshal m1 = Ok b \<and> length b = GenesisState_Size m1 \<and> GenesisState_MarshalTo m1 d = Ok (b @ drop (length b) d, length b))
    \<and> (\<exists>b. MsgExecutionPayload_Marshal m2 = Ok b \<and> length b = MsgExecutionPayload_Size m2 \<and> MsgExecutionPayload_MarshalTo m2 d = Ok (b @ drop (length b) d, length b))
    \<and> (\<exists>b. MsgUpdateParams_Marshal m3 = Ok b \<and> length b = MsgUpdateParams_Size m3 \<and> MsgUpdateParams_MarshalTo m3 d = Ok (b @ drop (length b) d, length b))
    \<and> (\<exists>b. QueryParamsResponse_Marshal m4 = Ok b \<and> length b = QueryParamsResponse_Size m4 \<and> QueryParamsResponse_MarshalTo m4 d = Ok (b @ drop (length b) d, length b))
    \<and> (\<exists>b. Module_Marshal m5 = Ok b \<and> length b = Module_Size m5 \<and> Module_MarshalTo m5 d = Ok (b @ drop (length b) d, length b))
    \<and> (\<exists>b. WithdrawalRequest_Marshal m6 = Ok b \<and> length b = WithdrawalRequest_Size m6 \<and> WithdrawalRequest_MarshalTo m6 d = Ok (b @ drop (length b) d, length b))
    \<and> (\<exists>b. DepositRequest_Marshal m7 = Ok b \<and> length b = DepositRequest_Size m7 \<and> DepositRequest_MarshalTo m7 d = Ok (b @ drop (length b) d, length b))
    \<and> (\<exists>b. ConsensusRequests_Marshal m8 = Ok b \<and> length b = ConsensusRequests_Size m8 \<and> ConsensusRequests_MarshalTo m8 d = Ok (b @ drop (length b) d, length b))"
  unfolding GenesisState_Marshal_def GenesisState_MarshalTo_def GenesisState_MarshalToSizedBuffer_def MsgExecutionPayload_Marshal_def MsgExecutionPayload_MarshalTo_def MsgExecutionPayload_MarshalToSizedBuffer_def MsgUpdateParams_Marshal_def MsgUpdateParams_MarshalTo_def MsgUpdateParams_MarshalToSizedBuffer_def QueryParamsResponse_Marshal_def QueryParamsResponse_MarshalTo_def QueryParamsResponse_MarshalToSizedBuffer_def Module_Marshal_def Module_MarshalTo_def Module_MarshalToSizedBuffer_def WithdrawalRequest_Marshal_def WithdrawalRequest_MarshalTo_def WithdrawalRequest_MarshalToSizedBuffer_def DepositRequest_Marshal_def DepositRequest_MarshalTo_def DepositRequest_MarshalToSizedBuffer_def ConsensusRequests_Marshal_def ConsensusRequests_MarshalTo_def ConsensusRequests_MarshalToSizedBuffer_def
  using assms by (intro conjI) (simp_all add: genesisState_msg.marshal_fills
      msgExecutionPayload_msg.marshal_fills
      msgUpdateParams_msg.marshal_fills
      queryParamsResponse_msg.marshal_fills
      module_msg.marshal_fills
      withdrawalRequest_msg.marshal_fills
      depositRequest_msg.marshal_fills
      consensusRequests_msg.marshal_fills)

theorem marshal_fills_size_witness:
  "\<exists>b. Module_Marshal \<lparr>mod_Authority = ''gov''\<rparr> = Ok b \<and> length b = Module_Size \<lparr>mod_Authority = ''gov''\<rparr>"
  using marshal_fills_size [of GenesisState_zero "replicate (GenesisState_Size GenesisState_zero
      + MsgExecutionPayload_Size MsgExecutionPayload_zero + MsgUpdateParams_Size MsgUpdateParams_zero
      + QueryParamsResponse_Size QueryParamsResponse_zero + Module_Size \<lparr>mod_Authority = ''gov''\<rparr>
      + WithdrawalRequest_Size WithdrawalRequest_zero + DepositRequest_Size DepositRequest_zero
      + ConsensusRequests_Size ConsensusRequests_zero) (CHR 0x00)" MsgExecutionPayload_zero MsgUpdateParams_zero
      QueryParamsResponse_zero "\<lparr>mod_Authority = ''gov''\<rparr>" WithdrawalRequest_zero DepositRequest_zero
      ConsensusRequests_zero]
  by auto

end
