(* ===== verification/Jwt.thy ===== *)
theory Jwt
  imports Evm_Types
begin

text \<open>
  The shared secret that authenticates the Engine API and the gRPC services (\<open>lib/jwt.go\<close>,
  \<open>lib/grpc_jwt.go\<close>). Reading the file is modelled byte by byte; signing and parsing of tokens are
  the library \<open>golang-jwt\<close>, given by the record \<open>JwtLib\<close>.
\<close>

section \<open>The secret file\<close>

record JwtSecret =
  secret :: bytes

definition NewJwtSecret :: "bytes \<Rightarrow> JwtSecret" where
  "NewJwtSecret s = \<lparr>secret = s\<rparr>"

fun ReadFile :: "file_state \<Rightarrow> bytes outcome" where
  "ReadFile NotExist = Err (Sentinel ''file does not exist'')"
| "ReadFile (Unreadable e) = Err e"
| "ReadFile (Contents d) = Ok d"

definition LoadJWTSecret :: "(string \<Rightarrow> file_state) \<Rightarrow> string \<Rightarrow> JwtSecret outcome" where
  "LoadJWTSecret files path =
     bindO (ReadFile (files path)) (\<lambda>contents.
     let hexSecret = TrimPrefix (TrimSpace contents) ''0x'' in
     if length hexSecret \<noteq> 64
     then Err (New (''jwt secret must be 64 hex chars, got '' @ show_nat (length hexSecret)))
     else bindO (hex_decode hexSecret) (\<lambda>secretBytes. Ok (NewJwtSecret secretBytes)))"

definition LoadJWTSecretFromEnv ::
    "(string \<Rightarrow> string) \<Rightarrow> (string \<Rightarrow> file_state) \<Rightarrow> JwtSecret outcome" where
  "LoadJWTSecretFromEnv getenv files =
     (let secretPath = getenv ''GRPC_JWT_SECRET_PATH'' in
      if secretPath = [] then Err (New ''GRPC_JWT_SECRET_PATH environment variable not set'')
      else LoadJWTSecret files secretPath)"

section \<open>Tokens\<close>

text \<open>The signing method a token's header names: the HMAC family, or another one, with its \<open>alg\<close>.\<close>

datatype signing_method = SigningMethodHMAC string | OtherMethod string

fun Alg :: "signing_method \<Rightarrow> string" where
  "Alg (SigningMethodHMAC a) = a"
| "Alg (OtherMethod a) = a"

record JwtToken =
  Method :: signing_method
  Valid :: bool

text \<open>
  \<open>SignedHS256 key iat\<close>: \<open>jwt.NewWithClaims(SigningMethodHS256, {"iat": iat}).SignedString(key)\<close>.
  \<open>Parse t keyfunc\<close>: \<open>jwt.Parse\<close>, which asks \<open>keyfunc\<close> for the key of the token it decoded.
  \<open>Verifies t m key\<close>: the signature of \<open>t\<close> is one of method \<open>m\<close> under \<open>key\<close> (used by the laws only).
\<close>

record JwtLib =
  SignedHS256 :: "bytes \<Rightarrow> i64 \<Rightarrow> string outcome"
  Parse :: "string \<Rightarrow> (JwtToken \<Rightarrow> bytes outcome) \<Rightarrow> JwtToken outcome"
  Verifies :: "string \<Rightarrow> signing_method \<Rightarrow> bytes \<Rightarrow> bool"

definition GenerateToken :: "JwtLib \<Rightarrow> JwtSecret \<Rightarrow> i64 \<Rightarrow> string outcome" where
  "GenerateToken J s unixNow = wrapO ''sign jwt: '' [] (SignedHS256 J (secret s) unixNow)"

text \<open>The key function of \<open>ValidateToken\<close>: the key is given out for HS256 only.\<close>

definition keyfunc :: "JwtSecret \<Rightarrow> JwtToken \<Rightarrow> bytes outcome" where
  "keyfunc s token =
     (case Method token of
        OtherMethod alg \<Rightarrow> Err (New (''unexpected signing method: '' @ alg))
      | SigningMethodHMAC alg \<Rightarrow>
          if alg \<noteq> ''HS256'' then Err (New (''unexpected algorithm: expected HS256, got '' @ alg))
          else Ok (secret s))"

definition ValidateToken :: "JwtLib \<Rightarrow> JwtSecret \<Rightarrow> string \<Rightarrow> unit outcome" where
  "ValidateToken J s tokenString =
     bindO (wrapO ''parse jwt: '' [] (Parse J tokenString (keyfunc s))) (\<lambda>token.
       if \<not> Valid token then Err (New ''invalid jwt token'') else Ok ())"

section \<open>Callers\<close>

text \<open>\<open>jwtClient.RoundTrip\<close>: the request's headers are a map; \<open>send\<close> is the inner transport.\<close>

definition RoundTrip ::
    "JwtLib \<Rightarrow> JwtSecret \<Rightarrow> i64 \<Rightarrow> ((string \<rightharpoonup> string) \<Rightarrow> 'r outcome) \<Rightarrow> (string \<rightharpoonup> string) \<Rightarrow> 'r outcome" where
  "RoundTrip J s unixNow send headers =
     bindO (wrapO ''jwt token string: '' [] (GenerateToken J s unixNow)) (\<lambda>tokenString.
       wrapO ''round trip: '' [] (send (headers(''Authorization'' \<mapsto> ''Bearer '' @ tokenString))))"

text \<open>
  \<open>AuthFunc\<close>: \<open>auth.AuthFromMD(ctx, "bearer")\<close> gives the token of the request's metadata; the
  interceptor lets the request through when the result is \<open>Ok\<close>.
\<close>

definition AuthFunc ::
    "JwtLib \<Rightarrow> JwtSecret \<Rightarrow> ('md \<Rightarrow> string outcome) \<Rightarrow> 'md \<Rightarrow> 'md outcome" where
  "AuthFunc J s AuthFromMD ctx =
     bindO (AuthFromMD ctx) (\<lambda>token.
       case ValidateToken J s token of
         Err e \<Rightarrow> Err (New (''rpc error: code = Unauthenticated desc = invalid token: '' @ error_text e))
       | Panic e \<Rightarrow> Panic e
       | Ok _ \<Rightarrow> Ok ctx)"

text \<open>\<open>JWTUnaryClientInterceptor\<close>: the outgoing metadata is a list of key and value pairs.\<close>

definition JWTUnaryClientInterceptor ::
    "JwtLib \<Rightarrow> JwtSecret \<Rightarrow> i64 \<Rightarrow> ((string \<times> string) list \<Rightarrow> 'r outcome) \<Rightarrow> (string \<times> string) list \<Rightarrow> 'r outcome" where
  "JWTUnaryClientInterceptor J s unixNow invoker md =
     (case GenerateToken J s unixNow of
        Err e \<Rightarrow> Err (New (''rpc error: code = Internal desc = generate jwt: '' @ error_text e))
      | Panic e \<Rightarrow> Panic e
      | Ok token \<Rightarrow> invoker (md @ [(''authorization'', ''Bearer '' @ token)]))"

section \<open>What is relied on\<close>

text \<open>
  \<open>jwt.Parse\<close> accepts a token only if the key function gave a key for its method and the signature
  verifies under that key; a token signed with HS256 is accepted, as a valid HS256 token, by any
  key function that gives out its key.
\<close>

definition jwt_law :: "JwtLib \<Rightarrow> bool" where
  "jwt_law J \<longleftrightarrow>
     (\<forall>t kf tok. Parse J t kf = Ok tok \<longrightarrow> Valid tok \<longrightarrow>
        (\<exists>key. kf tok = Ok key \<and> Verifies J t (Method tok) key)) \<and>
     (\<forall>key iat t kf. SignedHS256 J key iat = Ok t \<longrightarrow>
        (\<forall>tok. Method tok = SigningMethodHMAC ''HS256'' \<longrightarrow> kf tok = Ok key) \<longrightarrow>
        (\<exists>tok. Parse J t kf = Ok tok \<and> Valid tok))"

section \<open>Lemmas\<close>

lemma keyfunc_Ok: "keyfunc s tok = Ok key \<longleftrightarrow> Method tok = SigningMethodHMAC ''HS256'' \<and> key = secret s"
  by (auto simp: keyfunc_def split: signing_method.splits)

lemma LoadJWTSecret_32_bytes: "LoadJWTSecret files path = Ok s \<Longrightarrow> length (secret s) = 32"
  by (auto simp: LoadJWTSecret_def Let_def outcome_simps NewJwtSecret_def
      dest!: hex_decode_length split: if_splits)

lemma ValidateToken_generated:
  assumes "jwt_law J" and "GenerateToken J s iat = Ok t"
  shows "ValidateToken J s t = Ok ()"
proof -
  from assms(2) have "SignedHS256 J (secret s) iat = Ok t"
    by (simp add: GenerateToken_def outcome_simps)
  moreover have "\<forall>tok. Method tok = SigningMethodHMAC ''HS256'' \<longrightarrow> keyfunc s tok = Ok (secret s)"
    by (simp add: keyfunc_Ok)
  ultimately obtain tok where "Parse J t (keyfunc s) = Ok tok" "Valid tok"
    using assms(1) unfolding jwt_law_def by metis
  then show ?thesis by (simp add: ValidateToken_def)
qed

lemma ValidateToken_verifies:
  assumes "jwt_law J" and "ValidateToken J s t = Ok ()"
  shows "Verifies J t (SigningMethodHMAC ''HS256'') (secret s)"
proof -
  from assms(2) obtain tok where "Parse J t (keyfunc s) = Ok tok" "Valid tok"
    by (auto simp: ValidateToken_def outcome_simps split: if_splits)
  then show ?thesis using assms(1) by (fastforce simp: jwt_law_def keyfunc_Ok)
qed

lemma hex_encode_not_prefixed: "\<not> HasPrefix (hex_encode bs) ''0x''"
proof
  assume "HasPrefix (hex_encode bs) ''0x''"
  then obtain t where "hex_encode bs = ''0x'' @ t" by (auto simp: HasPrefix_iff)
  then have "hex_decode (''0x'' @ t) = Ok bs" by (metis hex_decode_encode)
  then show False by (simp add: hex_value_def)
qed

lemma is_space_hex_char [simp]: "d < 16 \<Longrightarrow> \<not> is_space (hex_char d)"
proof -
  assume "d < 16"
  then have "hex_value (hex_char d) \<noteq> None" by simp
  then show ?thesis by (auto simp: is_space_def hex_value_def)
qed

lemma hex_encode_no_space: "c \<in> set (hex_encode bs) \<Longrightarrow> \<not> is_space c"
proof (induction bs)
  case (Cons b bs)
  have "(of_char b :: nat) < 256" by simp
  then have "of_char b div 16 < (16 :: nat)" by linarith
  with Cons show ?case by auto
qed simp

lemma TrimSpace_padded:
  assumes "\<And>c. c \<in> set s \<Longrightarrow> \<not> is_space c" and "\<And>c. c \<in> set a \<union> set b \<Longrightarrow> is_space c"
  shows "TrimSpace (a @ s @ b) = s"
proof (cases s)
  case Nil
  with assms(2) show ?thesis
    by (auto simp: TrimSpace_def dropWhile_append2 dest: set_dropWhileD)
next
  case (Cons c cs)
  have "dropWhile is_space (a @ s @ b) = s @ b"
    using assms Cons by (simp add: dropWhile_append2)
  moreover have "dropWhile is_space (rev b @ rev s) = rev s"
  proof -
    obtain d ds where r: "rev s = d # ds" using Cons by (cases "rev s") auto
    then have "\<not> is_space d" using assms(1) by (metis list.set_intros(1) set_rev)
    with assms(2) show ?thesis unfolding r by (subst dropWhile_append2) auto
  qed
  ultimately show ?thesis by (simp add: TrimSpace_def)
qed

section \<open>Properties\<close>

text \<open>
  A secret file that holds the hexadecimal form of a 32-byte key, with or without the prefix
  \<open>0x\<close> and with any white space around it, loads to exactly that key.
\<close>

theorem LoadJWTSecret_roundtrip:
  assumes len: "length key = 32"
    and pre: "pre = [] \<or> pre = ''0x''"
    and pad: "\<forall>c\<in>set before \<union> set after. is_space c"
    and contents: "files path = Contents (before @ pre @ hex_encode key @ after)"
  shows "LoadJWTSecret files path = Ok \<lparr>secret = key\<rparr>"
proof -
  let ?body = "pre @ hex_encode key"
  have nosp: "\<not> is_space c" if "c \<in> set ?body" for c
    using that pre hex_encode_no_space [of c key] by (auto simp: is_space_def)
  have "TrimSpace (before @ ?body @ after) = ?body"
    by (rule TrimSpace_padded) (use nosp pad in auto)
  moreover have "TrimPrefix ?body ''0x'' = hex_encode key"
    using pre hex_encode_not_prefixed [of key] by (auto simp: TrimPrefix_def)
  ultimately show ?thesis
    using len by (simp add: LoadJWTSecret_def contents NewJwtSecret_def)
qed

theorem LoadJWTSecret_roundtrip_witness:
  "LoadJWTSecret (\<lambda>_. Contents (''0x'' @ hex_encode (replicate 32 (CHR ''k'')) @ [CHR 0x0A])) ''jwt.hex''
   = Ok \<lparr>secret = replicate 32 (CHR ''k'')\<rparr>"
  by (rule LoadJWTSecret_roundtrip [where pre = "''0x''" and before = "[]" and after = "[CHR 0x0A]"])
    (simp_all add: is_space_def)

text \<open>
  Token authentication. A token that \<open>ValidateToken\<close> accepts was signed with HS256 under the
  node's own secret: tokens of another algorithm (\<open>none\<close>, HS384, RS256, \<dots>) never pass, and every
  loaded secret has 32 bytes. Conversely, the server accepts whatever the client interceptor sends
  with the same secret.
\<close>

theorem jwt_authentication:
  assumes law: "jwt_law J" and load: "LoadJWTSecret files path = Ok s"
    and md_law: "\<forall>md t. AuthFromMD (md @ [(''authorization'', ''Bearer '' @ t)]) = Ok t"
  shows "length (secret s) = 32
    \<and> (ValidateToken J s t = Ok () \<longrightarrow> Verifies J t (SigningMethodHMAC ''HS256'') (secret s))
    \<and> (\<forall>tok. GenerateToken J s iat = Ok tok \<longrightarrow>
         JWTUnaryClientInterceptor J s iat (AuthFunc J s AuthFromMD) md
         = Ok (md @ [(''authorization'', ''Bearer '' @ tok)]))"
proof (intro conjI allI impI)
  show "length (secret s) = 32" using load by (rule LoadJWTSecret_32_bytes)
  show "Verifies J t (SigningMethodHMAC ''HS256'') (secret s)" if "ValidateToken J s t = Ok ()"
    using law that by (rule ValidateToken_verifies)
next
  fix tok
  assume gen: "GenerateToken J s iat = Ok tok"
  with ValidateToken_generated [OF law gen] md_law
  show "JWTUnaryClientInterceptor J s iat (AuthFunc J s AuthFromMD) md
    = Ok (md @ [(''authorization'', ''Bearer '' @ tok)])"
    by (simp add: JWTUnaryClientInterceptor_def AuthFunc_def)
qed

text \<open>A token library for the witness: a token is its algorithm's name, a dot and the key.\<close>

definition toy_jwt :: JwtLib where
  "toy_jwt = \<lparr>SignedHS256 = (\<lambda>key _. Ok (''HS256.'' @ key)),
     Parse = (\<lambda>t kf. let tok = \<lparr>Method = SigningMethodHMAC ''HS256'', Valid = True\<rparr> in
        bindO (kf tok) (\<lambda>key. if t = ''HS256.'' @ key then Ok tok else Err (New ''signature is invalid''))),
     Verifies = (\<lambda>t m key. m = SigningMethodHMAC ''HS256'' \<and> t = ''HS256.'' @ key)\<rparr>"

lemma toy_jwt_law: "jwt_law toy_jwt"
  by (auto simp: jwt_law_def toy_jwt_def Let_def outcome_simps split: if_splits)

theorem jwt_authentication_witness:
  "\<exists>files. LoadJWTSecret files ''jwt.hex'' = Ok \<lparr>secret = replicate 32 (CHR ''k'')\<rparr>
    \<and> length (secret \<lparr>secret = replicate 32 (CHR ''k'')\<rparr>) = 32
    \<and> ValidateToken toy_jwt \<lparr>secret = replicate 32 (CHR ''k'')\<rparr> (''HS256.'' @ replicate 32 (CHR ''k'')) = Ok ()
    \<and> Verifies toy_jwt (''HS256.'' @ replicate 32 (CHR ''k'')) (SigningMethodHMAC ''HS256'') (replicate 32 (CHR ''k''))"
proof -
  let ?key = "replicate 32 (CHR ''k'')"
  let ?files = "\<lambda>_. Contents (hex_encode ?key)"
  have sp: "TrimSpace (hex_encode ?key) = hex_encode ?key"
    using TrimSpace_padded [of "hex_encode ?key" "[]" "[]"] hex_encode_no_space by simp
  have load: "LoadJWTSecret ?files ''jwt.hex'' = Ok \<lparr>secret = ?key\<rparr>"
    by (simp add: LoadJWTSecret_def sp TrimPrefix_def hex_encode_not_prefixed NewJwtSecret_def)
  have v: "ValidateToken toy_jwt \<lparr>secret = ?key\<rparr> (''HS256.'' @ ?key) = Ok ()"
    by (simp add: ValidateToken_def toy_jwt_def keyfunc_def)
  have md: "\<forall>md t. (\<lambda>md. Ok (drop 7 (snd (last md)))) (md @ [(''authorization'', ''Bearer '' @ t)]) = Ok t"
    by simp
  show ?thesis
    using load v jwt_authentication [OF toy_jwt_law load md, of "''HS256.'' @ ?key"] by auto
qed

end
