(* ===== verification/Keeper.thy ===== *)
theory Keeper
  imports Samples Jwt
begin

text \<open>
  The keeper of \<open>x/evm\<close> (\<open>x/evm/keeper/keeper.go\<close>, \<open>utils.go\<close>): its configuration, its stored state
  and the block timestamp it prescribes.
\<close>

section \<open>Configuration\<close>

record rawUseBlockTimestamp =
  raw_StartBlockHeight :: string
  raw_Offset :: string
  raw_StopBlockHeight :: string

record rawConfig =
  raw_SuggestedFeeRecipient :: string
  raw_UseBlockTimestamp :: "rawUseBlockTimestamp option"
  raw_UnixTimestampOffset :: string

record UseBlockTimestamp =
  StartBlockHeight :: u64
  Offset :: u64
  StopBlockHeight :: "u64 option"

record Config =
  cfg_SuggestedFeeRecipient :: address
  cfg_UseBlockTimestamp :: "UseBlockTimestamp option"
  cfg_UnixTimestampOffset :: u64

text \<open>An optional decimal field: empty means 0, anything that does not parse panics.\<close>

definition parse_field :: "string \<Rightarrow> string \<Rightarrow> u64 outcome" where
  "parse_field what s =
     (if s = [] then Ok 0
      else panicO (''could not decode '' @ what @ '' as int: '' @ s @ '', '') [] (ParseUint s))"

definition readUseBlockTimestamp :: "rawUseBlockTimestamp \<Rightarrow> UseBlockTimestamp outcome" where
  "readUseBlockTimestamp raw =
     bindO (parse_field ''use_block_timestamp.offset'' (raw_Offset raw)) (\<lambda>offsetVal.
     bindO (parse_field ''use_block_timestamp.start_block_height'' (raw_StartBlockHeight raw)) (\<lambda>startBlockHeightVal.
     bindO (parse_field ''use_block_timestamp.stop_block_height'' (raw_StopBlockHeight raw)) (\<lambda>stopBlockHeightVal.
     bindO (if raw_StopBlockHeight raw \<noteq> []
            then if stopBlockHeightVal < startBlockHeightVal
                 then Panic (New (''use_block_timestamp.stop_block_height ('' @ show_u64 stopBlockHeightVal
                        @ '') must be >= start_block_height ('' @ show_u64 startBlockHeightVal @ '')''))
                 else Ok (Some stopBlockHeightVal)
            else Ok None) (\<lambda>stopBlockHeightPtr.
     Ok \<lparr>StartBlockHeight = startBlockHeightVal, Offset = offsetVal,
         StopBlockHeight = stopBlockHeightPtr\<rparr>))))"

text \<open>\<open>readConfig\<close>: \<open>file\<close> is the result of \<open>lib.ReadConfigFile\<close> and \<open>yaml\<close> the decoder.\<close>

definition readConfig :: "Ext \<Rightarrow> bytes outcome \<Rightarrow> (bytes \<Rightarrow> rawConfig outcome) \<Rightarrow> Config outcome" where
  "readConfig X config_file yaml =
     (case config_file of
        Err _ \<Rightarrow> Ok \<lparr>cfg_SuggestedFeeRecipient = 0, cfg_UseBlockTimestamp = None, cfg_UnixTimestampOffset = 0\<rparr>
      | Panic e \<Rightarrow> Panic e
      | Ok data \<Rightarrow>
         bindO (panicO ''failed to decode config '' [] (yaml data)) (\<lambda>config.
         let recipientStr = raw_SuggestedFeeRecipient config in
         bindO (if recipientStr = [] then Ok 0
                else if \<not> IsHexAddress X recipientStr
                then Panic (New (''could not decode recipient as hex: '' @ recipientStr))
                else Ok (HexToAddress X recipientStr)) (\<lambda>recipient.
         bindO (case raw_UseBlockTimestamp config of
                  None \<Rightarrow> Ok None
                | Some raw \<Rightarrow> bindO (readUseBlockTimestamp raw) (\<lambda>ubt. Ok (Some ubt))) (\<lambda>useBlockTimestamp.
         bindO (parse_field ''unix_timestamp_offset'' (raw_UnixTimestampOffset config)) (\<lambda>unixTimestampOffsetVal.
         Ok \<lparr>cfg_SuggestedFeeRecipient = recipient, cfg_UseBlockTimestamp = useBlockTimestamp,
             cfg_UnixTimestampOffset = unixTimestampOffsetVal\<rparr>)))))"

section \<open>The engine client's connection\<close>

text \<open>\<open>createEngineClient\<close>: \<open>dial url secret\<close> is \<open>lib.NewAuthClient\<close>.\<close>

definition createEngineClient ::
    "(string \<Rightarrow> string) \<Rightarrow> (string \<Rightarrow> file_state) \<Rightarrow> (string \<Rightarrow> JwtSecret \<Rightarrow> 'e EngineClient outcome)
     \<Rightarrow> 'e EngineClient outcome" where
  "createEngineClient getenv files dial =
     (let envPath = getenv ''EVM_ENGINE_JWT_SECRET_PATH'';
          jwtSecretPath = (if envPath \<noteq> [] then envPath else ''jwt.hex'');
          envURL = getenv ''EVM_ENGINE_URL'';
          engineURL = (if envURL \<noteq> [] then envURL else ''http://localhost:8551'')
      in bindO (wrapO (''failed to load JWT secret from '' @ jwtSecretPath @ '': '') [] (LoadJWTSecret files jwtSecretPath)) (\<lambda>jwtSecret.
         wrapO (''failed to create engine client for '' @ engineURL @ '': '') [] (dial engineURL jwtSecret)))"

section \<open>The keeper\<close>

record ('s, 'e) Keeper =
  addr_StringToBytes :: "string \<Rightarrow> bytes outcome"
  addr_BytesToString :: "bytes \<Rightarrow> string outcome"
  authority :: bytes
  ParamsItem :: "('s, Params) Item"
  BlockStateItem :: "('s, BlockState) Item"
  k_engineClient :: "'e EngineClient"
  SuggestedFeeRecipient :: address
  k_UseBlockTimestamp :: "UseBlockTimestamp option"
  UnixTimestampOffset :: u64
  chainSpec :: ChainSpec

text \<open>
  \<open>NewKeeper\<close>: the address codec, the two items of the schema, the engine client's connection and
  the configuration are built by the callees; any failure is a panic.
\<close>

definition NewKeeper ::
    "(string \<Rightarrow> bytes outcome) \<Rightarrow> (bytes \<Rightarrow> string outcome) \<Rightarrow> bytes
     \<Rightarrow> ('s, Params) Item \<Rightarrow> ('s, BlockState) Item \<Rightarrow> 'e EngineClient outcome \<Rightarrow> Config outcome
     \<Rightarrow> ChainSpec \<Rightarrow> ('s, 'e) Keeper outcome" where
  "NewKeeper toBytes toString auth paramsItem blockStateItem engine config spec =
     bindO (panicO (''invalid authority address '' @ auth @ '': '') [] (toString auth)) (\<lambda>_.
     bindO (mustO engine) (\<lambda>client.
     bindO config (\<lambda>cfg.
     Ok \<lparr>addr_StringToBytes = toBytes, addr_BytesToString = toString, authority = auth,
         ParamsItem = paramsItem, BlockStateItem = blockStateItem, k_engineClient = client,
         SuggestedFeeRecipient = cfg_SuggestedFeeRecipient cfg,
         k_UseBlockTimestamp = cfg_UseBlockTimestamp cfg,
         UnixTimestampOffset = cfg_UnixTimestampOffset cfg, chainSpec = spec\<rparr>)))"

definition GetAuthority :: "('s, 'e) Keeper \<Rightarrow> bytes" where
  "GetAuthority k = authority k"

definition GetBlockState :: "('s, 'e) Keeper \<Rightarrow> 's \<Rightarrow> BlockState outcome" where
  "GetBlockState k s = item_Get (BlockStateItem k) s"

definition SetBlockState :: "('s, 'e) Keeper \<Rightarrow> BlockState \<Rightarrow> 's \<Rightarrow> unit outcome \<times> 's" where
  "SetBlockState k blockState s = item_Set (BlockStateItem k) blockState s"

definition HasBlockState :: "('s, 'e) Keeper \<Rightarrow> 's \<Rightarrow> bool outcome" where
  "HasBlockState k s = item_Has (BlockStateItem k) s"

section \<open>Timestamps\<close>

definition toUint64 :: "i64 \<Rightarrow> u64 outcome" where
  "toUint64 val =
     (if sint val < 0 then Panic (New (''expected non-negative value, got: '' @ show_i64 val)) else Ok val)"

definition CalculateTimestamp :: "('s, 'e) Keeper \<Rightarrow> i64 \<Rightarrow> u64 \<Rightarrow> u64 \<Rightarrow> u64" where
  "CalculateTimestamp k unixTime blockHeight previousTimestamp =
     (case k_UseBlockTimestamp k of
        None \<Rightarrow>
          (let timestamp = unixTime
           in if timestamp \<le> previousTimestamp then previousTimestamp + 1 else timestamp)
      | Some cfg \<Rightarrow>
          if StartBlockHeight cfg \<le> blockHeight
             \<and> (case StopBlockHeight cfg of None \<Rightarrow> True | Some stop \<Rightarrow> blockHeight < stop)
          then blockHeight + Offset cfg
          else
            (let unixOffset = (case StopBlockHeight cfg of
                   None \<Rightarrow> 0
                 | Some stop \<Rightarrow> if stop \<le> blockHeight then UnixTimestampOffset k else 0);
                 timestamp = unixTime + unixOffset
             in if timestamp \<le> previousTimestamp then previousTimestamp + 1 else timestamp))"

section \<open>Lemmas\<close>

text \<open>The heights whose timestamp is derived from the height alone.\<close>

definition height_mode :: "('s, 'e) Keeper \<Rightarrow> u64 \<Rightarrow> bool" where
  "height_mode k h =
     (case k_UseBlockTimestamp k of
        None \<Rightarrow> False
      | Some cfg \<Rightarrow> StartBlockHeight cfg \<le> h
          \<and> (case StopBlockHeight cfg of None \<Rightarrow> True | Some stop \<Rightarrow> h < stop))"

lemma CalculateTimestamp_height_mode:
  "height_mode k h \<Longrightarrow> CalculateTimestamp k t h prev = h + Offset (the (k_UseBlockTimestamp k))"
  by (auto simp: height_mode_def CalculateTimestamp_def split: option.splits)

text \<open>The offset added to the wall clock at the other heights.\<close>

definition unix_offset :: "('s, 'e) Keeper \<Rightarrow> u64 \<Rightarrow> u64" where
  "unix_offset k h =
     (case k_UseBlockTimestamp k of
        None \<Rightarrow> 0
      | Some cfg \<Rightarrow> (case StopBlockHeight cfg of
            None \<Rightarrow> 0
          | Some stop \<Rightarrow> if stop \<le> h then UnixTimestampOffset k else 0))"

lemma CalculateTimestamp_wall_clock:
  "\<not> height_mode k h \<Longrightarrow>
   CalculateTimestamp k t h prev =
     (if t + unix_offset k h \<le> prev then prev + 1 else t + unix_offset k h)"
  by (auto simp: height_mode_def unix_offset_def CalculateTimestamp_def Let_def split: option.splits)

lemma CalculateTimestamp_greater:
  "\<not> height_mode k h \<Longrightarrow> prev \<noteq> - 1 \<Longrightarrow> prev < CalculateTimestamp k t h prev"
  by (simp add: CalculateTimestamp_wall_clock not_le)

lemma parse_field_Ok: "parse_field what s = Ok v \<longleftrightarrow> (if s = [] then v = 0 else ParseUint s = Ok v)"
  by (auto simp: parse_field_def outcome_simps)

lemma parse_field_not_Err: "parse_field what s \<noteq> Err e"
  by (simp add: parse_field_def panicO_not_Err)

lemma readUseBlockTimestamp_not_Err: "readUseBlockTimestamp raw \<noteq> Err e"
  by (auto simp: readUseBlockTimestamp_def outcome_simps parse_field_not_Err split: if_splits)

lemma readUseBlockTimestamp_window:
  "readUseBlockTimestamp raw = Ok ubt \<Longrightarrow> StopBlockHeight ubt = Some stop \<Longrightarrow> StartBlockHeight ubt \<le> stop"
  by (auto simp: readUseBlockTimestamp_def outcome_simps split: if_splits)

lemma readConfig_window:
  assumes "readConfig X config_file yaml = Ok cfg" and "cfg_UseBlockTimestamp cfg = Some ubt"
    and "StopBlockHeight ubt = Some stop"
  shows "StartBlockHeight ubt \<le> stop"
proof -
  from assms(1,2) obtain raw where "readUseBlockTimestamp raw = Ok ubt"
    by (auto simp: readConfig_def Let_def outcome_simps split: outcome.splits option.splits)
  then show ?thesis using assms(3) by (rule readUseBlockTimestamp_window)
qed

lemma readConfig_not_Err: "readConfig X config_file yaml \<noteq> Err e"
  by (auto simp: readConfig_def Let_def outcome_simps parse_field_not_Err
      readUseBlockTimestamp_not_Err split: outcome.splits option.splits if_splits)

section \<open>Properties\<close>


definition sample_keeper :: "UseBlockTimestamp option \<Rightarrow> (BlockState option, nat) Keeper" where
  "sample_keeper ubt = \<lparr>addr_StringToBytes = Ok, addr_BytesToString = Ok, authority = ''gov'',
     ParamsItem = sample_params_item, BlockStateItem = sample_item,
     k_engineClient = sample_engine, SuggestedFeeRecipient = 0,
     k_UseBlockTimestamp = ubt, UnixTimestampOffset = 7,
     chainSpec = \<lparr>PragueTimestamp = Some 0, OsakaTimestamp = None, AmsterdamTimestamp = None\<rparr>\<rparr>"

definition sample_window :: UseBlockTimestamp where
  "sample_window = \<lparr>StartBlockHeight = 10, Offset = 5, StopBlockHeight = Some 20\<rparr>"


text \<open>
  Configuration errors stop the node at start-up. \<open>readConfig\<close> returns a configuration or panics,
  never an error value. Without a configuration file it returns the zero configuration. A
  configuration that it returns has a stop height no lower than the start height, and its window
  and offsets are the decimal fields of the file, an empty field meaning 0.
\<close>

theorem readConfig_correct:
  "(\<forall>e. readConfig X config_file yaml \<noteq> Err e)
   \<and> readConfig X (Err err) yaml =
       Ok \<lparr>cfg_SuggestedFeeRecipient = 0, cfg_UseBlockTimestamp = None, cfg_UnixTimestampOffset = 0\<rparr>
   \<and> (\<forall>cfg ubt stop. readConfig X config_file yaml = Ok cfg \<longrightarrow>
        cfg_UseBlockTimestamp cfg = Some ubt \<longrightarrow> StopBlockHeight ubt = Some stop \<longrightarrow>
        StartBlockHeight ubt \<le> stop)
   \<and> readConfig X (Ok data) (\<lambda>_. Ok \<lparr>raw_SuggestedFeeRecipient = [],
        raw_UseBlockTimestamp = Some \<lparr>raw_StartBlockHeight = show_u64 a, raw_Offset = show_u64 b,
          raw_StopBlockHeight = show_u64 c\<rparr>,
        raw_UnixTimestampOffset = show_u64 d\<rparr>) =
       (if c < a
        then Panic (New (''use_block_timestamp.stop_block_height ('' @ show_u64 c
               @ '') must be >= start_block_height ('' @ show_u64 a @ '')''))
        else Ok \<lparr>cfg_SuggestedFeeRecipient = 0,
               cfg_UseBlockTimestamp = Some \<lparr>StartBlockHeight = a, Offset = b, StopBlockHeight = Some c\<rparr>,
               cfg_UnixTimestampOffset = d\<rparr>)"
proof -
  have ne: "show_u64 x \<noteq> []" for x by (simp add: show_u64_def)
  have "parse_field what (show_u64 x) = Ok x" for what x
    by (simp add: parse_field_def ne)
  then show ?thesis
    by (auto simp: readConfig_not_Err ne intro: readConfig_window)
      (simp_all add: readConfig_def readUseBlockTimestamp_def ne)
qed

theorem readConfig_correct_witness:
  "StartBlockHeight \<lparr>StartBlockHeight = 3, Offset = 1, StopBlockHeight = Some 8\<rparr> \<le> (8 :: u64)"
proof -
  let ?X = "undefined :: Ext"
  let ?yaml = "\<lambda>_. Ok \<lparr>raw_SuggestedFeeRecipient = [],
    raw_UseBlockTimestamp = Some \<lparr>raw_StartBlockHeight = show_u64 3, raw_Offset = show_u64 1,
      raw_StopBlockHeight = show_u64 8\<rparr>, raw_UnixTimestampOffset = show_u64 0\<rparr>"
  have "readConfig ?X (Ok ''c'') ?yaml = Ok \<lparr>cfg_SuggestedFeeRecipient = 0,
    cfg_UseBlockTimestamp = Some \<lparr>StartBlockHeight = 3, Offset = 1, StopBlockHeight = Some 8\<rparr>,
    cfg_UnixTimestampOffset = 0\<rparr>"
    using readConfig_correct [of ?X "Ok ''c''" ?yaml _ "''c''" 3 1 8 0] by simp
  then show ?thesis
    using readConfig_correct [of ?X "Ok ''c''" ?yaml] by auto
qed

end
