(* ===== verification/Genesis.thy ===== *)
theory Genesis
  imports Proto_Messages Keeper "HOL-Library.List_Lexorder" "HOL-Library.Char_ord"
begin

text \<open>
  Genesis of the EVM module (\<open>x/evm/types/genesis.go\<close>, \<open>x/evm/types/genesis_compat.go\<close>,
  \<open>x/evm/keeper/genesis.go\<close>, the genesis methods of \<open>x/evm/module/module.go\<close>) and the genesis files
  embedded in the binary (\<open>genesis/genesis.go\<close>). The two JSON decoders of a genesis state are
  arguments: the codec of the SDK, and the standard library's on the generated struct.
\<close>

section \<open>The genesis state\<close>

definition zero_hash_text :: string where
  "zero_hash_text = ''0x0000000000000000000000000000000000000000000000000000000000000000''"

definition DefaultGenesis :: GenesisState where
  "DefaultGenesis = GenesisState_zero\<lparr>gs_Params := DefaultParams, GenesisExecutionBlockHash := zero_hash_text\<rparr>"

definition GenesisState_Validate :: "GenesisState \<Rightarrow> unit outcome" where
  "GenesisState_Validate gs =
     bindO (Params_Validate (gs_Params gs)) (\<lambda>_.
     if GenesisExecutionBlockHash gs = [] then Err (New ''genesis execution block hash is required'')
     else if length (GenesisExecutionBlockHash gs) \<noteq> 66 \<or> take 2 (GenesisExecutionBlockHash gs) \<noteq> ''0x''
     then Err (New (''genesis execution block hash must be 66 characters long hex string with 0x prefix: ''
            @ GenesisExecutionBlockHash gs))
     else if CurrentBlockHash gs \<noteq> [] \<and>
            (length (CurrentBlockHash gs) \<noteq> 66 \<or> take 2 (CurrentBlockHash gs) \<noteq> ''0x'')
     then Err (New (''current block hash must be 66 characters long hex string with 0x prefix: ''
            @ CurrentBlockHash gs))
     else Ok ())"

definition NormalizeGenesisState :: "GenesisState \<Rightarrow> GenesisState" where
  "NormalizeGenesisState gs =
     (if GenesisExecutionBlockHash gs = []
      then gs\<lparr>GenesisExecutionBlockHash := GenesisExecutionBlockHash DefaultGenesis\<rparr> else gs)"

text \<open>
  The codec may leave fields set when it fails; the fallback decodes into the same variable, so the
  first decoder returns the variable also on failure and the second starts from it.
\<close>

definition GenesisStateFromJSON ::
    "(bytes \<Rightarrow> GenesisState \<Rightarrow> unit outcome \<times> GenesisState) \<Rightarrow> (bytes \<Rightarrow> GenesisState \<Rightarrow> unit outcome \<times> GenesisState)
     \<Rightarrow> bytes \<Rightarrow> GenesisState outcome" where
  "GenesisStateFromJSON cdc_UnmarshalJSON json_Unmarshal bz =
     (case cdc_UnmarshalJSON bz GenesisState_zero of
        (Ok _, gs) \<Rightarrow> Ok (NormalizeGenesisState gs)
      | (Panic e, _) \<Rightarrow> Panic e
      | (Err err, gs) \<Rightarrow>
          (case json_Unmarshal bz gs of
             (Ok _, gs') \<Rightarrow> Ok (NormalizeGenesisState gs')
           | (Panic e, _) \<Rightarrow> Panic e
           | (Err err2, _) \<Rightarrow> Err (Wrapf ''evm genesis: codec unmarshal: '' err (''; json fallback: '' @ error_text err2))))"

section \<open>The keeper\<close>

definition InitGenesis :: "Ext \<Rightarrow> ('s, 'e) Keeper \<Rightarrow> GenesisState \<Rightarrow> 's \<Rightarrow> unit outcome \<times> 's" where
  "InitGenesis X k genState s =
     (case item_Set (ParamsItem k) (gs_Params genState) s of
        (Ok _, s1) \<Rightarrow>
          if GenesisExecutionBlockHash genState = []
          then (Err (New ''genesis execution block hash is required''), s1)
          else if CurrentBlockHash genState \<noteq> []
          then SetBlockState k (NewBlockState (HexToHash X (CurrentBlockHash genState))
                 (CurrentBlockHeight genState) (CurrentBlockTimestamp genState)) s1
          else SetBlockState k (NewBlockState (HexToHash X (GenesisExecutionBlockHash genState)) 0 0) s1
      | r \<Rightarrow> r)"

definition ExportGenesis :: "Ext \<Rightarrow> ('s, 'e) Keeper \<Rightarrow> 's \<Rightarrow> GenesisState outcome" where
  "ExportGenesis X k s =
     bindO (item_Get (ParamsItem k) s) (\<lambda>params.
     let genesis = GenesisState_zero\<lparr>gs_Params := params\<rparr>
     in case GetBlockState k s of
          Panic e \<Rightarrow> Panic e
        | Err _ \<Rightarrow> Ok (genesis\<lparr>GenesisExecutionBlockHash := GenesisExecutionBlockHash DefaultGenesis\<rparr>)
        | Ok blockState \<Rightarrow>
            Ok (genesis\<lparr>GenesisExecutionBlockHash := HashHex X (Hash blockState),
                        CurrentBlockHash := HashHex X (Hash blockState),
                        CurrentBlockHeight := Height blockState,
                        CurrentBlockTimestamp := Timestamp blockState\<rparr>))"

text \<open>Whether the execution client recognizes the committed head (\<open>x/evm/keeper/readiness.go\<close>).\<close>

definition ProbeCommittedExecutionHead ::
    "Ext \<Rightarrow> ('s, 'e) Keeper \<Rightarrow> BlockState \<Rightarrow> 'e \<Rightarrow> unit outcome \<times> 'e" where
  "ProbeCommittedExecutionHead X k committed e =
     (let fcState = \<lparr>HeadBlockHash = Hash committed, SafeBlockHash = Hash committed,
                     FinalizedBlockHash = Hash committed\<rparr>
      in case ForkchoiceUpdatedV3 (k_engineClient k) fcState None e of
           (Err err, e') \<Rightarrow> (Err err, e')
         | (Panic err, e') \<Rightarrow> (Panic err, e')
         | (Ok resp, e') \<Rightarrow>
             if ResponseStatus resp \<noteq> VALID
             then (Err (New (''execution client forkchoice status '' @ status_text (ResponseStatus resp)
                     @ '' (want VALID) head='' @ HashHex X (Hash committed))), e')
             else (Ok (), e'))"

section \<open>The module\<close>

definition Module_ValidateGenesis ::
    "(bytes \<Rightarrow> GenesisState \<Rightarrow> unit outcome \<times> GenesisState) \<Rightarrow> (bytes \<Rightarrow> GenesisState \<Rightarrow> unit outcome \<times> GenesisState)
     \<Rightarrow> bytes \<Rightarrow> unit outcome" where
  "Module_ValidateGenesis cdc_UnmarshalJSON json_Unmarshal bz =
     bindO (wrapO (''failed to unmarshal '' @ ModuleName @ '' genesis state: '') []
             (GenesisStateFromJSON cdc_UnmarshalJSON json_Unmarshal bz)) GenesisState_Validate"

definition Module_InitGenesis ::
    "Ext \<Rightarrow> ('s, 'e) Keeper
     \<Rightarrow> (bytes \<Rightarrow> GenesisState \<Rightarrow> unit outcome \<times> GenesisState) \<Rightarrow> (bytes \<Rightarrow> GenesisState \<Rightarrow> unit outcome \<times> GenesisState)
     \<Rightarrow> bytes \<Rightarrow> 's \<Rightarrow> unit outcome \<times> 's" where
  "Module_InitGenesis X k cdc_UnmarshalJSON json_Unmarshal gs s =
     (case panicO (''failed to unmarshal '' @ ModuleName @ '' genesis state: '') []
             (GenesisStateFromJSON cdc_UnmarshalJSON json_Unmarshal gs) of
        Err e \<Rightarrow> (Err e, s)
      | Panic e \<Rightarrow> (Panic e, s)
      | Ok genState \<Rightarrow>
          (case InitGenesis X k genState s of
             (r, s') \<Rightarrow> (panicO (''failed to initialize '' @ ModuleName @ '' genesis state: '') [] r, s')))"

definition Module_ExportGenesis ::
    "Ext \<Rightarrow> ('s, 'e) Keeper \<Rightarrow> (GenesisState \<Rightarrow> bytes outcome) \<Rightarrow> 's \<Rightarrow> bytes outcome" where
  "Module_ExportGenesis X k cdc_MarshalJSON s =
     bindO (panicO (''failed to export '' @ ModuleName @ '' genesis state: '') [] (ExportGenesis X k s)) (\<lambda>genState.
     panicO (''failed to marshal '' @ ModuleName @ '' genesis state: '') [] (cdc_MarshalJSON genState))"

section \<open>Embedded genesis files\<close>

definition genesisPaths :: "string \<Rightarrow> string option" where
  "genesisPaths = [''localnet'' \<mapsto> ''chain-specs/localnet/cosmos.json'',
                   ''devnet'' \<mapsto> ''chain-specs/devnet/cosmos.json'',
                   ''testnet'' \<mapsto> ''chain-specs/testnet/cosmos.json'',
                   ''mainnet'' \<mapsto> ''chain-specs/mainnet/cosmos.json'']"

text \<open>\<open>Names\<close>: the keys, in some order of iteration, sorted bytewise.\<close>

definition Names :: "string list" where
  "Names = sort [''localnet'', ''devnet'', ''testnet'', ''mainnet'']"

definition IsEmbedded :: "string \<Rightarrow> bool" where
  "IsEmbedded name \<longleftrightarrow> genesisPaths name \<noteq> None"

definition EmbeddedGenesis :: "(string \<Rightarrow> bytes outcome) \<Rightarrow> string \<Rightarrow> bytes outcome" where
  "EmbeddedGenesis fs_ReadFile name =
     (case genesisPaths name of
        None \<Rightarrow> Err (New (''no embedded genesis for '' @ Quote name @ '' (available: ['' @ show_strings Names @ ''])''))
      | Some path \<Rightarrow> fs_ReadFile path)"

section \<open>Lemmas\<close>

lemma Names_embedded: "set Names = {name. IsEmbedded name}" "sorted Names" "distinct Names"
  by (auto simp: Names_def genesisPaths_def IsEmbedded_def split: if_splits)

lemma Validate_Ok:
  "GenesisState_Validate gs = Ok () \<longleftrightarrow>
     length (GenesisExecutionBlockHash gs) = 66 \<and> take 2 (GenesisExecutionBlockHash gs) = ''0x'' \<and>
     (CurrentBlockHash gs \<noteq> [] \<longrightarrow> length (CurrentBlockHash gs) = 66 \<and> take 2 (CurrentBlockHash gs) = ''0x'')"
  unfolding GenesisState_Validate_def outcome_simps by (auto simp: Params_Validate_def)

lemma zero_hash_text_shape: "length zero_hash_text = 66" "take 2 zero_hash_text = ''0x''"
  by (simp_all add: zero_hash_text_def)

lemma HashHex_shape: "hash_hex_law X \<Longrightarrow> length (HashHex X h) = 66 \<and> take 2 (HashHex X h) = ''0x''"
proof -
  assume "hash_hex_law X"
  then obtain ds where "HashHex X h = ''0x'' @ ds" "length ds = 64" unfolding hash_hex_law_def by blast
  then show ?thesis by simp
qed

text \<open>The store keeps the two items apart.\<close>

definition separate_items :: "('s, 'e) Keeper \<Rightarrow> bool" where
  "separate_items k \<longleftrightarrow>
     (\<forall>p s. item_Get (BlockStateItem k) (snd (item_Set (ParamsItem k) p s)) = item_Get (BlockStateItem k) s) \<and>
     (\<forall>b s. item_Get (ParamsItem k) (snd (item_Set (BlockStateItem k) b s)) = item_Get (ParamsItem k) s)"

lemma InitGenesis_Ok:
  assumes laws: "item_law (BlockStateItem k)" "item_law (ParamsItem k)" "separate_items k"
    and run: "InitGenesis X k gs s = (Ok (), s')"
  shows "item_Get (ParamsItem k) s' = Ok (gs_Params gs)"
    and "GetBlockState k s' = Ok (if CurrentBlockHash gs \<noteq> []
      then \<lparr>Hash = HexToHash X (CurrentBlockHash gs), Height = CurrentBlockHeight gs, Timestamp = CurrentBlockTimestamp gs\<rparr>
      else \<lparr>Hash = HexToHash X (GenesisExecutionBlockHash gs), Height = 0, Timestamp = 0\<rparr>)"
proof -
  from run obtain s1 b where s1: "item_Set (ParamsItem k) (gs_Params gs) s = (Ok (), s1)"
    and b: "b = (if CurrentBlockHash gs \<noteq> []
      then \<lparr>Hash = HexToHash X (CurrentBlockHash gs), Height = CurrentBlockHeight gs, Timestamp = CurrentBlockTimestamp gs\<rparr>
      else \<lparr>Hash = HexToHash X (GenesisExecutionBlockHash gs), Height = 0, Timestamp = 0\<rparr>)"
    and s': "item_Set (BlockStateItem k) b s1 = (Ok (), s')"
    by (auto simp: InitGenesis_def SetBlockState_def NewBlockState_def split: prod.splits outcome.splits if_splits)
  have "item_Get (ParamsItem k) s' = item_Get (ParamsItem k) s1"
    using laws(3) s' unfolding separate_items_def by (metis snd_conv)
  then show "item_Get (ParamsItem k) s' = Ok (gs_Params gs)" using item_Get_Set [OF laws(2) s1] by simp
  show "GetBlockState k s' = Ok (if CurrentBlockHash gs \<noteq> []
      then \<lparr>Hash = HexToHash X (CurrentBlockHash gs), Height = CurrentBlockHeight gs, Timestamp = CurrentBlockTimestamp gs\<rparr>
      else \<lparr>Hash = HexToHash X (GenesisExecutionBlockHash gs), Height = 0, Timestamp = 0\<rparr>)"
    using item_Get_Set [OF laws(1) s'] b by (simp add: GetBlockState_def)
qed

section \<open>Properties\<close>

text \<open>
  C30. Exporting and importing genesis restores the module: from a store with parameters and a head,
  the exported genesis passes validation, and a chain initialized from it has the same parameters
  and the same head, height and timestamp included.
\<close>

theorem genesis_export_import:
  assumes laws: "item_law (BlockStateItem k)" "item_law (ParamsItem k)" "separate_items k" "hash_hex_law X"
    and store: "item_Get (ParamsItem k) s = Ok params" "GetBlockState k s = Ok head"
    and export: "ExportGenesis X k s = Ok gs"
    and init: "InitGenesis X k (NormalizeGenesisState gs) s0 = (Ok (), s1)"
  shows "GenesisState_Validate gs = Ok () \<and> item_Get (ParamsItem k) s1 = Ok params \<and> GetBlockState k s1 = Ok head"
proof -
  have gs: "gs = \<lparr>gs_Params = params, GenesisExecutionBlockHash = HashHex X (Hash head),
      CurrentBlockHash = HashHex X (Hash head), CurrentBlockHeight = Height head,
      CurrentBlockTimestamp = Timestamp head\<rparr>"
    using export store by (simp add: ExportGenesis_def GenesisState_zero_def)
  have hex: "length (HashHex X (Hash head)) = 66" "take 2 (HashHex X (Hash head)) = ''0x''"
    using HashHex_shape [OF laws(4)] by auto
  then have ne: "HashHex X (Hash head) \<noteq> []" by auto
  then have n: "NormalizeGenesisState gs = gs" by (simp add: NormalizeGenesisState_def gs)
  have "HexToHash X (HashHex X (Hash head)) = Hash head" using laws(4) by (simp add: hash_hex_law_def)
  then show ?thesis
    using InitGenesis_Ok [OF laws(1-3) init] hex ne unfolding n by (simp add: gs Validate_Ok)
qed

definition sample_store_item :: "(Params option \<times> BlockState option, BlockState) Item" where
  "sample_store_item = \<lparr>item_Get = (\<lambda>s. case snd s of None \<Rightarrow> Err ErrNotFound | Some b \<Rightarrow> Ok b),
     item_Set = (\<lambda>b s. (Ok (), (fst s, Some b))), item_Has = (\<lambda>s. Ok (snd s \<noteq> None))\<rparr>"

definition sample_store_params :: "(Params option \<times> BlockState option, Params) Item" where
  "sample_store_params = \<lparr>item_Get = (\<lambda>s. case fst s of None \<Rightarrow> Err ErrNotFound | Some p \<Rightarrow> Ok p),
     item_Set = (\<lambda>p s. (Ok (), (Some p, snd s))), item_Has = (\<lambda>s. Ok (fst s \<noteq> None))\<rparr>"

definition sample_genesis_keeper :: "(Params option \<times> BlockState option, nat) Keeper" where
  "sample_genesis_keeper = \<lparr>addr_StringToBytes = Ok, addr_BytesToString = Ok, authority = ''gov'',
     ParamsItem = sample_store_params, BlockStateItem = sample_store_item,
     k_engineClient = sample_engine, SuggestedFeeRecipient = 0, k_UseBlockTimestamp = None, UnixTimestampOffset = 0,
     chainSpec = \<lparr>PragueTimestamp = None, OsakaTimestamp = None, AmsterdamTimestamp = None\<rparr>\<rparr>"

lemma sample_genesis_laws:
  "item_law (BlockStateItem sample_genesis_keeper)" "item_law (ParamsItem sample_genesis_keeper)"
  "separate_items sample_genesis_keeper"
  by (auto simp: item_law_def separate_items_def sample_genesis_keeper_def sample_store_item_def sample_store_params_def)

theorem genesis_export_import_witness:
  "\<exists>s1. InitGenesis sample_ext sample_genesis_keeper (NormalizeGenesisState
       \<lparr>gs_Params = Params, GenesisExecutionBlockHash = HashHex sample_ext 1, CurrentBlockHash = HashHex sample_ext 1,
        CurrentBlockHeight = 0, CurrentBlockTimestamp = 50\<rparr>) (None, None) = (Ok (), s1)
     \<and> GetBlockState sample_genesis_keeper s1 = Ok sample_state"
proof -
  let ?s = "(Some Params, Some sample_state)"
  have store: "item_Get (ParamsItem sample_genesis_keeper) ?s = Ok Params"
    "GetBlockState sample_genesis_keeper ?s = Ok sample_state"
    by (simp_all add: GetBlockState_def sample_genesis_keeper_def sample_store_item_def sample_store_params_def)
  let ?gs = "\<lparr>gs_Params = Params, GenesisExecutionBlockHash = HashHex sample_ext 1, CurrentBlockHash = HashHex sample_ext 1,
        CurrentBlockHeight = 0, CurrentBlockTimestamp = 50\<rparr>"
  have export: "ExportGenesis sample_ext sample_genesis_keeper ?s = Ok ?gs"
    using store by (simp add: ExportGenesis_def GenesisState_zero_def sample_state_def)
  have ne: "HashHex sample_ext 1 \<noteq> []" by (simp add: sample_ext_def sample_hex_def)
  obtain s1 where init: "InitGenesis sample_ext sample_genesis_keeper (NormalizeGenesisState ?gs) (None, None) = (Ok (), s1)"
    using ne by (simp add: InitGenesis_def NormalizeGenesisState_def sample_genesis_keeper_def SetBlockState_def
        sample_store_item_def sample_store_params_def)
  from genesis_export_import [OF sample_genesis_laws sample_hash_hex_law store export init] init show ?thesis by blast
qed

text \<open>
  C32. Exporting hides a head that cannot be read: whatever error reading the head gives, not only
  that none is stored, the export succeeds with the zero hash and passes validation, and a chain
  initialized from it starts at the hash that the zero text denotes, at height and timestamp 0.
\<close>

theorem genesis_export_drops_unreadable_head:
  assumes laws: "item_law (BlockStateItem k)" "item_law (ParamsItem k)" "separate_items k"
    and store: "item_Get (ParamsItem k) s = Ok params" "GetBlockState k s = Err err"
    and init: "\<forall>gs. ExportGenesis X k s = Ok gs \<longrightarrow> InitGenesis X k gs s0 = (Ok (), s1)"
  shows "\<exists>gs. ExportGenesis X k s = Ok gs \<and> GenesisState_Validate gs = Ok ()
    \<and> GetBlockState k s1 = Ok \<lparr>Hash = HexToHash X zero_hash_text, Height = 0, Timestamp = 0\<rparr>"
proof -
  let ?gs = "\<lparr>gs_Params = params, GenesisExecutionBlockHash = zero_hash_text, CurrentBlockHash = [],
      CurrentBlockHeight = 0, CurrentBlockTimestamp = 0\<rparr>"
  have export: "ExportGenesis X k s = Ok ?gs"
    using store by (simp add: ExportGenesis_def GenesisState_zero_def DefaultGenesis_def)
  with init have run: "InitGenesis X k ?gs s0 = (Ok (), s1)" by simp
  have "GenesisState_Validate ?gs = Ok ()" by (simp add: Validate_Ok zero_hash_text_shape)
  with export InitGenesis_Ok(2) [OF laws run] show ?thesis by simp
qed

theorem genesis_export_drops_unreadable_head_witness:
  "\<exists>gs. ExportGenesis sample_ext sample_genesis_keeper (Some Params, None) = Ok gs
    \<and> GenesisState_Validate gs = Ok ()"
proof -
  let ?k = sample_genesis_keeper
  have store: "item_Get (ParamsItem ?k) (Some Params, None) = Ok Params"
    "GetBlockState ?k (Some Params, None) = Err ErrNotFound"
    by (simp_all add: GetBlockState_def sample_genesis_keeper_def sample_store_item_def sample_store_params_def)
  have init: "\<forall>gs. ExportGenesis sample_ext ?k (Some Params, None) = Ok gs \<longrightarrow>
      InitGenesis sample_ext ?k gs (None, None) = (Ok (),
        (Some Params, Some \<lparr>Hash = HexToHash sample_ext zero_hash_text, Height = 0, Timestamp = 0\<rparr>))"
    using store by (auto simp: ExportGenesis_def GenesisState_zero_def DefaultGenesis_def InitGenesis_def
        SetBlockState_def NewBlockState_def zero_hash_text_def sample_genesis_keeper_def sample_store_item_def
        sample_store_params_def)
  show ?thesis
    using genesis_export_drops_unreadable_head [OF sample_genesis_laws store init] by blast
qed

end
