(* ===== verification/Calls.thy ===== *)
theory Calls
  imports Nexus_Prelude
begin

text \<open>
  Calls over a state, as the keepers and the file operations are used: reading, calling, the ways an
  error is wrapped, turned into a panic, handled or ignored, and loops over lists. For each of them the
  rules on success, on what it keeps of the state, on returning, and on the changes it may make.
\<close>

section \<open>Combinators\<close>

definition readK :: "('s \<Rightarrow> 'a outcome) \<Rightarrow> ('s, 'a) proc" where
  "readK f = (\<lambda>s. Some (f s, s))"

definition callK :: "('s \<Rightarrow> 'a outcome \<times> 's) \<Rightarrow> ('s, 'a) proc" where
  "callK f = (\<lambda>s. Some (f s))"

text \<open>\<open>if err := m; err != nil { return fmt.Errorf("pre%w", err) }\<close>, and the same with a panic.\<close>

definition wrapP :: "string \<Rightarrow> ('s, 'a) proc \<Rightarrow> ('s, 'a) proc" where
  "wrapP pre m = (\<lambda>s. map_option (\<lambda>(r, s'). (wrapO pre [] r, s')) (m s))"

definition panicP :: "string \<Rightarrow> ('s, 'a) proc \<Rightarrow> ('s, 'a) proc" where
  "panicP pre m = (\<lambda>s. map_option (\<lambda>(r, s').
     ((case r of Err e \<Rightarrow> Panic (New (pre @ error_text e)) | _ \<Rightarrow> r), s')) (m s))"

text \<open>\<open>if err != nil { h }\<close>, going on with what \<open>h\<close> returns.\<close>

definition catchP :: "('s, 'a) proc \<Rightarrow> (go_error \<Rightarrow> ('s, 'a) proc) \<Rightarrow> ('s, 'a) proc" where
  "catchP m h = (\<lambda>s. case m s of Some (Err e, s') \<Rightarrow> h e s' | r \<Rightarrow> r)"

text \<open>\<open>if err != nil { panic(err) }\<close>, \<open>_, _ = m\<close>, and a loop or iteration.\<close>

definition mustP :: "('s, 'a) proc \<Rightarrow> ('s, 'a) proc" where
  "mustP m = (\<lambda>s. map_option (\<lambda>(r, s'). (mustO r, s')) (m s))"

definition ignoreP :: "('s, unit) proc \<Rightarrow> ('s, unit) proc" where
  "ignoreP m = catchP m (\<lambda>_. pureP (Ok ()))"

fun eachP :: "('x \<Rightarrow> ('s, unit) proc) \<Rightarrow> 'x list \<Rightarrow> ('s, unit) proc" where
  "eachP f [] = pureP (Ok ())"
| "eachP f (x # xs) = bindP (f x) (\<lambda>_. eachP f xs)"

definition iterateP :: "('s \<Rightarrow> 'x list \<times> unit outcome) \<Rightarrow> ('x \<Rightarrow> ('s, unit) proc) \<Rightarrow> ('s, unit) proc" where
  "iterateP it f = (\<lambda>s. bindP (eachP f (fst (it s))) (\<lambda>_. pureP (snd (it s))) s)"

text \<open>A loop that threads a value.\<close>

fun foldP :: "('x \<Rightarrow> 'a \<Rightarrow> ('s, 'a) proc) \<Rightarrow> 'x list \<Rightarrow> 'a \<Rightarrow> ('s, 'a) proc" where
  "foldP f [] a = pureP (Ok a)"
| "foldP f (x # xs) a = bindP (f x a) (foldP f xs)"

section \<open>Success\<close>

lemma readK_Some [outcome_simps]: "readK f s = Some (r, s') \<longleftrightarrow> f s = r \<and> s' = s"
  by (auto simp: readK_def)

lemma callK_Some [outcome_simps]: "callK f s = Some (r, s') \<longleftrightarrow> f s = (r, s')"
  by (auto simp: callK_def)

lemma wrapP_Ok [outcome_simps]: "wrapP pre m s = Some (Ok a, s') \<longleftrightarrow> m s = Some (Ok a, s')"
  by (auto simp: wrapP_def outcome_simps map_option_case split: option.splits)

lemma panicP_Ok [outcome_simps]: "panicP pre m s = Some (Ok a, s') \<longleftrightarrow> m s = Some (Ok a, s')"
  by (auto simp: panicP_def map_option_case split: option.splits outcome.splits)

text \<open>Loops over the numbers below a bound, with an invariant for each number.\<close>

lemma foldP_upt:
  assumes step: "\<And>k a s a' s'. I k a s \<Longrightarrow> k < n \<Longrightarrow> f k a s = Some (Ok a', s') \<Longrightarrow> I (Suc k) a' s'"
  shows "I m a s \<Longrightarrow> m \<le> n \<Longrightarrow> foldP f [m..<n] a s = Some (Ok a', s') \<Longrightarrow> I n a' s'"
proof (induction "n - m" arbitrary: m a s)
  case (Suc d)
  then have m: "m < n" by simp
  then have "[m..<n] = m # [Suc m..<n]" by (rule upt_conv_Cons)
  with Suc.prems(3) obtain a1 s1 where f: "f m a s = Some (Ok a1, s1)"
    and rest: "foldP f [Suc m..<n] a1 s1 = Some (Ok a', s')" by (auto simp: outcome_simps)
  have "I (Suc m) a1 s1" by (rule step [OF Suc.prems(1) m f])
  then show ?case using Suc.hyps(1) [of "Suc m" a1 s1] Suc.hyps(2) m rest by simp
qed (simp add: outcome_simps)

lemma eachP_foldP: "eachP f xs s = Some (Ok (), s') \<Longrightarrow> foldP (\<lambda>x (_::unit). f x) xs () s = Some (Ok (), s')"
  by (induction xs arbitrary: s) (auto simp: outcome_simps)

lemma eachP_upt:
  assumes "\<And>k s s'. I k s \<Longrightarrow> k < n \<Longrightarrow> f k s = Some (Ok (), s') \<Longrightarrow> I (Suc k) s'"
    and "I 0 s" and "eachP f [0..<n] s = Some (Ok (), s')"
  shows "I n s'"
proof (rule foldP_upt [of "\<lambda>k _. I k" n "\<lambda>x _. f x" 0 "()" s "()" s'])
  show "foldP (\<lambda>x _. f x) [0..<n] () s = Some (Ok (), s')" using assms(3) by (rule eachP_foldP)
qed (use assms(1,2) in auto)

section \<open>What is kept\<close>

lemma keeps_readK [keeps_intros]: "keeps p (readK f)"
  by (auto simp: keeps_def outcome_simps)

lemma keeps_wrapP [keeps_intros]: "keeps p m \<Longrightarrow> keeps p (wrapP pre m)"
  unfolding keeps_def wrapP_def by fastforce

lemma keeps_panicP [keeps_intros]: "keeps p m \<Longrightarrow> keeps p (panicP pre m)"
  unfolding keeps_def panicP_def by fastforce

lemma keeps_catchP [keeps_intros]: "keeps p m \<Longrightarrow> (\<And>e. keeps p (h e)) \<Longrightarrow> keeps p (catchP m h)"
  unfolding keeps_def catchP_def by (fastforce split: option.splits outcome.splits)

lemma keeps_option_case [keeps_intros]:
  "keeps p m \<Longrightarrow> (\<And>x. keeps p (f x)) \<Longrightarrow> keeps p (case o' of None \<Rightarrow> m | Some x \<Rightarrow> f x)"
  by (cases o') auto

lemma keeps_Let [keeps_intros]: "keeps p (f x) \<Longrightarrow> keeps p (let y = x in f y)"
  by simp

lemma mustP_Ok [outcome_simps]: "mustP m s = Some (Ok a, s') \<longleftrightarrow> m s = Some (Ok a, s')"
  by (auto simp: mustP_def outcome_simps)

lemma keeps_mustP [keeps_intros]: "keeps p m \<Longrightarrow> keeps p (mustP m)"
  by (auto simp: keeps_def mustP_def)

lemma keeps_ignoreP [keeps_intros]: "keeps p m \<Longrightarrow> keeps p (ignoreP m)"
  unfolding keeps_def ignoreP_def catchP_def pureP_def
  by (auto split: option.splits prod.splits outcome.splits)

lemma keeps_eachP [keeps_intros]: "(\<And>x. keeps p (f x)) \<Longrightarrow> keeps p (eachP f xs)"
  by (induction xs) (auto intro!: keeps_intros)

lemma keeps_iterateP [keeps_intros]:
  assumes "\<And>x. keeps p (f x)"
  shows "keeps p (iterateP it f)"
proof -
  have "keeps p (bindP (eachP f xs) (\<lambda>_. pureP r))" for xs r
    using assms by (intro keeps_intros)
  then show ?thesis unfolding keeps_def iterateP_def by blast
qed

section \<open>Errors and returning\<close>

text \<open>What never returns an error, though it may panic.\<close>

definition no_err :: "('s, 'a) proc \<Rightarrow> bool" where
  "no_err m \<longleftrightarrow> (\<forall>s e s'. m s \<noteq> Some (Err e, s'))"

lemma no_err_bindP: "no_err m \<Longrightarrow> (\<And>a. no_err (f a)) \<Longrightarrow> no_err (bindP m f)"
  unfolding no_err_def by (auto simp: bindP_def split: option.splits prod.splits outcome.splits)

lemma no_err_simple:
  "no_err (panicP pre m)" "no_err (pureP (Ok a))" "no_err (readK (\<lambda>s. Ok (g s)))"
  unfolding no_err_def
  by (auto simp: panicP_def pureP_def readK_def split: outcome.splits)

lemma no_err_if: "(b \<Longrightarrow> no_err m) \<Longrightarrow> (\<not> b \<Longrightarrow> no_err n) \<Longrightarrow> no_err (if b then m else n)"
  by simp

text \<open>Calls that return.\<close>

definition always_returns :: "('s, 'a) proc \<Rightarrow> bool" where
  "always_returns m \<longleftrightarrow> (\<forall>s. m s \<noteq> None)"

named_theorems returns_intros \<open>calls that return\<close>

lemma always_returns_basic [returns_intros]:
  "always_returns (pureP r)" "always_returns (readK f)" "always_returns (callK g)" "always_returns (\<lambda>s. Some (h s))"
  by (simp_all add: always_returns_def pureP_def readK_def callK_def)

lemma always_returns_bindP [returns_intros]:
  "always_returns m \<Longrightarrow> (\<And>a. always_returns (f a)) \<Longrightarrow> always_returns (bindP m f)"
  by (auto simp: always_returns_def bindP_def split: option.splits outcome.splits)

lemma always_returns_wrap [returns_intros]:
  "always_returns m \<Longrightarrow> always_returns (wrapP pre m)"
  "always_returns m \<Longrightarrow> always_returns (panicP pre m)"
  by (simp_all add: always_returns_def wrapP_def panicP_def)

lemma always_returns_catchP [returns_intros]:
  "always_returns m \<Longrightarrow> (\<And>e. always_returns (h e)) \<Longrightarrow> always_returns (catchP m h)"
  by (auto simp: always_returns_def catchP_def split: option.splits outcome.splits)

lemma always_returns_if [returns_intros]:
  "always_returns m \<Longrightarrow> always_returns n \<Longrightarrow> always_returns (if b then m else n)"
  by simp

lemma always_returns_option [returns_intros]:
  "always_returns m \<Longrightarrow> (\<And>a. always_returns (f a)) \<Longrightarrow> always_returns (case x of None \<Rightarrow> m | Some a \<Rightarrow> f a)"
  by (simp split: option.splits)

section \<open>What may change\<close>

text \<open>
  \<open>guarantees R m\<close>: however the call ends, the states before and after it are related by \<open>R\<close>. When \<open>R\<close>
  is a preorder, a sequence of such calls is such a call.
\<close>

definition guarantees :: "('s \<Rightarrow> 's \<Rightarrow> bool) \<Rightarrow> ('s, 'a) proc \<Rightarrow> bool" where
  "guarantees R m \<longleftrightarrow> (\<forall>s r s'. m s = Some (r, s') \<longrightarrow> R s s')"

lemma guaranteesD: "guarantees R m \<Longrightarrow> m s = Some (r, s') \<Longrightarrow> R s s'"
  by (simp add: guarantees_def)

lemma guarantees_mono: "guarantees R m \<Longrightarrow> (\<And>s s'. R s s' \<Longrightarrow> R' s s') \<Longrightarrow> guarantees R' m"
  by (simp add: guarantees_def)

locale change_preorder =
  fixes R :: "'s \<Rightarrow> 's \<Rightarrow> bool"
  assumes same: "R s s"
    and sequence: "R s1 s2 \<Longrightarrow> R s2 s3 \<Longrightarrow> R s1 s3"
begin

lemma g_pure: "guarantees R (pureP r)" "guarantees R (readK f)"
  by (auto simp: guarantees_def outcome_simps same)

lemma g_bind: "guarantees R m \<Longrightarrow> (\<And>a. guarantees R (f a)) \<Longrightarrow> guarantees R (bindP m f)"
  unfolding guarantees_def bindP_def by (fastforce split: option.splits outcome.splits intro: sequence)

lemma g_wrap: "guarantees R m \<Longrightarrow> guarantees R (wrapP pre m)" "guarantees R m \<Longrightarrow> guarantees R (mustP m)"
  unfolding guarantees_def wrapP_def mustP_def by fastforce+

lemma g_catch: "guarantees R m \<Longrightarrow> (\<And>e. guarantees R (h e)) \<Longrightarrow> guarantees R (catchP m h)"
  unfolding guarantees_def catchP_def by (fastforce split: option.splits outcome.splits intro: sequence)

lemma g_ignore: "guarantees R m \<Longrightarrow> guarantees R (ignoreP m)"
  unfolding ignoreP_def by (intro g_catch g_pure)

lemma g_each: "(\<And>x. x \<in> set xs \<Longrightarrow> guarantees R (f x)) \<Longrightarrow> guarantees R (eachP f xs)"
  by (induction xs) (auto intro!: g_bind g_pure)

lemma g_fold: "(\<And>x a. x \<in> set xs \<Longrightarrow> guarantees R (f x a)) \<Longrightarrow> guarantees R (foldP f xs a)"
  by (induction xs arbitrary: a) (auto intro!: g_bind g_pure)

lemma g_if: "(b \<Longrightarrow> guarantees R m) \<Longrightarrow> (\<not> b \<Longrightarrow> guarantees R n) \<Longrightarrow> guarantees R (if b then m else n)"
  by simp

lemmas g_rules = g_pure g_bind g_wrap g_catch g_ignore g_each g_fold g_if

end

text \<open>Keeping a projection of the state is one such relation.\<close>

interpretation projection: change_preorder "\<lambda>s s'. p s' = p s" for p :: "'s \<Rightarrow> 'b"
  by unfold_locales simp_all

lemma keeps_guarantees: "keeps p m \<longleftrightarrow> guarantees (\<lambda>s s'. p s' = p s) m"
  by (simp add: keeps_def guarantees_def)

end
