(* ===== verification/Files.thy ===== *)
theory Files
  imports Go_Std Calls "HOL-Library.Sublist"
begin

text \<open>
  Paths and files: Go's \<open>path/filepath\<close> on Unix (\<open>Clean\<close>, \<open>Join\<close>, \<open>Base\<close>, \<open>Dir\<close>, \<open>Abs\<close>, \<open>Rel\<close>) with
  \<open>strings.Split\<close> and \<open>strings.Join\<close>, and the calls of \<open>os\<close> that the node's commands make. A disk maps rooted
  paths, lists of names, to files and directories; there are no links. The operating system may refuse
  any call (\<open>refuses\<close>), and a refused write leaves some of the bytes behind. The lemmas relate the path
  functions to the place on the disk that a path names.
\<close>

section \<open>Strings\<close>

text \<open>\<open>strings.Split\<close> with a separator of one byte, and \<open>strings.Join\<close>.\<close>

fun Split :: "char \<Rightarrow> string \<Rightarrow> string list" where
  "Split c [] = [[]]"
| "Split c (x # xs) =
     (if x = c then [] # Split c xs
      else case Split c xs of [] \<Rightarrow> [[x]] | w # ws \<Rightarrow> (x # w) # ws)"

fun strings_Join :: "string list \<Rightarrow> string \<Rightarrow> string" where
  "strings_Join [] sep = []"
| "strings_Join [x] sep = x"
| "strings_Join (x # y # zs) sep = x @ sep @ strings_Join (y # zs) sep"

section \<open>Paths\<close>

type_synonym path = "string list"

definition separator :: char where "separator = CHR ''/''"

definition IsAbs :: "string \<Rightarrow> bool" where
  "IsAbs p \<longleftrightarrow> take 1 p = [separator]"

text \<open>One name of a path after the cleaned ones: empty names and dots vanish, two dots go up.\<close>

definition clean_step :: "bool \<Rightarrow> path \<Rightarrow> string \<Rightarrow> path" where
  "clean_step rooted st x =
     (if x = [] \<or> x = ''.'' then st
      else if x = ''..'' then
        (if st \<noteq> [] \<and> last st \<noteq> ''..'' then butlast st else if rooted then st else st @ [x])
      else st @ [x])"

definition clean_names :: "bool \<Rightarrow> path \<Rightarrow> string \<Rightarrow> path" where
  "clean_names rooted st p = foldl (clean_step rooted) st (Split separator p)"

definition Clean :: "string \<Rightarrow> string" where
  "Clean p =
     (let body = strings_Join (clean_names (IsAbs p) [] p) [separator]
      in if IsAbs p then separator # body else if body = [] then ''.'' else body)"

definition Join :: "string list \<Rightarrow> string" where
  "Join ps = (case dropWhile (\<lambda>p. p = []) ps of [] \<Rightarrow> [] | qs \<Rightarrow> Clean (strings_Join qs [separator]))"

definition Base :: "string \<Rightarrow> string" where
  "Base p =
     (if p = [] then ''.''
      else let q = takeWhile (\<lambda>c. c \<noteq> separator) (dropWhile (\<lambda>c. c = separator) (rev p))
           in if q = [] then [separator] else rev q)"

definition Dir :: "string \<Rightarrow> string" where
  "Dir p = Clean (rev (dropWhile (\<lambda>c. c \<noteq> separator) (rev p)))"

fun strip_common :: "path \<Rightarrow> path \<Rightarrow> path \<times> path" where
  "strip_common (b # bs) (t # ts) = (if b = t then strip_common bs ts else (b # bs, t # ts))"
| "strip_common bs ts = (bs, ts)"

definition names_of :: "string \<Rightarrow> path" where
  "names_of p = filter (\<lambda>x. x \<noteq> []) (Split separator p)"

definition Rel :: "string \<Rightarrow> string \<Rightarrow> string outcome" where
  "Rel basepath targpath =
     (let base = Clean basepath; targ = Clean targpath;
          err = New (''Rel: can't make '' @ targpath @ '' relative to '' @ basepath)
      in if targ = base then Ok ''.''
         else if IsAbs base \<noteq> IsAbs targ then Err err
         else let (bs, ts) = strip_common (if base = ''.'' then [] else names_of base) (names_of targ)
              in if take 1 bs = [''..''] then Err err
                 else Ok (strings_Join (map (\<lambda>_. ''..'') bs @ ts) [separator]))"

section \<open>The disk\<close>

datatype entry = File bytes | Directory

type_synonym disk = "path \<Rightarrow> entry option"

record OS =
  cwd :: path
  Getwd_error :: "go_error option"
  refuses :: "string \<Rightarrow> path \<Rightarrow> disk \<Rightarrow> go_error option"
  written :: "path \<Rightarrow> disk \<Rightarrow> nat"

definition path_error :: "string \<Rightarrow> string \<Rightarrow> go_error \<Rightarrow> go_error" where
  "path_error op p e = Wrapf (op @ '' '' @ p @ '': '') e []"

definition ENOENT :: go_error where "ENOENT = Sentinel ''no such file or directory''"
definition ENOTDIR :: go_error where "ENOTDIR = Sentinel ''not a directory''"
definition EISDIR :: go_error where "EISDIR = Sentinel ''is a directory''"
definition EINVAL :: go_error where "EINVAL = Sentinel ''invalid argument''"

definition rooted_text :: "path \<Rightarrow> string" where
  "rooted_text q = separator # strings_Join q [separator]"

definition Getwd :: "OS \<Rightarrow> string outcome" where
  "Getwd os = (case Getwd_error os of Some e \<Rightarrow> Err e | None \<Rightarrow> Ok (rooted_text (cwd os)))"

definition Abs :: "OS \<Rightarrow> string \<Rightarrow> string outcome" where
  "Abs os p = (if IsAbs p then Ok (Clean p) else bindO (Getwd os) (\<lambda>wd. Ok (Join [wd, p])))"

text \<open>The place that the operating system finds under a path.\<close>

definition resolve :: "OS \<Rightarrow> string \<Rightarrow> path" where
  "resolve os p = clean_names True (if IsAbs p then [] else cwd os) p"

definition refused :: "OS \<Rightarrow> string \<Rightarrow> path \<Rightarrow> (disk, unit) proc" where
  "refused os op q = (\<lambda>D. Some (case refuses os op q D of
     Some e \<Rightarrow> Err (path_error op (rooted_text q) e) | None \<Rightarrow> Ok (), D))"

text \<open>\<open>os.MkdirAll\<close> creates the missing directories from the root on; a path in an error is the rooted one.\<close>

fun mkdir_below :: "OS \<Rightarrow> path \<Rightarrow> path \<Rightarrow> (disk, unit) proc" where
  "mkdir_below os d [] D = Some (Ok (), D)"
| "mkdir_below os d (x # xs) D =
     (case D (d @ [x]) of
        Some Directory \<Rightarrow> mkdir_below os (d @ [x]) xs D
      | Some (File _) \<Rightarrow> Some (Err (path_error ''mkdir'' (rooted_text (d @ [x])) ENOTDIR), D)
      | None \<Rightarrow> (case refuses os ''mkdir'' (d @ [x]) D of
            Some e \<Rightarrow> Some (Err (path_error ''mkdir'' (rooted_text (d @ [x])) e), D)
          | None \<Rightarrow> mkdir_below os (d @ [x]) xs (D(d @ [x] \<mapsto> Directory))))"

definition MkdirAll :: "OS \<Rightarrow> string \<Rightarrow> (disk, unit) proc" where
  "MkdirAll os p = (if p = [] then pureP (Err (path_error ''mkdir'' p ENOENT)) else mkdir_below os [] (resolve os p))"

text \<open>\<open>os.Create\<close>, and \<open>os.OpenFile\<close> as \<open>os.WriteFile\<close> calls it: an empty file that is open for writing.\<close>

definition Create :: "OS \<Rightarrow> string \<Rightarrow> (disk, path) proc" where
  "Create os p = (\<lambda>D. let q = resolve os p in
     if p = [] \<or> q \<noteq> [] \<and> D (butlast q) \<noteq> Some Directory then Some (Err (path_error ''open'' p ENOENT), D)
     else if q = [] \<or> D q = Some Directory then Some (Err (path_error ''open'' p EISDIR), D)
     else bindP (refused os ''open'' q) (\<lambda>_ D. Some (Ok q, D(q \<mapsto> File []))) D)"

text \<open>Writing the bytes of a file that was opened empty.\<close>

definition write_all :: "OS \<Rightarrow> path \<Rightarrow> bytes \<Rightarrow> (disk, unit) proc" where
  "write_all os q bs = (\<lambda>D. case refuses os ''write'' q D of
      Some e \<Rightarrow> Some (Err (path_error ''write'' (rooted_text q) e), D(q \<mapsto> File (take (written os q D) bs)))
    | None \<Rightarrow> Some (Ok (), D(q \<mapsto> File bs)))"

definition WriteFile :: "OS \<Rightarrow> string \<Rightarrow> bytes \<Rightarrow> (disk, unit) proc" where
  "WriteFile os p bs = bindP (Create os p) (\<lambda>q. write_all os q bs)"

definition Open :: "OS \<Rightarrow> string \<Rightarrow> (disk, path) proc" where
  "Open os p = (\<lambda>D. let q = resolve os p in
     if p = [] \<or> D q = None then Some (Err (path_error ''open'' p ENOENT), D)
     else bindP (refused os ''open'' q) (\<lambda>_. pureP (Ok q)) D)"

definition read_all :: "OS \<Rightarrow> path \<Rightarrow> (disk, bytes) proc" where
  "read_all os q = (\<lambda>D. case D q of
      Some (File bs) \<Rightarrow> bindP (refused os ''read'' q) (\<lambda>_. pureP (Ok bs)) D
    | Some Directory \<Rightarrow> Some (Err (path_error ''read'' (rooted_text q) EISDIR), D)
    | None \<Rightarrow> Some (Err (path_error ''read'' (rooted_text q) ENOENT), D))"

text \<open>\<open>io.Copy\<close> between two open files: the source is read as it is by then.\<close>

definition io_Copy :: "OS \<Rightarrow> path \<Rightarrow> path \<Rightarrow> (disk, nat) proc" where
  "io_Copy os dst src = bindP (read_all os src) (\<lambda>bs. bindP (write_all os dst bs) (\<lambda>_. pureP (Ok (length bs))))"

definition Sync :: "OS \<Rightarrow> path \<Rightarrow> (disk, unit) proc" where
  "Sync os q = refused os ''sync'' q"

text \<open>\<open>os.RemoveAll\<close>: a path that ends in a dot is refused, and the empty path is left alone.\<close>

definition RemoveAll :: "OS \<Rightarrow> string \<Rightarrow> (disk, unit) proc" where
  "RemoveAll os p =
     (if p = [] then pureP (Ok ())
      else if p = ''.'' \<or> take 2 (rev p) = [CHR ''.'', separator]
      then pureP (Err (path_error ''RemoveAll'' p EINVAL))
      else bindP (refused os ''unlinkat'' (resolve os p)) (\<lambda>_ D.
           Some (Ok (), \<lambda>q. if prefix (resolve os p) q then None else D q)))"

section \<open>Lemmas\<close>

subsection \<open>Splitting and joining\<close>

lemma Split_nonempty [simp]: "Split c s \<noteq> []"
  by (cases s) (auto split: list.splits)

lemma Split_append_sep [simp]: "Split c (a @ c # b) = Split c a @ Split c b"
proof (induction a)
  case (Cons x a)
  have "Split c a \<noteq> []" by simp
  then show ?case using Cons by (auto split: list.splits)
qed simp

lemma Split_no_sep: "c \<notin> set s \<Longrightarrow> Split c s = [s]"
  by (induction s) auto

lemma Split_append_no_sep:
  "c \<notin> set b \<Longrightarrow> Split c (a @ b) = butlast (Split c a) @ [last (Split c a) @ b]"
proof (induction a)
  case (Cons x a)
  then show ?case by (cases "Split c a") (auto split: list.splits)
qed (simp add: Split_no_sep)

lemma Split_no_sep_in: "w \<in> set (Split c s) \<Longrightarrow> c \<notin> set w"
proof (induction s arbitrary: w)
  case (Cons x s)
  then show ?case by (cases "Split c s") (auto split: if_splits)
qed simp

lemma Split_Join: "\<forall>x \<in> set xs. c \<notin> set x \<Longrightarrow> xs \<noteq> [] \<Longrightarrow> Split c (strings_Join xs [c]) = xs"
  by (induction xs "[c]" rule: strings_Join.induct) (auto simp: Split_no_sep)

lemma strings_Join_snoc: "xs \<noteq> [] \<Longrightarrow> strings_Join (xs @ [x]) sep = strings_Join xs sep @ sep @ x"
  by (induction xs sep rule: strings_Join.induct) auto

lemma strings_Join_Nil_iff: "[] \<notin> set xs \<Longrightarrow> strings_Join xs sep = [] \<longleftrightarrow> xs = []"
  by (induction xs sep rule: strings_Join.induct) auto

subsection \<open>Cleaned names\<close>

text \<open>A name that stays where it is in a path.\<close>

definition plain :: "string \<Rightarrow> bool" where
  "plain x \<longleftrightarrow> x \<noteq> [] \<and> x \<noteq> ''.'' \<and> x \<noteq> ''..'' \<and> separator \<notin> set x"

lemma clean_step_plain [simp]: "plain x \<Longrightarrow> clean_step r st x = st @ [x]"
  by (simp add: clean_step_def plain_def)

lemma foldl_plain: "\<forall>x \<in> set xs. plain x \<Longrightarrow> foldl (clean_step r) st xs = st @ xs"
  by (induction xs arbitrary: st) auto

text \<open>The names of a cleaned path: plain ones, after some steps upward in one that is not rooted.\<close>

definition clean_list :: "bool \<Rightarrow> path \<Rightarrow> bool" where
  "clean_list r st \<longleftrightarrow> (\<exists>k xs. st = replicate k ''..'' @ xs \<and> (\<forall>x \<in> set xs. plain x) \<and> (r \<longrightarrow> k = 0))"

lemma clean_list_step:
  assumes "clean_list r st" and "separator \<notin> set x"
  shows "clean_list r (clean_step r st x)"
proof -
  from assms(1) obtain k xs where st: "st = replicate k ''..'' @ xs" "\<forall>x \<in> set xs. plain x" "r \<longrightarrow> k = 0"
    by (auto simp: clean_list_def)
  consider "x = [] \<or> x = ''.''" | "x = ''..''" "xs = []" | "x = ''..''" "xs \<noteq> []" | "plain x"
    using assms(2) by (auto simp: plain_def)
  then show ?thesis
  proof cases
    case 1 then show ?thesis using assms(1) by (auto simp: clean_step_def)
  next
    case 2
    then have "clean_step r st x = (if r then [] else replicate (Suc k) ''..'')"
      using st by (cases k) (auto simp: clean_step_def replicate_append_same)
    then show ?thesis by (auto simp: clean_list_def intro: exI [of _ "Suc k"])
  next
    case 3
    then have "last xs \<noteq> ''..''" using st(2) last_in_set by (fastforce simp: plain_def)
    then have "clean_step r st x = replicate k ''..'' @ butlast xs"
      using 3 st by (simp add: clean_step_def butlast_append)
    then show ?thesis using st by (auto simp: clean_list_def dest: in_set_butlastD)
  next
    case 4
    then show ?thesis using st by (auto simp: clean_list_def intro: exI [of _ k] exI [of _ "xs @ [x]"])
  qed
qed

lemma clean_list_fold:
  "clean_list r st \<Longrightarrow> \<forall>x \<in> set xs. separator \<notin> set x \<Longrightarrow> clean_list r (foldl (clean_step r) st xs)"
  by (induction xs arbitrary: st) (auto intro: clean_list_step)

lemma clean_list_names: "clean_list r st \<Longrightarrow> clean_list r (clean_names r st p)"
  unfolding clean_names_def by (rule clean_list_fold) (auto dest: Split_no_sep_in)

lemma clean_list_Nil [simp]: "clean_list r []"
  by (auto simp: clean_list_def)

lemma clean_list_rooted: "clean_list True st \<longleftrightarrow> (\<forall>x \<in> set st. plain x)"
  by (simp add: clean_list_def)

lemma clean_list_elems:
  assumes "clean_list r st"
  shows "[] \<notin> set st" "''.'' \<notin> set st" "\<forall>x \<in> set st. separator \<notin> set x"
proof -
  have "x = ''..'' \<or> plain x" if "x \<in> set st" for x
    using assms that by (auto simp: clean_list_def)
  then show "[] \<notin> set st" "''.'' \<notin> set st" "\<forall>x \<in> set st. separator \<notin> set x"
    by (fastforce simp: plain_def separator_def)+
qed

text \<open>Cleaning again changes nothing, wherever the path starts from.\<close>

lemma clean_again_step:
  assumes "clean_list r ns" and st: "clean_list True st" and that: "r \<longrightarrow> st = []"
  shows "foldl (clean_step True) st (clean_step r ns x) = clean_step True (foldl (clean_step True) st ns) x"
proof -
  from assms(1) obtain k xs where ns: "ns = replicate k ''..'' @ xs" "\<forall>x \<in> set xs. plain x" "r \<longrightarrow> k = 0"
    by (auto simp: clean_list_def)
  define st' where "st' = foldl (clean_step True) st (replicate k ''..'')"
  have run: "foldl (clean_step True) st ns = st' @ xs"
    using ns(2) by (simp add: ns(1) st'_def foldl_plain)
  show ?thesis
  proof (cases "x = ''..''")
    case True
    show ?thesis
    proof (cases "xs = []")
      case False
      then have "last xs \<noteq> ''..''" using ns(2) last_in_set by (fastforce simp: plain_def)
      then have "clean_step r ns x = replicate k ''..'' @ butlast xs"
        and "clean_step True (st' @ xs) x = st' @ butlast xs"
        using True False ns by (simp_all add: clean_step_def butlast_append)
      then show ?thesis using ns(2) run by (simp add: st'_def foldl_plain in_set_butlastD)
    next
      case empty: True
      have "clean_step r ns x = (if r then [] else ns @ [x])"
        using True empty ns by (cases k) (auto simp: clean_step_def replicate_append_same)
      moreover have "r \<Longrightarrow> ns = []" using ns(1,3) empty by simp
      ultimately show ?thesis using that True by (cases r) (simp_all add: clean_step_def)
    qed
  next
    case False
    then have "clean_step r ns x = (if x = [] \<or> x = ''.'' then ns else ns @ [x])"
      and "clean_step True (st' @ xs) x = (if x = [] \<or> x = ''.'' then st' @ xs else st' @ xs @ [x])"
      by (simp_all add: clean_step_def)
    then show ?thesis using run False by (simp add: clean_step_def)
  qed
qed

lemma clean_again:
  assumes "clean_list True st" and "r \<longrightarrow> st = []" and "\<forall>x \<in> set xs. separator \<notin> set x"
  shows "foldl (clean_step True) st (foldl (clean_step r) [] xs) = foldl (clean_step True) st xs"
  using assms(3)
proof (induction xs rule: rev_induct)
  case (snoc x xs)
  have "clean_list r (foldl (clean_step r) [] xs)" using snoc.prems by (auto intro: clean_list_fold)
  from clean_again_step [OF this assms(1,2)] show ?case using snoc by simp
qed simp

lemma clean_names_Nil [simp]: "clean_names r st [] = st"
  by (simp add: clean_names_def clean_step_def)

lemma clean_names_append: "clean_names r st (a @ separator # b) = clean_names r (clean_names r st a) b"
  by (simp add: clean_names_def)

lemma clean_names_slash [simp]: "clean_names r st (separator # b) = clean_names r st b"
  using clean_names_append [of r st "[]" b] by simp

lemma clean_names_plain [simp]: "plain x \<Longrightarrow> clean_names r st x = st @ [x]"
  unfolding clean_names_def by (subst Split_no_sep) (auto simp: plain_def clean_step_def)

lemma clean_names_Join: "clean_names r st (strings_Join ps [separator]) = foldl (clean_names r) st ps"
  by (induction ps "[separator]" arbitrary: st rule: strings_Join.induct) (simp_all add: clean_names_append)

lemma foldl_clean_names_plain: "\<forall>x \<in> set xs. plain x \<Longrightarrow> foldl (clean_names r) st xs = st @ xs"
  by (induction xs arbitrary: st) simp_all

text \<open>A name that is built from a prefix: where it lies depends on the prefix only.\<close>

lemma clean_names_numbered:
  assumes "separator \<notin> set x" and "x \<noteq> []" and "CHR ''.'' \<notin> set x"
  shows "clean_names r st (p @ x)
    = foldl (clean_step r) st (butlast (Split separator p)) @ [last (Split separator p) @ x]"
proof -
  let ?y = "last (Split separator p) @ x"
  have "last ?y \<in> set x" using assms(2) by simp
  then have "?y \<noteq> ''.''" "?y \<noteq> ''..''" using assms(3) by (metis last.simps list.discI)+
  then show ?thesis using assms by (simp add: clean_names_def Split_append_no_sep clean_step_def)
qed

subsection \<open>Where a path leads\<close>

definition wf_os :: "OS \<Rightarrow> bool" where
  "wf_os os \<longleftrightarrow> list_all plain (cwd os)"

lemma wf_os_clean: "wf_os os \<Longrightarrow> clean_list True (cwd os)"
  by (simp add: wf_os_def clean_list_rooted list_all_iff)

lemma IsAbs_append: "p \<noteq> [] \<Longrightarrow> IsAbs (p @ q) = IsAbs p"
  by (cases p) (simp_all add: IsAbs_def)

lemma IsAbs_strings_Join: "p \<noteq> [] \<Longrightarrow> IsAbs (strings_Join (p # ps) sep) = IsAbs p"
  by (cases ps) (simp_all add: IsAbs_append)

lemma IsAbs_names: "clean_list r ns \<Longrightarrow> \<not> IsAbs (strings_Join ns [separator])"
proof (cases ns)
  case (Cons x xs)
  assume "clean_list r ns"
  then have "x \<noteq> []" "separator \<notin> set x" using clean_list_elems [of r ns] Cons by auto
  then have "\<not> IsAbs x" by (cases x) (auto simp: IsAbs_def)
  then show ?thesis using \<open>x \<noteq> []\<close> by (simp add: Cons IsAbs_strings_Join)
qed (simp add: IsAbs_def)

lemma IsAbs_Clean [simp]: "IsAbs (Clean p) = IsAbs p"
  using IsAbs_names [OF clean_list_names [OF clean_list_Nil, of "IsAbs p" p]]
  by (auto simp: Clean_def Let_def IsAbs_def separator_def)

lemma clean_names_clean:
  assumes "clean_list r ns" shows "clean_names r' st (strings_Join ns [separator]) = foldl (clean_step r') st ns"
  using clean_list_elems(3) [OF assms] by (cases "ns = []") (simp_all add: clean_names_def Split_Join clean_step_def)

lemma clean_names_Clean:
  assumes "clean_list True st" and "IsAbs p \<longrightarrow> st = []"
  shows "clean_names True st (Clean p) = clean_names True st p"
proof -
  let ?ns = "clean_names (IsAbs p) [] p"
  have ns: "clean_list (IsAbs p) ?ns" by (rule clean_list_names) simp
  have "foldl (clean_step True) st ?ns = clean_names True st p"
    unfolding clean_names_def using assms by (intro clean_again) (auto dest: Split_no_sep_in)
  moreover have "clean_names True st ''.'' = st" by (simp add: clean_names_def separator_def clean_step_def)
  ultimately show ?thesis
    using clean_names_clean [OF ns] strings_Join_Nil_iff [OF clean_list_elems(1) [OF ns]]
    by (auto simp: Clean_def Let_def)
qed

lemma resolve_Clean [simp]: "wf_os os \<Longrightarrow> resolve os (Clean p) = resolve os p"
  by (simp add: resolve_def clean_names_Clean wf_os_clean)

lemma resolve_Join:
  "wf_os os \<Longrightarrow> p \<noteq> [] \<Longrightarrow> resolve os (Join (p # ps)) = foldl (clean_names True) (resolve os p) ps"
  by (simp add: Join_def) (simp add: resolve_def IsAbs_strings_Join clean_names_Join)

lemma resolve_Join_plain:
  "wf_os os \<Longrightarrow> p \<noteq> [] \<Longrightarrow> list_all plain xs \<Longrightarrow> resolve os (Join (p # xs)) = resolve os p @ xs"
  by (simp add: resolve_Join foldl_clean_names_plain list_all_iff)

lemma resolve_clean_list: "wf_os os \<Longrightarrow> clean_list True (resolve os p)"
  unfolding resolve_def by (rule clean_list_names) (simp add: wf_os_clean)

lemma resolve_plain: "wf_os os \<Longrightarrow> list_all plain (resolve os p)"
  by (drule resolve_clean_list) (simp add: clean_list_rooted list_all_iff)

lemma Clean_nonempty [simp]: "Clean p \<noteq> []"
  by (auto simp: Clean_def Let_def)

lemma Dir_nonempty [simp]: "Dir p \<noteq> []"
  by (simp add: Dir_def)

lemma Join_nonempty: "p \<noteq> [] \<Longrightarrow> Join (p # ps) \<noteq> []"
  by (simp add: Join_def)

text \<open>The last name of a joined path.\<close>

lemma Base_last: "separator \<notin> set x \<Longrightarrow> x \<noteq> [] \<Longrightarrow> Base (q @ separator # x) = x \<and> Base x = x"
proof -
  assume x: "separator \<notin> set x" "x \<noteq> []"
  then have dw: "dropWhile (\<lambda>c. c = separator) (rev x @ ys) = rev x @ ys" for ys
    by (cases x rule: rev_cases) auto
  have tw: "takeWhile (\<lambda>c. c \<noteq> separator) (rev x @ separator # ys) = rev x" for ys
    using x(1) by (subst takeWhile_append2) auto
  have tw': "takeWhile (\<lambda>c. c \<noteq> separator) (rev x) = rev x" using x(1) by (auto simp: takeWhile_eq_all_conv)
  have "Base (q @ separator # x) = x" using x dw [of "separator # rev q"] tw [of "rev q"] by (simp add: Base_def)
  moreover have "Base x = x" unfolding Base_def Let_def using x dw [of "[]"] by (simp only: append_Nil2 tw') simp
  ultimately show ?thesis by blast
qed

lemma Base_Join:
  assumes p: "p \<noteq> []" and x: "plain x"
  shows "Base (Join [p, x]) = x"
proof -
  define ns where "ns = clean_names (IsAbs p) [] p"
  have "clean_names (IsAbs p) [] (p @ separator # x) = ns @ [x]"
    using x by (simp add: clean_names_append ns_def)
  moreover have "strings_Join (ns @ [x]) [separator] \<noteq> []"
    using x by (cases "ns = []") (auto simp: strings_Join_snoc plain_def)
  ultimately have J: "Join [p, x] = (if IsAbs p then [separator] else []) @ strings_Join (ns @ [x]) [separator]"
    using p by (cases "IsAbs p") (simp_all add: Join_def Clean_def IsAbs_append)
  have "(\<exists>q. Join [p, x] = q @ separator # x) \<or> Join [p, x] = x"
  proof (cases "ns = []")
    case True then show ?thesis using J by simp
  next
    case False then show ?thesis by (simp add: J strings_Join_snoc)
  qed
  then show ?thesis using x Base_last [of x] unfolding plain_def by metis
qed

text \<open>\<open>Abs\<close> gives the text of the place that a path leads to, and \<open>Rel\<close> goes from one place to another.\<close>

lemma clean_names_rooted_text: "clean_list True q \<Longrightarrow> clean_names True [] (rooted_text q) = q"
  by (simp add: rooted_text_def clean_names_clean) (simp add: foldl_plain clean_list_rooted)

lemma IsAbs_rooted_text [simp]: "IsAbs (rooted_text q)"
  by (simp add: rooted_text_def IsAbs_def)

lemma Clean_rooted: "IsAbs p \<Longrightarrow> Clean p = rooted_text (clean_names True [] p)"
  by (simp add: Clean_def rooted_text_def Let_def)

lemma Abs_resolve:
  assumes "wf_os os" and "Getwd_error os = None"
  shows "Abs os p = Ok (rooted_text (resolve os p))"
proof (cases "IsAbs p")
  case True then show ?thesis by (simp add: Abs_def resolve_def Clean_rooted)
next
  case False
  have nonempty: "rooted_text (cwd os) \<noteq> []" by (simp add: rooted_text_def)
  then have "Join [rooted_text (cwd os), p] = Clean (rooted_text (cwd os) @ separator # p)" by (simp add: Join_def)
  also have "\<dots> = rooted_text (clean_names True (cwd os) p)"
    using assms nonempty by (simp add: Clean_rooted IsAbs_append clean_names_append clean_names_rooted_text wf_os_clean)
  finally show ?thesis using False assms by (simp add: Abs_def Getwd_def resolve_def)
qed

lemma names_of_rooted_text: "clean_list True q \<Longrightarrow> names_of (rooted_text q) = q"
  using clean_list_elems [of True q]
  by (cases "q = []") (auto simp: names_of_def rooted_text_def Split_Join intro!: filter_True)

lemma rooted_text_inj: "clean_list True p \<Longrightarrow> clean_list True q \<Longrightarrow> rooted_text p = rooted_text q \<longleftrightarrow> p = q"
  by (metis clean_names_rooted_text)

lemma strip_common_prefix: "\<exists>c. b = c @ fst (strip_common b t) \<and> t = c @ snd (strip_common b t)"
proof (induction b t rule: strip_common.induct)
  case (1 b bs t ts)
  show ?case
  proof (cases "b = t")
    case True
    with 1 obtain c where "bs = c @ fst (strip_common bs ts)" "ts = c @ snd (strip_common bs ts)" by blast
    then show ?thesis using True by (intro exI [of _ "b # c"]) simp
  qed auto
qed auto

lemma strip_common_append [simp]: "strip_common b (b @ t) = ([], t)"
  by (induction b) (cases t; simp)+

lemma strip_common_base_Nil: "fst (strip_common b t) = [] \<longleftrightarrow> prefix b t"
proof
  assume "fst (strip_common b t) = []"
  with strip_common_prefix [of b t] show "prefix b t" by (auto simp: prefix_def)
qed (auto simp: prefix_def)

lemma Rel_rooted_text:
  assumes "clean_list True b" and "clean_list True t"
  shows "Rel (rooted_text b) (rooted_text t)
    = Ok (if b = t then ''.'' else strings_Join (map (\<lambda>_. ''..'') (fst (strip_common b t)) @ snd (strip_common b t)) [separator])"
proof -
  have clean: "Clean (rooted_text q) = rooted_text q" if "clean_list True q" for q
    using that by (simp add: Clean_rooted clean_names_rooted_text)
  have "take 1 (fst (strip_common b t)) \<noteq> [''..'']"
  proof
    assume "take 1 (fst (strip_common b t)) = [''..'']"
    then have "''..'' \<in> set (fst (strip_common b t))" by (cases "fst (strip_common b t)") auto
    with strip_common_prefix [of b t] have "''..'' \<in> set b" by (metis Un_iff set_append)
    with assms(1) show False by (auto simp: clean_list_rooted plain_def)
  qed
  moreover have "rooted_text b \<noteq> ''.''" by (simp add: rooted_text_def separator_def)
  ultimately show ?thesis using assms
    by (cases "strip_common b t") (simp add: Rel_def clean names_of_rooted_text rooted_text_inj)
qed

subsection \<open>What the calls do to the disk\<close>

text \<open>
  \<open>touches P\<close>: nothing outside \<open>P\<close> goes away or changes, and no directory goes away.
\<close>

definition touches :: "path set \<Rightarrow> disk \<Rightarrow> disk \<Rightarrow> bool" where
  "touches P D D' \<longleftrightarrow> (\<forall>q e. D q = Some e \<longrightarrow> (q \<notin> P \<or> e = Directory) \<longrightarrow> D' q = Some e)"

interpretation touch: change_preorder "touches P" for P
  by unfold_locales (auto simp: touches_def)

lemma touches_mono: "touches P D D' \<Longrightarrow> P \<subseteq> Q \<Longrightarrow> touches Q D D'"
  by (auto simp: touches_def)

lemma touches_file: "touches P D D' \<Longrightarrow> q \<notin> P \<Longrightarrow> D q = Some e \<Longrightarrow> D' q = Some e"
  by (simp add: touches_def)

lemma touches_dir: "touches P D D' \<Longrightarrow> D q = Some Directory \<Longrightarrow> D' q = Some Directory"
  by (simp add: touches_def)

lemma touches_update: "D q \<noteq> Some Directory \<Longrightarrow> touches {q} D (D(q \<mapsto> e))"
  by (auto simp: touches_def)

lemma mkdir_below_Some:
  "mkdir_below os d xs D = Some (r, D') \<Longrightarrow>
     touches {} D D' \<and> (r = Ok () \<longrightarrow> (\<forall>ys. ys \<noteq> [] \<and> prefix ys xs \<longrightarrow> D' (d @ ys) = Some Directory))"
proof (induction os d xs D rule: mkdir_below.induct)
  case (2 os d x xs D)
  show ?case
  proof (cases "D (d @ [x]) = Some Directory")
    case True
    with 2 have IH: "touches {} D D'" "r = Ok () \<Longrightarrow> prefix ys xs \<Longrightarrow> ys \<noteq> [] \<Longrightarrow> D' (d @ x # ys) = Some Directory" for ys
      by simp_all
    moreover have "D' (d @ [x]) = Some Directory" using touches_dir [OF IH(1) True] .
    ultimately show ?thesis by (auto simp: prefix_Cons)
  next
    case False
    note notdir = False
    show ?thesis
    proof (cases "D (d @ [x]) = None \<and> refuses os ''mkdir'' (d @ [x]) D = None")
      case True
      let ?D = "D(d @ [x] \<mapsto> Directory)"
      have "mkdir_below os (d @ [x]) xs ?D = Some (r, D')" using 2(3) True by simp
      with 2(1,2) True have IH: "touches {} ?D D'" "r = Ok () \<Longrightarrow> prefix ys xs \<Longrightarrow> ys \<noteq> [] \<Longrightarrow> D' (d @ x # ys) = Some Directory" for ys
        by (simp_all del: fun_upd_apply)
      have "touches {} D ?D" using True by (auto simp: touches_def)
      moreover have "D' (d @ [x]) = Some Directory" by (rule touches_dir [OF IH(1)]) simp
      ultimately show ?thesis using IH touch.sequence by (auto simp: prefix_Cons)
    next
      case False
      with notdir 2(3) show ?thesis by (auto simp: touch.same split: option.splits entry.splits)
    qed
  qed
qed (auto simp: touch.same)

lemma MkdirAll_touches: "guarantees (touches {}) (MkdirAll os p)"
  by (auto simp: guarantees_def MkdirAll_def outcome_simps touch.same dest: mkdir_below_Some split: if_splits)

lemma mkdir_below_places:
  "mkdir_below os d xs D = Some (r, D') \<Longrightarrow> (\<forall>ys. prefix ys xs \<longrightarrow> q \<noteq> d @ ys) \<Longrightarrow> D' q = D q"
proof (induction os d xs D rule: mkdir_below.induct)
  case (2 os d x xs D)
  have "\<forall>ys. prefix ys xs \<longrightarrow> q \<noteq> (d @ [x]) @ ys" using 2(4) by (metis Cons_prefix_Cons append_Cons append_Nil append_assoc)
  moreover have "q \<noteq> d @ [x]" using 2(4) by (metis Nil_prefix prefix_Cons)
  ultimately show ?case using 2 by (auto simp del: fun_upd_apply simp: fun_upd_other split: option.splits entry.splits)
qed simp

lemma MkdirAll_places: "guarantees (\<lambda>D D'. \<forall>q. \<not> prefix q (resolve os p) \<longrightarrow> D' q = D q) (MkdirAll os p)"
  by (auto simp: guarantees_def MkdirAll_def outcome_simps split: if_splits intro: mkdir_below_places)

lemma MkdirAll_dir:
  "MkdirAll os p D = Some (Ok (), D') \<Longrightarrow> ys \<noteq> [] \<Longrightarrow> prefix ys (resolve os p) \<Longrightarrow> D' ys = Some Directory"
  using mkdir_below_Some [of os "[]" "resolve os p" D "Ok ()" D']
  by (auto simp: MkdirAll_def outcome_simps split: if_splits)

lemma refused_Some [outcome_simps]:
  "refused os op q D = Some (Ok (), D') \<longleftrightarrow> refuses os op q D = None \<and> D' = D"
  by (auto simp: refused_def split: option.splits)

lemma refused_touches: "guarantees (touches P) (refused os op q)"
  by (auto simp: guarantees_def refused_def touch.same)

lemma Create_Ok:
  "Create os p D = Some (Ok q, D') \<longleftrightarrow>
     q = resolve os p \<and> p \<noteq> [] \<and> q \<noteq> [] \<and> D (butlast q) = Some Directory \<and> D q \<noteq> Some Directory \<and>
     refuses os ''open'' q D = None \<and> D' = D(q \<mapsto> File [])"
  by (auto simp: Create_def Let_def outcome_simps)

lemma Create_touches: "guarantees (touches {resolve os p}) (Create os p)"
  unfolding guarantees_def Create_def Let_def bindP_def refused_def
  by (auto simp: touch.same touches_update split: option.splits if_splits)

lemma write_all_Some:
  "write_all os q bs D = Some (r, D') \<Longrightarrow> \<exists>n. D' = D(q \<mapsto> File (take n bs)) \<and> (r = Ok () \<longrightarrow> take n bs = bs)"
  unfolding write_all_def by (auto split: option.splits) (metis order_refl take_all)

lemma WriteFile_Ok:
  assumes "WriteFile os p bs D = Some (Ok (), D')"
  shows "D' = D(resolve os p \<mapsto> File bs)" and "D (resolve os p) \<noteq> Some Directory"
proof -
  from assms obtain D1 where "Create os p D = Some (Ok (resolve os p), D1)"
    "write_all os (resolve os p) bs D1 = Some (Ok (), D')"
    by (auto simp: WriteFile_def outcome_simps Create_Ok)
  then show "D' = D(resolve os p \<mapsto> File bs)" "D (resolve os p) \<noteq> Some Directory"
    by (auto simp: Create_Ok dest!: write_all_Some)
qed

lemma WriteFile_touches: "guarantees (touches {resolve os p}) (WriteFile os p bs)"
proof -
  have "touches {resolve os p} D D'" if "WriteFile os p bs D = Some (r, D')" for D r D'
  proof (cases "\<exists>q D1. Create os p D = Some (Ok q, D1)")
    case True
    then obtain q D1 where c: "Create os p D = Some (Ok q, D1)" by blast
    then have q: "q = resolve os p" by (simp add: Create_Ok)
    from that c have "write_all os q bs D1 = Some (r, D')" by (simp add: WriteFile_def bindP_def)
    then obtain n where "D' = D1(q \<mapsto> File (take n bs))" by (auto dest: write_all_Some)
    then show ?thesis using c q by (auto simp: Create_Ok touches_def)
  next
    case False
    with that obtain r' where "Create os p D = Some (r', D')"
      by (auto simp: WriteFile_def bindP_def split: option.splits outcome.splits)
    then show ?thesis using Create_touches by (auto dest: guaranteesD)
  qed
  then show ?thesis by (simp add: guarantees_def)
qed

lemma WriteFile_places: "guarantees (\<lambda>D D'. \<forall>q. q \<noteq> resolve os p \<longrightarrow> D' q = D q) (WriteFile os p bs)"
  unfolding guarantees_def WriteFile_def bindP_def Create_def refused_def Let_def
  by (auto split: option.splits if_splits outcome.splits dest!: write_all_Some)

subsection \<open>A system that refuses nothing\<close>

lemma mkdir_below_succeeds:
  "refuses os = (\<lambda>_ _ _. None) \<Longrightarrow> (\<forall>ys b. prefix ys xs \<longrightarrow> D (d @ ys) \<noteq> Some (File b)) \<Longrightarrow>
     \<exists>D'. mkdir_below os d xs D = Some (Ok (), D')"
proof (induction xs arbitrary: d D)
  case (Cons x xs)
  have notfile: "D (d @ [x]) \<noteq> Some (File b)" for b using Cons.prems(2) by (metis prefix_Cons Nil_prefix)
  have below: "\<forall>ys b. prefix ys xs \<longrightarrow> D ((d @ [x]) @ ys) \<noteq> Some (File b)"
    using Cons.prems(2) by (metis Cons_prefix_Cons append_Cons append_Nil append_assoc)
  then have "\<forall>ys b. prefix ys xs \<longrightarrow> (D(d @ [x] \<mapsto> Directory)) ((d @ [x]) @ ys) \<noteq> Some (File b)" by auto
  from Cons.IH [OF Cons.prems(1) this] Cons.IH [OF Cons.prems(1) below] show ?case
    using notfile Cons.prems(1) by (auto simp del: fun_upd_apply split: option.splits entry.splits)
qed simp

lemma MkdirAll_succeeds:
  assumes "refuses os = (\<lambda>_ _ _. None)" and "p \<noteq> []" and "\<And>ys b. prefix ys (resolve os p) \<Longrightarrow> D ys \<noteq> Some (File b)"
  shows "\<exists>D'. MkdirAll os p D = Some (Ok (), D')"
  using mkdir_below_succeeds [of os "resolve os p" D "[]"] assms by (simp add: MkdirAll_def)

lemma WriteFile_succeeds:
  assumes "refuses os = (\<lambda>_ _ _. None)" and "p \<noteq> []" and "resolve os p \<noteq> []"
    and "D (butlast (resolve os p)) = Some Directory" and "D (resolve os p) \<noteq> Some Directory"
  shows "WriteFile os p bs D = Some (Ok (), D(resolve os p \<mapsto> File bs))"
  using assms by (simp add: WriteFile_def Create_def bindP_def refused_def write_all_def Let_def)

text \<open>The directory of a path whose last name is plain.\<close>

lemma resolve_Dir:
  assumes "wf_os os" and "plain x" and "q \<noteq> []"
  shows "resolve os (Dir (q @ separator # x)) = butlast (resolve os (q @ separator # x))"
proof -
  have "dropWhile (\<lambda>c. c \<noteq> separator) (rev x @ separator # rev q) = separator # rev q"
    using assms(2) by (subst dropWhile_append2) (auto simp: plain_def)
  then have "rev (dropWhile (\<lambda>c. c \<noteq> separator) (rev (q @ separator # x))) = q @ [separator]" by simp
  then have "resolve os (Dir (q @ separator # x)) = resolve os (q @ [separator])"
    using assms(1) by (simp add: Dir_def)
  then show ?thesis using assms(2,3) by (simp add: resolve_def IsAbs_append clean_names_append)
qed

lemma Join_last:
  assumes "p \<noteq> []" and "plain x" and "plain y"
  obtains q where "q \<noteq> []" and "Join [p, x, y] = q @ separator # y"
proof -
  define ns where "ns = clean_names (IsAbs p) [] p @ [x]"
  have "clean_names (IsAbs p) [] (p @ separator # x @ separator # y) = ns @ [y]"
    using assms by (simp add: clean_names_append ns_def)
  moreover have join: "strings_Join (ns @ [y]) [separator] = strings_Join ns [separator] @ separator # y"
    using strings_Join_snoc [of ns y "[separator]"] by (simp add: ns_def)
  ultimately have "Join [p, x, y] = (if IsAbs p then [separator] else []) @ strings_Join ns [separator] @ separator # y"
    using assms by (cases "IsAbs p") (simp_all add: Join_def Clean_def IsAbs_append)
  moreover have "strings_Join ns [separator] \<noteq> []"
    using assms(2) by (cases "clean_names (IsAbs p) [] p = []") (simp_all add: ns_def strings_Join_snoc plain_def)
  ultimately show ?thesis by (intro that [of "(if IsAbs p then [separator] else []) @ strings_Join ns [separator]"]) simp_all
qed

section \<open>A sample host\<close>

text \<open>A host that refuses nothing, with an empty working directory.\<close>

definition sample_os :: OS where
  "sample_os = \<lparr>cwd = [''work''], Getwd_error = None, refuses = (\<lambda>_ _ _. None), written = (\<lambda>_ _. 0)\<rparr>"

definition sample_disk :: disk where
  "sample_disk = [[] \<mapsto> Directory, [''work''] \<mapsto> Directory]"

lemma sample_os_wf: "wf_os sample_os"
  by (simp add: wf_os_def sample_os_def plain_def separator_def)

end
