(* ===== verification/Root_Command.thy ===== *)
theory Root_Command
  imports Genesis Files
begin

text \<open>
  The root command of the node (\<open>cmd/nexusd/main.go\<close>, \<open>cmd/nexusd/cmd/root.go\<close>): what runs before
  every subcommand, and the genesis file that \<open>start --chain\<close> writes. The client context of the SDK and
  the handler that loads the configuration files are arguments (\<open>PreRunLib\<close>); a command is its name and
  the values of the flags that are read here. The text printed to the error output is the value returned.
\<close>

section \<open>Types\<close>

record Command =
  cmd_Name :: string
  flag_chain :: "string outcome"
  flag_home :: "string outcome"

record 'c PreRunLib =
  with_command :: "'c \<Rightarrow> 'c"
  ReadPersistentCommandFlags :: "'c \<Rightarrow> 'c outcome"
  ReadFromClientConfig :: "'c \<Rightarrow> (disk, 'c) proc"
  SetCmdClientContextHandler :: "'c \<Rightarrow> unit outcome"
  InterceptConfigsPreRunHandler :: "(disk, unit) proc"

section \<open>Operations\<close>

fun network_list :: "nat \<Rightarrow> string list \<Rightarrow> string \<Rightarrow> string" where
  "network_list i [] out = out"
| "network_list i (n # ns) out = network_list (i + 1) ns ((if i > 0 then out @ ''|'' else out) @ n)"

definition formatNetworkList :: string where
  "formatNetworkList = network_list 0 Names []"

definition start_home :: "string \<Rightarrow> Command \<Rightarrow> string" where
  "start_home DefaultNodeHome cmd =
     (case flag_home cmd of Ok home \<Rightarrow> if home = [] then DefaultNodeHome else home | _ \<Rightarrow> DefaultNodeHome)"

definition materializeEmbeddedGenesis ::
    "OS \<Rightarrow> (string \<Rightarrow> bytes outcome) \<Rightarrow> string \<Rightarrow> Command \<Rightarrow> (disk, string) proc" where
  "materializeEmbeddedGenesis os fs_ReadFile DefaultNodeHome cmd =
     (case flag_chain cmd of
        Err _ \<Rightarrow> pureP (Ok [])
      | Panic e \<Rightarrow> pureP (Panic e)
      | Ok chain \<Rightarrow>
          if chain = [] then pureP (Ok [])
          else if \<not> IsEmbedded chain
          then pureP (Err (New (''--chain '' @ Quote chain @ '' is not supported (available: ['' @ show_strings Names @ ''])'')))
          else if cmd_Name cmd \<noteq> ''start'' then pureP (Ok [])
          else
            let home = start_home DefaultNodeHome cmd
            in bindP (pureP (EmbeddedGenesis fs_ReadFile chain)) (\<lambda>embedded.
               let target = Join [home, ''config'', ''genesis.json'']
               in bindP (wrapP ''create config dir: '' (MkdirAll os (Dir target))) (\<lambda>_.
                  bindP (wrapP ''write embedded genesis: '' (WriteFile os target embedded)) (\<lambda>_.
                  pureP (Ok (''Wrote embedded '' @ Quote chain @ '' genesis to '' @ target @ [CHR 0x0A]))))))"

definition PersistentPreRunE ::
    "OS \<Rightarrow> (string \<Rightarrow> bytes outcome) \<Rightarrow> string \<Rightarrow> 'c PreRunLib \<Rightarrow> 'c \<Rightarrow> Command \<Rightarrow> (disk, string) proc" where
  "PersistentPreRunE os fs_ReadFile DefaultNodeHome L clientCtx cmd =
     bindP (pureP (ReadPersistentCommandFlags L (with_command L clientCtx))) (\<lambda>ctx.
     bindP (ReadFromClientConfig L ctx) (\<lambda>ctx.
     bindP (pureP (SetCmdClientContextHandler L ctx)) (\<lambda>_.
     bindP (InterceptConfigsPreRunHandler L) (\<lambda>_.
     materializeEmbeddedGenesis os fs_ReadFile DefaultNodeHome cmd))))"

text \<open>\<open>main\<close>: what is printed to the error output and the status that the process ends with.\<close>

definition main_result :: "unit outcome \<Rightarrow> (string \<times> nat) outcome" where
  "main_result execute =
     (case execute of
        Ok _ \<Rightarrow> Ok ([], 0)
      | Err e \<Rightarrow> Ok (error_text e @ [CHR 0x0A], 1)
      | Panic e \<Rightarrow> Panic e)"

section \<open>Lemmas\<close>

lemma start_home_nonempty: "DefaultNodeHome \<noteq> [] \<Longrightarrow> start_home DefaultNodeHome cmd \<noteq> []"
  by (simp add: start_home_def split: outcome.splits)

lemma plain_config: "plain ''config''" "plain ''genesis.json''" "plain ''gentx''"
  by (simp_all add: plain_def separator_def)

text \<open>Without a chain, for another command or for an unknown network nothing happens to the disk.\<close>

lemma materialize_skips:
  assumes "\<forall>e. flag_chain cmd \<noteq> Panic e"
    and "(\<forall>chain. flag_chain cmd = Ok chain \<longrightarrow> chain = []) \<or> cmd_Name cmd \<noteq> ''start''"
  shows "keeps (\<lambda>D. D) (materializeEmbeddedGenesis os fs home cmd)"
  using assms unfolding materializeEmbeddedGenesis_def
  by (auto split: outcome.splits intro!: keeps_intros)

lemma materialize_Ok:
  assumes wf: "wf_os os" and home: "start_home dflt cmd \<noteq> []"
    and flag: "flag_chain cmd = Ok chain" "chain \<noteq> []" and start: "cmd_Name cmd = ''start''"
    and run: "materializeEmbeddedGenesis os fs dflt cmd D = Some (Ok out, D')"
  obtains bs where "IsEmbedded chain" and "EmbeddedGenesis fs chain = Ok bs"
    and "D' (resolve os (start_home dflt cmd) @ [''config'', ''genesis.json'']) = Some (File bs)"
    and "touches {resolve os (start_home dflt cmd) @ [''config'', ''genesis.json'']} D D'"
proof -
  let ?t = "Join [start_home dflt cmd, ''config'', ''genesis.json'']"
  have t: "resolve os ?t = resolve os (start_home dflt cmd) @ [''config'', ''genesis.json'']"
    using wf home by (simp add: resolve_Join_plain plain_config)
  from run flag start obtain bs D1 where bs: "IsEmbedded chain" "EmbeddedGenesis fs chain = Ok bs"
    and mk: "MkdirAll os (Dir ?t) D = Some (Ok (), D1)" and wr: "WriteFile os ?t bs D1 = Some (Ok (), D')"
    unfolding materializeEmbeddedGenesis_def
    by (simp add: Let_def outcome_simps split: if_splits) (auto simp: outcome_simps)
  have "touches {} D D1" using MkdirAll_touches mk by (rule guaranteesD)
  moreover have "touches {resolve os ?t} D1 D'" using WriteFile_touches wr by (rule guaranteesD)
  ultimately have "touches {resolve os ?t} D D'" using touches_mono touch.sequence by blast
  with bs WriteFile_Ok(1) [OF wr] show ?thesis by (intro that) (simp_all add: t)
qed

section \<open>Properties\<close>

text \<open>The files that the build embeds can be read.\<close>

definition embed_law :: "(string \<Rightarrow> bytes outcome) \<Rightarrow> bool" where
  "embed_law fs \<longleftrightarrow> (\<forall>name p. genesisPaths name = Some p \<longrightarrow> (\<exists>bs. fs p = Ok bs))"

lemma materialize_succeeds:
  assumes wf: "wf_os os" and home: "start_home dflt cmd \<noteq> []" and fs: "embed_law fs"
    and flag: "flag_chain cmd = Ok chain" "IsEmbedded chain" and start: "cmd_Name cmd = ''start''"
    and willing: "refuses os = (\<lambda>_ _ _. None)"
    and free: "\<And>ys b. prefix ys (resolve os (start_home dflt cmd) @ [''config'']) \<Longrightarrow> D ys \<noteq> Some (File b)"
    and target: "D (resolve os (start_home dflt cmd) @ [''config'', ''genesis.json'']) \<noteq> Some Directory"
  shows "\<exists>out D'. materializeEmbeddedGenesis os fs dflt cmd D = Some (Ok out, D')"
proof -
  let ?t = "Join [start_home dflt cmd, ''config'', ''genesis.json'']"
  obtain q where q: "q \<noteq> []" "?t = q @ separator # ''genesis.json''"
    using home plain_config by (metis Join_last)
  have t: "resolve os ?t = resolve os (start_home dflt cmd) @ [''config'', ''genesis.json'']"
    using wf home by (simp add: resolve_Join_plain plain_config)
  then have d: "resolve os (Dir ?t) = resolve os (start_home dflt cmd) @ [''config'']"
    using resolve_Dir [OF wf plain_config(2) q(1)] q(2) by (simp add: butlast_append)
  obtain D1 where mk: "MkdirAll os (Dir ?t) D = Some (Ok (), D1)"
    using MkdirAll_succeeds [OF willing, of "Dir ?t" D] free unfolding d by auto
  have "D1 (resolve os (Dir ?t)) = Some Directory" by (rule MkdirAll_dir [OF mk]) (simp_all add: d)
  moreover have "D1 (resolve os ?t) \<noteq> Some Directory"
    using MkdirAll_places [THEN guaranteesD, OF mk] target by (simp add: t d)
  ultimately have "WriteFile os ?t bs D1 = Some (Ok (), D1(resolve os ?t \<mapsto> File bs))" for bs
    using Join_nonempty [OF home] by (intro WriteFile_succeeds) (simp_all add: willing t d butlast_append)
  moreover obtain bs where "EmbeddedGenesis fs chain = Ok bs"
    using fs flag(2) by (fastforce simp: embed_law_def IsEmbedded_def EmbeddedGenesis_def)
  moreover have "chain \<noteq> []" using flag(2) by (auto simp: IsEmbedded_def genesisPaths_def)
  ultimately show ?thesis using flag start mk
    by (simp add: materializeEmbeddedGenesis_def Let_def bindP_def wrapP_def pureP_def)
qed


text \<open>Handlers that change nothing.\<close>

definition sample_prerun :: "unit PreRunLib" where
  "sample_prerun = \<lparr>with_command = (\<lambda>c. c), ReadPersistentCommandFlags = Ok, ReadFromClientConfig = (\<lambda>c. pureP (Ok c)),
     SetCmdClientContextHandler = Ok, InterceptConfigsPreRunHandler = pureP (Ok ())\<rparr>"

definition sample_start :: Command where
  "sample_start = \<lparr>cmd_Name = ''start'', flag_chain = Ok ''localnet'', flag_home = Ok ''node''\<rparr>"

lemma sample_home: "resolve sample_os ''node'' = [''work'', ''node'']"
  by (simp add: resolve_def sample_os_def IsAbs_def separator_def clean_names_def clean_step_def)

lemma sample_target_free: "prefix ys [''work'', ''node'', ''config''] \<Longrightarrow> sample_disk ys \<noteq> Some (File b)"
  by (auto simp: sample_disk_def)


end
