(* ===== verification/Upgrades.thy ===== *)
theory Upgrades
  imports Go_Std Calls
begin

text \<open>
  The operations on validators that scheduled hooks perform (\<open>app/upgrades.go\<close>). The keepers of the
  Cosmos SDK are an argument: \<open>SdkKeepers\<close> holds the methods called, over the store \<open>'s\<close>. A
  \<open>math.Int\<close> may be nil, which is \<open>None\<close>; using a nil one in a comparison is a panic. Times are
  nanoseconds since the epoch, decimals are scaled by \<open>10 ^ 18\<close>. Amounts
  are unbounded; the panic of \<open>math.Int\<close> beyond 256 bits is not modelled. Logging is left out.
\<close>

section \<open>Types\<close>

datatype bond_status = Unspecified | Unbonded | Unbonding | Bonded

record Validator =
  OperatorAddress :: string
  ConsensusPubkey :: bytes
  Jailed :: bool
  Status :: bond_status
  Tokens :: "int option"
  DelegatorShares :: int
  v_Description :: bytes
  v_MinSelfDelegation :: "int option"

record SigningInfo =
  si_Address :: bytes
  StartHeight :: i64
  IndexOffset :: i64
  JailedUntil :: int
  Tombstoned :: bool
  MissedBlocksCounter :: i64

record MsgDelegate =
  DelegatorAddress :: string
  ValidatorAddress :: string
  Amount :: "string \<times> int"

record AddValidatorOptions =
  PubKey :: "bytes option"
  Description :: bytes
  InitialTokens :: "int option"
  MinSelfDelegation :: "int option"

record RemoveValidatorOptions =
  BurnTokens :: bool
  TokenRecipient :: "bytes option"

record HookContext =
  hc_BlockTime :: int
  hc_BlockHeight :: i64

text \<open>
  The keepers. A coin is a denomination and an amount; an iteration is the list of what it visits and
  the error it ends with.
\<close>

record 's SdkKeepers =
  GetValidator :: "bytes \<Rightarrow> 's \<Rightarrow> Validator outcome"
  GetAllValidators :: "'s \<Rightarrow> Validator list outcome"
  SetValidator :: "Validator \<Rightarrow> 's \<Rightarrow> unit outcome \<times> 's"
  SetValidatorByConsAddr :: "Validator \<Rightarrow> 's \<Rightarrow> unit outcome \<times> 's"
  SetNewValidatorByPowerIndex :: "Validator \<Rightarrow> 's \<Rightarrow> unit outcome \<times> 's"
  DeleteValidatorByPowerIndex :: "Validator \<Rightarrow> 's \<Rightarrow> unit outcome \<times> 's"
  BondDenom :: "'s \<Rightarrow> string outcome"
  UnbondingDelegations :: "'s \<Rightarrow> int option list list \<times> unit outcome"
  Delegate :: "MsgDelegate \<Rightarrow> 's \<Rightarrow> unit outcome \<times> 's"
  GetValidatorSigningInfo :: "bytes \<Rightarrow> 's \<Rightarrow> SigningInfo outcome"
  SetValidatorSigningInfo :: "bytes \<Rightarrow> SigningInfo \<Rightarrow> 's \<Rightarrow> unit outcome \<times> 's"
  Unjail :: "bytes \<Rightarrow> 's \<Rightarrow> unit outcome \<times> 's"
  MintCoins :: "string \<Rightarrow> string \<times> int \<Rightarrow> 's \<Rightarrow> unit outcome \<times> 's"
  BurnCoins :: "string \<Rightarrow> string \<times> int \<Rightarrow> 's \<Rightarrow> unit outcome \<times> 's"
  SendCoinsFromModuleToAccount :: "string \<Rightarrow> bytes \<Rightarrow> string \<times> int \<Rightarrow> 's \<Rightarrow> unit outcome \<times> 's"
  SendCoinsFromModuleToModule :: "string \<Rightarrow> string \<Rightarrow> string \<times> int \<Rightarrow> 's \<Rightarrow> unit outcome \<times> 's"
  GetBalance :: "bytes \<Rightarrow> string \<Rightarrow> 's \<Rightarrow> int"
  GetModuleAddress :: "string \<Rightarrow> bytes"
  HasAccount :: "bytes \<Rightarrow> 's \<Rightarrow> bool"
  SetNewAccount :: "bytes \<Rightarrow> 's \<Rightarrow> 's"
  SetHistoricalRewards :: "bytes \<Rightarrow> nat \<Rightarrow> nat \<Rightarrow> 's \<Rightarrow> unit outcome \<times> 's"
  SetCurrentRewards :: "bytes \<Rightarrow> nat \<Rightarrow> 's \<Rightarrow> unit outcome \<times> 's"
  SetAccumulatedCommission :: "bytes \<Rightarrow> 's \<Rightarrow> unit outcome \<times> 's"
  FeePool_Get :: "'s \<Rightarrow> unit outcome"
  FeePool_SetInitial :: "'s \<Rightarrow> unit outcome \<times> 's"
  NewValidator :: "string \<Rightarrow> bytes \<Rightarrow> bytes \<Rightarrow> Validator outcome"
  GetConsAddr :: "Validator \<Rightarrow> bytes outcome"
  AccAddressString :: "bytes \<Rightarrow> string"
  ValAddressString :: "bytes \<Rightarrow> string"

definition DefaultBondDenom :: string where "DefaultBondDenom = ''atnex''"
definition BondedPoolName :: string where "BondedPoolName = ''bonded_tokens_pool''"
definition NotBondedPoolName :: string where "NotBondedPoolName = ''not_bonded_tokens_pool''"

section \<open>Amounts\<close>

text \<open>A method of a nil \<open>math.Int\<close>.\<close>

definition nil_int :: go_error where
  "nil_int = New ''runtime error: invalid memory address or nil pointer dereference''"

fun need :: "int option \<Rightarrow> int outcome" where
  "need None = Panic nil_int"
| "need (Some n) = Ok n"

section \<open>Operations\<close>

definition setValidatorBalance ::
    "'s SdkKeepers \<Rightarrow> bytes \<Rightarrow> Validator \<Rightarrow> int option \<Rightarrow> ('s, unit) proc" where
  "setValidatorBalance K valAddr validator targetTokens =
     (let tokens = (case Tokens validator of None \<Rightarrow> 0 | Some t \<Rightarrow> t)
      in bindP (pureP (need targetTokens)) (\<lambda>target.
         if tokens < target then
           let additionalTokens = (DefaultBondDenom, target - tokens)
           in bindP (wrapP ''failed to mint additional tokens: ''
                (callK (MintCoins K BondedPoolName additionalTokens))) (\<lambda>_.
              bindP (wrapP ''failed to send minted tokens to validator account: ''
                (callK (SendCoinsFromModuleToAccount K BondedPoolName valAddr additionalTokens))) (\<lambda>_.
              wrapP ''failed to delegate tokens to validator account: ''
                (callK (Delegate K \<lparr>DelegatorAddress = AccAddressString K valAddr,
                   ValidatorAddress = ValAddressString K valAddr, Amount = additionalTokens\<rparr>))))
         else pureP (Ok ())))"

definition ExecuteUnjailing ::
    "'s SdkKeepers \<Rightarrow> HookContext \<Rightarrow> bytes \<Rightarrow> int option \<Rightarrow> ('s, unit) proc" where
  "ExecuteUnjailing K ctx valAddr targetTokens =
     bindP (wrapP ''failed to get validator: '' (readK (GetValidator K valAddr))) (\<lambda>validator.
     bindP (case targetTokens of
              None \<Rightarrow> pureP (Ok ())
            | Some t \<Rightarrow> wrapP ''failed to restore validator balance: ''
                          (setValidatorBalance K valAddr validator (Some t))) (\<lambda>_.
     bindP (wrapP ''failed to get consensus address: '' (pureP (GetConsAddr K validator))) (\<lambda>consAddr.
     bindP (wrapP ''failed to get signing info: '' (readK (GetValidatorSigningInfo K consAddr))) (\<lambda>signingInfo.
     bindP (wrapP ''failed to update signing info: ''
             (callK (SetValidatorSigningInfo K consAddr
                (signingInfo\<lparr>JailedUntil := hc_BlockTime ctx - 1000000000\<rparr>)))) (\<lambda>_.
     wrapP ''failed to unjail validator: '' (callK (Unjail K valAddr)))))))"

text \<open>The signing info of a validator that has none yet.\<close>

definition ensure_signing_info :: "'s SdkKeepers \<Rightarrow> HookContext \<Rightarrow> bytes \<Rightarrow> ('s, unit) proc" where
  "ensure_signing_info K ctx consAddr =
     catchP (bindP (readK (GetValidatorSigningInfo K consAddr)) (\<lambda>_. pureP (Ok ()))) (\<lambda>_.
       wrapP ''failed to set signing info: ''
         (callK (SetValidatorSigningInfo K consAddr
            \<lparr>si_Address = consAddr, StartHeight = hc_BlockHeight ctx, IndexOffset = hc_BlockHeight ctx - 1,
             JailedUntil = 0, Tombstoned = False, MissedBlocksCounter = 0\<rparr>)))"

text \<open>Recording a new validator: the branch of \<open>ExecuteAddValidator\<close> under a positive minimum.\<close>

definition persist_validator ::
    "'s SdkKeepers \<Rightarrow> HookContext \<Rightarrow> bytes \<Rightarrow> Validator \<Rightarrow> ('s, Validator) proc" where
  "persist_validator K ctx valAddr validator =
     bindP (wrapP ''failed to persist validator: '' (callK (SetValidator K validator))) (\<lambda>_.
     bindP (wrapP ''failed to index validator by cons addr: '' (callK (SetValidatorByConsAddr K validator))) (\<lambda>_.
     bindP (wrapP ''failed to index validator by power: '' (callK (SetNewValidatorByPowerIndex K validator))) (\<lambda>_.
     bindP (wrapP ''failed to get consensus address: '' (pureP (GetConsAddr K validator))) (\<lambda>consAddr.
     bindP (ensure_signing_info K ctx consAddr) (\<lambda>_.
     bindP (wrapP ''failed to set validator historical rewards: ''
             (callK (SetHistoricalRewards K valAddr 0 1))) (\<lambda>_.
     bindP (wrapP ''failed to set validator current rewards: '' (callK (SetCurrentRewards K valAddr 1))) (\<lambda>_.
     bindP (wrapP ''failed to set validator accumulated commission: ''
             (callK (SetAccumulatedCommission K valAddr))) (\<lambda>_.
     bindP (catchP (readK (FeePool_Get K)) (\<lambda>_.
             wrapP ''failed to initialize fee pool: '' (callK (FeePool_SetInitial K)))) (\<lambda>_.
     wrapP ''failed to load validator after creation: '' (readK (GetValidator K valAddr)))))))))))"

definition create_validator ::
    "'s SdkKeepers \<Rightarrow> HookContext \<Rightarrow> bytes \<Rightarrow> AddValidatorOptions option \<Rightarrow> go_error \<Rightarrow> ('s, unit) proc" where
  "create_validator K ctx valAddr opts err =
     (case opts of
        None \<Rightarrow> pureP (Err (Wrapf ''validator not found: '' err '' (provide AddValidatorOptions with PubKey to create)''))
      | Some o' \<Rightarrow>
          (case PubKey o' of
             None \<Rightarrow> pureP (Err (Wrapf ''validator not found: '' err '' (provide AddValidatorOptions with PubKey to create)''))
           | Some pk \<Rightarrow>
               if (case InitialTokens o' of None \<Rightarrow> True | Some t \<Rightarrow> \<not> t > 0)
               then pureP (Err (New ''initial_tokens must be a positive amount''))
               else
                 bindP (\<lambda>s. Some (Ok (), if HasAccount K valAddr s then s else SetNewAccount K valAddr s)) (\<lambda>_.
                 bindP (wrapP ''failed to build validator: ''
                         (pureP (NewValidator K (ValAddressString K valAddr) pk (Description o')))) (\<lambda>v.
                 let validator = v\<lparr>Status := Bonded, Tokens := Some 0, DelegatorShares := 0\<rparr>
                 in bindP (if (case MinSelfDelegation o' of None \<Rightarrow> False | Some m \<Rightarrow> m > 0)
                           then persist_validator K ctx valAddr
                                  (validator\<lparr>v_MinSelfDelegation := MinSelfDelegation o'\<rparr>)
                           else pureP (Ok validator)) (\<lambda>validator.
                    wrapP ''failed to ensure validator balance: ''
                      (setValidatorBalance K valAddr validator (InitialTokens o')))))))"

definition ExecuteAddValidator ::
    "'s SdkKeepers \<Rightarrow> HookContext \<Rightarrow> bytes \<Rightarrow> AddValidatorOptions option \<Rightarrow> ('s, unit) proc" where
  "ExecuteAddValidator K ctx valAddr opts =
     catchP (bindP (readK (GetValidator K valAddr)) (\<lambda>_. pureP (Ok ())))
       (create_validator K ctx valAddr opts)"

definition tombstoneValidator :: "'s SdkKeepers \<Rightarrow> bytes \<Rightarrow> ('s, unit) proc" where
  "tombstoneValidator K consAddr =
     bindP (panicP ''[RMVAL] failed to get validator signing info: ''
             (readK (GetValidatorSigningInfo K consAddr))) (\<lambda>signingInfo.
     if Tombstoned signingInfo then pureP (Ok ())
     else panicP ''[RMVAL] failed to tombstone validator: ''
            (callK (SetValidatorSigningInfo K consAddr
               (signingInfo\<lparr>Tombstoned := True, JailedUntil := 253402300799 * 1000000000\<rparr>))))"

definition handleValidatorTokens ::
    "'s SdkKeepers \<Rightarrow> Validator \<Rightarrow> RemoveValidatorOptions option \<Rightarrow> ('s, bool) proc" where
  "handleValidatorTokens K validator opts =
     (case opts of
        None \<Rightarrow> pureP (Ok False)
      | Some o' \<Rightarrow>
          bindP (pureP (need (Tokens validator))) (\<lambda>tokens.
          if \<not> tokens > 0 then pureP (Ok False)
          else if \<not> BurnTokens o' \<and> TokenRecipient o' = None then pureP (Ok False)
          else
            bindP (panicP ''[RMVAL] failed to get bond denom: '' (readK (BondDenom K))) (\<lambda>bondDenom.
            let poolName = (if Status validator \<noteq> Bonded then NotBondedPoolName else BondedPoolName)
            in bindP (readK (\<lambda>s. Ok (GetBalance K (GetModuleAddress K poolName) bondDenom s))) (\<lambda>poolBalance.
               let amount = (if poolBalance < tokens then poolBalance else tokens)
               in if \<not> amount > 0 then pureP (Ok False)
                  else if BurnTokens o'
                  then bindP (panicP (''[RMVAL] failed to burn tokens from '' @ poolName @ '': '')
                               (callK (BurnCoins K poolName (bondDenom, amount)))) (\<lambda>_. pureP (Ok True))
                  else (case TokenRecipient o' of
                          None \<Rightarrow> pureP (Ok False)
                        | Some recipient \<Rightarrow>
                            bindP (panicP (''[RMVAL] failed to transfer tokens from '' @ poolName @ '': '')
                               (callK (SendCoinsFromModuleToAccount K poolName recipient (bondDenom, amount))))
                              (\<lambda>_. pureP (Ok True)))))))"

definition ExecuteRemoveValidator ::
    "'s SdkKeepers \<Rightarrow> bytes \<Rightarrow> RemoveValidatorOptions option \<Rightarrow> ('s, unit) proc" where
  "ExecuteRemoveValidator K valAddr opts =
     bindP (panicP ''[RMVAL] validator not found: '' (readK (GetValidator K valAddr))) (\<lambda>validator.
     bindP (panicP ''[RMVAL] failed to get consensus address: '' (pureP (GetConsAddr K validator))) (\<lambda>consAddr.
     bindP (tombstoneValidator K consAddr) (\<lambda>_.
     bindP (if \<not> Jailed validator
            then panicP ''[RMVAL] failed to delete validator from power index: ''
                   (callK (DeleteValidatorByPowerIndex K validator))
            else pureP (Ok ())) (\<lambda>_.
     bindP (handleValidatorTokens K validator opts) (\<lambda>tokensBurned.
     if \<not> Jailed validator \<or> tokensBurned
     then let jailed = validator\<lparr>Jailed := True\<rparr>
          in panicP ''[RMVAL] failed to update validator: ''
               (callK (SetValidator K
                  (if tokensBurned then jailed\<lparr>Tokens := Some 0, DelegatorShares := 0\<rparr> else jailed)))
     else pureP (Ok ()))))))"

text \<open>The sums that the pools must cover, and the two halves of the reconciliation.\<close>

definition pool_sums :: "Validator list \<Rightarrow> int option list list \<Rightarrow> int \<times> int" where
  "pool_sums validators ubds =
     (let (bonded, notBonded) = foldl (\<lambda>(b, n) v.
            case Tokens v of
              None \<Rightarrow> (b, n)
            | Some t \<Rightarrow> if Status v = Bonded then (b + t, n) else (b, n + t)) (0, 0) validators
      in (bonded, foldl (\<lambda>n entry. case entry of None \<Rightarrow> n | Some e \<Rightarrow> if e > 0 then n + e else n)
            notBonded (concat ubds)))"

definition ExecuteReconcileStakingPools :: "'s SdkKeepers \<Rightarrow> 's \<Rightarrow> unit outcome \<times> 's" where
  "ExecuteReconcileStakingPools K s =
     (case GetAllValidators K s of
        Err _ \<Rightarrow> (Ok (), s)
      | Panic e \<Rightarrow> (Panic e, s)
      | Ok validators \<Rightarrow>
          (case snd (UnbondingDelegations K s) of
             Panic e \<Rightarrow> (Panic e, s)
           | _ \<Rightarrow>
             let (bondedSum, notBondedSum) = pool_sums validators (fst (UnbondingDelegations K s));
                 bondedBal = GetBalance K (GetModuleAddress K BondedPoolName) DefaultBondDenom s;
                 (r1, s1) = (if bondedBal < bondedSum
                   then MintCoins K BondedPoolName (DefaultBondDenom, bondedSum - bondedBal) s else (Ok (), s));
                 notBondedBal = GetBalance K (GetModuleAddress K NotBondedPoolName) DefaultBondDenom s1
             in case r1 of
                  Panic e \<Rightarrow> (Panic e, s1)
                | _ \<Rightarrow>
                    if notBondedBal < notBondedSum then
                      let coins = (DefaultBondDenom, notBondedSum - notBondedBal)
                      in case MintCoins K BondedPoolName coins s1 of
                           (Err _, s2) \<Rightarrow> (Ok (), s2)
                         | (Panic e, s2) \<Rightarrow> (Panic e, s2)
                         | (Ok _, s2) \<Rightarrow>
                             (case SendCoinsFromModuleToModule K BondedPoolName NotBondedPoolName coins s2 of
                                (Panic e, s3) \<Rightarrow> (Panic e, s3)
                              | (_, s3) \<Rightarrow> (Ok (), s3))
                    else (Ok (), s1)))"

section \<open>Laws of the keepers\<close>

text \<open>
  The bank: minting adds to the pool, sending moves between pools, both leave other balances and the
  staking records alone; balances are not negative and the two pools have different addresses.
\<close>

definition bank_law :: "'s SdkKeepers \<Rightarrow> bool" where
  "bank_law K \<longleftrightarrow>
     GetModuleAddress K BondedPoolName \<noteq> GetModuleAddress K NotBondedPoolName \<and>
     (\<forall>a d s. 0 \<le> GetBalance K a d s) \<and>
     (\<forall>p d n s s'. MintCoins K p (d, n) s = (Ok (), s') \<longrightarrow>
        GetAllValidators K s' = GetAllValidators K s \<and> UnbondingDelegations K s' = UnbondingDelegations K s \<and>
        (\<forall>a d'. GetBalance K a d' s' = GetBalance K a d' s + (if a = GetModuleAddress K p \<and> d' = d then n else 0))) \<and>
     (\<forall>p q d n s s'. SendCoinsFromModuleToModule K p q (d, n) s = (Ok (), s') \<longrightarrow>
        GetAllValidators K s' = GetAllValidators K s \<and> UnbondingDelegations K s' = UnbondingDelegations K s \<and>
        (\<forall>a d'. GetBalance K a d' s' = GetBalance K a d' s
           + (if a = GetModuleAddress K q \<and> d' = d then n else 0) - (if a = GetModuleAddress K p \<and> d' = d then n else 0)))"

text \<open>The bonded pool may mint, and a pool may send what it holds.\<close>

definition minter_law :: "'s SdkKeepers \<Rightarrow> bool" where
  "minter_law K \<longleftrightarrow>
     (\<forall>d n s. 0 < n \<longrightarrow> (\<exists>s'. MintCoins K BondedPoolName (d, n) s = (Ok (), s'))) \<and>
     (\<forall>q d n s. 0 < n \<longrightarrow> n \<le> GetBalance K (GetModuleAddress K BondedPoolName) d s \<longrightarrow>
        (\<exists>s'. SendCoinsFromModuleToModule K BondedPoolName q (d, n) s = (Ok (), s')))"

text \<open>
  Staking and slashing records: what was set is what is read, under the same operator or consensus
  address; the operations on one kind of record, and those of the bank, leave the other kind alone.
\<close>

definition record_law :: "'s SdkKeepers \<Rightarrow> bool" where
  "record_law K \<longleftrightarrow>
     (\<forall>a v v0 s s'. GetValidator K a s = Ok v0 \<longrightarrow> OperatorAddress v = OperatorAddress v0 \<longrightarrow>
        SetValidator K v s = (Ok (), s') \<longrightarrow> GetValidator K a s' = Ok v) \<and>
     (\<forall>c i s s'. SetValidatorSigningInfo K c i s = (Ok (), s') \<longrightarrow> GetValidatorSigningInfo K c s' = Ok i) \<and>
     (\<forall>a c i. keeps (GetValidator K a) (callK (SetValidatorSigningInfo K c i))) \<and>
     (\<forall>a v. keeps (GetValidator K a) (callK (DeleteValidatorByPowerIndex K v))) \<and>
     (\<forall>a p x. keeps (GetValidator K a) (callK (BurnCoins K p x))) \<and>
     (\<forall>a p q x. keeps (GetValidator K a) (callK (SendCoinsFromModuleToAccount K p q x))) \<and>
     (\<forall>a p x. keeps (GetValidator K a) (callK (MintCoins K p x))) \<and>
     (\<forall>c v. keeps (GetValidatorSigningInfo K c) (callK (SetValidator K v))) \<and>
     (\<forall>c v. keeps (GetValidatorSigningInfo K c) (callK (DeleteValidatorByPowerIndex K v))) \<and>
     (\<forall>c p x. keeps (GetValidatorSigningInfo K c) (callK (BurnCoins K p x))) \<and>
     (\<forall>c p q x. keeps (GetValidatorSigningInfo K c) (callK (SendCoinsFromModuleToAccount K p q x))) \<and>
     (\<forall>a b s. GetValidator K a (SetNewAccount K b s) = GetValidator K a s)"

text \<open>A delegation to an address without a validator fails.\<close>

definition delegate_law :: "'s SdkKeepers \<Rightarrow> bool" where
  "delegate_law K \<longleftrightarrow>
     (\<forall>a d n s e. GetValidator K a s = Err e \<longrightarrow>
        (\<forall>s'. Delegate K \<lparr>DelegatorAddress = d, ValidatorAddress = ValAddressString K a, Amount = n\<rparr> s \<noteq> (Ok (), s')))"

section \<open>Lemmas\<close>

lemma need_Ok [outcome_simps]: "need x = Ok n \<longleftrightarrow> x = Some n"
  by (cases x) auto

lemma handleValidatorTokens_keeps:
  assumes "\<And>q x. keeps p (callK (BurnCoins K q x))" "\<And>q a x. keeps p (callK (SendCoinsFromModuleToAccount K q a x))"
  shows "keeps p (handleValidatorTokens K v opts)"
  unfolding handleValidatorTokens_def by (intro keeps_intros assms)

subsection \<open>Reconciliation\<close>

lemma bank_mint:
  assumes "bank_law K" "MintCoins K p (d, n) s = (Ok (), s')"
  shows "GetAllValidators K s' = GetAllValidators K s" "UnbondingDelegations K s' = UnbondingDelegations K s"
    "GetBalance K a d' s' = GetBalance K a d' s + (if a = GetModuleAddress K p \<and> d' = d then n else 0)"
  using assms unfolding bank_law_def by blast+

lemma bank_send:
  assumes "bank_law K" "SendCoinsFromModuleToModule K p q (d, n) s = (Ok (), s')"
  shows "GetAllValidators K s' = GetAllValidators K s" "UnbondingDelegations K s' = UnbondingDelegations K s"
    "GetBalance K a d' s' = GetBalance K a d' s
       + (if a = GetModuleAddress K q \<and> d' = d then n else 0) - (if a = GetModuleAddress K p \<and> d' = d then n else 0)"
  using assms unfolding bank_law_def by blast+

lemma minter_mint: "minter_law K \<Longrightarrow> x < y \<Longrightarrow> \<exists>s'. MintCoins K BondedPoolName (d, y - x) s = (Ok (), s')"
  unfolding minter_law_def by simp

lemma minter_send:
  "minter_law K \<Longrightarrow> x < y \<Longrightarrow> y - x \<le> GetBalance K (GetModuleAddress K BondedPoolName) d s \<Longrightarrow>
   \<exists>s'. SendCoinsFromModuleToModule K BondedPoolName q (d, y - x) s = (Ok (), s')"
  unfolding minter_law_def by simp

text \<open>Nothing is minted when the pools are funded.\<close>

lemma reconcile_funded:
  assumes "GetAllValidators K s = Ok vs" "snd (UnbondingDelegations K s) = Ok ()"
    and "pool_sums vs (fst (UnbondingDelegations K s)) = (b, n)"
    and "b \<le> GetBalance K (GetModuleAddress K BondedPoolName) DefaultBondDenom s"
    and "n \<le> GetBalance K (GetModuleAddress K NotBondedPoolName) DefaultBondDenom s"
  shows "ExecuteReconcileStakingPools K s = (Ok (), s)"
  using assms by (simp add: ExecuteReconcileStakingPools_def)

text \<open>The first half: afterwards the bonded pool covers its sum, and nothing else has changed.\<close>

lemma reconcile_bonded:
  assumes bank: "bank_law K" and mint: "minter_law K"
  obtains s1 where
    "(if GetBalance K (GetModuleAddress K BondedPoolName) DefaultBondDenom s < b
      then MintCoins K BondedPoolName (DefaultBondDenom,
        b - GetBalance K (GetModuleAddress K BondedPoolName) DefaultBondDenom s) s else (Ok (), s)) = (Ok (), s1)"
    "GetAllValidators K s1 = GetAllValidators K s" "UnbondingDelegations K s1 = UnbondingDelegations K s"
    "GetBalance K (GetModuleAddress K BondedPoolName) DefaultBondDenom s1
       = max b (GetBalance K (GetModuleAddress K BondedPoolName) DefaultBondDenom s)"
    "GetBalance K (GetModuleAddress K NotBondedPoolName) DefaultBondDenom s1
       = GetBalance K (GetModuleAddress K NotBondedPoolName) DefaultBondDenom s"
proof (cases "GetBalance K (GetModuleAddress K BondedPoolName) DefaultBondDenom s < b")
  case True
  then obtain s1 where m: "MintCoins K BondedPoolName (DefaultBondDenom,
      b - GetBalance K (GetModuleAddress K BondedPoolName) DefaultBondDenom s) s = (Ok (), s1)"
    using minter_mint [OF mint] by blast
  have ne: "GetModuleAddress K BondedPoolName \<noteq> GetModuleAddress K NotBondedPoolName"
    using bank by (simp add: bank_law_def)
  show ?thesis using that [of s1] True m bank_mint [OF bank m] ne by simp
next
  case False
  then show ?thesis using that [of s] by simp
qed

text \<open>The second half, through the bonded pool.\<close>

lemma reconcile_not_bonded:
  assumes bank: "bank_law K" and mint: "minter_law K"
    and lt: "GetBalance K (GetModuleAddress K NotBondedPoolName) DefaultBondDenom s1 < n"
  obtains s2 s3 where
    "MintCoins K BondedPoolName (DefaultBondDenom,
       n - GetBalance K (GetModuleAddress K NotBondedPoolName) DefaultBondDenom s1) s1 = (Ok (), s2)"
    "SendCoinsFromModuleToModule K BondedPoolName NotBondedPoolName (DefaultBondDenom,
       n - GetBalance K (GetModuleAddress K NotBondedPoolName) DefaultBondDenom s1) s2 = (Ok (), s3)"
    "GetAllValidators K s3 = GetAllValidators K s1" "UnbondingDelegations K s3 = UnbondingDelegations K s1"
    "GetBalance K (GetModuleAddress K BondedPoolName) DefaultBondDenom s3
       = GetBalance K (GetModuleAddress K BondedPoolName) DefaultBondDenom s1"
    "GetBalance K (GetModuleAddress K NotBondedPoolName) DefaultBondDenom s3 = n"
proof -
  let ?d = "n - GetBalance K (GetModuleAddress K NotBondedPoolName) DefaultBondDenom s1"
  have ne: "GetModuleAddress K BondedPoolName \<noteq> GetModuleAddress K NotBondedPoolName"
    and pos: "0 \<le> GetBalance K (GetModuleAddress K BondedPoolName) DefaultBondDenom s1"
    using bank by (auto simp: bank_law_def)
  obtain s2 where m: "MintCoins K BondedPoolName (DefaultBondDenom, ?d) s1 = (Ok (), s2)"
    using minter_mint [OF mint lt] by blast
  have "?d \<le> GetBalance K (GetModuleAddress K BondedPoolName) DefaultBondDenom s2"
    using bank_mint(3) [OF bank m] pos by simp
  then obtain s3 where t: "SendCoinsFromModuleToModule K BondedPoolName NotBondedPoolName (DefaultBondDenom, ?d) s2 = (Ok (), s3)"
    using minter_send [OF mint lt] by blast
  show ?thesis
    using that [OF m t] bank_mint [OF bank m] bank_send [OF bank t] ne by simp
qed

lemma reconcile_result:
  assumes bank: "bank_law K" and mint: "minter_law K"
    and vs: "GetAllValidators K s = Ok vs" and ubd: "snd (UnbondingDelegations K s) = Ok ()"
    and sums: "pool_sums vs (fst (UnbondingDelegations K s)) = (b, n)"
  obtains s' where "ExecuteReconcileStakingPools K s = (Ok (), s')"
    "GetAllValidators K s' = GetAllValidators K s" "UnbondingDelegations K s' = UnbondingDelegations K s"
    "GetBalance K (GetModuleAddress K BondedPoolName) DefaultBondDenom s'
       = max b (GetBalance K (GetModuleAddress K BondedPoolName) DefaultBondDenom s)"
    "GetBalance K (GetModuleAddress K NotBondedPoolName) DefaultBondDenom s'
       = max n (GetBalance K (GetModuleAddress K NotBondedPoolName) DefaultBondDenom s)"
proof -
  obtain s1 where one: "(if GetBalance K (GetModuleAddress K BondedPoolName) DefaultBondDenom s < b
      then MintCoins K BondedPoolName (DefaultBondDenom,
        b - GetBalance K (GetModuleAddress K BondedPoolName) DefaultBondDenom s) s else (Ok (), s)) = (Ok (), s1)"
    and s1: "GetAllValidators K s1 = GetAllValidators K s" "UnbondingDelegations K s1 = UnbondingDelegations K s"
      "GetBalance K (GetModuleAddress K BondedPoolName) DefaultBondDenom s1
         = max b (GetBalance K (GetModuleAddress K BondedPoolName) DefaultBondDenom s)"
      "GetBalance K (GetModuleAddress K NotBondedPoolName) DefaultBondDenom s1
         = GetBalance K (GetModuleAddress K NotBondedPoolName) DefaultBondDenom s"
    using reconcile_bonded [OF bank mint] .
  note run = ExecuteReconcileStakingPools_def [of K s]
  show ?thesis
  proof (cases "GetBalance K (GetModuleAddress K NotBondedPoolName) DefaultBondDenom s1 < n")
    case True
    from reconcile_not_bonded [OF bank mint True] obtain s2 s3 where
      two: "MintCoins K BondedPoolName (DefaultBondDenom,
         n - GetBalance K (GetModuleAddress K NotBondedPoolName) DefaultBondDenom s1) s1 = (Ok (), s2)"
      "SendCoinsFromModuleToModule K BondedPoolName NotBondedPoolName (DefaultBondDenom,
         n - GetBalance K (GetModuleAddress K NotBondedPoolName) DefaultBondDenom s1) s2 = (Ok (), s3)"
      and s3: "GetAllValidators K s3 = GetAllValidators K s1" "UnbondingDelegations K s3 = UnbondingDelegations K s1"
        "GetBalance K (GetModuleAddress K BondedPoolName) DefaultBondDenom s3
           = GetBalance K (GetModuleAddress K BondedPoolName) DefaultBondDenom s1"
        "GetBalance K (GetModuleAddress K NotBondedPoolName) DefaultBondDenom s3 = n" .
    have "ExecuteReconcileStakingPools K s = (Ok (), s3)"
      unfolding run using True by (simp add: vs ubd sums one two Let_def)
    then show ?thesis using that [of s3] s3 s1 True by simp
  next
    case False
    then have "ExecuteReconcileStakingPools K s = (Ok (), s1)"
      unfolding run by (simp add: vs ubd sums one Let_def)
    then show ?thesis using that [of s1] s1 False by simp
  qed
qed

subsection \<open>Removal and addition\<close>

lemma record_signing_info:
  "record_law K \<Longrightarrow> SetValidatorSigningInfo K c i s = (Ok (), s') \<Longrightarrow> GetValidatorSigningInfo K c s' = Ok i"
  unfolding record_law_def by (drule conjunct2, drule conjunct1) blast

lemma record_validator:
  "record_law K \<Longrightarrow> GetValidator K a s = Ok v0 \<Longrightarrow> OperatorAddress v = OperatorAddress v0 \<Longrightarrow>
   SetValidator K v s = (Ok (), s') \<Longrightarrow> GetValidator K a s' = Ok v"
  unfolding record_law_def by (drule conjunct1) blast

lemma record_keeps:
  assumes "record_law K"
  shows "keeps (GetValidator K a) (callK (SetValidatorSigningInfo K c i))"
    "keeps (GetValidator K a) (callK (DeleteValidatorByPowerIndex K v))"
    "keeps (GetValidator K a) (callK (BurnCoins K p x))"
    "keeps (GetValidator K a) (callK (SendCoinsFromModuleToAccount K p q x))"
    "keeps (GetValidator K a) (callK (MintCoins K p x))"
    "keeps (GetValidatorSigningInfo K c) (callK (SetValidator K v))"
    "keeps (GetValidatorSigningInfo K c) (callK (DeleteValidatorByPowerIndex K v))"
    "keeps (GetValidatorSigningInfo K c) (callK (BurnCoins K p x))"
    "keeps (GetValidatorSigningInfo K c) (callK (SendCoinsFromModuleToAccount K p q x))"
    "GetValidator K a (SetNewAccount K b s) = GetValidator K a s"
  using assms unfolding record_law_def by iprover+

lemma tombstoneValidator_Ok:
  assumes "record_law K" "tombstoneValidator K c s = Some (Ok (), s')"
  shows "\<exists>i. GetValidatorSigningInfo K c s' = Ok i \<and> Tombstoned i" "GetValidator K a s' = GetValidator K a s"
proof -
  have "keeps (GetValidator K a) (tombstoneValidator K c)"
    unfolding tombstoneValidator_def by (intro keeps_intros record_keeps(1) [OF assms(1)])
  then show "GetValidator K a s' = GetValidator K a s" using assms(2) by (rule keepsD)
  from assms(2) obtain i where i: "GetValidatorSigningInfo K c s = Ok i"
    and rest: "(if Tombstoned i then pureP (Ok ())
     else panicP ''[RMVAL] failed to tombstone validator: ''
            (callK (SetValidatorSigningInfo K c
               (i\<lparr>Tombstoned := True, JailedUntil := 253402300799 * 1000000000\<rparr>)))) s = Some (Ok (), s')"
    by (cases "GetValidatorSigningInfo K c s")
      (simp_all add: tombstoneValidator_def bindP_def panicP_def readK_def pureP_def)
  show "\<exists>i. GetValidatorSigningInfo K c s' = Ok i \<and> Tombstoned i"
  proof (cases "Tombstoned i")
    case True
    with rest i show ?thesis by (simp add: outcome_simps)
  next
    case False
    with rest have "SetValidatorSigningInfo K c
        (i\<lparr>Tombstoned := True, JailedUntil := 253402300799 * 1000000000\<rparr>) s = (Ok (), s')"
      by (simp add: outcome_simps)
    from record_signing_info [OF assms(1) this] show ?thesis by simp
  qed
qed

lemma burn_jailed: "Jailed (if b then v\<lparr>Jailed := True, Tokens := t, DelegatorShares := d\<rparr> else v\<lparr>Jailed := True\<rparr>)"
  "OperatorAddress (if b then v\<lparr>Jailed := True, Tokens := t, DelegatorShares := d\<rparr> else v\<lparr>Jailed := True\<rparr>)
     = OperatorAddress v"
  by simp_all

lemma no_err_need: "no_err (pureP (need n))"
  by (cases n) (simp_all add: no_err_def pureP_def)

lemma no_err_handle: "no_err (handleValidatorTokens K v opts)"
  unfolding handleValidatorTokens_def Let_def
  by (auto split: option.splits intro!: no_err_if no_err_bindP no_err_simple no_err_need)

lemma no_err_remove: "no_err (ExecuteRemoveValidator K a opts)"
  unfolding ExecuteRemoveValidator_def tombstoneValidator_def Let_def
  by (intro no_err_if no_err_bindP no_err_simple no_err_need no_err_handle)

section \<open>Properties\<close>


text \<open>A store of validators, signing infos and balances.\<close>

record SampleChain =
  sc_validators :: "Validator list"
  sc_infos :: "bytes \<Rightarrow> SigningInfo option"
  sc_balances :: "bytes \<times> string \<Rightarrow> nat"

definition found :: "'a option \<Rightarrow> 'a outcome" where
  "found x = (case x of None \<Rightarrow> Err (Sentinel ''not found'') | Some v \<Rightarrow> Ok v)"

definition sample_mint :: "string \<Rightarrow> string \<times> int \<Rightarrow> SampleChain \<Rightarrow> unit outcome \<times> SampleChain" where
  "sample_mint p x s = (if snd x \<le> 0 then (Err (New ''invalid coins''), s)
     else (Ok (), s\<lparr>sc_balances := (sc_balances s)((p, fst x) := sc_balances s (p, fst x) + nat (snd x))\<rparr>))"

definition sample_burn :: "string \<Rightarrow> string \<times> int \<Rightarrow> SampleChain \<Rightarrow> unit outcome \<times> SampleChain" where
  "sample_burn p x s = (if snd x \<le> 0 \<or> int (sc_balances s (p, fst x)) < snd x then (Err (New ''insufficient funds''), s)
     else (Ok (), s\<lparr>sc_balances := (sc_balances s)((p, fst x) := sc_balances s (p, fst x) - nat (snd x))\<rparr>))"

definition sample_send :: "string \<Rightarrow> string \<Rightarrow> string \<times> int \<Rightarrow> SampleChain \<Rightarrow> unit outcome \<times> SampleChain" where
  "sample_send p q x s = (case sample_burn p x s of (Ok _, s1) \<Rightarrow> sample_mint q x s1 | r \<Rightarrow> r)"

definition sample_find :: "bytes \<Rightarrow> SampleChain \<Rightarrow> Validator outcome" where
  "sample_find a s = found (find (\<lambda>v. OperatorAddress v = a) (sc_validators s))"

definition sample_keepers :: "SampleChain SdkKeepers" where
  "sample_keepers = \<lparr>GetValidator = sample_find, GetAllValidators = (\<lambda>s. Ok (sc_validators s)),
     SetValidator = (\<lambda>v s. (Ok (), s\<lparr>sc_validators :=
        v # filter (\<lambda>w. OperatorAddress w \<noteq> OperatorAddress v) (sc_validators s)\<rparr>)),
     SetValidatorByConsAddr = (\<lambda>v s. (Ok (), s)), SetNewValidatorByPowerIndex = (\<lambda>v s. (Ok (), s)),
     DeleteValidatorByPowerIndex = (\<lambda>v s. (Ok (), s)), BondDenom = (\<lambda>s. Ok DefaultBondDenom),
     UnbondingDelegations = (\<lambda>s. ([[Some 4]], Ok ())),
     Delegate = (\<lambda>m s. (case sample_find (ValidatorAddress m) s of Ok _ \<Rightarrow> Ok () | Err e \<Rightarrow> Err e | Panic e \<Rightarrow> Panic e, s)),
     GetValidatorSigningInfo = (\<lambda>c s. found (sc_infos s c)),
     SetValidatorSigningInfo = (\<lambda>c i s. (Ok (), s\<lparr>sc_infos := (sc_infos s)(c := Some i)\<rparr>)),
     Unjail = (\<lambda>a s. (Ok (), s)), MintCoins = sample_mint, BurnCoins = sample_burn,
     SendCoinsFromModuleToAccount = sample_send, SendCoinsFromModuleToModule = sample_send,
     GetBalance = (\<lambda>a d s. int (sc_balances s (a, d))), GetModuleAddress = (\<lambda>n. n),
     HasAccount = (\<lambda>a s. True), SetNewAccount = (\<lambda>a s. s),
     SetHistoricalRewards = (\<lambda>a p r s. (Ok (), s)), SetCurrentRewards = (\<lambda>a p s. (Ok (), s)),
     SetAccumulatedCommission = (\<lambda>a s. (Ok (), s)), FeePool_Get = (\<lambda>s. Ok ()), FeePool_SetInitial = (\<lambda>s. (Ok (), s)),
     NewValidator = (\<lambda>o' pk d. Ok \<lparr>OperatorAddress = o', ConsensusPubkey = pk, Jailed = False, Status = Unbonded,
        Tokens = Some 0, DelegatorShares = 0, v_Description = d, v_MinSelfDelegation = Some 1\<rparr>),
     GetConsAddr = (\<lambda>v. Ok (ConsensusPubkey v)), AccAddressString = (\<lambda>a. a), ValAddressString = (\<lambda>a. a)\<rparr>"

definition sample_validator :: Validator where
  "sample_validator = \<lparr>OperatorAddress = ''val'', ConsensusPubkey = ''key'', Jailed = False, Status = Bonded,
     Tokens = Some 9, DelegatorShares = 9, v_Description = [], v_MinSelfDelegation = Some 1\<rparr>"

definition sample_chain :: SampleChain where
  "sample_chain = \<lparr>sc_validators = [sample_validator],
     sc_infos = [''key'' \<mapsto> \<lparr>si_Address = ''key'', StartHeight = 0, IndexOffset = 0, JailedUntil = 0,
        Tombstoned = False, MissedBlocksCounter = 0\<rparr>], sc_balances = (\<lambda>_. 5)\<rparr>"

lemma pool_names: "BondedPoolName \<noteq> NotBondedPoolName"
  by (simp add: BondedPoolName_def NotBondedPoolName_def)

lemma sample_bank_law: "bank_law sample_keepers"
  unfolding bank_law_def using pool_names
  by (auto simp: sample_keepers_def sample_mint_def sample_send_def sample_burn_def split: if_splits)

lemma sample_minter_law: "minter_law sample_keepers"
  unfolding minter_law_def by (auto simp: sample_keepers_def sample_mint_def sample_send_def sample_burn_def)


text \<open>
  C27. A removed validator is out for good: when removal returns, the validator's record is jailed and
  its signing info tombstoned, so that it cannot unjail; removal never returns an error, it succeeds
  or panics.
\<close>

theorem removed_validator_is_tombstoned:
  assumes law: "record_law K"
    and run: "ExecuteRemoveValidator K a opts s = Some (r, s')"
  shows "(\<exists>e. r = Panic e) \<or> (\<exists>v v' c i. GetValidator K a s = Ok v \<and> GetConsAddr K v = Ok c
    \<and> GetValidator K a s' = Ok v' \<and> Jailed v' \<and> GetValidatorSigningInfo K c s' = Ok i \<and> Tombstoned i)"
proof (cases r)
  case (Ok u)
  with run obtain v c s1 s2 s3 burned where v: "GetValidator K a s = Ok v" and c: "GetConsAddr K v = Ok c"
    and s1: "tombstoneValidator K c s = Some (Ok (), s1)"
    and s2: "(if \<not> Jailed v then panicP ''[RMVAL] failed to delete validator from power index: ''
                   (callK (DeleteValidatorByPowerIndex K v)) else pureP (Ok ())) s1 = Some (Ok (), s2)"
    and s3: "handleValidatorTokens K v opts s2 = Some (Ok burned, s3)"
    and last: "(if \<not> Jailed v \<or> burned
     then let jailed = v\<lparr>Jailed := True\<rparr>
          in panicP ''[RMVAL] failed to update validator: ''
               (callK (SetValidator K (if burned then jailed\<lparr>Tokens := Some 0, DelegatorShares := 0\<rparr> else jailed)))
     else pureP (Ok ())) s3 = Some (Ok (), s')"
    by (auto simp: ExecuteRemoveValidator_def outcome_simps)
  have del: "keeps p (if \<not> Jailed v then panicP ''[RMVAL] failed to delete validator from power index: ''
      (callK (DeleteValidatorByPowerIndex K v)) else pureP (Ok ()))"
    if "keeps p (callK (DeleteValidatorByPowerIndex K v))" for p :: "_ \<Rightarrow> 'b outcome"
    using that by (intro keeps_intros)
  note ks = record_keeps [OF law]
  have val: "GetValidator K a s3 = Ok v"
    using tombstoneValidator_Ok(2) [OF law s1, of a] keepsD [OF del [OF ks(2)] s2]
      keepsD [OF handleValidatorTokens_keeps [OF ks(3,4)] s3] v by simp
  obtain i where i: "GetValidatorSigningInfo K c s3 = Ok i" "Tombstoned i"
    using tombstoneValidator_Ok(1) [OF law s1] keepsD [OF del [OF ks(7)] s2]
      keepsD [OF handleValidatorTokens_keeps [OF ks(8,9)] s3] by auto
  have fin: "GetValidator K a s' = Ok w" "GetValidatorSigningInfo K c s' = Ok i"
    if "SetValidator K w s3 = (Ok (), s')" "OperatorAddress w = OperatorAddress v" for w
    using record_validator [OF law val that(2,1)] keepsD [OF ks(6), of w s3] i that
    by (auto simp: outcome_simps)
  show ?thesis
  proof (cases "\<not> Jailed v \<or> burned")
    case True
    let ?w = "if burned then v\<lparr>Jailed := True, Tokens := Some 0, DelegatorShares := 0\<rparr> else v\<lparr>Jailed := True\<rparr>"
    have "SetValidator K ?w s3 = (Ok (), s')"
      using last True by (auto simp: outcome_simps Let_def split: if_splits)
    with fin [OF this burn_jailed(2)] v c i burn_jailed(1) show ?thesis by blast
  next
    case False
    with last v c i val show ?thesis by (auto simp: outcome_simps)
  qed
next
  case (Err e)
  with run no_err_remove [of K a opts] show ?thesis by (simp add: no_err_def)
qed simp

lemma sample_frame:
  "sample_mint p x s = (r, s') \<Longrightarrow> sc_validators s' = sc_validators s \<and> sc_infos s' = sc_infos s"
  "sample_burn p x s = (r, s') \<Longrightarrow> sc_validators s' = sc_validators s \<and> sc_infos s' = sc_infos s"
  by (auto simp: sample_mint_def sample_burn_def split: if_splits)

lemma sample_send_frame:
  "sample_send p q x s = (r, s') \<Longrightarrow> sc_validators s' = sc_validators s \<and> sc_infos s' = sc_infos s"
  by (auto simp: sample_send_def split: prod.splits outcome.splits dest!: sample_frame)

lemma sample_find_Ok: "sample_find a s = Ok v \<Longrightarrow> OperatorAddress v = a"
  by (auto simp: sample_find_def found_def find_Some_iff split: option.splits)

lemma sample_set:
  "sample_find a s = Ok v0 \<Longrightarrow> OperatorAddress v = OperatorAddress v0 \<Longrightarrow>
   sample_find a (s\<lparr>sc_validators := v # vs\<rparr>) = Ok v"
  by (drule sample_find_Ok) (simp add: sample_find_def found_def)

lemma sample_find_cong: "sc_validators s' = sc_validators s \<Longrightarrow> sample_find a s' = sample_find a s"
  by (simp add: sample_find_def)

lemma sample_record_law: "record_law sample_keepers"
  unfolding record_law_def keeps_def callK_def
  by (simp add: sample_keepers_def)
    (auto simp: found_def dest: sample_frame sample_send_frame intro: sample_set intro!: sample_find_cong)

theorem removed_validator_is_tombstoned_witness:
  "\<exists>s' v i. ExecuteRemoveValidator sample_keepers ''val'' (Some \<lparr>BurnTokens = True, TokenRecipient = None\<rparr>) sample_chain
       = Some (Ok (), s')
     \<and> GetValidator sample_keepers ''val'' s' = Ok v \<and> Jailed v
     \<and> GetValidatorSigningInfo sample_keepers ''key'' s' = Ok i \<and> Tombstoned i"
proof -
  obtain s' where s': "ExecuteRemoveValidator sample_keepers ''val'' (Some \<lparr>BurnTokens = True, TokenRecipient = None\<rparr>) sample_chain
       = Some (Ok (), s')"
    by (simp add: ExecuteRemoveValidator_def tombstoneValidator_def handleValidatorTokens_def outcome_simps
        bindP_def panicP_def readK_def callK_def pureP_def
        sample_keepers_def sample_chain_def sample_validator_def sample_find_def found_def sample_burn_def)
  have "GetValidator sample_keepers ''val'' sample_chain = Ok sample_validator"
    "GetConsAddr sample_keepers sample_validator = Ok ''key''"
    by (simp_all add: sample_keepers_def sample_chain_def sample_validator_def sample_find_def found_def)
  then have "\<exists>v i. GetValidator sample_keepers ''val'' s' = Ok v \<and> Jailed v
       \<and> GetValidatorSigningInfo sample_keepers ''key'' s' = Ok i \<and> Tombstoned i"
    using removed_validator_is_tombstoned [OF sample_record_law s'] by (elim disjE exE conjE) simp_all
  with s' show ?thesis by (intro exI [of _ s']) simp
qed

text \<open>
  C28. \<open>ExecuteAddValidator\<close> stores the new validator only under a positive minimum self-delegation.
  Without one it goes on to delegate to a validator that was never stored, so it cannot succeed,
  whatever the key and the initial tokens.
\<close>

theorem add_validator_needs_min_self_delegation:
  assumes law: "record_law K" and del: "delegate_law K"
    and absent: "GetValidator K a s = Err e"
    and no_min: "\<forall>m. MinSelfDelegation opts = Some m \<longrightarrow> m \<le> 0"
  shows "ExecuteAddValidator K ctx a (Some opts) s \<noteq> Some (Ok (), s')"
proof
  assume run: "ExecuteAddValidator K ctx a (Some opts) s = Some (Ok (), s')"
  have no: "\<not> (case MinSelfDelegation opts of None \<Rightarrow> False | Some m \<Rightarrow> m > 0)"
    using no_min by (auto split: option.splits)
  have "create_validator K ctx a (Some opts) e s = Some (Ok (), s')"
    using run absent by (simp add: ExecuteAddValidator_def catchP_def bindP_def readK_def)
  with no obtain v t s1 where t: "InitialTokens opts = Some t" "0 < t"
    and s1: "s1 = (if HasAccount K a s then s else SetNewAccount K a s)"
    and bal: "setValidatorBalance K a (v\<lparr>Status := Bonded, Tokens := Some 0, DelegatorShares := 0\<rparr>) (Some t) s1
      = Some (Ok (), s')"
    by (auto simp: create_validator_def Let_def outcome_simps simp del: not_less split: option.splits if_splits)
  from bal t obtain s2 s3 n where s2: "MintCoins K BondedPoolName (DefaultBondDenom, n) s1 = (Ok (), s2)"
    and s3: "SendCoinsFromModuleToAccount K BondedPoolName a (DefaultBondDenom, n) s2 = (Ok (), s3)"
    and d: "Delegate K \<lparr>DelegatorAddress = AccAddressString K a, ValidatorAddress = ValAddressString K a,
       Amount = (DefaultBondDenom, n)\<rparr> s3 = (Ok (), s')"
    by (auto simp: setValidatorBalance_def Let_def outcome_simps)
  note ks = record_keeps [OF law]
  have "GetValidator K a s1 = Err e" using absent s1 ks(10) by simp
  then have "GetValidator K a s3 = Err e"
    using keepsD [OF ks(5)] keepsD [OF ks(4)] s2 s3 by (simp add: outcome_simps)
  with del d show False unfolding delegate_law_def by blast
qed

lemma sample_delegate_law: "delegate_law sample_keepers"
  unfolding delegate_law_def by (simp add: sample_keepers_def)

theorem add_validator_needs_min_self_delegation_witness:
  "\<not> (\<exists>s'. ExecuteAddValidator sample_keepers \<lparr>hc_BlockTime = 0, hc_BlockHeight = 1\<rparr> ''new''
     (Some \<lparr>PubKey = Some ''pk'', Description = [], InitialTokens = Some 7, MinSelfDelegation = None\<rparr>) sample_chain
       = Some (Ok (), s'))"
proof -
  have "GetValidator sample_keepers ''new'' sample_chain = Err (Sentinel ''not found'')"
    by (simp add: sample_keepers_def sample_chain_def sample_validator_def sample_find_def found_def)
  from add_validator_needs_min_self_delegation [OF sample_record_law sample_delegate_law this]
  show ?thesis by simp
qed

end
