(* ===== verification/Testnet_Files.thy ===== *)
theory Testnet_Files
  imports Files Json Upgrades
begin

text \<open>
  The command that lays out the directories of a local network of validators
  (\<open>cmd/nexusd/cmd/testnet_multi_node.go\<close>). The state is the disk, the configuration of the consensus
  engine that all calls share through a pointer, and whatever else the calls use. What the SDK, the
  consensus engine and the key store do is an argument (\<open>TestnetLib\<close>, \<open>GenesisLib\<close>). Go's \<open>int\<close> is unbounded here:
  the numbers computed are bounded by three times the number of validators.
\<close>

section \<open>Types\<close>

type_synonym coin = "string \<times> int"

record initArgs =
  algo :: string
  chainID :: string
  keyringBackend :: string
  minGasPrices :: string
  nodeDirPrefix :: string
  numValidators :: int
  outputDir :: string
  startingIPAddress :: string
  validatorsStakesAmount :: "nat \<Rightarrow> coin option"
  ports :: "nat \<Rightarrow> string option"

text \<open>The fields of the configurations that the command sets; the others are \<open>cfg_Rest\<close> and \<open>app_Rest\<close>.\<close>

record NodeConfig =
  RootDir :: string
  Moniker :: string
  RPC_ListenAddress :: string
  P2P_ListenAddress :: string
  PersistentPeers :: string
  AllowDuplicateIP :: bool
  ProxyApp :: string
  PrometheusListenAddr :: string
  Prometheus :: bool
  cfg_Rest :: bytes

record AppToml =
  MinGasPrices :: string
  API_Enable :: bool
  EnableHostnameLabel :: bool
  Telemetry_Enabled :: bool
  PrometheusRetentionTime :: int
  GRPC_Address :: string
  API_Address :: string
  app_Rest :: bytes

record 'x Host =
  h_disk :: disk
  nodeConfig :: NodeConfig
  h_other :: 'x

record Balance =
  bal_Address :: string
  bal_Coins :: "coin list"

record BankGenesis =
  Balances :: "Balance list"
  Supply :: "coin list"
  bank_Rest :: bytes

record GenesisDoc =
  doc_ChainID :: string
  doc_AppState :: bytes

record InitConfig =
  ic_ChainID :: string
  GenTxsDir :: string
  NodeID :: string
  ValPubKey :: bytes

text \<open>A message that creates a validator: operator, key, stake and moniker; the commission rates are one and the minimum self-delegation is one.\<close>

record CreateValidator =
  cv_Operator :: string
  cv_PubKey :: bytes
  cv_Value :: coin
  cv_Moniker :: string

record ('x, 'kb, 'alg, 'tx, 'ag) TestnetLib =
  srv_DefaultConfig :: AppToml
  SetRoot :: "string \<Rightarrow> NodeConfig \<Rightarrow> NodeConfig"
  GenesisFile :: "NodeConfig \<Rightarrow> string"
  InitializeNodeValidatorFiles :: "('x Host, string \<times> bytes) proc"
  keyring_New :: "string \<Rightarrow> string \<Rightarrow> ('x Host, 'kb) proc"
  kb_Dir :: "'kb \<Rightarrow> string"
  NewSigningAlgoFromString :: "string \<Rightarrow> 'kb \<Rightarrow> 'alg outcome"
  GenerateSaveCoinKey :: "'kb \<Rightarrow> string \<Rightarrow> 'alg \<Rightarrow> ('x Host, bytes \<times> string) proc"
  acc_String :: "bytes \<Rightarrow> string"
  val_String :: "bytes \<Rightarrow> string"
  NewIntFromString :: "string \<Rightarrow> int option"
  NewCoin :: "string \<Rightarrow> int \<Rightarrow> coin outcome"
  TokensFromConsensusPower :: "int \<Rightarrow> int"
  SortCoins :: "coin list \<Rightarrow> coin list"
  NewMsgCreateValidator :: "CreateValidator \<Rightarrow> bytes outcome"
  SetMsgs :: "bytes \<Rightarrow> 'tx outcome"
  SetMemo :: "string \<Rightarrow> 'tx \<Rightarrow> 'tx"
  tx_Sign :: "string \<Rightarrow> string \<Rightarrow> 'kb \<Rightarrow> string \<Rightarrow> 'tx \<Rightarrow> ('x Host, 'tx) proc"
  TxJSONEncoder :: "'tx \<Rightarrow> bytes outcome"
  srv_WriteConfigFile :: "string \<Rightarrow> AppToml \<Rightarrow> ('x Host, unit) proc"
  cmt_WriteConfigFile :: "string \<Rightarrow> NodeConfig \<Rightarrow> ('x Host, unit) proc"
  SaveAs :: "GenesisDoc \<Rightarrow> string \<Rightarrow> ('x Host, unit) proc"
  AppGenesisFromFile :: "string \<Rightarrow> ('x Host, 'ag) proc"
  GenAppStateFromConfig :: "InitConfig \<Rightarrow> 'ag \<Rightarrow> ('x Host, bytes) proc"
  ExportGenesisFileWithTime :: "string \<Rightarrow> string \<Rightarrow> bytes \<Rightarrow> int \<Rightarrow> ('x Host, unit) proc"
  tm_Now :: "'x Host \<Rightarrow> int"
  rand_Intn :: "nat \<Rightarrow> nat \<Rightarrow> nat"

text \<open>The codec and the default genesis of the modules.\<close>

record ('auth, 'acc) GenesisLib =
  DefaultGenesis :: "string \<Rightarrow> bytes option"
  auth_Unmarshal :: "bytes \<Rightarrow> 'auth outcome"
  auth_SetAccounts :: "'acc \<Rightarrow> 'auth \<Rightarrow> 'auth"
  auth_Marshal :: "'auth \<Rightarrow> bytes outcome"
  PackAccounts :: "bytes list \<Rightarrow> 'acc outcome"
  bank_Unmarshal :: "bytes \<Rightarrow> BankGenesis outcome"
  bank_Marshal :: "BankGenesis \<Rightarrow> bytes outcome"
  SanitizeGenesisBalances :: "Balance list \<Rightarrow> Balance list"
  Coins_Add :: "coin list \<Rightarrow> coin list \<Rightarrow> coin list"
  state_MarshalIndent :: "(string \<Rightarrow> bytes option) \<Rightarrow> bytes outcome"

section \<open>Arguments\<close>

text \<open>
  The stakes: an amount that does not parse is skipped, and the next one that does takes its index.
  The ports: those given, or one for each validator.
\<close>

fun stake_amounts ::
    "('x, 'kb, 'alg, 'tx, 'ag) TestnetLib \<Rightarrow> string list \<Rightarrow> nat \<Rightarrow> (nat \<Rightarrow> coin option) \<Rightarrow> (nat \<Rightarrow> coin option) outcome" where
  "stake_amounts L [] idx m = Ok m"
| "stake_amounts L (amount # rest) idx m =
     (case NewIntFromString L amount of
        None \<Rightarrow> stake_amounts L rest idx m
      | Some a \<Rightarrow> bindO (NewCoin L DefaultBondDenom a) (\<lambda>c. stake_amounts L rest (idx + 1) (m(idx \<mapsto> c))))"

definition rpc_port :: "nat \<Rightarrow> int" where "rpc_port i = 26657 - 3 * int i"

definition list_ports :: "int \<Rightarrow> string \<Rightarrow> nat \<Rightarrow> string option" where
  "list_ports n s =
     (if s = [] then (\<lambda>i. if int i < n then Some (show_int (rpc_port i)) else None)
      else (\<lambda>i. if i < length (Split CHR '','' s) then Some (Split CHR '','' s ! i) else None))"

record TestnetFlags =
  fl_outputDir :: string
  fl_keyringBackend :: string
  fl_chainID :: string
  fl_minGasPrices :: string
  fl_nodeDirPrefix :: string
  fl_startingIPAddress :: string
  fl_numValidators :: int
  fl_algo :: string
  fl_stakes :: string
  fl_ports :: string

definition testnet_args :: "('x, 'kb, 'alg, 'tx, 'ag) TestnetLib \<Rightarrow> TestnetFlags \<Rightarrow> initArgs outcome" where
  "testnet_args L fl =
     bindO (stake_amounts L (Split CHR '','' (fl_stakes fl)) 0 (\<lambda>_. None)) (\<lambda>stakes.
     Ok \<lparr>algo = fl_algo fl, chainID = fl_chainID fl, keyringBackend = fl_keyringBackend fl,
         minGasPrices = fl_minGasPrices fl, nodeDirPrefix = fl_nodeDirPrefix fl,
         numValidators = fl_numValidators fl, outputDir = fl_outputDir fl,
         startingIPAddress = fl_startingIPAddress fl, validatorsStakesAmount = stakes,
         ports = list_ports (fl_numValidators fl) (fl_ports fl)\<rparr>)"

text \<open>The defaults that the flags are declared with.\<close>

definition default_flags :: TestnetFlags where
  "default_flags = \<lparr>fl_outputDir = ''./.testnets'', fl_keyringBackend = ''test'', fl_chainID = [],
     fl_minGasPrices = ''0.0001'' @ DefaultBondDenom, fl_nodeDirPrefix = ''validator'',
     fl_startingIPAddress = ''localhost'', fl_numValidators = 4, fl_algo = ''secp256k1'',
     fl_stakes = ''100000000,100000000,100000000,100000000'', fl_ports = []\<rparr>"

section \<open>Helpers\<close>

definition charset :: string where "charset = ''abcdefghijklmnopqrstuvwxyz0123456789''"

definition generateRandomString :: "(nat \<Rightarrow> nat \<Rightarrow> nat) \<Rightarrow> nat \<Rightarrow> string" where
  "generateRandomString Intn n = map (\<lambda>i. charset ! Intn i (length charset)) [0..<n]"

definition writeFile :: "OS \<Rightarrow> string \<Rightarrow> string \<Rightarrow> bytes \<Rightarrow> (disk, unit) proc" where
  "writeFile os f dir contents =
     bindP (wrapP (''could not create directory '' @ Quote dir @ '': '') (MkdirAll os dir)) (\<lambda>_.
     WriteFile os f contents)"

definition copyFile :: "OS \<Rightarrow> string \<Rightarrow> string \<Rightarrow> (disk, nat) proc" where
  "copyFile os src dstDir =
     (let fileName = Base src; dst = Join [dstDir, fileName]
      in bindP (Open os src) (\<lambda>sourceFile.
         bindP (Create os dst) (\<lambda>destinationFile.
         bindP (io_Copy os destinationFile sourceFile) (\<lambda>bytesCopied.
         bindP (Sync os destinationFile) (\<lambda>_. pureP (Ok bytesCopied))))))"

definition isSubDir :: "OS \<Rightarrow> string \<Rightarrow> string \<Rightarrow> bool outcome" where
  "isSubDir os src dstDir =
     bindO (Abs os src) (\<lambda>absSrc.
     bindO (Abs os dstDir) (\<lambda>absDstDir.
     bindO (Rel absDstDir absSrc) (\<lambda>relativePath.
     Ok (\<not> HasPrefix relativePath ''..'' \<and> \<not> IsAbs relativePath))))"

text \<open>A call that concerns the disk only, and a change of the configuration.\<close>

definition on_disk :: "(disk, 'a) proc \<Rightarrow> ('x Host, 'a) proc" where
  "on_disk m = (\<lambda>s. map_option (\<lambda>(r, D). (r, s\<lparr>h_disk := D\<rparr>)) (m (h_disk s)))"

definition on_config :: "(NodeConfig \<Rightarrow> NodeConfig) \<Rightarrow> ('x Host, unit) proc" where
  "on_config f = (\<lambda>s. Some (Ok (), s\<lparr>nodeConfig := f (nodeConfig s)\<rparr>))"

text \<open>\<open>if err != nil { _ = os.RemoveAll(outputDir); return err }\<close>.\<close>

definition or_remove :: "OS \<Rightarrow> string \<Rightarrow> ('x Host, 'a) proc \<Rightarrow> ('x Host, 'a) proc" where
  "or_remove os dir m = catchP m (\<lambda>e. bindP (ignoreP (on_disk (RemoveAll os dir))) (\<lambda>_. pureP (Err e)))"

section \<open>The files of a node\<close>

definition p2p_port :: "nat \<Rightarrow> int" where "p2p_port i = 26656 - 3 * int i"
definition grpc_port :: "nat \<Rightarrow> int" where "grpc_port i = 9090 - 2 * int i"
definition api_port :: "nat \<Rightarrow> int" where "api_port i = 1317 - int i"
definition proxy_port :: "nat \<Rightarrow> int" where "proxy_port i = 26658 - 3 * int i"
definition prometheus_port :: "nat \<Rightarrow> int" where "prometheus_port i = 26660 + int i"

definition nodeDirName :: "initArgs \<Rightarrow> nat \<Rightarrow> string" where
  "nodeDirName args i = nodeDirPrefix args @ show_nat i"

definition nodeDir :: "initArgs \<Rightarrow> nat \<Rightarrow> string" where
  "nodeDir args i = Join [outputDir args, nodeDirName args i]"

definition gentxsDir :: "initArgs \<Rightarrow> nat \<Rightarrow> string" where
  "gentxsDir args i = Join [outputDir args, nodeDirName args i, ''config'', ''gentx'']"

definition port_of :: "initArgs \<Rightarrow> nat \<Rightarrow> string" where
  "port_of args i = (case ports args i of None \<Rightarrow> [] | Some p \<Rightarrow> p)"

record NodeAcc =
  nodeIDs :: "string list"
  valPubKeys :: "bytes list"
  genAccounts :: "bytes list"
  genBalances :: "Balance list"
  genFiles :: "string list"
  persistentPeers :: string
  gentxsFiles :: "string list"

definition base_app_config :: "('x, 'kb, 'alg, 'tx, 'ag) TestnetLib \<Rightarrow> initArgs \<Rightarrow> AppToml" where
  "base_app_config L args =
     (srv_DefaultConfig L)\<lparr>MinGasPrices := minGasPrices args, API_Enable := False,
       MinGasPrices := ''0.0001'' @ DefaultBondDenom, EnableHostnameLabel := False,
       Telemetry_Enabled := False, PrometheusRetentionTime := 0\<rparr>"

definition node_files ::
    "OS \<Rightarrow> ('x, 'kb, 'alg, 'tx, 'ag) TestnetLib \<Rightarrow> initArgs \<Rightarrow> nat \<Rightarrow> ('x Host, string \<times> bytes) proc" where
  "node_files os L args i =
     bindP (on_config (\<lambda>c. (SetRoot L (nodeDir args i) c)\<lparr>Moniker := nodeDirName args i,
         RPC_ListenAddress := ''tcp://0.0.0.0:'' @ port_of args i\<rparr>)) (\<lambda>_.
     bindP (or_remove os (outputDir args) (on_disk (MkdirAll os (Join [nodeDir args i, ''config''])))) (\<lambda>_.
     or_remove os (outputDir args) (InitializeNodeValidatorFiles L)))"

definition node_key ::
    "OS \<Rightarrow> ('x, 'kb, 'alg, 'tx, 'ag) TestnetLib \<Rightarrow> initArgs \<Rightarrow> nat \<Rightarrow> ('x Host, 'kb \<times> bytes) proc" where
  "node_key os L args i =
     bindP (keyring_New L (keyringBackend args) (nodeDir args i)) (\<lambda>kb.
     bindP (pureP (NewSigningAlgoFromString L (algo args) kb)) (\<lambda>alg.
     bindP (or_remove os (outputDir args) (GenerateSaveCoinKey L kb (nodeDirName args i) alg)) (\<lambda>key.
     bindP (on_disk (writeFile os (Join [nodeDir args i, ''key_seed'' @ ''.json'']) (nodeDir args i)
         (marshal_struct [(''secret'', marshal_string (snd key))]))) (\<lambda>_.
     pureP (Ok (kb, fst key))))))"

definition node_coins :: "('x, 'kb, 'alg, 'tx, 'ag) TestnetLib \<Rightarrow> coin list outcome" where
  "node_coins L =
     bindO (NewCoin L ''testtoken'' (TokensFromConsensusPower L 1000)) (\<lambda>accTokens.
     bindO (NewCoin L DefaultBondDenom (TokensFromConsensusPower L 500)) (\<lambda>accStakingTokens.
     Ok (SortCoins L [accTokens, accStakingTokens])))"

definition node_stake :: "('x, 'kb, 'alg, 'tx, 'ag) TestnetLib \<Rightarrow> initArgs \<Rightarrow> nat \<Rightarrow> coin outcome" where
  "node_stake L args i =
     (case validatorsStakesAmount args i of
        Some c \<Rightarrow> Ok c
      | None \<Rightarrow> NewCoin L DefaultBondDenom (TokensFromConsensusPower L 100))"

definition gentx_name :: "string \<Rightarrow> string" where
  "gentx_name nodeID = (''gentx-'' @ nodeID) @ ''.json''"

definition node_gentx ::
    "OS \<Rightarrow> ('x, 'kb, 'alg, 'tx, 'ag) TestnetLib \<Rightarrow> initArgs \<Rightarrow> nat \<Rightarrow> string \<Rightarrow> bytes \<Rightarrow> string \<Rightarrow> 'kb \<Rightarrow> bytes
     \<Rightarrow> ('x Host, string) proc" where
  "node_gentx os L args i nodeID pubKey memo kb addr =
     bindP (pureP (node_stake L args i)) (\<lambda>valTokens.
     bindP (pureP (NewMsgCreateValidator L \<lparr>cv_Operator = val_String L addr, cv_PubKey = pubKey,
         cv_Value = valTokens, cv_Moniker = nodeDirName args i\<rparr>)) (\<lambda>createValMsg.
     bindP (pureP (SetMsgs L createValMsg)) (\<lambda>txBuilder.
     bindP (tx_Sign L (chainID args) memo kb (nodeDirName args i) (SetMemo L memo txBuilder)) (\<lambda>signed.
     bindP (pureP (TxJSONEncoder L signed)) (\<lambda>txBz.
     let f = Join [gentxsDir args i, gentx_name nodeID]
     in bindP (on_disk (writeFile os f (gentxsDir args i) txBz)) (\<lambda>_. pureP (Ok f)))))))"

definition init_node ::
    "OS \<Rightarrow> ('x, 'kb, 'alg, 'tx, 'ag) TestnetLib \<Rightarrow> initArgs \<Rightarrow> nat \<Rightarrow> NodeAcc \<Rightarrow> ('x Host, NodeAcc) proc" where
  "init_node os L args i acc =
     bindP (node_files os L args i) (\<lambda>(nodeID, pubKey).
     let memo = nodeID @ ''@'' @ startingIPAddress args @ '':'' @ show_int (p2p_port i)
     in bindP (readK (\<lambda>s. Ok (GenesisFile L (nodeConfig s)))) (\<lambda>genFile.
        bindP (node_key os L args i) (\<lambda>(kb, addr).
        bindP (pureP (node_coins L)) (\<lambda>coins.
        bindP (node_gentx os L args i nodeID pubKey memo kb addr) (\<lambda>f.
        bindP (srv_WriteConfigFile L (Join [nodeDir args i, ''config'', ''app.toml''])
                 ((base_app_config L args)\<lparr>GRPC_Address := startingIPAddress args @ '':'' @ show_int (grpc_port i),
                    API_Address := ''tcp://localhost:'' @ show_int (api_port i)\<rparr>)) (\<lambda>_.
        pureP (Ok (acc\<lparr>nodeIDs := nodeIDs acc @ [nodeID], valPubKeys := valPubKeys acc @ [pubKey],
            genAccounts := genAccounts acc @ [addr],
            genBalances := genBalances acc @ [\<lparr>bal_Address = acc_String L addr, bal_Coins = coins\<rparr>],
            genFiles := genFiles acc @ [genFile],
            persistentPeers := (if persistentPeers acc = [] then memo else persistentPeers acc @ '','' @ memo),
            gentxsFiles := gentxsFiles acc @ [f]\<rparr>))))))))"

section \<open>The genesis files\<close>

definition raw_of :: "(string \<Rightarrow> bytes option) \<Rightarrow> string \<Rightarrow> bytes" where
  "raw_of m k = (case m k of None \<Rightarrow> [] | Some bs \<Rightarrow> bs)"

definition bank_genesis :: "('auth, 'acc) GenesisLib \<Rightarrow> Balance list \<Rightarrow> BankGenesis \<Rightarrow> BankGenesis" where
  "bank_genesis G genBals st =
     (let balances = SanitizeGenesisBalances G genBals
      in st\<lparr>Balances := balances, Supply := foldl (\<lambda>sup bal. Coins_Add G sup (bal_Coins bal)) (Supply st) balances\<rparr>)"

definition genesis_doc ::
    "('auth, 'acc) GenesisLib \<Rightarrow> string \<Rightarrow> bytes list \<Rightarrow> Balance list \<Rightarrow> GenesisDoc outcome" where
  "genesis_doc G chain accs genBals =
     (let appGenState = DefaultGenesis G
      in bindO (mustO (auth_Unmarshal G (raw_of appGenState ''auth''))) (\<lambda>authGenState.
         bindO (PackAccounts G accs) (\<lambda>accounts.
         bindO (mustO (auth_Marshal G (auth_SetAccounts G accounts authGenState))) (\<lambda>auth.
         let appGenState = appGenState(''auth'' \<mapsto> auth)
         in bindO (mustO (bank_Unmarshal G (raw_of appGenState ''bank''))) (\<lambda>bankGenState.
            bindO (mustO (bank_Marshal G (bank_genesis G genBals bankGenState))) (\<lambda>bank.
            bindO (state_MarshalIndent G (appGenState(''bank'' \<mapsto> bank))) (\<lambda>appGenStateJSON.
            Ok \<lparr>doc_ChainID = chain, doc_AppState = appGenStateJSON\<rparr>)))))))"

definition initGenFiles ::
    "('x, 'kb, 'alg, 'tx, 'ag) TestnetLib \<Rightarrow> ('auth, 'acc) GenesisLib \<Rightarrow> string \<Rightarrow> bytes list \<Rightarrow> Balance list
     \<Rightarrow> string list \<Rightarrow> nat \<Rightarrow> ('x Host, unit) proc" where
  "initGenFiles L G chain accs genBals files n =
     bindP (pureP (genesis_doc G chain accs genBals)) (\<lambda>genDoc.
     eachP (\<lambda>i. SaveAs L genDoc (files ! i)) [0..<n])"

definition copy_gentx :: "OS \<Rightarrow> initArgs \<Rightarrow> nat \<Rightarrow> string \<Rightarrow> ('x Host, unit) proc" where
  "copy_gentx os args i f =
     (let gentxs = Join [nodeDir args i, ''config'', ''gentx'']
      in case isSubDir os f gentxs of
           Ok True \<Rightarrow> pureP (Ok ())
         | Ok False \<Rightarrow> bindP (on_disk (copyFile os f gentxs)) (\<lambda>_. pureP (Ok ()))
         | Err _ \<Rightarrow> pureP (Ok ())
         | Panic e \<Rightarrow> pureP (Panic e))"

definition collect_node ::
    "('x, 'kb, 'alg, 'tx, 'ag) TestnetLib \<Rightarrow> initArgs \<Rightarrow> NodeAcc \<Rightarrow> int \<Rightarrow> nat \<Rightarrow> bytes option \<Rightarrow> ('x Host, bytes option) proc" where
  "collect_node L args acc genTime i appState =
     (let gentxs = Join [nodeDir args i, ''config'', ''gentx'']
      in bindP (on_config (\<lambda>c. SetRoot L (nodeDir args i) (c\<lparr>Moniker := nodeDirName args i\<rparr>))) (\<lambda>_.
         bindP (\<lambda>s. AppGenesisFromFile L (GenesisFile L (nodeConfig s)) s) (\<lambda>appGenesis.
         bindP (GenAppStateFromConfig L \<lparr>ic_ChainID = chainID args, GenTxsDir = gentxs,
             NodeID = nodeIDs acc ! i, ValPubKey = valPubKeys acc ! i\<rparr> appGenesis) (\<lambda>nodeAppState.
         bindP (on_config (\<lambda>c. c\<lparr>PersistentPeers := persistentPeers acc, AllowDuplicateIP := True,
             P2P_ListenAddress := ''tcp://0.0.0.0:'' @ show_int (p2p_port i),
             RPC_ListenAddress := ''tcp://127.0.0.1:'' @ port_of args i,
             ProxyApp := ''tcp://127.0.0.1:'' @ show_int (proxy_port i),
             PrometheusListenAddr := '':'' @ show_int (prometheus_port i), Prometheus := True\<rparr>)) (\<lambda>_.
         bindP (\<lambda>s. cmt_WriteConfigFile L (Join [RootDir (nodeConfig s), ''config'', ''config.toml'']) (nodeConfig s) s) (\<lambda>_.
         let appState' = (case appState of None \<Rightarrow> nodeAppState | Some st \<Rightarrow> st)
         in bindP (\<lambda>s. ExportGenesisFileWithTime L (GenesisFile L (nodeConfig s)) (chainID args) appState' genTime s) (\<lambda>_.
            pureP (Ok (Some appState')))))))))"

definition collectGenFiles ::
    "('x, 'kb, 'alg, 'tx, 'ag) TestnetLib \<Rightarrow> initArgs \<Rightarrow> NodeAcc \<Rightarrow> ('x Host, unit) proc" where
  "collectGenFiles L args acc =
     bindP (readK (\<lambda>s. Ok (tm_Now L s))) (\<lambda>genTime.
     bindP (foldP (collect_node L args acc genTime) [0..<nat (numValidators args)] None) (\<lambda>_. pureP (Ok ())))"

section \<open>The command\<close>

definition empty_acc :: NodeAcc where
  "empty_acc = \<lparr>nodeIDs = [], valPubKeys = [], genAccounts = [], genBalances = [], genFiles = [],
     persistentPeers = [], gentxsFiles = []\<rparr>"

definition makeslice_error :: go_error where
  "makeslice_error = New ''runtime error: makeslice: len out of range''"

definition initTestnetFiles ::
    "OS \<Rightarrow> ('x, 'kb, 'alg, 'tx, 'ag) TestnetLib \<Rightarrow> ('auth, 'acc) GenesisLib \<Rightarrow> initArgs \<Rightarrow> ('x Host, unit) proc" where
  "initTestnetFiles os L G args0 =
     (let args = (if chainID args0 = [] then args0\<lparr>chainID := ''chain-'' @ generateRandomString (rand_Intn L) 6\<rparr> else args0);
          n = nat (numValidators args)
      in if numValidators args < 0 then pureP (Panic makeslice_error)
         else bindP (foldP (init_node os L args) [0..<n] empty_acc) (\<lambda>acc.
              bindP (initGenFiles L G (chainID args) (genAccounts acc) (genBalances acc) (genFiles acc) n) (\<lambda>_.
              bindP (eachP (\<lambda>i. eachP (copy_gentx os args i) (gentxsFiles acc)) [0..<n]) (\<lambda>_.
              collectGenFiles L args acc))))"

definition NewTestnetMultiNodeCmd ::
    "OS \<Rightarrow> ('x, 'kb, 'alg, 'tx, 'ag) TestnetLib \<Rightarrow> ('auth, 'acc) GenesisLib \<Rightarrow> unit outcome \<Rightarrow> TestnetFlags \<Rightarrow> ('x Host, unit) proc" where
  "NewTestnetMultiNodeCmd os L G clientCtx fl =
     bindP (pureP clientCtx) (\<lambda>_.
     bindP (pureP (testnet_args L fl)) (initTestnetFiles os L G))"

section \<open>Laws\<close>

definition below :: "path \<Rightarrow> path set" where
  "below p = {q. prefix p q}"

text \<open>A call that keeps the root of the configuration and touches the given places only.\<close>

definition host_step :: "path set \<Rightarrow> 'x Host \<Rightarrow> 'x Host \<Rightarrow> bool" where
  "host_step P s s' \<longleftrightarrow> RootDir (nodeConfig s') = RootDir (nodeConfig s) \<and> touches P (h_disk s) (h_disk s')"

text \<open>
  What the libraries document: the root of a configuration and the place of the genesis file; that the
  files of a node lie below its root and that its identity is hexadecimal; that a key store lives below
  the directory it was opened for; that a configuration or genesis file is written to the path given; and
  that an exported genesis is made from the chain, the state and the time.
\<close>

definition config_law :: "('x, 'kb, 'alg, 'tx, 'ag) TestnetLib \<Rightarrow> bool" where
  "config_law L \<longleftrightarrow> (\<forall>r c. RootDir (SetRoot L r c) = r) \<and>
     (\<forall>c. GenesisFile L c = Join [RootDir c, ''config/genesis.json''])"

definition node_law :: "OS \<Rightarrow> ('x, 'kb, 'alg, 'tx, 'ag) TestnetLib \<Rightarrow> bool" where
  "node_law os L \<longleftrightarrow> (\<forall>s r s'. InitializeNodeValidatorFiles L s = Some (r, s') \<longrightarrow>
     host_step (below (resolve os (RootDir (nodeConfig s)))) s s' \<and>
     (\<forall>nodeID pk. r = Ok (nodeID, pk) \<longrightarrow> separator \<notin> set nodeID))"

definition keyring_law :: "OS \<Rightarrow> ('x, 'kb, 'alg, 'tx, 'ag) TestnetLib \<Rightarrow> bool" where
  "keyring_law os L \<longleftrightarrow>
     (\<forall>b d s r s'. keyring_New L b d s = Some (r, s') \<longrightarrow>
        host_step (below (resolve os d)) s s' \<and> (\<forall>kb. r = Ok kb \<longrightarrow> kb_Dir L kb = d)) \<and>
     (\<forall>kb n a. guarantees (host_step (below (resolve os (kb_Dir L kb)))) (GenerateSaveCoinKey L kb n a)) \<and>
     (\<forall>c m kb n t. guarantees (host_step (below (resolve os (kb_Dir L kb)))) (tx_Sign L c m kb n t))"

definition writer_law :: "OS \<Rightarrow> ('x, 'kb, 'alg, 'tx, 'ag) TestnetLib \<Rightarrow> bool" where
  "writer_law os L \<longleftrightarrow>
     (\<forall>p c. guarantees (host_step {resolve os p}) (srv_WriteConfigFile L p c)) \<and>
     (\<forall>p c. guarantees (host_step {resolve os p}) (cmt_WriteConfigFile L p c)) \<and>
     (\<forall>d p. guarantees (host_step {resolve os p}) (SaveAs L d p)) \<and>
     (\<forall>p. guarantees (host_step {}) (AppGenesisFromFile L p))"

definition app_state_law :: "OS \<Rightarrow> ('x, 'kb, 'alg, 'tx, 'ag) TestnetLib \<Rightarrow> bool" where
  "app_state_law os L \<longleftrightarrow> (\<forall>ic ag s r s'. GenAppStateFromConfig L ic ag s = Some (r, s') \<longrightarrow>
     host_step {resolve os (Join [RootDir (nodeConfig s), ''config'', ''config.toml'']),
                resolve os (GenesisFile L (nodeConfig s))} s s')"

definition exports :: "OS \<Rightarrow> ('x, 'kb, 'alg, 'tx, 'ag) TestnetLib \<Rightarrow> (string \<Rightarrow> bytes \<Rightarrow> int \<Rightarrow> bytes) \<Rightarrow> bool" where
  "exports os L genesis_text \<longleftrightarrow> (\<forall>p c st t s r s'. ExportGenesisFileWithTime L p c st t s = Some (r, s') \<longrightarrow>
     host_step {resolve os p} s s' \<and> (r = Ok () \<longrightarrow> h_disk s' (resolve os p) = Some (File (genesis_text c st t))))"

definition testnet_law :: "OS \<Rightarrow> ('x, 'kb, 'alg, 'tx, 'ag) TestnetLib \<Rightarrow> bool" where
  "testnet_law os L \<longleftrightarrow> config_law L \<and> node_law os L \<and> keyring_law os L \<and> writer_law os L \<and> app_state_law os L \<and>
     (\<exists>genesis_text. exports os L genesis_text)"

section \<open>Lemmas\<close>

interpretation host: change_preorder "host_step P" for P :: "path set"
  by unfold_locales (auto simp: host_step_def touch.same intro: touch.sequence)

lemma host_step_mono: "host_step P s s' \<Longrightarrow> P \<subseteq> Q \<Longrightarrow> host_step Q s s'"
  by (auto simp: host_step_def intro: touches_mono)

lemma on_disk_Some [outcome_simps]:
  "on_disk m s = Some (r, s') \<longleftrightarrow> (\<exists>D. m (h_disk s) = Some (r, D) \<and> s' = s\<lparr>h_disk := D\<rparr>)"
  by (auto simp: on_disk_def)

lemma on_config_Some [outcome_simps]:
  "on_config f s = Some (r, s') \<longleftrightarrow> r = Ok () \<and> s' = s\<lparr>nodeConfig := f (nodeConfig s)\<rparr>"
  by (auto simp: on_config_def)

lemma on_disk_step: "guarantees (touches P) m \<Longrightarrow> guarantees (host_step P) (on_disk m)"
  by (auto simp: guarantees_def host_step_def outcome_simps)

lemma or_remove_Ok [outcome_simps]: "or_remove os dir m s = Some (Ok a, s') \<longleftrightarrow> m s = Some (Ok a, s')"
proof -
  have "bindP (ignoreP (on_disk (RemoveAll os dir))) (\<lambda>_. pureP (Err e)) s1 \<noteq> Some (Ok a, s')" for e s1
    by (simp add: outcome_simps)
  then show ?thesis by (auto simp: or_remove_def catchP_def split: option.splits outcome.splits)
qed

lemma writeFile_touches: "guarantees (touches {resolve os f}) (writeFile os f dir bs)"
  unfolding writeFile_def
  by (intro touch.g_bind touch.g_wrap WriteFile_touches guarantees_mono [OF MkdirAll_touches])
    (auto intro: touches_mono)

lemma writeFile_Ok:
  assumes "writeFile os f dir bs D = Some (Ok (), D')"
  shows "D' (resolve os f) = Some (File bs)"
    and "ys \<noteq> [] \<Longrightarrow> prefix ys (resolve os dir) \<Longrightarrow> D' ys = Some Directory"
proof -
  from assms obtain D1 where mk: "MkdirAll os dir D = Some (Ok (), D1)" and wr: "WriteFile os f bs D1 = Some (Ok (), D')"
    by (auto simp: writeFile_def outcome_simps)
  from WriteFile_Ok(1) [OF wr] show "D' (resolve os f) = Some (File bs)" by simp
  show "D' ys = Some Directory" if "ys \<noteq> []" "prefix ys (resolve os dir)"
    using MkdirAll_dir [OF mk that] guaranteesD [OF WriteFile_touches wr] touches_dir by blast
qed

text \<open>A copy to another place has the bytes of the source.\<close>

lemma copyFile_Ok:
  assumes run: "copyFile os src dstDir D = Some (Ok n, D')"
    and src: "D (resolve os src) = Some (File bs)" and other: "resolve os (Join [dstDir, Base src]) \<noteq> resolve os src"
  shows "D' = D(resolve os (Join [dstDir, Base src]) \<mapsto> File bs)" and "n = length bs"
proof -
  let ?d = "resolve os (Join [dstDir, Base src])"
  from run obtain D1 D2 where cr: "D1 = D(?d \<mapsto> File [])"
    and cp: "io_Copy os ?d (resolve os src) D1 = Some (Ok n, D2)" and D': "D' = D2"
    by (auto simp: copyFile_def Let_def outcome_simps Create_Ok Open_def Sync_def split: if_splits)
  have "D1 (resolve os src) = Some (File bs)" using src other by (simp add: cr)
  with cp obtain D3 where "write_all os ?d bs D1 = Some (Ok (), D3)" "D2 = D3" "n = length bs"
    by (auto simp: io_Copy_def read_all_def outcome_simps)
  then show "D' = D(?d \<mapsto> File bs)" "n = length bs" using D' cr by (auto dest: write_all_Some)
qed

text \<open>\<open>isSubDir\<close> on a file directly in the directory, and on one that is not below it.\<close>

lemma isSubDir_rel:
  assumes "wf_os os" and "Getwd_error os = None"
  shows "isSubDir os src dst = (let b = resolve os dst; t = resolve os src;
      rel = (if b = t then ''.'' else strings_Join (map (\<lambda>_. ''..'') (fst (strip_common b t)) @ snd (strip_common b t)) [separator])
    in Ok (\<not> HasPrefix rel ''..'' \<and> \<not> IsAbs rel))"
  using assms by (simp add: isSubDir_def Abs_resolve Rel_rooted_text resolve_clean_list Let_def)

lemma isSubDir_inside:
  assumes "wf_os os" and "Getwd_error os = None" and "resolve os src = resolve os dst @ [x]"
    and "plain x" and "\<not> HasPrefix x ''..''"
  shows "isSubDir os src dst = Ok True"
  using assms by (cases x) (auto simp: isSubDir_rel IsAbs_def plain_def separator_def)

lemma isSubDir_outside:
  assumes "wf_os os" and "Getwd_error os = None" and "\<not> prefix (resolve os dst) (resolve os src)"
  shows "isSubDir os src dst = Ok False"
proof -
  let ?b = "resolve os dst" and ?t = "resolve os src"
  obtain b bs where b: "fst (strip_common ?b ?t) = b # bs"
    using assms(3) strip_common_base_Nil by (metis list.exhaust)
  have "HasPrefix (strings_Join (''..'' # xs) [separator]) ''..''" for xs
    by (cases xs) simp_all
  with b assms show ?thesis by (auto simp: isSubDir_rel Let_def)
qed

subsection \<open>The places of a node\<close>

lemma show_nat_chars: "separator \<notin> set (show_nat n)" "CHR ''.'' \<notin> set (show_nat n)"
  using show_nat_digits [of n] by (auto simp: separator_def is_digit_def char_digit_def Let_def)

definition node_path :: "OS \<Rightarrow> initArgs \<Rightarrow> nat \<Rightarrow> path" where
  "node_path os args i = resolve os (nodeDir args i)"

lemma node_path_shape:
  assumes "wf_os os" and "outputDir args \<noteq> []"
  shows "node_path os args i = foldl (clean_step True) (resolve os (outputDir args)) (butlast (Split separator (nodeDirPrefix args)))
    @ [last (Split separator (nodeDirPrefix args)) @ show_nat i]"
  using assms show_nat_chars
  by (simp add: node_path_def nodeDir_def nodeDirName_def resolve_Join clean_names_numbered)

lemma node_path_apart:
  assumes "wf_os os" and "outputDir args \<noteq> []" and "prefix (node_path os args i) (node_path os args j @ xs)"
  shows "i = j"
  using assms(3) unfolding node_path_shape [OF assms(1,2)] by simp

lemma plain_names:
  "plain ''config''" "plain ''gentx''" "plain ''genesis.json''" "plain ''app.toml''" "plain ''config.toml''" "plain ''key_seed.json''"
  by (simp_all add: plain_def separator_def)

lemma plain_gentx_name: "separator \<notin> set nodeID \<Longrightarrow> plain (gentx_name nodeID)"
  by (auto simp: plain_def gentx_name_def separator_def)

lemma nodeDir_nonempty: "outputDir args \<noteq> [] \<Longrightarrow> nodeDir args i \<noteq> []"
  unfolding nodeDir_def by (rule Join_nonempty)

lemma resolve_nodeDir_Join:
  "wf_os os \<Longrightarrow> outputDir args \<noteq> [] \<Longrightarrow> list_all plain xs \<Longrightarrow>
     resolve os (Join (nodeDir args i # xs)) = node_path os args i @ xs"
  by (simp add: resolve_Join_plain node_path_def nodeDir_nonempty)

lemma resolve_gentxsDir:
  "wf_os os \<Longrightarrow> outputDir args \<noteq> [] \<Longrightarrow> resolve os (gentxsDir args i) = node_path os args i @ [''config'', ''gentx'']"
  by (simp add: gentxsDir_def node_path_def nodeDir_def resolve_Join plain_names)

lemma gentxsDir_nonempty: "outputDir args \<noteq> [] \<Longrightarrow> gentxsDir args i \<noteq> []"
  unfolding gentxsDir_def by (rule Join_nonempty)

lemma resolve_gentx_file:
  "wf_os os \<Longrightarrow> outputDir args \<noteq> [] \<Longrightarrow> separator \<notin> set nodeID \<Longrightarrow>
     resolve os (Join [gentxsDir args i, gentx_name nodeID]) = node_path os args i @ [''config'', ''gentx'', gentx_name nodeID]"
  by (simp add: plain_gentx_name resolve_Join_plain resolve_gentxsDir gentxsDir_nonempty)

lemma resolve_genesis:
  "wf_os os \<Longrightarrow> outputDir args \<noteq> [] \<Longrightarrow>
     resolve os (Join [nodeDir args i, ''config/genesis.json'']) = node_path os args i @ [''config'', ''genesis.json'']"
  by (simp add: resolve_Join nodeDir_nonempty node_path_def clean_names_def separator_def clean_step_def)

lemmas places = resolve_nodeDir_Join resolve_gentxsDir resolve_gentx_file resolve_genesis plain_names

end
