(* ===== verification/Testnet_Agreement.thy ===== *)
theory Testnet_Agreement
  imports Testnet_Files
begin

text \<open>
  What the command of the local network leaves on the disk: the same genesis file and the same signed
  transactions in the directory of every node. The lemmas follow the four passes of
  \<open>initTestnetFiles\<close>: the files of each node, the first genesis files, the copies of the transactions, and the
  final genesis files.
\<close>

section \<open>The laws, one by one\<close>

lemma law_root:
  assumes "testnet_law os L"
  shows "RootDir (SetRoot L r c) = r" and "GenesisFile L c = Join [RootDir c, ''config/genesis.json'']"
  using assms by (simp_all add: testnet_law_def config_law_def)

lemma law_init:
  assumes "testnet_law os L" and "InitializeNodeValidatorFiles L s = Some (r, s')"
  shows "host_step (below (resolve os (RootDir (nodeConfig s)))) s s'"
    and "r = Ok (nodeID, pk) \<Longrightarrow> separator \<notin> set nodeID"
proof -
  have "node_law os L" using assms(1) by (simp add: testnet_law_def)
  then show "host_step (below (resolve os (RootDir (nodeConfig s)))) s s'"
    and "r = Ok (nodeID, pk) \<Longrightarrow> separator \<notin> set nodeID"
    using assms(2) unfolding node_law_def by blast+
qed

lemma law_keyring:
  assumes "testnet_law os L"
  shows "keyring_New L b d s = Some (r, s') \<Longrightarrow> host_step (below (resolve os d)) s s'"
    and "keyring_New L b d s = Some (Ok kb, s') \<Longrightarrow> kb_Dir L kb = d"
    and "GenerateSaveCoinKey L kb n a s = Some (r1, s') \<Longrightarrow> host_step (below (resolve os (kb_Dir L kb))) s s'"
    and "tx_Sign L c m kb n t s = Some (r2, s') \<Longrightarrow> host_step (below (resolve os (kb_Dir L kb))) s s'"
proof -
  have law: "keyring_law os L" using assms by (simp add: testnet_law_def)
  show "keyring_New L b d s = Some (r, s') \<Longrightarrow> host_step (below (resolve os d)) s s'"
    using law unfolding keyring_law_def by blast
  show "kb_Dir L kb = d" if "keyring_New L b d s = Some (Ok kb, s')"
    using law that unfolding keyring_law_def by (elim conjE) (metis (no_types, lifting))
  show "GenerateSaveCoinKey L kb n a s = Some (r1, s') \<Longrightarrow> host_step (below (resolve os (kb_Dir L kb))) s s'"
    "tx_Sign L c m kb n t s = Some (r2, s') \<Longrightarrow> host_step (below (resolve os (kb_Dir L kb))) s s'"
    using law unfolding keyring_law_def guarantees_def by blast+
qed

lemma law_writes:
  assumes "testnet_law os L"
  shows "srv_WriteConfigFile L p c s = Some (r, s') \<Longrightarrow> host_step {resolve os p} s s'"
    and "cmt_WriteConfigFile L p c' s = Some (r, s') \<Longrightarrow> host_step {resolve os p} s s'"
    and "SaveAs L d p s = Some (r, s') \<Longrightarrow> host_step {resolve os p} s s'"
    and "AppGenesisFromFile L p s = Some (r2, s') \<Longrightarrow> host_step {} s s'"
  using assms unfolding testnet_law_def writer_law_def guarantees_def by blast+

lemma law_app_state:
  assumes "testnet_law os L" and "GenAppStateFromConfig L ic ag s = Some (r, s')"
  shows "host_step {resolve os (Join [RootDir (nodeConfig s), ''config'', ''config.toml'']),
    resolve os (GenesisFile L (nodeConfig s))} s s'"
  using assms unfolding testnet_law_def app_state_law_def by blast

lemma law_exports: "testnet_law os L \<Longrightarrow> \<exists>genesis_text. exports os L genesis_text"
  by (simp add: testnet_law_def)

section \<open>The files of the nodes\<close>

lemma host_step_file: "host_step P s s' \<Longrightarrow> q \<notin> P \<Longrightarrow> h_disk s q = Some e \<Longrightarrow> h_disk s' q = Some e"
  by (auto simp: host_step_def dest: touches_file)

lemma host_step_dir: "host_step P s s' \<Longrightarrow> h_disk s q = Some Directory \<Longrightarrow> h_disk s' q = Some Directory"
  by (auto simp: host_step_def dest: touches_dir)

lemma below_self [simp]: "p @ xs \<in> below p"
  by (simp add: below_def)

lemma node_files_Ok:
  assumes law: "testnet_law os L" and wf: "wf_os os" and out: "outputDir args \<noteq> []"
    and run: "node_files os L args i s = Some (Ok (nodeID, pk), s')"
  shows "touches (below (node_path os args i)) (h_disk s) (h_disk s')"
    and "RootDir (nodeConfig s') = nodeDir args i" and "separator \<notin> set nodeID"
proof -
  from run obtain s1 D1 where ini: "InitializeNodeValidatorFiles L s1 = Some (Ok (nodeID, pk), s')"
    and mk: "MkdirAll os (Join [nodeDir args i, ''config'']) (h_disk s) = Some (Ok (), D1)"
    and s1: "RootDir (nodeConfig s1) = nodeDir args i" "h_disk s1 = D1"
    unfolding node_files_def by (auto simp: outcome_simps law_root(1) [OF law])
  have "touches {} (h_disk s) D1" using guaranteesD [OF MkdirAll_touches mk] .
  moreover note law_init [OF law ini]
  ultimately show "touches (below (node_path os args i)) (h_disk s) (h_disk s')"
    and "RootDir (nodeConfig s') = nodeDir args i" and "separator \<notin> set nodeID"
    using s1 touches_mono [of "{}" "h_disk s" D1 "below (node_path os args i)"]
    by (auto simp: host_step_def node_path_def intro: touch.sequence)
qed

lemma node_key_Ok:
  assumes law: "testnet_law os L" and wf: "wf_os os" and out: "outputDir args \<noteq> []"
    and run: "node_key os L args i s = Some (Ok (kb, addr), s')"
  shows "touches (below (node_path os args i)) (h_disk s) (h_disk s')" and "kb_Dir L kb = nodeDir args i"
proof -
  let ?f = "Join [nodeDir args i, ''key_seed'' @ ''.json'']"
  from run obtain s1 alg secret s2 D where kr: "keyring_New L (keyringBackend args) (nodeDir args i) s = Some (Ok kb, s1)"
    and gen: "GenerateSaveCoinKey L kb (nodeDirName args i) alg s1 = Some (Ok (addr, secret), s2)"
    and wr: "writeFile os ?f (nodeDir args i) (marshal_struct [(''secret'', marshal_string secret)]) (h_disk s2) = Some (Ok (), D)"
    and s': "s' = s2\<lparr>h_disk := D\<rparr>"
    unfolding node_key_def by (auto simp: outcome_simps)
  note kb = law_keyring(1,2) [OF law kr]
  have "resolve os ?f = node_path os args i @ [''key_seed.json'']" using wf out by (simp add: places)
  then have "touches {node_path os args i @ [''key_seed.json'']} (h_disk s2) D"
    using guaranteesD [OF writeFile_touches wr] by simp
  then have "touches (below (node_path os args i)) (h_disk s2) D" by (rule touches_mono) simp
  then show "touches (below (node_path os args i)) (h_disk s) (h_disk s')"
    using kb law_keyring(3) [OF law gen] by (auto simp: host_step_def node_path_def s' intro: touch.sequence)
  show "kb_Dir L kb = nodeDir args i" by (rule kb(2))
qed

lemma node_gentx_Ok:
  assumes law: "testnet_law os L" and wf: "wf_os os" and out: "outputDir args \<noteq> []"
    and kb: "kb_Dir L kb = nodeDir args i" and nodeID: "separator \<notin> set nodeID"
    and run: "node_gentx os L args i nodeID pk memo kb addr s = Some (Ok f, s')"
  shows "touches (below (node_path os args i)) (h_disk s) (h_disk s')"
    and "f = Join [gentxsDir args i, gentx_name nodeID]"
    and "\<exists>tx. h_disk s' (node_path os args i @ [''config'', ''gentx'', gentx_name nodeID]) = Some (File tx)"
    and "h_disk s' (node_path os args i @ [''config'', ''gentx'']) = Some Directory"
proof -
  let ?f = "Join [gentxsDir args i, gentx_name nodeID]"
  from run obtain t0 t1 s1 txBz D where sg: "tx_Sign L (chainID args) memo kb (nodeDirName args i) t0 s = Some (Ok t1, s1)"
    and wr: "writeFile os ?f (gentxsDir args i) txBz (h_disk s1) = Some (Ok (), D)"
    and s': "s' = s1\<lparr>h_disk := D\<rparr>" and f: "f = ?f"
    unfolding node_gentx_def Let_def by (auto simp: outcome_simps)
  have q: "resolve os ?f = node_path os args i @ [''config'', ''gentx'', gentx_name nodeID]"
    using wf out nodeID by (simp add: places)
  have "touches (below (node_path os args i)) (h_disk s1) D"
    using guaranteesD [OF writeFile_touches wr] by (rule touches_mono) (simp add: q)
  then show "touches (below (node_path os args i)) (h_disk s) (h_disk s')"
    using law_keyring(4) [OF law sg] by (auto simp: host_step_def node_path_def s' kb intro: touch.sequence)
  show "f = ?f" by (rule f)
  show "\<exists>tx. h_disk s' (node_path os args i @ [''config'', ''gentx'', gentx_name nodeID]) = Some (File tx)"
    using writeFile_Ok(1) [OF wr] by (auto simp: s' q)
  show "h_disk s' (node_path os args i @ [''config'', ''gentx'']) = Some Directory"
    using writeFile_Ok(2) [OF wr, of "resolve os (gentxsDir args i)"] wf out by (simp add: s' places)
qed

lemma init_node_Ok:
  assumes law: "testnet_law os L" and wf: "wf_os os" and out: "outputDir args \<noteq> []"
    and run: "init_node os L args i acc s = Some (Ok acc', s')"
  obtains nodeID tx where "separator \<notin> set nodeID"
    and "nodeIDs acc' = nodeIDs acc @ [nodeID]"
    and "genFiles acc' = genFiles acc @ [Join [nodeDir args i, ''config/genesis.json'']]"
    and "gentxsFiles acc' = gentxsFiles acc @ [Join [gentxsDir args i, gentx_name nodeID]]"
    and "touches (below (node_path os args i)) (h_disk s) (h_disk s')"
    and "h_disk s' (node_path os args i @ [''config'', ''gentx'', gentx_name nodeID]) = Some (File tx)"
    and "h_disk s' (node_path os args i @ [''config'', ''gentx'']) = Some Directory"
proof -
  let ?app = "Join [nodeDir args i, ''config'', ''app.toml'']" and ?P = "below (node_path os args i)"
  from run obtain nodeID pk s1 kb addr s2 memo f s3 toml s4 where
    a: "node_files os L args i s = Some (Ok (nodeID, pk), s1)" and
    b: "node_key os L args i s1 = Some (Ok (kb, addr), s2)" and
    c: "node_gentx os L args i nodeID pk memo kb addr s2 = Some (Ok f, s3)" and
    d: "srv_WriteConfigFile L ?app toml s3 = Some (Ok (), s')" and
    acc': "nodeIDs acc' = nodeIDs acc @ [nodeID]" "genFiles acc' = genFiles acc @ [GenesisFile L (nodeConfig s1)]"
      "gentxsFiles acc' = gentxsFiles acc @ [f]"
    unfolding init_node_def Let_def by (auto simp: outcome_simps split: prod.splits)
  note A = node_files_Ok [OF law wf out a]
  note B = node_key_Ok [OF law wf out b]
  note C = node_gentx_Ok [OF law wf out B(2) A(3) c]
  have q: "resolve os ?app = node_path os args i @ [''config'', ''app.toml'']" using wf out by (simp add: places)
  have D: "host_step {node_path os args i @ [''config'', ''app.toml'']} s3 s'" using law_writes(1) [OF law d] by (simp add: q)
  then have "touches ?P (h_disk s3) (h_disk s')" by (auto simp: host_step_def intro: touches_mono)
  with A(1) B(1) C(1) have T: "touches ?P (h_disk s) (h_disk s')" by (blast intro: touch.sequence)
  from C(3) obtain tx where tx: "h_disk s3 (node_path os args i @ [''config'', ''gentx'', gentx_name nodeID]) = Some (File tx)" ..
  have "h_disk s' (node_path os args i @ [''config'', ''gentx'', gentx_name nodeID]) = Some (File tx)"
    by (rule host_step_file [OF D _ tx]) simp
  moreover have "h_disk s' (node_path os args i @ [''config'', ''gentx'']) = Some Directory"
    by (rule host_step_dir [OF D C(4)])
  ultimately show ?thesis using that A T acc' C(2) law_root(2) [OF law] by auto
qed

subsection \<open>The loop over the nodes\<close>

definition gentx_place :: "OS \<Rightarrow> initArgs \<Rightarrow> nat \<Rightarrow> string \<Rightarrow> path" where
  "gentx_place os args i nodeID = node_path os args i @ [''config'', ''gentx'', gentx_name nodeID]"

definition genesis_place :: "OS \<Rightarrow> initArgs \<Rightarrow> nat \<Rightarrow> path" where
  "genesis_place os args i = node_path os args i @ [''config'', ''genesis.json'']"

definition laid_out :: "OS \<Rightarrow> initArgs \<Rightarrow> nat \<Rightarrow> NodeAcc \<Rightarrow> disk \<Rightarrow> bool" where
  "laid_out os args k acc D \<longleftrightarrow>
     length (nodeIDs acc) = k \<and> (\<forall>nodeID \<in> set (nodeIDs acc). separator \<notin> set nodeID) \<and>
     genFiles acc = map (\<lambda>j. Join [nodeDir args j, ''config/genesis.json'']) [0..<k] \<and>
     gentxsFiles acc = map (\<lambda>j. Join [gentxsDir args j, gentx_name (nodeIDs acc ! j)]) [0..<k] \<and>
     (\<forall>j < k. \<exists>tx. D (gentx_place os args j (nodeIDs acc ! j)) = Some (File tx))"

lemma gentx_place_inject:
  assumes "wf_os os" and "outputDir args \<noteq> []"
  shows "gentx_place os args i a = gentx_place os args j b \<longleftrightarrow> i = j \<and> a = b"
  unfolding gentx_place_def node_path_shape [OF assms] by (auto simp: gentx_name_def)

lemma genesis_place_inject:
  assumes "wf_os os" and "outputDir args \<noteq> []"
  shows "genesis_place os args i = genesis_place os args j \<longleftrightarrow> i = j"
  unfolding genesis_place_def node_path_shape [OF assms] by simp

text \<open>The two kinds of files, and the configuration files, are at different places.\<close>

lemma places_differ:
  assumes "wf_os os" and "outputDir args \<noteq> []"
  shows "gentx_place os args i a \<noteq> genesis_place os args j"
    and "gentx_place os args i a \<noteq> node_path os args j @ [''config'', f]"
    and "genesis_place os args i = node_path os args j @ [''config'', f] \<Longrightarrow> f = ''genesis.json'' \<and> i = j"
  unfolding gentx_place_def genesis_place_def node_path_shape [OF assms] by auto

lemma laid_out_step:
  assumes law: "testnet_law os L" and wf: "wf_os os" and out: "outputDir args \<noteq> []"
    and inv: "laid_out os args k acc (h_disk s)" and run: "init_node os L args k acc s = Some (Ok acc', s')"
  shows "laid_out os args (Suc k) acc' (h_disk s')"
proof -
  obtain nodeID tx where node: "separator \<notin> set nodeID"
    "nodeIDs acc' = nodeIDs acc @ [nodeID]"
    "genFiles acc' = genFiles acc @ [Join [nodeDir args k, ''config/genesis.json'']]"
    "gentxsFiles acc' = gentxsFiles acc @ [Join [gentxsDir args k, gentx_name nodeID]]"
    and T: "touches (below (node_path os args k)) (h_disk s) (h_disk s')"
    and "h_disk s' (node_path os args k @ [''config'', ''gentx'', gentx_name nodeID]) = Some (File tx)"
    by (rule init_node_Ok [OF law wf out run])
  then have tx: "h_disk s' (gentx_place os args k nodeID) = Some (File tx)" by (simp only: gentx_place_def)
  have len: "length (nodeIDs acc) = k" using inv by (simp add: laid_out_def)
  have "\<exists>tx. h_disk s' (gentx_place os args j (nodeIDs acc' ! j)) = Some (File tx)" if "j < Suc k" for j
  proof (cases "j = k")
    case True then show ?thesis using tx node(2) len by (simp add: nth_append)
  next
    case False
    then have j: "j < k" "nodeIDs acc' ! j = nodeIDs acc ! j" using that node(2) len by (simp_all add: nth_append)
    have "gentx_place os args j (nodeIDs acc ! j) \<notin> below (node_path os args k)"
      using False node_path_apart [OF wf out, of k j] by (auto simp: below_def gentx_place_def)
    moreover obtain e where "h_disk s (gentx_place os args j (nodeIDs acc ! j)) = Some (File e)"
      using inv j(1) by (auto simp: laid_out_def)
    ultimately show ?thesis using T j(2) by (auto dest: touches_file)
  qed
  moreover have "gentxsFiles acc' = map (\<lambda>j. Join [gentxsDir args j, gentx_name (nodeIDs acc' ! j)]) [0..<Suc k]"
    using inv node len by (simp add: laid_out_def nth_append)
  ultimately show ?thesis using inv node len by (simp add: laid_out_def)
qed

lemma laid_out_loop:
  assumes "testnet_law os L" and "wf_os os" and "outputDir args \<noteq> []"
    and "foldP (init_node os L args) [0..<n] empty_acc s = Some (Ok acc, s')"
  shows "laid_out os args n acc (h_disk s')"
proof (rule foldP_upt [of "\<lambda>k acc s. laid_out os args k acc (h_disk s)", OF _ _ _ assms(4)])
  show "laid_out os args 0 empty_acc (h_disk s)" by (simp add: laid_out_def empty_acc_def)
qed (use laid_out_step [OF assms(1-3)] in auto)

text \<open>Saving the first genesis files leaves the transactions where they are.\<close>

lemma initGenFiles_keeps_gentx:
  assumes law: "testnet_law os L" and wf: "wf_os os" and out: "outputDir args \<noteq> []"
    and inv: "laid_out os args n acc (h_disk s)"
    and run: "initGenFiles L G c accs bals (genFiles acc) n s = Some (Ok (), s')"
  shows "laid_out os args n acc (h_disk s')"
proof -
  from run obtain doc where loop: "eachP (\<lambda>i. SaveAs L doc (genFiles acc ! i)) [0..<n] s = Some (Ok (), s')"
    by (auto simp: initGenFiles_def outcome_simps)
  show ?thesis
  proof (rule eachP_upt [of "\<lambda>_ s. laid_out os args n acc (h_disk s)", OF _ inv loop])
    fix k s1 s2
    assume inv: "laid_out os args n acc (h_disk s1)" and k: "k < n"
      and save: "SaveAs L doc (genFiles acc ! k) s1 = Some (Ok (), s2)"
    have "genFiles acc ! k = Join [nodeDir args k, ''config/genesis.json'']" using inv k by (simp add: laid_out_def)
    then have "host_step {genesis_place os args k} s1 s2"
      using law_writes(3) [OF law save] wf out by (simp add: places genesis_place_def)
    then have "h_disk s2 (gentx_place os args j a) = Some (File tx)" if "h_disk s1 (gentx_place os args j a) = Some (File tx)" for j a tx
      using places_differ(1) [OF wf out, of j a k] that by (auto intro: host_step_file)
    then show "laid_out os args n acc (h_disk s2)" using inv unfolding laid_out_def by blast
  qed
qed

section \<open>Copying the transactions\<close>

text \<open>The transaction of node \<open>j\<close> is at its place in the directories of the nodes that \<open>P\<close> names.\<close>

definition spread :: "OS \<Rightarrow> initArgs \<Rightarrow> string list \<Rightarrow> bytes list \<Rightarrow> (nat \<Rightarrow> nat \<Rightarrow> bool) \<Rightarrow> disk \<Rightarrow> bool" where
  "spread os args ids txs P D \<longleftrightarrow>
     (\<forall>i j. j < length ids \<and> (i = j \<or> P i j) \<longrightarrow> D (gentx_place os args i (ids ! j)) = Some (File (txs ! j)))"

lemma copy_gentx_spreads:
  assumes wf: "wf_os os" and wd: "Getwd_error os = None" and out: "outputDir args \<noteq> []"
    and ids: "distinct ids" "\<forall>nodeID \<in> set ids. separator \<notin> set nodeID"
    and inv: "spread os args ids txs P (h_disk s)" and j: "j < length ids"
    and run: "copy_gentx os args i (Join [gentxsDir args j, gentx_name (ids ! j)]) s = Some (Ok (), s')"
  shows "spread os args ids txs (\<lambda>i' j'. P i' j' \<or> i' = i \<and> j' = j) (h_disk s')"
proof -
  let ?f = "Join [gentxsDir args j, gentx_name (ids ! j)]" and ?dst = "Join [nodeDir args i, ''config'', ''gentx'']"
  have nosep: "separator \<notin> set (ids ! j)" using ids(2) j by simp
  note plain = plain_gentx_name [OF nosep]
  have f: "resolve os ?f = gentx_place os args j (ids ! j)" using wf out nosep by (simp add: places gentx_place_def)
  have dst: "resolve os ?dst = node_path os args i @ [''config'', ''gentx'']" using wf out by (simp add: places)
  have base: "Base ?f = gentx_name (ids ! j)" using out plain by (simp add: Base_Join gentxsDir_nonempty)
  have target: "resolve os (Join [?dst, Base ?f]) = gentx_place os args i (ids ! j)"
    using wf out plain dst by (simp add: base resolve_Join_plain Join_nonempty nodeDir_nonempty gentx_place_def)
  show ?thesis
  proof (cases "i = j")
    case True
    have "isSubDir os ?f ?dst = Ok True"
      using f dst True plain by (intro isSubDir_inside [OF wf wd]) (auto simp: gentx_place_def gentx_name_def)
    with run inv True show ?thesis by (auto simp: copy_gentx_def outcome_simps spread_def)
  next
    case False
    have "\<not> prefix (resolve os ?dst) (resolve os ?f)"
      using False node_path_apart [OF wf out, of i j] append_prefixD by (fastforce simp: f dst gentx_place_def)
    then have "isSubDir os ?f ?dst = Ok False" by (rule isSubDir_outside [OF wf wd])
    with run obtain m D where cp: "copyFile os ?f ?dst (h_disk s) = Some (Ok m, D)" and s': "h_disk s' = D"
      by (auto simp: copy_gentx_def outcome_simps)
    have "h_disk s (resolve os ?f) = Some (File (txs ! j))" using inv j by (auto simp: f spread_def)
    from copyFile_Ok(1) [OF cp this] False
    have D: "D = (h_disk s)(gentx_place os args i (ids ! j) \<mapsto> File (txs ! j))"
      by (simp add: target f gentx_place_inject [OF wf out])
    show ?thesis unfolding spread_def s' D
      using inv False ids(1) j by (auto simp: spread_def gentx_place_inject [OF wf out] nth_eq_iff_index_eq)
  qed
qed

lemma eachP_map: "eachP f (map g xs) = eachP (\<lambda>x. f (g x)) xs"
  by (induction xs) simp_all

lemma spread_weaken: "spread os args ids txs P D \<Longrightarrow> (\<And>i j. j < length ids \<Longrightarrow> Q i j \<Longrightarrow> i = j \<or> P i j) \<Longrightarrow> spread os args ids txs Q D"
  by (auto simp: spread_def)

lemma copy_to_node:
  assumes wf: "wf_os os" and wd: "Getwd_error os = None" and out: "outputDir args \<noteq> []"
    and ids: "distinct ids" "\<forall>nodeID \<in> set ids. separator \<notin> set nodeID"
    and inv: "spread os args ids txs P (h_disk s)"
    and run: "eachP (copy_gentx os args i) (map (\<lambda>j. Join [gentxsDir args j, gentx_name (ids ! j)]) [0..<length ids]) s
      = Some (Ok (), s')"
  shows "spread os args ids txs (\<lambda>i' j'. P i' j' \<or> i' = i) (h_disk s')"
proof -
  let ?I = "\<lambda>k s. spread os args ids txs (\<lambda>i' j'. P i' j' \<or> i' = i \<and> j' < k) (h_disk s)"
  have "?I (length ids) s'"
  proof (rule eachP_upt [of ?I, OF _ _ run [unfolded eachP_map]])
    show "?I 0 s" using inv by (simp add: spread_def)
    show "?I (Suc k) s2" if "?I k s1" "k < length ids"
      "copy_gentx os args i (Join [gentxsDir args k, gentx_name (ids ! k)]) s1 = Some (Ok (), s2)" for k s1 s2
      by (rule spread_weaken [OF copy_gentx_spreads [OF wf wd out ids that(1) that(2) that(3)]]) auto
  qed
  then show ?thesis by (rule spread_weaken) auto
qed

lemma copy_loop:
  assumes wf: "wf_os os" and wd: "Getwd_error os = None" and out: "outputDir args \<noteq> []"
    and ids: "distinct (nodeIDs acc)" and inv: "laid_out os args n acc (h_disk s)"
    and run: "eachP (\<lambda>i. eachP (copy_gentx os args i) (gentxsFiles acc)) [0..<n] s = Some (Ok (), s')"
  obtains txs where "spread os args (nodeIDs acc) txs (\<lambda>i j. i < n) (h_disk s')"
proof -
  have len: "length (nodeIDs acc) = n" and nosep: "\<forall>nodeID \<in> set (nodeIDs acc). separator \<notin> set nodeID"
    and files: "gentxsFiles acc = map (\<lambda>j. Join [gentxsDir args j, gentx_name (nodeIDs acc ! j)]) [0..<length (nodeIDs acc)]"
    using inv by (simp_all add: laid_out_def)
  obtain tx where tx: "\<And>j. j < n \<Longrightarrow> h_disk s (gentx_place os args j (nodeIDs acc ! j)) = Some (File (tx j))"
    using inv unfolding laid_out_def by metis
  let ?I = "\<lambda>k s. spread os args (nodeIDs acc) (map tx [0..<n]) (\<lambda>i' j'. i' < k) (h_disk s)"
  have "?I n s'"
  proof (rule eachP_upt [of ?I, OF _ _ run])
    show "?I 0 s" using tx len by (simp add: spread_def)
    show "?I (Suc k) s2" if "?I k s1" "k < n" "eachP (copy_gentx os args k) (gentxsFiles acc) s1 = Some (Ok (), s2)" for k s1 s2
      by (rule spread_weaken [OF copy_to_node [OF wf wd out ids nosep that(1) that(3) [unfolded files]]]) auto
  qed
  then show ?thesis by (rule that)
qed

section \<open>The final genesis files\<close>

lemma collect_node_Ok:
  assumes law: "testnet_law os L" and exported: "exports os L genesis_text" and wf: "wf_os os" and out: "outputDir args \<noteq> []"
    and run: "collect_node L args acc t i st s = Some (Ok st', s')"
  obtains a where "st' = Some a" and "st = None \<or> st' = st"
    and "touches {node_path os args i @ [''config'', ''config.toml''], genesis_place os args i} (h_disk s) (h_disk s')"
    and "h_disk s' (genesis_place os args i) = Some (File (genesis_text (chainID args) a t))"
proof -
  let ?P = "{node_path os args i @ [''config'', ''config.toml''], genesis_place os args i}"
  from run obtain p s0 ag s1 ic nodeApp s2 cfg s3 s4 a where
    b: "AppGenesisFromFile L p s0 = Some (Ok ag, s1)" and
    c: "GenAppStateFromConfig L ic ag s1 = Some (Ok nodeApp, s2)" and
    d: "cmt_WriteConfigFile L (Join [RootDir (nodeConfig s2), ''config'', ''config.toml'']) cfg s3 = Some (Ok (), s4)" and
    e: "ExportGenesisFileWithTime L (GenesisFile L (nodeConfig s4)) (chainID args) a t s4 = Some (Ok (), s')" and
    a: "st' = Some a" "a = (case st of None \<Rightarrow> nodeApp | Some x \<Rightarrow> x)" and
    s0: "RootDir (nodeConfig s0) = nodeDir args i" "h_disk s0 = h_disk s" and
    s3: "RootDir (nodeConfig s3) = RootDir (nodeConfig s2)" "h_disk s3 = h_disk s2"
    unfolding collect_node_def Let_def by (auto simp: outcome_simps law_root(1) [OF law])
  note B = law_writes(4) [OF law b]
  have r1: "RootDir (nodeConfig s1) = nodeDir args i" using B s0 by (simp add: host_step_def)
  have C: "host_step ?P s1 s2"
    using law_app_state [OF law c] wf out by (simp add: r1 law_root(2) [OF law] places genesis_place_def)
  have r3: "RootDir (nodeConfig s3) = nodeDir args i" "RootDir (nodeConfig s2) = nodeDir args i"
    using C r1 s3 by (simp_all add: host_step_def)
  have D: "host_step ?P s3 s4"
    by (rule host_step_mono [OF law_writes(2) [OF law d]]) (use wf out r3 in \<open>simp add: places\<close>)
  have r4: "RootDir (nodeConfig s4) = nodeDir args i" using D r3 by (simp add: host_step_def)
  have E: "host_step {genesis_place os args i} s4 s'"
    and g: "h_disk s' (genesis_place os args i) = Some (File (genesis_text (chainID args) a t))"
    using exported [unfolded exports_def, rule_format, OF e] wf out
    by (simp_all add: r4 law_root(2) [OF law] places genesis_place_def)
  have "touches ?P (h_disk s) (h_disk s1)" "touches ?P (h_disk s1) (h_disk s2)" "touches ?P (h_disk s2) (h_disk s4)"
    "touches ?P (h_disk s4) (h_disk s')"
    using B C D E s0 s3 by (auto simp: host_step_def intro: touches_mono)
  then have "touches ?P (h_disk s) (h_disk s')" by (blast intro: touch.sequence)
  moreover have "st = None \<or> st' = st" using a by (cases st) simp_all
  ultimately show ?thesis using that a(1) g by blast
qed

lemma collect_loop:
  assumes law: "testnet_law os L" and exported: "exports os L genesis_text" and wf: "wf_os os" and out: "outputDir args \<noteq> []"
    and run: "foldP (collect_node L args acc t) [0..<n] None s = Some (Ok st', s')"
  shows "\<exists>g. \<forall>i < n. h_disk s' (genesis_place os args i) = Some (File g)"
    and "h_disk s (gentx_place os args i nodeID) = Some e \<Longrightarrow> h_disk s' (gentx_place os args i nodeID) = Some e"
proof -
  let ?I = "\<lambda>k st s. (\<forall>i < k. \<exists>a. st = Some a \<and> h_disk s (genesis_place os args i) = Some (File (genesis_text (chainID args) a t)))"
  have "?I n st' s'"
  proof (rule foldP_upt [of ?I, OF _ _ _ run])
    fix k st s1 st2 s2
    assume inv: "?I k st s1" and node: "collect_node L args acc t k st s1 = Some (Ok st2, s2)"
    obtain a where a: "st2 = Some a" "st = None \<or> st2 = st"
      and T: "touches {node_path os args k @ [''config'', ''config.toml''], genesis_place os args k} (h_disk s1) (h_disk s2)"
      and g: "h_disk s2 (genesis_place os args k) = Some (File (genesis_text (chainID args) a t))"
      by (rule collect_node_Ok [OF law exported wf out node])
    have "h_disk s2 (genesis_place os args i) = Some (File (genesis_text (chainID args) a t))" if "i < k" for i
    proof -
      have "h_disk s1 (genesis_place os args i) = Some (File (genesis_text (chainID args) a t))"
        using inv that a by force
      moreover have "genesis_place os args i \<notin> {node_path os args k @ [''config'', ''config.toml''], genesis_place os args k}"
        using that genesis_place_inject [OF wf out, of i k] places_differ(3) [OF wf out, of i k "''config.toml''"] by auto
      ultimately show ?thesis using T touches_file by blast
    qed
    then show "?I (Suc k) st2 s2" using a(1) g less_Suc_eq by auto
  qed simp_all
  then show "\<exists>g. \<forall>i < n. h_disk s' (genesis_place os args i) = Some (File g)" by (metis option.inject)
  show "h_disk s' (gentx_place os args i nodeID) = Some e" if "h_disk s (gentx_place os args i nodeID) = Some e"
  proof (rule foldP_upt [of "\<lambda>_ _ s. h_disk s (gentx_place os args i nodeID) = Some e", OF _ that _ run])
    fix k st s1 st2 s2
    assume inv: "h_disk s1 (gentx_place os args i nodeID) = Some e"
      and node: "collect_node L args acc t k st s1 = Some (Ok st2, s2)"
    have "touches {node_path os args k @ [''config'', ''config.toml''], genesis_place os args k} (h_disk s1) (h_disk s2)"
      using collect_node_Ok [OF law exported wf out node] by blast
    then show "h_disk s2 (gentx_place os args i nodeID) = Some e"
      using inv places_differ(1,2) [OF wf out] by (auto intro: touches_file)
  qed simp
qed

section \<open>Failing early\<close>

text \<open>
  When the directory, the identity files or the key of a node cannot be made, nothing is left below the output directory,
  if the system lets it be removed.
\<close>

definition removable :: "OS \<Rightarrow> string \<Rightarrow> bool" where
  "removable os p \<longleftrightarrow> p \<noteq> [] \<and> p \<noteq> ''.'' \<and> take 2 (rev p) \<noteq> [CHR ''.'', separator]
     \<and> (\<forall>D. refuses os ''unlinkat'' (resolve os p) D = None)"

lemma or_remove_Err:
  assumes "removable os dir" and "or_remove os dir m s = Some (Err e, s')" and "prefix (resolve os dir) q"
  shows "h_disk s' q = None"
  using assms
  by (auto simp: or_remove_def catchP_def removable_def ignoreP_def bindP_def pureP_def on_disk_def RemoveAll_def refused_def
      split: option.splits outcome.splits prod.splits)

lemma bindP_Err [outcome_simps]:
  "bindP m f s = Some (Err e, s') \<longleftrightarrow> m s = Some (Err e, s') \<or> (\<exists>a s1. m s = Some (Ok a, s1) \<and> f a s1 = Some (Err e, s'))"
  by (auto simp: bindP_def split: option.splits prod.splits outcome.splits)

lemma node_files_Err:
  assumes rm: "removable os (outputDir args)" and run: "node_files os L args i s = Some (Err e, s')"
    and q: "prefix (resolve os (outputDir args)) q"
  shows "h_disk s' q = None"
proof -
  let ?mk = "on_disk (MkdirAll os (Join [nodeDir args i, ''config'']))"
  from run consider s1 where "or_remove os (outputDir args) ?mk s1 = Some (Err e, s')"
    | s1 where "or_remove os (outputDir args) (InitializeNodeValidatorFiles L) s1 = Some (Err e, s')"
    unfolding node_files_def by (simp only: outcome_simps) blast
  then show ?thesis by cases (use or_remove_Err [OF rm _ q] in blast)+
qed

section \<open>The whole command\<close>

text \<open>The four passes, with the name of the chain chosen.\<close>

lemma initTestnetFiles_passes:
  assumes run: "initTestnetFiles os L G args s = Some (Ok (), s')" and n: "n = nat (numValidators args)"
  obtains c acc s1 s2 s3 where
    "foldP (init_node os L (args\<lparr>chainID := c\<rparr>)) [0..<n] empty_acc s = Some (Ok acc, s1)"
    "initGenFiles L G c (genAccounts acc) (genBalances acc) (genFiles acc) n s1 = Some (Ok (), s2)"
    "eachP (\<lambda>i. eachP (copy_gentx os (args\<lparr>chainID := c\<rparr>) i) (gentxsFiles acc)) [0..<n] s2 = Some (Ok (), s3)"
    "collectGenFiles L (args\<lparr>chainID := c\<rparr>) acc s3 = Some (Ok (), s')"
proof -
  define c where "c = (if chainID args = [] then ''chain-'' @ generateRandomString (rand_Intn L) 6 else chainID args)"
  define args' where "args' = (if chainID args = [] then args\<lparr>chainID := ''chain-'' @ generateRandomString (rand_Intn L) 6\<rparr> else args)"
  have args': "args' = args\<lparr>chainID := c\<rparr>" "numValidators args' = numValidators args" "chainID args' = c"
    by (simp_all add: args'_def c_def)
  have "initTestnetFiles os L G args = (if numValidators args < 0 then pureP (Panic makeslice_error)
     else bindP (foldP (init_node os L args') [0..<n] empty_acc) (\<lambda>acc.
          bindP (initGenFiles L G c (genAccounts acc) (genBalances acc) (genFiles acc) n) (\<lambda>_.
          bindP (eachP (\<lambda>i. eachP (copy_gentx os args' i) (gentxsFiles acc)) [0..<n]) (\<lambda>_.
          collectGenFiles L args' acc))))"
    unfolding initTestnetFiles_def Let_def n args'_def [symmetric] by (simp only: args'(2,3))
  with run show ?thesis by (auto simp: outcome_simps args'(1) split: if_splits intro: that)
qed

lemma places_chainID:
  "node_path os (args\<lparr>chainID := c\<rparr>) i = node_path os args i"
  "genesis_place os (args\<lparr>chainID := c\<rparr>) i = genesis_place os args i"
  "gentx_place os (args\<lparr>chainID := c\<rparr>) i x = gentx_place os args i x"
  by (simp_all add: genesis_place_def gentx_place_def node_path_def nodeDir_def nodeDirName_def)

section \<open>Properties\<close>


text \<open>Libraries that write what they are asked to write, on the sample host.\<close>

definition sample_testnet :: "(unit, string, unit, bytes, unit) TestnetLib" where
  "sample_testnet = \<lparr>
     srv_DefaultConfig = \<lparr>MinGasPrices = [], API_Enable = True, EnableHostnameLabel = True, Telemetry_Enabled = True,
       PrometheusRetentionTime = 60, GRPC_Address = [], API_Address = [], app_Rest = []\<rparr>,
     SetRoot = (\<lambda>r c. c\<lparr>RootDir := r\<rparr>), GenesisFile = (\<lambda>c. Join [RootDir c, ''config/genesis.json'']),
     InitializeNodeValidatorFiles = (\<lambda>s. Some (Ok (filter (\<lambda>c. c \<noteq> separator) (Moniker (nodeConfig s)), ''key''), s)),
     keyring_New = (\<lambda>b d. pureP (Ok d)), kb_Dir = (\<lambda>d. d), NewSigningAlgoFromString = (\<lambda>_ _. Ok ()),
     GenerateSaveCoinKey = (\<lambda>_ n _. pureP (Ok (n, ''words''))), acc_String = (\<lambda>a. a), val_String = (\<lambda>a. a),
     NewIntFromString = (\<lambda>s. case ParseInt s of Ok i \<Rightarrow> Some i | _ \<Rightarrow> None),
     NewCoin = (\<lambda>d n. if n < 0 then Panic (New ''negative coin amount'') else Ok (d, n)),
     TokensFromConsensusPower = (\<lambda>n. n * 1000000), SortCoins = sort_key (\<lambda>c. int (length (fst c))),
     NewMsgCreateValidator = (\<lambda>m. Ok (cv_Moniker m)), SetMsgs = Ok, SetMemo = (\<lambda>m t. t @ m),
     tx_Sign = (\<lambda>_ _ _ _ t. pureP (Ok t)), TxJSONEncoder = Ok,
     srv_WriteConfigFile = (\<lambda>_ _. pureP (Ok ())),
     cmt_WriteConfigFile = (\<lambda>_ _. pureP (Ok ())),
     SaveAs = (\<lambda>_ _. pureP (Ok ())),
     AppGenesisFromFile = (\<lambda>_. pureP (Ok ())), GenAppStateFromConfig = (\<lambda>ic _. pureP (Ok (NodeID ic))),
     ExportGenesisFileWithTime = (\<lambda>p c st t. on_disk (WriteFile sample_os p (c @ st))),
     tm_Now = (\<lambda>_. 0), rand_Intn = (\<lambda>_ _. 0)\<rparr>"

definition sample_genesis :: "(unit, unit) GenesisLib" where
  "sample_genesis = \<lparr>DefaultGenesis = (\<lambda>_. Some []), auth_Unmarshal = (\<lambda>_. Ok ()), auth_SetAccounts = (\<lambda>_ _. ()),
     auth_Marshal = (\<lambda>_. Ok []), PackAccounts = (\<lambda>_. Ok ()), bank_Unmarshal = (\<lambda>_. Ok \<lparr>Balances = [], Supply = [], bank_Rest = []\<rparr>),
     bank_Marshal = (\<lambda>_. Ok []), SanitizeGenesisBalances = (\<lambda>b. b), Coins_Add = (@), state_MarshalIndent = (\<lambda>_. Ok ''state'')\<rparr>"

definition sample_args :: initArgs where
  "sample_args = \<lparr>algo = ''secp256k1'', chainID = ''c'', keyringBackend = ''test'', minGasPrices = [], nodeDirPrefix = ''v'',
     numValidators = 2, outputDir = ''net'', startingIPAddress = ''ip'', validatorsStakesAmount = (\<lambda>_. None),
     ports = list_ports 2 []\<rparr>"

definition sample_host :: "unit Host" where
  "sample_host = \<lparr>h_disk = sample_disk, nodeConfig = \<lparr>RootDir = [], Moniker = [], RPC_ListenAddress = [],
     P2P_ListenAddress = [], PersistentPeers = [], AllowDuplicateIP = False, ProxyApp = [], PrometheusListenAddr = [],
     Prometheus = False, cfg_Rest = []\<rparr>, h_other = ()\<rparr>"

lemma sample_testnet_law: "testnet_law sample_os sample_testnet"
proof -
  have nop: "guarantees (host_step P) (pureP r)" for P and r :: "'a outcome" by (rule host.g_pure)
  have w: "guarantees (host_step {resolve sample_os p}) (on_disk (WriteFile sample_os p bs) :: (unit Host, unit) proc)" for p bs
    by (rule on_disk_step [OF WriteFile_touches])
  have ok: "h_disk s' (resolve sample_os p) = Some (File bs)" if "on_disk (WriteFile sample_os p bs) s = Some (Ok (), s')"
    for p bs and s s' :: "unit Host" using that WriteFile_Ok(1) by (fastforce simp: outcome_simps)
  have "exports sample_os sample_testnet (\<lambda>c st t. c @ st)"
    using w [unfolded guarantees_def] ok by (auto simp: exports_def sample_testnet_def)
  moreover have "config_law sample_testnet" by (simp add: config_law_def sample_testnet_def)
  moreover have "node_law sample_os sample_testnet" by (simp add: node_law_def sample_testnet_def host.same)
  moreover have "keyring_law sample_os sample_testnet" by (simp add: keyring_law_def sample_testnet_def nop outcome_simps host.same)
  moreover have "writer_law sample_os sample_testnet" by (simp add: writer_law_def sample_testnet_def nop)
  moreover have "app_state_law sample_os sample_testnet" by (simp add: app_state_law_def sample_testnet_def outcome_simps host.same)
  ultimately show ?thesis unfolding testnet_law_def by blast
qed

text \<open>The texts and places of the two nodes, and the run.\<close>

lemma sample_dirs: "nodeDir sample_args 0 = ''net/v0''" "gentxsDir sample_args 0 = ''net/v0/config/gentx''"
  "nodeDir sample_args (Suc 0) = ''net/v1''" "gentxsDir sample_args (Suc 0) = ''net/v1/config/gentx''"
  "nodeDirName sample_args 0 = ''v0''" "nodeDirName sample_args (Suc 0) = ''v1''"
  by code_simp+

lemma sample_joins: "Join [''net/v0'', ''config''] = ''net/v0/config''" "Join [''net/v0'', ''key_seed.json''] = ''net/v0/key_seed.json''"
  "Join [''net/v0/config/gentx'', ''gentx-v0.json''] = ''net/v0/config/gentx/gentx-v0.json''" 
  "Join [''net/v0'', ''config'', ''app.toml''] = ''net/v0/config/app.toml''"
  "Join [''net/v0'', ''config'', ''config.toml''] = ''net/v0/config/config.toml''"
  "Join [''net/v0'', ''config/genesis.json''] = ''net/v0/config/genesis.json''"
  "Join [''net/v0'', ''config'', ''gentx''] = ''net/v0/config/gentx''"
  "Join [''net/v1'', ''config''] = ''net/v1/config''" "Join [''net/v1'', ''key_seed.json''] = ''net/v1/key_seed.json''"
  "Join [''net/v1/config/gentx'', ''gentx-v1.json''] = ''net/v1/config/gentx/gentx-v1.json''" 
  "Join [''net/v1/config/gentx'', ''gentx-v0.json''] = ''net/v1/config/gentx/gentx-v0.json''" 
  "Join [''net/v0/config/gentx'', ''gentx-v1.json''] = ''net/v0/config/gentx/gentx-v1.json''" 
  "Join [''net/v1'', ''config'', ''app.toml''] = ''net/v1/config/app.toml''"
  "Join [''net/v1'', ''config'', ''config.toml''] = ''net/v1/config/config.toml''"
  "Join [''net/v1'', ''config/genesis.json''] = ''net/v1/config/genesis.json''"
  "Join [''net/v1'', ''config'', ''gentx''] = ''net/v1/config/gentx''"
  by code_simp+

lemma sample_resolved: "resolve sample_os ''net/v0/config'' = [''work'', ''net'', ''v0'', ''config'']"
 "resolve sample_os ''net/v0/key_seed.json'' = [''work'', ''net'', ''v0'', ''key_seed.json'']"
 "resolve sample_os ''net/v0/config/gentx'' = [''work'', ''net'', ''v0'', ''config'', ''gentx'']"
 "resolve sample_os ''net/v0'' = [''work'', ''net'', ''v0'']"
 "resolve sample_os ''net/v0/config/gentx/gentx-v0.json'' = [''work'', ''net'', ''v0'', ''config'', ''gentx'', ''gentx-v0.json'']"
 "resolve sample_os ''net/v1/config'' = [''work'', ''net'', ''v1'', ''config'']"
 "resolve sample_os ''net/v1/key_seed.json'' = [''work'', ''net'', ''v1'', ''key_seed.json'']"
 "resolve sample_os ''net/v1/config/gentx'' = [''work'', ''net'', ''v1'', ''config'', ''gentx'']"
 "resolve sample_os ''net/v1'' = [''work'', ''net'', ''v1'']"
 "resolve sample_os ''net/v1/config/gentx/gentx-v1.json'' = [''work'', ''net'', ''v1'', ''config'', ''gentx'', ''gentx-v1.json'']"
 "resolve sample_os ''net/v1/config/gentx/gentx-v0.json'' = [''work'', ''net'', ''v1'', ''config'', ''gentx'', ''gentx-v0.json'']"
 "resolve sample_os ''net/v0/config/gentx/gentx-v1.json'' = [''work'', ''net'', ''v0'', ''config'', ''gentx'', ''gentx-v1.json'']"
 "resolve sample_os ''net/v0/config/genesis.json'' = [''work'', ''net'', ''v0'', ''config'', ''genesis.json'']"
 "resolve sample_os ''net/v1/config/genesis.json'' = [''work'', ''net'', ''v1'', ''config'', ''genesis.json'']"
  by code_simp+

lemma sample_bases: "Base ''net/v0/config/gentx/gentx-v0.json'' = ''gentx-v0.json''" "Base ''net/v1/config/gentx/gentx-v1.json'' = ''gentx-v1.json''"
  by code_simp+

lemma sample_inside: "isSubDir sample_os ''net/v0/config/gentx/gentx-v0.json'' ''net/v0/config/gentx'' = Ok True"
 "isSubDir sample_os ''net/v1/config/gentx/gentx-v1.json'' ''net/v1/config/gentx'' = Ok True"
 "isSubDir sample_os ''net/v1/config/gentx/gentx-v1.json'' ''net/v0/config/gentx'' = Ok False"
 "isSubDir sample_os ''net/v0/config/gentx/gentx-v0.json'' ''net/v1/config/gentx'' = Ok False"
  by code_simp+

lemma sample_willing: "refuses sample_os op q D = None" by (simp add: sample_os_def)

lemma sample_coins: "node_coins sample_testnet = Ok [(''atnex'', 500000000), (''testtoken'', 1000000000)]"
  "node_stake sample_testnet sample_args i = Ok (''atnex'', 100000000)"
  by (simp_all add: node_coins_def node_stake_def sample_testnet_def DefaultBondDenom_def sample_args_def)

lemma sample_fields: "numValidators sample_args = 2" "chainID sample_args = ''c''" "outputDir sample_args = ''net''" by (simp_all add: sample_args_def)

lemma upt_two: "[0..<2] = [0, Suc 0]" by (simp add: upt_rec)

lemma sample_lib:
 "InitializeNodeValidatorFiles sample_testnet s = Some (Ok (filter (\<lambda>c. c \<noteq> separator) (Moniker (nodeConfig s)), ''key''), s)"
 "SetRoot sample_testnet r c = c\<lparr>RootDir := r\<rparr>" "GenesisFile sample_testnet c = Join [RootDir c, ''config/genesis.json'']"
 "keyring_New sample_testnet b d s = Some (Ok d, s)" "NewSigningAlgoFromString sample_testnet x kb = Ok ()"
 "GenerateSaveCoinKey sample_testnet kb n a s = Some (Ok (n, ''words''), s)"
 "NewMsgCreateValidator sample_testnet m = Ok (cv_Moniker m)" "SetMsgs sample_testnet b = Ok b" "SetMemo sample_testnet mm t = t @ mm"
 "tx_Sign sample_testnet cc mm kb n t s = Some (Ok t, s)" "TxJSONEncoder sample_testnet t = Ok t"
 "srv_WriteConfigFile sample_testnet p cf s = Some (Ok (), s)" "cmt_WriteConfigFile sample_testnet p cg s = Some (Ok (), s)"
 "SaveAs sample_testnet gd p s = Some (Ok (), s)" "AppGenesisFromFile sample_testnet p s = Some (Ok (), s)"
 "GenAppStateFromConfig sample_testnet ic u s = Some (Ok (NodeID ic), s)"
 "ExportGenesisFileWithTime sample_testnet p cc st tt = on_disk (WriteFile sample_os p (cc @ st))"
 "tm_Now sample_testnet s = 0"
  by (simp_all add: sample_testnet_def pureP_def)

lemma sample_doc: "genesis_doc sample_genesis c a b = Ok \<lparr>doc_ChainID = c, doc_AppState = ''state''\<rparr>"
  by (simp add: genesis_doc_def sample_genesis_def Let_def)

lemmas testnet_defs = initTestnetFiles_def init_node_def node_files_def node_key_def node_gentx_def on_config_def on_disk_def
  or_remove_def catchP_def writeFile_def MkdirAll_def WriteFile_def Create_def refused_def write_all_def wrapP_def
  bindP_def pureP_def readK_def empty_acc_def initGenFiles_def copy_gentx_def copyFile_def Open_def
  io_Copy_def read_all_def Sync_def collectGenFiles_def collect_node_def sample_host_def sample_disk_def Let_def
  gentx_name_def separator_def

lemma sample_run: "\<exists>s'. initTestnetFiles sample_os sample_testnet sample_genesis sample_args sample_host = Some (Ok (), s')"
  by (simp add: testnet_defs sample_lib sample_dirs sample_joins sample_resolved sample_bases sample_inside sample_willing
    sample_coins sample_fields upt_two sample_doc)


end
