(* ===== verification/Testnet_Accounts.thy ===== *)
theory Testnet_Accounts
  imports Testnet_Files
begin

text \<open>
  The ports, the stakes and the genesis supply that the command of the local network gives to its nodes.
\<close>

section \<open>Ports\<close>

definition node_ports :: "nat \<Rightarrow> int list" where
  "node_ports i = [rpc_port i, p2p_port i, proxy_port i, prometheus_port i, grpc_port i, api_port i]"

lemmas port_defs = rpc_port_def p2p_port_def proxy_port_def prometheus_port_def grpc_port_def api_port_def

lemma node_ports_distinct: "i < 1317 \<Longrightarrow> distinct (node_ports i)"
  by (simp add: node_ports_def port_defs)

lemma node_ports_apart: "i < 1317 \<Longrightarrow> j < 1317 \<Longrightarrow> i \<noteq> j \<Longrightarrow> set (node_ports i) \<inter> set (node_ports j) = {}"
  by (simp add: node_ports_def port_defs)

lemma distinct_concat_upt:
  "(\<And>i. i < n \<Longrightarrow> distinct (f i)) \<Longrightarrow> (\<And>i j. i < n \<Longrightarrow> j < n \<Longrightarrow> i \<noteq> j \<Longrightarrow> set (f i) \<inter> set (f j) = {}) \<Longrightarrow>
     distinct (concat (map f [0..<n]))"
proof (induction n)
  case (Suc n)
  have "set (concat (map f [0..<n])) \<inter> set (f n) = {}"
  proof (rule equals0I)
    fix x assume "x \<in> set (concat (map f [0..<n])) \<inter> set (f n)"
    then obtain i where "i < n" "x \<in> set (f i) \<inter> set (f n)" by auto
    then show False using Suc.prems(2) [of i n] by simp
  qed
  moreover have "distinct (concat (map f [0..<n]))" using Suc.prems by (intro Suc.IH) simp_all
  ultimately show ?case using Suc.prems(1) [of n] by simp
qed simp

text \<open>
  With the ports left to the command, the addresses that it writes for the nodes are different and are
  valid port numbers exactly when there are at most 1317 nodes; and each node is given its own port.
\<close>

theorem testnet_ports_distinct:
  "(distinct (concat (map node_ports [0..<n])) \<and> list_all (\<lambda>p. 1 \<le> p \<and> p \<le> 65535) (concat (map node_ports [0..<n]))
      \<longleftrightarrow> n \<le> 1317)
   \<and> map (list_ports (int n) []) [0..<n] = map (\<lambda>i. Some (show_int (rpc_port i))) [0..<n]"
proof (intro conjI iffI)
  assume "distinct (concat (map node_ports [0..<n])) \<and> list_all (\<lambda>p. 1 \<le> p \<and> p \<le> 65535) (concat (map node_ports [0..<n]))"
  then have valid: "1 \<le> p" if "i < n" "p \<in> set (node_ports i)" for i p using that by (auto simp: list_all_iff)
  show "n \<le> 1317"
  proof (rule ccontr)
    assume "\<not> n \<le> 1317"
    then have "1 \<le> api_port 1317" by (intro valid [of 1317]) (simp_all add: node_ports_def)
    then show False by (simp add: api_port_def)
  qed
next
  assume n: "n \<le> 1317"
  show "distinct (concat (map node_ports [0..<n]))"
    using n by (intro distinct_concat_upt node_ports_distinct node_ports_apart) simp_all
  show "list_all (\<lambda>p. 1 \<le> p \<and> p \<le> 65535) (concat (map node_ports [0..<n]))"
    using n by (auto simp: list_all_iff node_ports_def port_defs)
qed (simp add: list_ports_def)

section \<open>Stakes\<close>

text \<open>A coin is the denomination and the amount, when it is made at all.\<close>

definition coin_law :: "('x, 'kb, 'alg, 'tx, 'ag) TestnetLib \<Rightarrow> bool" where
  "coin_law L \<longleftrightarrow> (\<forall>d n c. NewCoin L d n = Ok c \<longrightarrow> c = (d, n))"

lemma stake_amounts_Ok:
  assumes law: "coin_law L"
  shows "stake_amounts L xs k m = Ok m' \<Longrightarrow>
    m' i = (if k \<le> i \<and> i - k < length (List.map_filter (NewIntFromString L) xs)
            then Some (DefaultBondDenom, List.map_filter (NewIntFromString L) xs ! (i - k)) else m i)"
proof (induction xs arbitrary: k m)
  case Nil then show ?case by simp
next
  case (Cons x xs)
  show ?case
  proof (cases "NewIntFromString L x")
    case None then show ?thesis using Cons by simp
  next
    case (Some a)
    with Cons.prems obtain c where c: "NewCoin L DefaultBondDenom a = Ok c"
      and rest: "stake_amounts L xs (k + 1) (m(k \<mapsto> c)) = Ok m'" by (auto simp: outcome_simps)
    have "c = (DefaultBondDenom, a)" using law c unfolding coin_law_def by blast
    then show ?thesis using Cons.IH [OF rest] Some
      by (cases "i < k"; cases "i = k") (auto simp: nth_Cons' Suc_diff_le not_less)
  qed
qed

text \<open>
  The stakes on the command line are given out in order, skipping what is not a number: the validator \<open>i\<close>
  gets the amount number \<open>i\<close> among those that parse, and the default when there are no more of them.
\<close>

theorem testnet_stakes:
  assumes law: "coin_law L" and args: "testnet_args L fl = Ok args"
  defines "amounts \<equiv> List.map_filter (NewIntFromString L) (Split CHR '','' (fl_stakes fl))"
  shows "node_stake L args i = (if i < length amounts then Ok (DefaultBondDenom, amounts ! i)
    else NewCoin L DefaultBondDenom (TokensFromConsensusPower L 100))"
proof -
  from args obtain m where "stake_amounts L (Split CHR '','' (fl_stakes fl)) 0 (\<lambda>_. None) = Ok m"
    and "validatorsStakesAmount args = m" by (auto simp: testnet_args_def outcome_simps)
  with stake_amounts_Ok [OF law, of _ 0 "\<lambda>_. None" m i] show ?thesis by (simp add: node_stake_def amounts_def)
qed

section \<open>Supply\<close>

definition amount_of :: "string \<Rightarrow> coin list \<Rightarrow> int" where
  "amount_of d cs = sum_list (map snd (filter (\<lambda>c. fst c = d) cs))"

text \<open>Adding coins adds the amounts; sorting the balances keeps them.\<close>

definition coins_law :: "('auth, 'acc) GenesisLib \<Rightarrow> bool" where
  "coins_law G \<longleftrightarrow> (\<forall>d a b. amount_of d (Coins_Add G a b) = amount_of d a + amount_of d b) \<and>
     (\<forall>d bals. sum_list (map (\<lambda>b. amount_of d (bal_Coins b)) (SanitizeGenesisBalances G bals))
       = sum_list (map (\<lambda>b. amount_of d (bal_Coins b)) bals))"

lemma bank_genesis_supply:
  assumes "coins_law G"
  shows "amount_of d (Supply (bank_genesis G bals st))
    = amount_of d (Supply st) + sum_list (map (\<lambda>b. amount_of d (bal_Coins b)) bals)"
proof -
  have "amount_of d (foldl (\<lambda>sup bal. Coins_Add G sup (bal_Coins bal)) a xs)
      = amount_of d a + sum_list (map (\<lambda>b. amount_of d (bal_Coins b)) xs)" for a and xs :: "Balance list"
    using assms by (induction xs arbitrary: a) (simp_all add: coins_law_def)
  then show ?thesis using assms by (simp add: bank_genesis_def Let_def coins_law_def)
qed

lemma init_node_balance:
  assumes "init_node os L args k acc s = Some (Ok acc', s')" and "node_coins L = Ok cs"
  shows "\<exists>b. genBalances acc' = genBalances acc @ [b] \<and> bal_Coins b = cs"
  using assms unfolding init_node_def Let_def outcome_simps
  by (clarsimp split: prod.splits simp: outcome_simps simp del: append_Cons)

lemma init_loop_balances:
  assumes "foldP (init_node os L args) [0..<n] empty_acc s = Some (Ok acc, s')" and "node_coins L = Ok cs"
  shows "map bal_Coins (genBalances acc) = replicate n cs"
proof (rule foldP_upt [of "\<lambda>k acc _. map bal_Coins (genBalances acc) = replicate k cs", OF _ _ _ assms(1)])
  fix k acc1 s1 acc2 s2
  assume "map bal_Coins (genBalances acc1) = replicate k cs" "init_node os L args k acc1 s1 = Some (Ok acc2, s2)"
  then show "map bal_Coins (genBalances acc2) = replicate (Suc k) cs"
    using init_node_balance [OF _ assms(2)] by (force simp: replicate_append_same)
qed (simp_all add: empty_acc_def)

text \<open>
  The genesis supply of a local network of \<open>n\<close> nodes is the default supply and \<open>n\<close> times the coins of
  a node: no coin of a balance is missing from it.
\<close>

theorem testnet_supply:
  assumes law: "coins_law G" and coins: "node_coins L = Ok cs"
    and run: "foldP (init_node os L args) [0..<n] empty_acc s = Some (Ok acc, s')"
  shows "amount_of d (Supply (bank_genesis G (genBalances acc) st)) = amount_of d (Supply st) + int n * amount_of d cs"
proof -
  have "map (\<lambda>b. amount_of d (bal_Coins b)) (genBalances acc) = map (amount_of d) (map bal_Coins (genBalances acc))"
    by simp
  also have "\<dots> = replicate n (amount_of d cs)" by (simp only: init_loop_balances [OF run coins] map_replicate)
  finally show ?thesis by (simp add: bank_genesis_supply [OF law] sum_list_replicate)
qed

end
