(* ===== verification/Msg_Server.thy ===== *)
theory Msg_Server
  imports Keeper
begin

text \<open>
  The message handlers of \<open>x/evm\<close>: \<open>msg_server.go\<close> (finalizing a block), \<open>proposal_server.go\<close>
  (checking a proposed block), \<open>msg_update_params.go\<close> and \<open>query_params.go\<close>. Handlers run over the
  pair of the store and the outside. Telemetry counters are left out.
\<close>

section \<open>Validation of a payload\<close>

definition MaxBlobsPerBlock :: nat where "MaxBlobsPerBlock = 6"

definition evm_module_address :: "Ext \<Rightarrow> string" where
  "evm_module_address X = AddressString X (NewModuleAddress X ModuleName)"

definition validatePayload ::
    "Ext \<Rightarrow> ('s, 'e) Keeper \<Rightarrow> SdkContext \<Rightarrow> MsgExecutionPayload \<Rightarrow> BlockState \<Rightarrow> ExecutableData outcome" where
  "validatePayload X k ctx msg state =
     (if msg_Authority msg \<noteq> evm_module_address X
      then Err (New (''invalid authority; expected '' @ evm_module_address X @ '', got '' @ msg_Authority msg))
      else bindO (wrapO ''invalid execution payload: '' [] (UnmarshalPayload X (msg_ExecutionPayload msg))) (\<lambda>payload.
        if (case Withdrawals payload of None \<Rightarrow> False | Some ws \<Rightarrow> length ws > 0)
        then Err (New ''withdrawals are not supported'')
        else if Withdrawals payload = None \<or> BlobGasUsed payload = None \<or> ExcessBlobGas payload = None
        then Err (New ''withdrawals, blob gas used, and excess blob gas are required'')
        else if ExecutionWitness payload \<noteq> None
        then Err (New ''execution witness is not supported'')
        else if ParentHash payload \<noteq> Hash state
        then Err (New (''invalid parent hash: expected '' @ HashHex X (Hash state) @ '', got '' @ HashHex X (ParentHash payload)))
        else if Number payload \<noteq> Height state + 1
        then Err (New (''invalid block number: expected '' @ show_u64 (Height state + 1) @ '', got '' @ show_u64 (Number payload)))
        else if PayloadTimestamp payload \<le> Timestamp state
        then Err (New (''invalid timestamp: expected > '' @ show_u64 (Timestamp state) @ '', got '' @ show_u64 (PayloadTimestamp payload)))
        else bindO (toUint64 (HeaderHeight ctx)) (\<lambda>height.
          let timestamp = CalculateTimestamp k (BlockTime ctx) height (Timestamp state)
          in if PayloadTimestamp payload \<noteq> timestamp
             then Err (New (''invalid timestamp: expected '' @ show_u64 timestamp @ '', got '' @ show_u64 (PayloadTimestamp payload)))
             else Ok payload)))"

section \<open>Sending a payload\<close>

text \<open>The loop over the transactions that collects the versioned blob hashes.\<close>

fun versioned_hashes :: "Ext \<Rightarrow> bytes list \<Rightarrow> hash list outcome" where
  "versioned_hashes X [] = Ok []"
| "versioned_hashes X (txBytes # txs) =
     bindO (wrapO ''decode tx: '' [] (TxBlobHashes X txBytes)) (\<lambda>hashes.
     bindO (versioned_hashes X txs) (\<lambda>rest. Ok (hashes @ rest)))"

text \<open>The checks before the call: what is sent besides the payload, or why nothing is sent.\<close>

definition payload_hashes :: "Ext \<Rightarrow> SdkContext \<Rightarrow> ExecutableData \<Rightarrow> (hash \<times> hash list) outcome" where
  "payload_hashes X ctx payload =
     (let appHash = BytesToHash X (AppHash ctx)
      in if appHash = 0 then Err (New ''app hash is empty'')
         else bindO (versioned_hashes X (Transactions payload)) (\<lambda>versionedHashes.
           if length versionedHashes > MaxBlobsPerBlock
           then Err (New (''too many blobs in block: '' @ show_nat (length versionedHashes)
                  @ '' > '' @ show_nat MaxBlobsPerBlock))
           else Ok (appHash, versionedHashes)))"

definition sendPayload ::
    "Ext \<Rightarrow> ('s, 'e) Keeper \<Rightarrow> SdkContext \<Rightarrow> ExecutableData \<Rightarrow> 'e \<Rightarrow> payload_status outcome \<times> 'e" where
  "sendPayload X k ctx payload e =
     (case payload_hashes X ctx payload of
        Err err \<Rightarrow> (Err err, e)
      | Panic err \<Rightarrow> (Panic err, e)
      | Ok (appHash, versionedHashes) \<Rightarrow>
          if IsAmsterdamActive (chainSpec k) (PayloadTimestamp payload)
          then NewPayloadV5 (k_engineClient k) payload versionedHashes (Some appHash) None e
          else if IsPragueActive (chainSpec k) (PayloadTimestamp payload)
          then NewPayloadV4 (k_engineClient k) payload versionedHashes (Some appHash) None e
          else NewPayloadV3 (k_engineClient k) payload versionedHashes (Some appHash) e)"

section \<open>Finalizing\<close>

text \<open>\<open>retry\<close> over the pair of the store and the outside.\<close>

definition retryE ::
    "'e Runtime \<Rightarrow> 'e Context \<Rightarrow> ('s \<times> 'e, bool) proc \<Rightarrow> ('s \<times> 'e, unit) proc" where
  "retryE rt goctx fn =
     retry (\<lambda>(s, e). ctx_Err rt goctx e) (\<lambda>(s, e). (s, Sleep rt retryDelay e)) fn"

text \<open>The two closures passed to \<open>retry\<close>.\<close>

definition send_attempt ::
    "Ext \<Rightarrow> ('s, 'e) Keeper \<Rightarrow> SdkContext \<Rightarrow> ExecutableData \<Rightarrow> ('s \<times> 'e, bool) proc" where
  "send_attempt X k ctx payload = (\<lambda>(s, e). case sendPayload X k ctx payload e of
       (Err _, e') \<Rightarrow> Some (Ok False, (s, e'))
     | (Panic err, e') \<Rightarrow> Some (Panic err, (s, e'))
     | (Ok status, e') \<Rightarrow>
         if status \<noteq> VALID \<and> status \<noteq> SYNCING
         then Some (Err (New (''payload is not valid with status: '' @ status_text status)), (s, e'))
         else Some (Ok True, (s, e')))"

definition head_state :: "hash \<Rightarrow> ForkchoiceStateV1" where
  "head_state h = \<lparr>HeadBlockHash = h, SafeBlockHash = h, FinalizedBlockHash = h\<rparr>"

definition forkchoice_attempt ::
    "('s, 'e) Keeper \<Rightarrow> ForkchoiceStateV1 \<Rightarrow> ('s \<times> 'e, bool) proc" where
  "forkchoice_attempt k fcState = (\<lambda>(s, e). case ForkchoiceUpdatedV3 (k_engineClient k) fcState None e of
       (Err _, e') \<Rightarrow> Some (Ok False, (s, e'))
     | (Panic err, e') \<Rightarrow> Some (Panic err, (s, e'))
     | (Ok response, e') \<Rightarrow>
         if ResponseStatus response = INVALID
         then Some (Err (New (''forkchoice not updated with status: '' @ status_text (ResponseStatus response))), (s, e'))
         else Some (Ok True, (s, e')))"

definition ExecutionPayload ::
    "Ext \<Rightarrow> ('s, 'e) Keeper \<Rightarrow> 'e Runtime \<Rightarrow> 'e Context \<Rightarrow> SdkContext \<Rightarrow> MsgExecutionPayload
     \<Rightarrow> ('s \<times> 'e, unit) proc" where
  "ExecutionPayload X k rt goctx ctx req =
     (if ExecMode ctx \<noteq> ExecModeFinalize
      then pureP (Err (New ''execution payload can only be submitted in finalize mode''))
      else if length (msg_ExecutionPayload req) = 0
      then pureP (Err (New ''execution payload cannot be empty''))
      else bindP (readS (\<lambda>s. wrapO ''failed to get block state: '' [] (GetBlockState k s))) (\<lambda>state.
        bindP (pureP (validatePayload X k ctx req state)) (\<lambda>payload.
        bindP (retryE rt goctx (send_attempt X k ctx payload)) (\<lambda>_.
        bindP (retryE rt goctx (forkchoice_attempt k (head_state (BlockHash payload)))) (\<lambda>_.
        writeS (SetBlockState k \<lparr>Hash = BlockHash payload, Height = Number payload,
                                 Timestamp = PayloadTimestamp payload\<rparr>))))))"

section \<open>Parameters\<close>

definition ErrInvalidSigner :: go_error where
  "ErrInvalidSigner = Sentinel ''expected gov account as only signer for proposal message''"

definition UpdateParams :: "('s, 'e) Keeper \<Rightarrow> MsgUpdateParams \<Rightarrow> ('s \<times> 'e, unit) proc" where
  "UpdateParams k req =
     bindP (pureP (wrapO ''invalid authority address: '' [] (addr_StringToBytes k (upd_Authority req)))) (\<lambda>auth.
       if GetAuthority k \<noteq> auth
       then pureP (Err (Wrapf (''invalid authority; expected ''
              @ (case addr_BytesToString k (GetAuthority k) of Ok a \<Rightarrow> a | _ \<Rightarrow> [])
              @ '', got '' @ upd_Authority req @ '': '') ErrInvalidSigner []))
       else bindP (pureP (Params_Validate (upd_Params req))) (\<lambda>_.
         writeS (item_Set (ParamsItem k) (upd_Params req))))"

text \<open>The query: a missing value reads as the zero value.\<close>

definition QueryParams :: "('s, 'e) Keeper \<Rightarrow> unit option \<Rightarrow> 's \<Rightarrow> Params outcome" where
  "QueryParams k req s =
     (if req = None then Err (New ''rpc error: code = InvalidArgument desc = invalid request'')
      else case item_Get (ParamsItem k) s of
             Ok p \<Rightarrow> Ok p
           | Panic e \<Rightarrow> Panic e
           | Err e \<Rightarrow> if errors_Is e ErrNotFound then Ok NewParams
                     else Err (New ''rpc error: code = Internal desc = internal error''))"

section \<open>Checking a proposal\<close>

text \<open>\<open>proposalMsgServer\<close>: the same validation, without the execution client and without a write.\<close>

definition proposal_ExecutionPayload ::
    "Ext \<Rightarrow> ('s, 'e) Keeper \<Rightarrow> SdkContext \<Rightarrow> MsgExecutionPayload \<Rightarrow> 's \<Rightarrow> unit outcome" where
  "proposal_ExecutionPayload X k ctx req s =
     bindO (wrapO ''failed to get block state: '' [] (GetBlockState k s)) (\<lambda>state.
     bindO (validatePayload X k ctx req state) (\<lambda>_. Ok ()))"

definition proposal_UpdateParams :: "MsgUpdateParams \<Rightarrow> unit outcome" where
  "proposal_UpdateParams req = Err (New ''UpdateParams should not be called during ProcessProposal'')"

section \<open>Lemmas\<close>

text \<open>The declarative reading of the validation: a payload that may follow a block.\<close>

definition extends :: "BlockState \<Rightarrow> ExecutableData \<Rightarrow> bool" where
  "extends state p \<longleftrightarrow>
     ParentHash p = Hash state \<and> Number p = Height state + 1 \<and> Timestamp state < PayloadTimestamp p"

definition well_formed :: "ExecutableData \<Rightarrow> bool" where
  "well_formed p \<longleftrightarrow>
     Withdrawals p = Some [] \<and> BlobGasUsed p \<noteq> None \<and> ExcessBlobGas p \<noteq> None \<and> ExecutionWitness p = None"

definition next_head :: "ExecutableData \<Rightarrow> BlockState" where
  "next_head p = \<lparr>Hash = BlockHash p, Height = Number p, Timestamp = PayloadTimestamp p\<rparr>"

lemma validatePayload_Ok:
  "validatePayload X k ctx msg state = Ok p \<longleftrightarrow>
     msg_Authority msg = evm_module_address X \<and>
     UnmarshalPayload X (msg_ExecutionPayload msg) = Ok p \<and>
     well_formed p \<and> extends state p \<and> 0 \<le> sint (HeaderHeight ctx) \<and>
     PayloadTimestamp p = CalculateTimestamp k (BlockTime ctx) (HeaderHeight ctx) (Timestamp state)"
proof -
  have w: "\<not> (case Withdrawals q of None \<Rightarrow> False | Some ws \<Rightarrow> length ws > 0) \<and>
      \<not> (Withdrawals q = None \<or> BlobGasUsed q = None \<or> ExcessBlobGas q = None) \<and> \<not> ExecutionWitness q \<noteq> None
      \<longleftrightarrow> well_formed q" for q
    by (cases "Withdrawals q") (auto simp: well_formed_def)
  have t: "toUint64 v = Ok u \<longleftrightarrow> 0 \<le> sint v \<and> u = v" for v u
    by (auto simp: toUint64_def)
  show ?thesis
    unfolding validatePayload_def Let_def outcome_simps t w [symmetric] extends_def
    by (auto simp: not_le)
qed

lemma validatePayload_ExecMode:
  "validatePayload X k (ctx\<lparr>ExecMode := m\<rparr>) msg state = validatePayload X k ctx msg state"
  by (simp add: validatePayload_def cong: if_cong)

lemma proposal_ExecutionPayload_Ok:
  "proposal_ExecutionPayload X k ctx req s = Ok () \<longleftrightarrow>
     (\<exists>state p. GetBlockState k s = Ok state \<and> validatePayload X k ctx req state = Ok p)"
  by (auto simp: proposal_ExecutionPayload_def outcome_simps)

subsection \<open>Retries keep the store\<close>

lemma send_attempt_True:
  "send_attempt X k ctx p w = Some (Ok True, w') \<longleftrightarrow>
     (\<exists>st. sendPayload X k ctx p (snd w) = (Ok st, snd w') \<and> st \<in> {VALID, SYNCING}) \<and> fst w' = fst w"
  by (cases w; cases w') (auto simp: send_attempt_def split: prod.splits outcome.splits)

lemma forkchoice_attempt_True:
  "forkchoice_attempt k st w = Some (Ok True, w') \<longleftrightarrow>
     (\<exists>resp. ForkchoiceUpdatedV3 (k_engineClient k) st None (snd w) = (Ok resp, snd w')
        \<and> ResponseStatus resp \<noteq> INVALID) \<and> fst w' = fst w"
  by (cases w; cases w') (auto simp: forkchoice_attempt_def split: prod.splits outcome.splits)

lemma keeps_send_attempt: "keeps fst (send_attempt X k ctx p)"
  by (auto simp: keeps_def send_attempt_def split: prod.splits outcome.splits if_splits)

lemma keeps_forkchoice_attempt: "keeps fst (forkchoice_attempt k st)"
  by (auto simp: keeps_def forkchoice_attempt_def split: prod.splits outcome.splits if_splits)

text \<open>How a retry loop ends, with the store of the last attempt that of the first.\<close>

lemma retryE_last:
  assumes run: "retryE rt goctx fn w = Some (r, w')" and frame: "keeps fst fn"
  shows "\<exists>w0. fst w0 = fst w \<and>
    (r = Ok () \<and> fn w0 = Some (Ok True, w') \<or>
     (\<exists>e. r = Err e \<and> (fn w0 = Some (Err e, w') \<or>
        fn w0 = Some (Ok False, w') \<and> ctx_Err rt goctx (snd w') = Some e)) \<or>
     (\<exists>e. r = Panic e \<and> fn w0 = Some (Panic e, w')))"
proof -
  have "fst (case w2 of (s, e) \<Rightarrow> (s, Sleep rt retryDelay e)) = fst w"
    if "fst w1 = fst w" "fn w1 = Some (Ok False, w2)" for w1 w2
    using that keepsD [OF frame, of w1] by (simp add: case_prod_beta)
  from retry_last [OF run [unfolded retryE_def], where I = "\<lambda>v. fst v = fst w", OF refl this]
  show ?thesis by (simp add: case_prod_beta)
qed

lemma keeps_retryE [keeps_intros]: "keeps fst fn \<Longrightarrow> keeps fst (retryE rt goctx fn)"
  unfolding retryE_def by (rule keeps_retry) auto

lemma send_retry_Ok:
  assumes "retryE rt goctx (send_attempt X k ctx p) w = Some (Ok (), w')"
  shows "fst w' = fst w \<and> (\<exists>e0 st. sendPayload X k ctx p e0 = (Ok st, snd w') \<and> st \<in> {VALID, SYNCING})"
  using retryE_last [OF assms keeps_send_attempt] by (auto simp: send_attempt_True)

lemma forkchoice_retry_Ok:
  assumes "retryE rt goctx (forkchoice_attempt k st) w = Some (Ok (), w')"
  shows "fst w' = fst w \<and> (\<exists>e0 resp. ForkchoiceUpdatedV3 (k_engineClient k) st None e0 = (Ok resp, snd w')
    \<and> ResponseStatus resp \<noteq> INVALID)"
  using retryE_last [OF assms keeps_forkchoice_attempt] by (auto simp: forkchoice_attempt_True)

subsection \<open>The handler\<close>

lemma ExecutionPayload_OkE:
  assumes "ExecutionPayload X k rt goctx ctx req (s, e) = Some (Ok (), (s', e'))"
  obtains state p e0 e1 e2 st resp where
    "ExecMode ctx = ExecModeFinalize" "GetBlockState k s = Ok state"
    "validatePayload X k ctx req state = Ok p"
    "sendPayload X k ctx p e0 = (Ok st, e1)" "st \<in> {VALID, SYNCING}"
    "ForkchoiceUpdatedV3 (k_engineClient k) (head_state (BlockHash p)) None e2 = (Ok resp, e')"
    "ResponseStatus resp \<noteq> INVALID"
    "SetBlockState k (next_head p) s = (Ok (), s')"
proof -
  have mode: "ExecMode ctx = ExecModeFinalize"
    using assms by (auto simp: ExecutionPayload_def outcome_simps split: if_splits)
  from assms obtain state p w1 w2 u v where
    a: "GetBlockState k s = Ok state" "validatePayload X k ctx req state = Ok p" and
    b: "retryE rt goctx (send_attempt X k ctx p) (s, e) = Some (Ok u, w1)" and
    c: "retryE rt goctx (forkchoice_attempt k (head_state (BlockHash p))) w1 = Some (Ok v, w2)" and
    d: "SetBlockState k (next_head p) (fst w2) = (Ok (), s')" "snd w2 = e'"
    unfolding ExecutionPayload_def next_head_def
    by (auto simp: outcome_simps split: if_splits)
  from b c have "retryE rt goctx (send_attempt X k ctx p) (s, e) = Some (Ok (), w1)"
    "retryE rt goctx (forkchoice_attempt k (head_state (BlockHash p))) w1 = Some (Ok (), w2)"
    by simp_all
  from send_retry_Ok [OF this(1)] forkchoice_retry_Ok [OF this(2)] mode a d show thesis
    by (auto intro!: that)
qed

lemma ExecutionPayload_keeps_fail:
  fixes k :: "('s, 'e) Keeper"
  assumes "item_law (BlockStateItem k)"
  shows "keeps_fail (\<lambda>w. GetBlockState k (fst w)) (ExecutionPayload X k rt goctx ctx req)"
proof -
  have fst: "keeps (\<lambda>w. GetBlockState k (fst w)) m" if "keeps fst m" for m :: "('s \<times> 'e, unit) proc"
    using that unfolding keeps_def by metis
  have set: "keeps_fail (\<lambda>w. GetBlockState k (fst w)) (writeS (SetBlockState k b) :: ('s \<times> 'e, unit) proc)" for b
    unfolding GetBlockState_def SetBlockState_def by (rule keeps_fail_item_Set [OF assms])
  show ?thesis
    unfolding ExecutionPayload_def
    by (intro keeps_intros set fst keeps_send_attempt keeps_forkchoice_attempt)
qed

subsection \<open>Returning\<close>

text \<open>Calls of the execution client do not turn the clock back.\<close>

definition engine_clock :: "'e Runtime \<Rightarrow> 'e EngineClient \<Rightarrow> bool" where
  "engine_clock rt c \<longleftrightarrow>
     (\<forall>p hs root e. now rt e \<le> now rt (snd (NewPayloadV3 c p hs root e))) \<and>
     (\<forall>p hs root rq e. now rt e \<le> now rt (snd (NewPayloadV4 c p hs root rq e))) \<and>
     (\<forall>p hs root rq e. now rt e \<le> now rt (snd (NewPayloadV5 c p hs root rq e))) \<and>
     (\<forall>st at e. now rt e \<le> now rt (snd (ForkchoiceUpdatedV3 c st at e))) \<and>
     (\<forall>i e. now rt e \<le> now rt (snd (GetPayloadV3 c i e))) \<and>
     (\<forall>i e. now rt e \<le> now rt (snd (GetPayloadV4 c i e))) \<and>
     (\<forall>i e. now rt e \<le> now rt (snd (GetPayloadV5 c i e)))"

lemma sendPayload_clock:
  "engine_clock rt (k_engineClient k) \<Longrightarrow> now rt e \<le> now rt (snd (sendPayload X k ctx p e))"
  by (auto simp: sendPayload_def engine_clock_def split: outcome.splits)

lemma retryE_terminates:
  assumes clock: "clock_law rt" and d: "deadline goctx = Some d"
    and fn: "\<And>s e. \<exists>r s' e'. fn (s, e) = Some (r, (s', e')) \<and> now rt e \<le> now rt e'"
  shows "\<exists>r w'. retryE rt goctx fn w = Some (r, w')"
proof -
  have "\<exists>r w'. retry (\<lambda>w. ctx_Err rt goctx (snd w)) (\<lambda>(s, e). (s, Sleep rt retryDelay e)) fn w = Some (r, w')"
    by (rule retry_deadline_terminates [OF clock d, where I = "\<lambda>_. True"]) (use fn in force)+
  then show ?thesis by (simp add: retryE_def case_prod_unfold)
qed

lemma send_attempt_returns:
  "engine_clock rt (k_engineClient k) \<Longrightarrow>
   \<exists>r s' e'. send_attempt X k ctx p (s, e) = Some (r, (s', e')) \<and> now rt e \<le> now rt e'"
  using sendPayload_clock [of rt k e X ctx p]
  by (auto simp: send_attempt_def split: prod.splits outcome.splits)

lemma forkchoice_attempt_returns:
  assumes "engine_clock rt (k_engineClient k)"
  shows "\<exists>r s' e'. forkchoice_attempt k st (s, e) = Some (r, (s', e')) \<and> now rt e \<le> now rt e'"
proof -
  have "now rt e \<le> now rt (snd (ForkchoiceUpdatedV3 (k_engineClient k) st None e))"
    using assms by (simp add: engine_clock_def)
  then show ?thesis by (auto simp: forkchoice_attempt_def split: prod.splits outcome.splits)
qed

lemma bindP_returns:
  "\<exists>r w1. m w = Some (r, w1) \<Longrightarrow> (\<And>a w1. m w = Some (Ok a, w1) \<Longrightarrow> \<exists>r w2. f a w1 = Some (r, w2)) \<Longrightarrow>
   \<exists>r w2. bindP m f w = Some (r, w2)"
  by (auto simp: bindP_def split: option.splits outcome.splits)

lemma if_returns:
  "\<exists>r w1. f w = Some (r, w1) \<Longrightarrow> \<exists>r w1. g w = Some (r, w1) \<Longrightarrow>
   \<exists>r w1. (if c then f else g) w = Some (r, w1)"
  "\<exists>r w1. f w = Some (r, w1) \<Longrightarrow> \<exists>r w1. g w = Some (r, w1) \<Longrightarrow>
   \<exists>r w1. (if c then f w else g w) = Some (r, w1)"
  by simp_all

lemma pureP_returns: "\<exists>r w1. pureP x w = Some (r, w1)"
  by (simp add: pureP_def)

lemma simple_returns:
  "\<exists>r w1. readS f w = Some (r, w1)" "\<exists>r w1. writeS g w = Some (r, w1)"
  by (auto simp: readS_def writeS_def split: prod.splits)

lemma ExecutionPayload_returns:
  assumes clock: "clock_law rt" and eng: "engine_clock rt (k_engineClient k)"
    and d: "deadline goctx = Some d"
  shows "\<exists>r w'. ExecutionPayload X k rt goctx ctx req w = Some (r, w')"
proof -
  have send: "\<exists>r w'. retryE rt goctx (send_attempt X k ctx p) w = Some (r, w')" for p w
    using clock d send_attempt_returns [OF eng] by (rule retryE_terminates)
  have fork: "\<exists>r w'. retryE rt goctx (forkchoice_attempt k st) w = Some (r, w')" for st w
    using clock d forkchoice_attempt_returns [OF eng] by (rule retryE_terminates)
  show ?thesis
    unfolding ExecutionPayload_def
    by (intro if_returns pureP_returns simple_returns bindP_returns send fork)
qed

section \<open>Properties\<close>

text \<open>
  C5. Finalizing a block extends the chain by one. When the handler succeeds, the stored head moves
  from the old block to the payload's block; the payload's parent is the old head, its number is
  one more and its timestamp is larger and the prescribed one; the execution client answered
  \<open>VALID\<close> or \<open>SYNCING\<close> to the payload and then did not answer \<open>INVALID\<close> to making it the head.
\<close>

theorem finalize_extends_chain:
  assumes law: "item_law (BlockStateItem k)"
    and run: "ExecutionPayload X k rt goctx ctx req (s, e) = Some (Ok (), (s', e'))"
  shows "\<exists>state p. GetBlockState k s = Ok state
    \<and> UnmarshalPayload X (msg_ExecutionPayload req) = Ok p
    \<and> GetBlockState k s' = Ok (next_head p)
    \<and> extends state p \<and> well_formed p
    \<and> PayloadTimestamp p = CalculateTimestamp k (BlockTime ctx) (HeaderHeight ctx) (Timestamp state)
    \<and> (\<exists>e0 e1 st. sendPayload X k ctx p e0 = (Ok st, e1) \<and> st \<in> {VALID, SYNCING})
    \<and> (\<exists>e2 resp. ForkchoiceUpdatedV3 (k_engineClient k) (head_state (BlockHash p)) None e2 = (Ok resp, e')
          \<and> ResponseStatus resp \<noteq> INVALID)"
  using run
proof (rule ExecutionPayload_OkE)
  fix state p e0 e1 e2 st resp
  assume a: "GetBlockState k s = Ok state" "validatePayload X k ctx req state = Ok p"
    "sendPayload X k ctx p e0 = (Ok st, e1)" "st \<in> {VALID, SYNCING}"
    "ForkchoiceUpdatedV3 (k_engineClient k) (head_state (BlockHash p)) None e2 = (Ok resp, e')"
    "ResponseStatus resp \<noteq> INVALID" "SetBlockState k (next_head p) s = (Ok (), s')"
  from a(7) have "GetBlockState k s' = Ok (next_head p)"
    using item_Get_Set [OF law] by (simp add: SetBlockState_def GetBlockState_def)
  moreover from a(2) have "UnmarshalPayload X (msg_ExecutionPayload req) = Ok p \<and> extends state p \<and> well_formed p
    \<and> PayloadTimestamp p = CalculateTimestamp k (BlockTime ctx) (HeaderHeight ctx) (Timestamp state)"
    by (simp add: validatePayload_Ok)
  ultimately show ?thesis using a(1,3-6) by blast
qed

definition sample_req :: MsgExecutionPayload where
  "sample_req = \<lparr>msg_Authority = ''nexus1evm'', msg_ExecutionPayload = ''payload''\<rparr>"

lemma sample_validate:
  "validatePayload sample_ext (sample_keeper None) sample_ctx sample_req sample_state = Ok sample_payload"
  by (simp add: validatePayload_def sample_req_def sample_ctx_def sample_state_def sample_ext_def
      sample_payload_def evm_module_address_def ModuleName_def toUint64_def CalculateTimestamp_def
      sample_keeper_def)

lemma sample_finalize:
  "ExecutionPayload sample_ext (sample_keeper None) sample_runtime background sample_ctx sample_req
     (Some sample_state, 0) = Some (Ok (), (Some (next_head sample_payload), 2))"
proof -
  have get: "GetBlockState (sample_keeper None) (Some sample_state) = Ok sample_state"
    by (simp add: GetBlockState_def sample_keeper_def sample_item_def)
  have send: "retryE sample_runtime background (send_attempt sample_ext (sample_keeper None) sample_ctx sample_payload)
      (Some sample_state, 0) = Some (Ok (), (Some sample_state, Suc 0))"
    unfolding retryE_def
    by (rule retry_Ok) (simp add: send_attempt_def sendPayload_def payload_hashes_def sample_ext_def
        sample_ctx_def sample_payload_def sample_keeper_def sample_engine_def MaxBlobsPerBlock_def
        IsAmsterdamActive_def IsPragueActive_def)
  have fork: "retryE sample_runtime background (forkchoice_attempt (sample_keeper None) st)
      (Some sample_state, Suc 0) = Some (Ok (), (Some sample_state, 2))" for st
    unfolding retryE_def
    by (rule retry_Ok) (simp add: forkchoice_attempt_def sample_keeper_def sample_engine_def)
  have set: "writeS (SetBlockState (sample_keeper None) b) (Some sample_state, 2 :: nat) = Some (Ok (), (Some b, 2))" for b
    by (simp add: writeS_def SetBlockState_def sample_keeper_def sample_item_def)
  show ?thesis
    by (simp add: ExecutionPayload_def sample_validate bindP_def readS_def pureP_def get send fork set next_head_def)
      (simp add: sample_ctx_def sample_req_def)
qed

theorem finalize_extends_chain_witness:
  "GetBlockState (sample_keeper None) (Some (next_head sample_payload)) = Ok (next_head sample_payload)
   \<and> extends sample_state sample_payload"
proof -
  have law: "item_law (BlockStateItem (sample_keeper None))"
    by (simp add: sample_keeper_def sample_item_law)
  have get: "GetBlockState (sample_keeper None) (Some b) = Ok b" for b
    by (simp add: GetBlockState_def sample_keeper_def sample_item_def)
  have dec: "UnmarshalPayload sample_ext (msg_ExecutionPayload sample_req) = Ok sample_payload"
    by (simp add: sample_ext_def sample_req_def)
  from finalize_extends_chain [OF law sample_finalize] get dec show ?thesis by auto
qed

text \<open>
  C9. A finalization that fails changes nothing: whatever the error or panic, and at whichever step
  it occurs, the stored head is the one before.
\<close>

theorem finalize_failure_keeps_head:
  assumes "item_law (BlockStateItem k)"
    and "ExecutionPayload X k rt goctx ctx req (s, e) = Some (r, (s', e'))" and "r \<noteq> Ok ()"
  shows "GetBlockState k s' = GetBlockState k s"
  using keeps_failD [OF ExecutionPayload_keeps_fail [OF assms(1)] assms(2)] assms(3) by simp

theorem finalize_failure_keeps_head_witness:
  "GetBlockState (sample_keeper None) (Some sample_state) = GetBlockState (sample_keeper None) (Some sample_state)
   \<and> ExecutionPayload sample_ext (sample_keeper None) sample_runtime background
       (sample_ctx\<lparr>ExecMode := ExecModeCheck\<rparr>) sample_req (Some sample_state, 0)
     = Some (Err (New ''execution payload can only be submitted in finalize mode''), (Some sample_state, 0))"
proof -
  have run: "ExecutionPayload sample_ext (sample_keeper None) sample_runtime background
       (sample_ctx\<lparr>ExecMode := ExecModeCheck\<rparr>) sample_req (Some sample_state, 0)
     = Some (Err (New ''execution payload can only be submitted in finalize mode''), (Some sample_state, 0))"
    by (simp add: ExecutionPayload_def pureP_def)
  have law: "item_law (BlockStateItem (sample_keeper None))"
    by (simp add: sample_keeper_def sample_item_law)
  show ?thesis using run finalize_failure_keeps_head [OF law run] by simp
qed

text \<open>
  C20. A finalization returns when its context has a deadline: with a clock that runs and a client
  that does not turn it back, the retry loops end whatever the client answers.
\<close>

theorem finalize_returns:
  assumes "clock_law rt" and "engine_clock rt (k_engineClient k)" and "deadline goctx = Some d"
  shows "\<exists>r w'. ExecutionPayload X k rt goctx ctx req w = Some (r, w')"
  using assms by (rule ExecutionPayload_returns)

theorem finalize_returns_witness:
  "\<exists>r w'. ExecutionPayload sample_ext (sample_keeper None) sample_runtime
     (background\<lparr>deadline := Some 500\<rparr>) sample_ctx sample_req (Some sample_state, 0) = Some (r, w')"
  by (rule finalize_returns [OF sample_clock_law])
    (simp_all add: engine_clock_def sample_keeper_def sample_engine_def sample_runtime_def)

text \<open>
  C22. Without a deadline, a payload that \<open>sendPayload\<close> refuses before calling the client (a
  transaction that does not decode, more blobs than the cap, an empty application hash) makes the
  finalization loop forever, although the check of the proposal accepted the payload: the refusal
  is an error of \<open>sendPayload\<close>, which \<open>ExecutionPayload\<close> treats as a network failure and retries.
\<close>

theorem finalize_never_returns_on_refused_payload:
  assumes accepted: "proposal_ExecutionPayload X k ctx req s = Ok ()"
    and dec: "UnmarshalPayload X (msg_ExecutionPayload req) = Ok p"
    and refused: "payload_hashes X ctx p = Err err"
    and mode: "ExecMode ctx = ExecModeFinalize" and ne: "msg_ExecutionPayload req \<noteq> []"
    and bg: "\<forall>e. ctx_Err rt goctx e = None"
  shows "ExecutionPayload X k rt goctx ctx req (s, e) = None"
proof -
  from accepted obtain state q where st: "GetBlockState k s = Ok state"
    and val: "validatePayload X k ctx req state = Ok q"
    by (auto simp: proposal_ExecutionPayload_Ok)
  from val dec have q: "q = p" by (simp add: validatePayload_Ok)
  have "retryE rt goctx (send_attempt X k ctx p) (s, e) = None" for e
    unfolding retryE_def
    by (rule retry_diverges [where I = "\<lambda>_. True"])
      (use bg in \<open>auto simp: send_attempt_def sendPayload_def refused\<close>)
  then show ?thesis
    using st val mode ne by (simp add: ExecutionPayload_def bindP_def readS_def pureP_def q)
qed

theorem finalize_never_returns_on_refused_payload_witness:
  "ExecutionPayload sample_ext (sample_keeper None) sample_runtime background sample_ctx
     (sample_req\<lparr>msg_ExecutionPayload := ''blobs''\<rparr>) (Some sample_state, 0) = None"
proof (rule finalize_never_returns_on_refused_payload)
  show "UnmarshalPayload sample_ext (msg_ExecutionPayload (sample_req\<lparr>msg_ExecutionPayload := ''blobs''\<rparr>)) = Ok blob_payload"
    by (simp add: sample_ext_def)
  have "GetBlockState (sample_keeper None) (Some sample_state) = Ok sample_state"
    by (simp add: GetBlockState_def sample_keeper_def sample_item_def)
  moreover have "validatePayload sample_ext (sample_keeper None) sample_ctx
      (sample_req\<lparr>msg_ExecutionPayload := ''blobs''\<rparr>) sample_state = Ok blob_payload"
    by (simp add: validatePayload_def sample_req_def sample_ctx_def sample_state_def sample_ext_def
        sample_payload_def blob_payload_def evm_module_address_def ModuleName_def toUint64_def
        CalculateTimestamp_def sample_keeper_def)
  ultimately show "proposal_ExecutionPayload sample_ext (sample_keeper None) sample_ctx
      (sample_req\<lparr>msg_ExecutionPayload := ''blobs''\<rparr>) (Some sample_state) = Ok ()"
    by (auto simp: proposal_ExecutionPayload_Ok)
  show "payload_hashes sample_ext sample_ctx blob_payload =
      Err (New (''too many blobs in block: '' @ show_nat 7 @ '' > '' @ show_nat 6))"
    by (simp add: payload_hashes_def sample_ext_def sample_ctx_def blob_payload_def MaxBlobsPerBlock_def
        eval_nat_numeral)
qed (simp_all add: sample_ctx_def ctx_Err_def background_def)

end
