(* ===== verification/Query_Gateway.thy ===== *)
theory Query_Gateway
  imports Msg_Server Proto_Messages Calls
begin

text \<open>
  The HTTP gateway of the query service (\<open>x/evm/types/query.pb.gw.go\<close>) and the gRPC client and handler that it goes through
  (\<open>x/evm/types/query.pb.go\<close>). The gateway's runtime is an argument: how it reads a request and how it answers with
  an error or a message. A connection takes the name of a method and the bytes of a request.
\<close>

section \<open>The gRPC client and handler\<close>

type_synonym conn = "string \<Rightarrow> bytes \<Rightarrow> bytes outcome option"

definition params_method :: string where "params_method = ''/nexus.evm.v1.Query/Params''"

definition bindR :: "'a outcome option \<Rightarrow> ('a \<Rightarrow> 'b outcome option) \<Rightarrow> 'b outcome option" where
  "bindR m f = (case m of None \<Rightarrow> None | Some (Ok a) \<Rightarrow> f a | Some (Err e) \<Rightarrow> Some (Err e) | Some (Panic e) \<Rightarrow> Some (Panic e))"

definition queryClient_Params :: "conn \<Rightarrow> QueryParamsRequest \<Rightarrow> QueryParamsResponse outcome option" where
  "queryClient_Params Invoke inp =
     bindR (Some (QueryParamsRequest_Marshal inp)) (\<lambda>b.
     bindR (Invoke params_method b) (\<lambda>r. QueryParamsResponse_Unmarshal r QueryParamsResponse_zero))"

text \<open>The server of the module as the handlers call it.\<close>

definition queryServer_Params :: "('s, 'e) Keeper \<Rightarrow> 's \<Rightarrow> QueryParamsRequest \<Rightarrow> QueryParamsResponse outcome" where
  "queryServer_Params k s req = bindO (QueryParams k (Some ()) s) (\<lambda>p. Ok \<lparr>qr_Params = p\<rparr>)"

text \<open>\<open>_Query_Params_Handler\<close> without an interceptor: \<open>dec\<close> decodes the bytes of the request.\<close>

definition Query_Params_Handler :: "(QueryParamsRequest \<Rightarrow> QueryParamsResponse outcome) \<Rightarrow> bytes \<Rightarrow> QueryParamsResponse outcome option" where
  "Query_Params_Handler server b =
     bindR (QueryParamsRequest_Unmarshal b QueryParamsRequest_zero) (\<lambda>req. Some (server req))"

section \<open>The gateway\<close>

record ('q, 'c, 'r) GatewayRuntime =
  AnnotateIncomingContext :: "'q \<Rightarrow> 'c outcome"
  AnnotateContext :: "'q \<Rightarrow> 'c outcome"
  HTTPError :: "go_error \<Rightarrow> 'r"
  ForwardResponseMessage :: "QueryParamsResponse \<Rightarrow> 'r"

definition request_Query_Params_0 :: "(QueryParamsRequest \<Rightarrow> QueryParamsResponse outcome option) \<Rightarrow> QueryParamsResponse outcome option" where
  "request_Query_Params_0 client = client QueryParamsRequest_zero"

definition local_request_Query_Params_0 :: "(QueryParamsRequest \<Rightarrow> QueryParamsResponse outcome) \<Rightarrow> QueryParamsResponse outcome" where
  "local_request_Query_Params_0 server = server QueryParamsRequest_zero"

definition pattern_Query_Params_0 :: "string list" where
  "pattern_Query_Params_0 = [''nexus'', ''evm'', ''v1'', ''params'']"

type_synonym ('q, 'r) mux = "(string \<times> string list \<times> ('q \<Rightarrow> 'r outcome option)) list"

definition serve_local :: "('q, 'c, 'r) GatewayRuntime \<Rightarrow> (QueryParamsRequest \<Rightarrow> QueryParamsResponse outcome) \<Rightarrow> 'q \<Rightarrow> 'r outcome option" where
  "serve_local R server req =
     (case AnnotateIncomingContext R req of
        Err err \<Rightarrow> Some (Ok (HTTPError R err))
      | Panic e \<Rightarrow> Some (Panic e)
      | Ok rctx \<Rightarrow>
          (case local_request_Query_Params_0 server of
             Err err \<Rightarrow> Some (Ok (HTTPError R err))
           | Panic e \<Rightarrow> Some (Panic e)
           | Ok resp \<Rightarrow> Some (Ok (ForwardResponseMessage R resp))))"

definition serve_client ::
    "('q, 'c, 'r) GatewayRuntime \<Rightarrow> (QueryParamsRequest \<Rightarrow> QueryParamsResponse outcome option) \<Rightarrow> 'q \<Rightarrow> 'r outcome option" where
  "serve_client R client req =
     (case AnnotateContext R req of
        Err err \<Rightarrow> Some (Ok (HTTPError R err))
      | Panic e \<Rightarrow> Some (Panic e)
      | Ok rctx \<Rightarrow>
          (case request_Query_Params_0 client of
             None \<Rightarrow> None
           | Some (Err err) \<Rightarrow> Some (Ok (HTTPError R err))
           | Some (Panic e) \<Rightarrow> Some (Panic e)
           | Some (Ok resp) \<Rightarrow> Some (Ok (ForwardResponseMessage R resp))))"

definition RegisterQueryHandlerServer ::
    "('q, 'c, 'r) GatewayRuntime \<Rightarrow> (QueryParamsRequest \<Rightarrow> QueryParamsResponse outcome) \<Rightarrow> ('q, 'r) mux \<Rightarrow> unit outcome \<times> ('q, 'r) mux" where
  "RegisterQueryHandlerServer R server mux = (Ok (), (''GET'', pattern_Query_Params_0, serve_local R server) # mux)"

definition RegisterQueryHandlerClient ::
    "('q, 'c, 'r) GatewayRuntime \<Rightarrow> (QueryParamsRequest \<Rightarrow> QueryParamsResponse outcome option) \<Rightarrow> ('q, 'r) mux \<Rightarrow> unit outcome \<times> ('q, 'r) mux" where
  "RegisterQueryHandlerClient R client mux = (Ok (), (''GET'', pattern_Query_Params_0, serve_client R client) # mux)"

definition RegisterQueryHandler ::
    "('q, 'c, 'r) GatewayRuntime \<Rightarrow> conn \<Rightarrow> ('q, 'r) mux \<Rightarrow> unit outcome \<times> ('q, 'r) mux" where
  "RegisterQueryHandler R cc mux = RegisterQueryHandlerClient R (queryClient_Params cc) mux"

text \<open>
  The connections that are open and those that a goroutine closes when the context is done: a connection is closed
  at once if registering failed.
\<close>

record ('q, 'r) GatewayState =
  gw_mux :: "('q, 'r) mux"
  gw_open :: "string list"
  gw_close_on_done :: "string list"

definition RegisterQueryHandlerFromEndpoint ::
    "('q, 'c, 'r) GatewayRuntime \<Rightarrow> (string \<Rightarrow> conn outcome) \<Rightarrow> string \<Rightarrow> (('q, 'r) GatewayState, unit) proc" where
  "RegisterQueryHandlerFromEndpoint R Dial endpoint =
     bindP (pureP (Dial endpoint)) (\<lambda>cc.
       callK (\<lambda>g. case RegisterQueryHandler R cc (gw_mux g) of
         (Ok _, m) \<Rightarrow> (Ok (), g\<lparr>gw_mux := m, gw_open := endpoint # gw_open g, gw_close_on_done := endpoint # gw_close_on_done g\<rparr>)
       | (e, m) \<Rightarrow> (e, g\<lparr>gw_mux := m\<rparr>)))"

section \<open>Lemmas\<close>

text \<open>A connection to a server of the module, which encodes what the handler returns.\<close>

definition server_conn :: "(QueryParamsRequest \<Rightarrow> QueryParamsResponse outcome) \<Rightarrow> conn" where
  "server_conn server method b =
     (if method = params_method then bindR (Query_Params_Handler server b) (\<lambda>r. Some (QueryParamsResponse_Marshal r))
      else Some (Err (New ''rpc error: code = Unimplemented desc = unknown method'')))"

lemma request_round_trip:
  "\<exists>b. QueryParamsRequest_Marshal QueryParamsRequest_zero = Ok b
     \<and> QueryParamsRequest_Unmarshal b QueryParamsRequest_zero = Some (Ok QueryParamsRequest_zero)"
proof -
  have "length (QueryParamsRequest_wire QueryParamsRequest_zero) < 2 ^ 63" by (simp add: QueryParamsRequest_wire_def)
  then show ?thesis
    unfolding QueryParamsRequest_Marshal_def QueryParamsRequest_MarshalToSizedBuffer_def QueryParamsRequest_Unmarshal_def
      queryParamsRequest_msg.marshal_wire
    by (simp add: queryParamsRequest_msg.unmarshal_wire)
qed

lemma response_round_trip:
  "\<exists>b. QueryParamsResponse_Marshal r = Ok b \<and> QueryParamsResponse_Unmarshal b QueryParamsResponse_zero = Some (Ok r)"
proof -
  have "QueryParamsResponse_Size r < 2 ^ 63"
    using sov_bounds(2) [of 0] by (simp add: QueryParamsResponse_Size_def Params_Size_def)
  then show ?thesis
    unfolding QueryParamsResponse_Marshal_def QueryParamsResponse_MarshalToSizedBuffer_def QueryParamsResponse_Unmarshal_def
      queryParamsResponse_msg.marshal_wire
    by (simp add: queryParamsResponse_msg.unmarshal_wire queryParamsResponse_msg.size_wire)
qed

lemma client_of_server: "queryClient_Params (server_conn server) QueryParamsRequest_zero = Some (server QueryParamsRequest_zero)"
proof -
  obtain b where b: "QueryParamsRequest_Marshal QueryParamsRequest_zero = Ok b"
    "QueryParamsRequest_Unmarshal b QueryParamsRequest_zero = Some (Ok QueryParamsRequest_zero)" using request_round_trip by blast
  show ?thesis
  proof (cases "server QueryParamsRequest_zero")
    case (Ok r)
    obtain c where "QueryParamsResponse_Marshal r = Ok c" "QueryParamsResponse_Unmarshal c QueryParamsResponse_zero = Some (Ok r)"
      using response_round_trip by blast
    with b Ok show ?thesis by (simp add: queryClient_Params_def server_conn_def Query_Params_Handler_def bindR_def)
  qed (use b in \<open>simp_all add: queryClient_Params_def server_conn_def Query_Params_Handler_def bindR_def\<close>)
qed

section \<open>Properties\<close>

text \<open>
  It does not matter how the gateway reaches the query service: a route that goes over a connection, through the
  encodings of the request and the response, answers every request as the route that calls the server in the process does, errors
  included.
\<close>

theorem gateway_routes_agree:
  assumes "AnnotateContext R = AnnotateIncomingContext R"
  shows "snd (RegisterQueryHandler R (server_conn (queryServer_Params k s)) m)
    = snd (RegisterQueryHandlerServer R (queryServer_Params k s) m)"
proof -
  have "serve_client R (queryClient_Params (server_conn (queryServer_Params k s))) q = serve_local R (queryServer_Params k s) q" for q
    by (simp add: serve_client_def serve_local_def request_Query_Params_0_def local_request_Query_Params_0_def client_of_server assms
        split: outcome.splits)
  then show ?thesis
    by (auto simp: RegisterQueryHandler_def RegisterQueryHandlerClient_def RegisterQueryHandlerServer_def)
qed

end
