(* ===== verification/Abci.thy ===== *)
theory Abci
  imports Msg_Server
begin

text \<open>
  Building a block (\<open>x/evm/keeper/abci.go\<close>): \<open>PrepareProposal\<close> asks the execution client to build
  a payload on the head, waits, polls for it and wraps it into a transaction. The store is only
  read. The node's own state is \<open>Node\<close>: the variable \<open>lastLoggedRPCVersion\<close>, the lines the handler
  logs, and the outside. The local variables the closures assign are the first components of the
  state of \<open>retry\<close>.
\<close>

section \<open>Durations\<close>

text \<open>\<open>time.Duration.String()\<close> on a duration of whole milliseconds.\<close>

definition show_fraction :: "nat \<Rightarrow> string" where
  "show_fraction ms =
     (if ms = 0 then []
      else ''.'' @ rev (dropWhile (\<lambda>c. c = CHR ''0'')
             (rev (show_nat (ms div 100) @ show_nat (ms div 10 mod 10) @ show_nat (ms mod 10)))))"

definition show_duration :: "nat \<Rightarrow> string" where
  "show_duration ms =
     (if ms = 0 then ''0s''
      else if ms < 1000 then show_nat ms @ ''ms''
      else (if ms < 3600000 then [] else show_nat (ms div 3600000) @ ''h'')
         @ (if ms < 60000 then [] else show_nat (ms div 60000 mod 60) @ ''m'')
         @ show_nat (ms mod 60000 div 1000) @ show_fraction (ms mod 1000) @ ''s'')"

section \<open>Transactions\<close>

text \<open>
  The messages of a transaction, by the Go type of the message: the two messages of the module, the types of
  the allowlist in \<open>app/proposal.go\<close>, and every other type with the name \<open>%T\<close> prints. A message
  of another module is its encoded body.
\<close>

datatype sdk_msg =
    ExecutionPayloadMsg MsgExecutionPayload
  | UpdateParamsMsg MsgUpdateParams
  | MsgSubmitProposal bytes
  | MsgVote bytes
  | MsgVoteWeighted bytes
  | MsgDeposit bytes
  | MsgSend bytes
  | MsgSoftwareUpgrade bytes
  | MsgCancelUpgrade bytes
  | OtherMsg string bytes

text \<open>
  What the program reads of \<open>sdk.Tx\<close>; the fields after \<open>isSigningTx\<close> are the methods of
  \<open>signing.Tx\<close>, which a transaction has when \<open>isSigningTx\<close> holds. \<open>GetFee\<close> is \<open>None\<close> for a nil slice.
\<close>

record Tx =
  GetMsgs :: "sdk_msg list"
  isSigningTx :: bool
  GetSignaturesV2 :: "bytes list outcome"
  GetMemo :: string
  GetFee :: "bytes list option"
  FeePayer :: bytes
  FeeGranter :: "bytes option"

record TxConfig =
  TxDecoder :: "bytes \<Rightarrow> Tx outcome"
  NewTxBuilder :: Tx
  SetMsgs :: "sdk_msg list \<Rightarrow> Tx \<Rightarrow> Tx outcome"
  TxEncoder :: "Tx \<Rightarrow> bytes outcome"

section \<open>The node's own state\<close>

datatype log_entry =
    VersionChanged u64 u64 int int
  | ForkchoiceFailed u64 u64 int string
  | UnknownPayloadRetry nat u64 int PayloadID string
  | GetPayloadFailed u64 u64 int PayloadID string

record 'e Node =
  lastLoggedRPCVersion :: int
  log_lines :: "log_entry list"
  outside :: 'e

definition emit :: "log_entry \<Rightarrow> 'e Node \<Rightarrow> 'e Node" where
  "emit l n = n\<lparr>log_lines := log_lines n @ [l]\<rparr>"

section \<open>Operations\<close>

definition prepareTimeout :: nat where "prepareTimeout = 10000"
definition buildDelay :: nat where "buildDelay = 100"
definition unknownPayloadLogEvery :: nat where "unknownPayloadLogEvery = 25"
definition maxUnknownPayloadPoll :: nat where "maxUnknownPayloadPoll = 5000"
definition maxConsecutiveUnknownPayloadAttempts :: nat where
  "maxConsecutiveUnknownPayloadAttempts = maxUnknownPayloadPoll div retryDelay"

definition isPayloadUnknown :: "Ext \<Rightarrow> go_error option \<Rightarrow> bool" where
  "isPayloadUnknown X err = (case err of None \<Rightarrow> False
     | Some e \<Rightarrow> Contains (ToLower (error_text e)) (ToLower (UnknownPayloadText X)))"

definition build_attributes ::
    "('s, 'e) Keeper \<Rightarrow> SdkContext \<Rightarrow> hash \<Rightarrow> u64 \<Rightarrow> BlockState \<Rightarrow> PayloadAttributes" where
  "build_attributes k ctx appHash blockHeight state =
     \<lparr>AttrTimestamp = CalculateTimestamp k (BlockTime ctx) blockHeight (Timestamp state),
      Random = Hash state, AttrFeeRecipient = SuggestedFeeRecipient k,
      AttrWithdrawals = [], BeaconRoot = Some appHash\<rparr>"

definition buildExecutionPayload ::
    "('s, 'e) Keeper \<Rightarrow> SdkContext \<Rightarrow> hash \<Rightarrow> u64 \<Rightarrow> 's \<Rightarrow> 'e \<Rightarrow> ForkChoiceResponse outcome \<times> 'e" where
  "buildExecutionPayload k ctx appHash blockHeight s e =
     (case GetBlockState k s of
        Err err \<Rightarrow> (Err err, e)
      | Panic err \<Rightarrow> (Panic err, e)
      | Ok state \<Rightarrow> ForkchoiceUpdatedV3 (k_engineClient k) (head_state (Hash state))
          (Some (build_attributes k ctx appHash blockHeight state)) e)"

text \<open>The swap of \<open>lastLoggedRPCVersion\<close> and the line it logs when the version changes.\<close>

definition swap_version :: "u64 \<Rightarrow> u64 \<Rightarrow> int \<Rightarrow> 'e Node \<Rightarrow> 'e Node" where
  "swap_version height timestamp rpcVer n =
     (let n' = n\<lparr>lastLoggedRPCVersion := rpcVer\<rparr>
      in if lastLoggedRPCVersion n \<noteq> rpcVer
         then emit (VersionChanged height timestamp (lastLoggedRPCVersion n) rpcVer) n' else n')"

text \<open>The two closures passed to \<open>retry\<close>, the first over the variable \<open>payloadID\<close>.\<close>

definition build_attempt ::
    "('s, 'e) Keeper \<Rightarrow> SdkContext \<Rightarrow> hash \<Rightarrow> u64 \<Rightarrow> u64 \<Rightarrow> int \<Rightarrow> 's \<Rightarrow> (PayloadID \<times> 'e Node, bool) proc" where
  "build_attempt k ctx appHash height timestamp rpcVer s = (\<lambda>(payloadID, n).
     case buildExecutionPayload k ctx appHash height s (outside n) of
       (Err err, e) \<Rightarrow> Some (Ok False,
          (payloadID, emit (ForkchoiceFailed height timestamp rpcVer (error_text err)) (n\<lparr>outside := e\<rparr>)))
     | (Panic err, e) \<Rightarrow> Some (Panic err, (payloadID, n\<lparr>outside := e\<rparr>))
     | (Ok response, e) \<Rightarrow>
         let w = (payloadID, n\<lparr>outside := e\<rparr>)
         in if ResponseStatus response \<noteq> VALID
            then Some (Err (New (''forkchoice not updated with status: '' @ status_text (ResponseStatus response))), w)
            else (case ResponsePayloadID response of
                    None \<Rightarrow> Some (Err (New ''payload ID is nil''), w)
                  | Some pid \<Rightarrow> Some (Ok True, (pid, n\<lparr>outside := e\<rparr>))))"

definition getPayload ::
    "('s, 'e) Keeper \<Rightarrow> u64 \<Rightarrow> PayloadID \<Rightarrow> 'e \<Rightarrow> ExecutableData outcome \<times> 'e" where
  "getPayload k timestamp payloadID e =
     (if IsOsakaActive (chainSpec k) timestamp then GetPayloadV5 (k_engineClient k) payloadID e
      else if IsPragueActive (chainSpec k) timestamp then GetPayloadV4 (k_engineClient k) payloadID e
      else GetPayloadV3 (k_engineClient k) payloadID e)"

definition still_unknown :: "nat \<Rightarrow> u64 \<Rightarrow> int \<Rightarrow> PayloadID \<Rightarrow> go_error \<Rightarrow> go_error" where
  "still_unknown attempts height rpcVer payloadID err =
     Wrapf (''PrepareProposal: engine getPayload still unknown after ~'' @ show_duration (attempts * retryDelay)
        @ '' of polling ('' @ show_nat attempts @ '' attempts, '' @ show_duration retryDelay
        @ '' between attempts; height='' @ show_u64 height @ '' get_payload_rpc_version='' @ show_int rpcVer
        @ '' payload_id=0x'' @ hex_encode payloadID @ ''): '') err []"

text \<open>The second closure, over \<open>consecutiveUnknownPayload\<close> and \<open>payloadResponse\<close>.\<close>

definition get_attempt ::
    "Ext \<Rightarrow> ('s, 'e) Keeper \<Rightarrow> u64 \<Rightarrow> u64 \<Rightarrow> PayloadID
     \<Rightarrow> (nat \<times> ExecutableData option \<times> 'e Node, bool) proc" where
  "get_attempt X k height timestamp payloadID = (\<lambda>(consecutive, resp, n).
     let rpcVer = GetPayloadEngineRPCVersion (chainSpec k) timestamp
     in case getPayload k timestamp payloadID (outside n) of
       (Panic err, e) \<Rightarrow> Some (Panic err, (consecutive, resp, n\<lparr>outside := e\<rparr>))
     | (Ok payload, e) \<Rightarrow> Some (Ok True, (0, Some payload, n\<lparr>outside := e\<rparr>))
     | (Err err, e) \<Rightarrow>
         let n1 = n\<lparr>outside := e\<rparr>
         in if isPayloadUnknown X (Some err) then
              (let c = consecutive + 1;
                   n2 = (if c = 1 \<or> c mod unknownPayloadLogEvery = 0
                         then emit (UnknownPayloadRetry c height rpcVer payloadID (error_text err)) n1 else n1)
               in if c \<ge> maxConsecutiveUnknownPayloadAttempts
                  then Some (Err (still_unknown c height rpcVer payloadID err), (c, None, n2))
                  else Some (Ok False, (c, None, n2)))
            else Some (Ok False, (0, None,
              emit (GetPayloadFailed height timestamp rpcVer payloadID (error_text err)) n1)))"

definition encode_payload :: "Ext \<Rightarrow> TxConfig \<Rightarrow> ExecutableData \<Rightarrow> bytes list outcome" where
  "encode_payload X txConfig payload =
     bindO (MarshalPayload X payload) (\<lambda>payloadData.
     let payloadMessage = \<lparr>msg_Authority = AddressString X (NewModuleAddress X ModuleName),
                           msg_ExecutionPayload = payloadData\<rparr>
     in bindO (SetMsgs txConfig [ExecutionPayloadMsg payloadMessage] (NewTxBuilder txConfig)) (\<lambda>builder.
     bindO (TxEncoder txConfig builder) (\<lambda>tx.
     if length tx > MaxTxSize
     then Err (New (''transaction too large: '' @ show_nat (length tx)
            @ '' bytes exceeds maximum of '' @ show_nat MaxTxSize @ '' bytes''))
     else Ok [tx])))"

definition retryN :: "'e Runtime \<Rightarrow> 'e Context \<Rightarrow> ('l \<times> 'e Node, bool) proc \<Rightarrow> ('l \<times> 'e Node, unit) proc" where
  "retryN rt goctx fn =
     retry (\<lambda>(l, n). ctx_Err rt goctx (outside n))
       (\<lambda>(l, n). (l, n\<lparr>outside := Sleep rt retryDelay (outside n)\<rparr>)) fn"

text \<open>\<open>retry\<close> over two local variables.\<close>

definition retryN2 ::
    "'e Runtime \<Rightarrow> 'e Context \<Rightarrow> ('l \<times> 'm \<times> 'e Node, bool) proc \<Rightarrow> ('l \<times> 'm \<times> 'e Node, unit) proc" where
  "retryN2 rt goctx fn =
     retry (\<lambda>(l, m, n). ctx_Err rt goctx (outside n))
       (\<lambda>(l, m, n). (l, m, n\<lparr>outside := Sleep rt retryDelay (outside n)\<rparr>)) fn"

text \<open>The three phases of the handler after the head is read.\<close>

definition request_build ::
    "('s, 'e) Keeper \<Rightarrow> 'e Runtime \<Rightarrow> 'e Context \<Rightarrow> SdkContext \<Rightarrow> hash \<Rightarrow> u64 \<Rightarrow> u64 \<Rightarrow> int \<Rightarrow> 's
     \<Rightarrow> ('e Node, PayloadID) proc" where
  "request_build k rt goctx ctx appHash height timestamp rpcVer s n =
     (case retryN rt goctx (build_attempt k ctx appHash height timestamp rpcVer s) (replicate 8 (CHR 0x00), n) of
        None \<Rightarrow> None
      | Some (Err err, (_, n')) \<Rightarrow> Some (Err err, n')
      | Some (Panic err, (_, n')) \<Rightarrow> Some (Panic err, n')
      | Some (Ok _, (pid, n')) \<Rightarrow> Some (Ok pid, n'))"

definition wait_build :: "'e Runtime \<Rightarrow> 'e Context \<Rightarrow> ('e Node, unit) proc" where
  "wait_build rt goctx n =
     (case select_after rt goctx buildDelay (outside n) of
        (None, e) \<Rightarrow> Some (Ok (), n\<lparr>outside := e\<rparr>)
      | (Some err, e) \<Rightarrow> Some (Err err, n\<lparr>outside := e\<rparr>))"

definition poll_payload ::
    "Ext \<Rightarrow> ('s, 'e) Keeper \<Rightarrow> 'e Runtime \<Rightarrow> 'e Context \<Rightarrow> u64 \<Rightarrow> u64 \<Rightarrow> PayloadID
     \<Rightarrow> ('e Node, ExecutableData option) proc" where
  "poll_payload X k rt goctx height timestamp payloadID n =
     (case retryN2 rt goctx (get_attempt X k height timestamp payloadID) (0, None, n) of
        None \<Rightarrow> None
      | Some (Err err, (_, _, n')) \<Rightarrow> Some (Err err, n')
      | Some (Panic err, (_, _, n')) \<Rightarrow> Some (Panic err, n')
      | Some (Ok _, (_, resp, n')) \<Rightarrow> Some (Ok resp, n'))"

definition nil_dereference :: go_error where
  "nil_dereference = New ''runtime error: invalid memory address or nil pointer dereference''"

text \<open>\<open>req.Height\<close> is \<open>reqHeight\<close>; \<open>goctx\<close> is the Go context embedded in the SDK context \<open>ctx\<close>.\<close>

definition PrepareProposal ::
    "Ext \<Rightarrow> TxConfig \<Rightarrow> ('s, 'e) Keeper \<Rightarrow> 'e Runtime \<Rightarrow> 'e Context \<Rightarrow> SdkContext \<Rightarrow> i64 \<Rightarrow> 's
     \<Rightarrow> ('e Node, bytes list) proc" where
  "PrepareProposal X txConfig k rt goctx ctx reqHeight s n =
     (let timeoutCtx = WithTimeout rt goctx prepareTimeout (outside n)
      in if reqHeight = 1 then Some (Ok [], n)
      else let appHash = BytesToHash X (AppHash ctx)
      in bindP (pureP (toUint64 (HeaderHeight ctx))) (\<lambda>height.
         bindP (pureP (GetBlockState k s)) (\<lambda>state.
         let timestamp = CalculateTimestamp k (BlockTime ctx) height (Timestamp state);
             rpcVer = GetPayloadEngineRPCVersion (chainSpec k) timestamp
         in bindP (\<lambda>n. Some (Ok (), swap_version height timestamp rpcVer n)) (\<lambda>_.
            bindP (request_build k rt timeoutCtx ctx appHash height timestamp rpcVer s) (\<lambda>payloadID.
            bindP (wait_build rt timeoutCtx) (\<lambda>_.
            bindP (poll_payload X k rt timeoutCtx height timestamp payloadID) (\<lambda>payloadResponse.
            case payloadResponse of
              None \<Rightarrow> pureP (Panic nil_dereference)
            | Some payload \<Rightarrow> pureP (encode_payload X txConfig payload)))))) ) n)"

section \<open>Lemmas\<close>

subsection \<open>What a successful build did\<close>

lemma build_attempt_True:
  "build_attempt k ctx appHash height ts ver s (pid0, n) = Some (Ok True, (pid, n')) \<Longrightarrow>
   \<exists>state resp. GetBlockState k s = Ok state
     \<and> ForkchoiceUpdatedV3 (k_engineClient k) (head_state (Hash state))
         (Some (build_attributes k ctx appHash height state)) (outside n) = (Ok resp, outside n')
     \<and> ResponseStatus resp = VALID \<and> ResponsePayloadID resp = Some pid"
  by (auto simp: build_attempt_def buildExecutionPayload_def Let_def
      split: prod.splits outcome.splits if_splits option.splits)

lemma get_attempt_True:
  "get_attempt X k height ts pid (c, r, n) = Some (Ok True, (c', r', n')) \<Longrightarrow>
   \<exists>payload. r' = Some payload \<and> getPayload k ts pid (outside n) = (Ok payload, outside n')"
  by (auto simp: get_attempt_def Let_def split: prod.splits outcome.splits if_splits)

lemma request_build_Ok:
  assumes "request_build k rt goctx ctx appHash height ts ver s n = Some (Ok pid, n')"
  shows "\<exists>state resp e0. GetBlockState k s = Ok state
     \<and> ForkchoiceUpdatedV3 (k_engineClient k) (head_state (Hash state))
         (Some (build_attributes k ctx appHash height state)) e0 = (Ok resp, outside n')
     \<and> ResponseStatus resp = VALID \<and> ResponsePayloadID resp = Some pid"
proof -
  from assms have r: "retryN rt goctx (build_attempt k ctx appHash height ts ver s)
      (replicate 8 (CHR 0x00), n) = Some (Ok (), (pid, n'))"
    by (auto simp: request_build_def split: option.splits prod.splits outcome.splits)
  from retry_last [OF r [unfolded retryN_def], of "\<lambda>_. True"] obtain pid0 n0 where
    "build_attempt k ctx appHash height ts ver s (pid0, n0) = Some (Ok True, (pid, n'))"
    by auto
  from build_attempt_True [OF this] show ?thesis by blast
qed

lemma poll_payload_Ok:
  assumes "poll_payload X k rt goctx height ts pid n = Some (Ok r, n')"
  shows "\<exists>payload e0. r = Some payload \<and> getPayload k ts pid e0 = (Ok payload, outside n')"
proof -
  from assms obtain c where r: "retryN2 rt goctx (get_attempt X k height ts pid) (0, None, n) = Some (Ok (), (c, r, n'))"
    by (auto simp: poll_payload_def split: option.splits prod.splits outcome.splits)
  from retry_last [OF r [unfolded retryN2_def], of "\<lambda>_. True"] obtain c0 r0 n0 where
    "get_attempt X k height ts pid (c0, r0, n0) = Some (Ok True, (c, r, n'))"
    by auto
  from get_attempt_True [OF this] show ?thesis by blast
qed

lemma PrepareProposal_OkE:
  assumes "PrepareProposal X tc k rt goctx ctx reqHeight s n = Some (Ok txs, n')" and "reqHeight \<noteq> 1"
  obtains state resp pid payload e0 e1 e2 where
    "GetBlockState k s = Ok state" "0 \<le> sint (HeaderHeight ctx)"
    "ForkchoiceUpdatedV3 (k_engineClient k) (head_state (Hash state))
       (Some (build_attributes k ctx (BytesToHash X (AppHash ctx)) (HeaderHeight ctx) state)) e0 = (Ok resp, e1)"
    "ResponseStatus resp = VALID" "ResponsePayloadID resp = Some pid"
    "getPayload k (CalculateTimestamp k (BlockTime ctx) (HeaderHeight ctx) (Timestamp state)) pid e2
       = (Ok payload, outside n')"
    "encode_payload X tc payload = Ok txs"
proof -
  let ?c = "WithTimeout rt goctx prepareTimeout (outside n)" and ?a = "BytesToHash X (AppHash ctx)"
  from assms obtain height state n1 pid n2 n3 r where
    h: "toUint64 (HeaderHeight ctx) = Ok height" and st: "GetBlockState k s = Ok state"
    and b: "request_build k rt ?c ctx ?a height (CalculateTimestamp k (BlockTime ctx) height (Timestamp state))
       (GetPayloadEngineRPCVersion (chainSpec k) (CalculateTimestamp k (BlockTime ctx) height (Timestamp state))) s n1
       = Some (Ok pid, n2)"
    and g: "poll_payload X k rt ?c height (CalculateTimestamp k (BlockTime ctx) height (Timestamp state)) pid n3 = Some (Ok r, n')"
    and e: "(case r of None \<Rightarrow> Panic nil_dereference | Some payload \<Rightarrow> encode_payload X tc payload) = Ok txs"
    by (auto simp: PrepareProposal_def Let_def outcome_simps split: option.splits)
  from h have hh: "height = HeaderHeight ctx" "0 \<le> sint (HeaderHeight ctx)"
    by (auto simp: toUint64_def split: if_splits)
  from request_build_Ok [OF b] poll_payload_Ok [OF g] e st hh that show ?thesis by auto
qed

subsection \<open>Returning\<close>

lemma buildExecutionPayload_clock:
  "engine_clock rt (k_engineClient k) \<Longrightarrow>
   now rt e \<le> now rt (snd (buildExecutionPayload k ctx appHash height s e))"
  by (auto simp: buildExecutionPayload_def engine_clock_def split: outcome.splits)

lemma getPayload_clock:
  "engine_clock rt (k_engineClient k) \<Longrightarrow> now rt e \<le> now rt (snd (getPayload k ts pid e))"
  by (auto simp: getPayload_def engine_clock_def)

lemma build_attempt_returns:
  assumes "engine_clock rt (k_engineClient k)"
  shows "\<exists>r w'. build_attempt k ctx appHash height ts ver s w = Some (r, w')
     \<and> now rt (outside (snd w)) \<le> now rt (outside (snd w'))"
  using buildExecutionPayload_clock [OF assms, of "outside (snd w)" ctx appHash height s]
  by (auto simp: build_attempt_def Let_def emit_def split: prod.splits outcome.splits option.splits)

lemma get_attempt_returns:
  assumes "engine_clock rt (k_engineClient k)"
  shows "\<exists>r w'. get_attempt X k height ts pid w = Some (r, w')
     \<and> now rt (outside (snd (snd w))) \<le> now rt (outside (snd (snd w')))"
  using getPayload_clock [OF assms, of "outside (snd (snd w))" ts pid]
  by (auto simp: get_attempt_def Let_def emit_def split: prod.splits outcome.splits)

lemma request_build_returns:
  assumes "clock_law rt" "engine_clock rt (k_engineClient k)" "deadline goctx = Some d"
  shows "\<exists>r n'. request_build k rt goctx ctx appHash height ts ver s n = Some (r, n')"
proof -
  have "\<exists>r w'. retryN rt goctx (build_attempt k ctx appHash height ts ver s) (replicate 8 (CHR 0x00), n) = Some (r, w')"
    unfolding retryN_def case_prod_unfold
    by (rule retry_deadline_terminates [OF assms(1,3), where I = "\<lambda>_. True" and out = "\<lambda>w. outside (snd w)"])
      (use build_attempt_returns [OF assms(2)] in auto)
  then show ?thesis by (auto simp: request_build_def split: outcome.splits)
qed

lemma poll_payload_returns:
  assumes "clock_law rt" "engine_clock rt (k_engineClient k)" "deadline goctx = Some d"
  shows "\<exists>r n'. poll_payload X k rt goctx height ts pid n = Some (r, n')"
proof -
  have "\<exists>r w'. retryN2 rt goctx (get_attempt X k height ts pid) (0, None, n) = Some (r, w')"
    unfolding retryN2_def case_prod_unfold
    by (rule retry_deadline_terminates [OF assms(1,3), where I = "\<lambda>_. True" and out = "\<lambda>w. outside (snd (snd w))"])
      (use get_attempt_returns [OF assms(2)] in auto)
  then show ?thesis by (auto simp: poll_payload_def split: outcome.splits)
qed

lemma PrepareProposal_returns:
  assumes "clock_law rt" "engine_clock rt (k_engineClient k)"
  shows "\<exists>r n'. PrepareProposal X tc k rt goctx ctx reqHeight s n = Some (r, n')"
proof -
  obtain d where d: "deadline (WithTimeout rt goctx prepareTimeout (outside n)) = Some d"
    by (simp add: WithTimeout_def)
  have w: "\<exists>r n'. wait_build rt c m = Some (r, n')" for c m
    by (auto simp: wait_build_def split: prod.splits option.splits)
  have sw: "\<exists>r n'. Some (Ok (), swap_version h t v m) = Some (r, n')" for h t v m
    by simp
  have o: "\<exists>r n'. (case p of None \<Rightarrow> pureP (Panic nil_dereference)
      | Some payload \<Rightarrow> pureP (encode_payload X tc payload)) m = Some (r, n')" for p m
    by (auto simp: pureP_def split: option.splits)
  show ?thesis
    unfolding PrepareProposal_def Let_def
    by (intro if_returns bindP_returns pureP_returns w sw o request_build_returns [OF assms d]
        poll_payload_returns [OF assms d]) simp
qed

subsection \<open>Giving up on an unknown payload\<close>

lemma unknown_polling:
  assumes unk: "\<And>e. \<exists>err e'. getPayload k ts pid e = (Err err, e') \<and> isPayloadUnknown X (Some err)"
    and bg: "\<And>e. ctx_Err rt goctx e = None"
    and c: "c < maxConsecutiveUnknownPayloadAttempts"
  shows "\<exists>err w'. retryN2 rt goctx (get_attempt X k height ts pid) (c, r, n) = Some (Err
      (still_unknown maxConsecutiveUnknownPayloadAttempts height (GetPayloadEngineRPCVersion (chainSpec k) ts) pid err), w')"
  using c
proof (induction "maxConsecutiveUnknownPayloadAttempts - c" arbitrary: c r n rule: less_induct)
  case less
  obtain err e' where u: "getPayload k ts pid (outside n) = (Err err, e')" "isPayloadUnknown X (Some err)"
    using unk by blast
  show ?case
  proof (cases "Suc c < maxConsecutiveUnknownPayloadAttempts")
    case True
    with u obtain n2 where "get_attempt X k height ts pid (c, r, n) = Some (Ok False, (Suc c, None, n2))"
      by (simp add: get_attempt_def Let_def)
    moreover from True less.prems have
      "maxConsecutiveUnknownPayloadAttempts - Suc c < maxConsecutiveUnknownPayloadAttempts - c" by simp
    note less.hyps [OF this True]
    ultimately show ?thesis by (simp add: retryN2_def retry_again bg)
  next
    case False
    with less.prems have eq: "maxConsecutiveUnknownPayloadAttempts = Suc c" by simp
    with u obtain w where "get_attempt X k height ts pid (c, r, n) = Some (Err
      (still_unknown (Suc c) height (GetPayloadEngineRPCVersion (chainSpec k) ts) pid err), w)"
      by (simp add: get_attempt_def Let_def)
    then show ?thesis unfolding retryN2_def eq by (blast intro: retry_Err)
  qed
qed

subsection \<open>The version marker\<close>

text \<open>The part of the node's state that the marker is about.\<close>

definition is_VersionChanged :: "log_entry \<Rightarrow> bool" where
  "is_VersionChanged l = (case l of VersionChanged _ _ _ _ \<Rightarrow> True | _ \<Rightarrow> False)"

definition marker :: "'e Node \<Rightarrow> int \<times> log_entry list" where
  "marker n = (lastLoggedRPCVersion n, filter is_VersionChanged (log_lines n))"

lemma marker_outside [simp]: "marker (n\<lparr>outside := e\<rparr>) = marker n"
  by (simp add: marker_def)

lemma marker_emit [simp]: "\<not> is_VersionChanged l \<Longrightarrow> marker (emit l n) = marker n"
  by (simp add: marker_def emit_def)

lemma build_attempt_marker: "keeps (\<lambda>w. marker (snd w)) (build_attempt k ctx appHash height ts ver s)"
  by (auto simp: keeps_def build_attempt_def is_VersionChanged_def Let_def
      split: prod.splits outcome.splits if_splits option.splits)

lemma get_attempt_marker: "keeps (\<lambda>w. marker (snd (snd w))) (get_attempt X k height ts pid)"
  by (auto simp: keeps_def get_attempt_def is_VersionChanged_def Let_def
      split: prod.splits outcome.splits if_splits)

lemma request_build_marker: "keeps marker (request_build k rt goctx ctx appHash height ts ver s)"
proof -
  have "keeps (\<lambda>w. marker (snd w)) (retryN rt goctx (build_attempt k ctx appHash height ts ver s))"
    unfolding retryN_def by (rule keeps_retry [OF build_attempt_marker]) auto
  then show ?thesis
    by (fastforce simp: keeps_def request_build_def split: option.splits prod.splits outcome.splits)
qed

lemma poll_payload_marker: "keeps marker (poll_payload X k rt goctx height ts pid)"
proof -
  have "keeps (\<lambda>w. marker (snd (snd w))) (retryN2 rt goctx (get_attempt X k height ts pid))"
    unfolding retryN2_def by (rule keeps_retry [OF get_attempt_marker]) auto
  then show ?thesis
    by (fastforce simp: keeps_def poll_payload_def split: option.splits prod.splits outcome.splits)
qed

lemma wait_build_marker: "keeps marker (wait_build rt goctx)"
  by (auto simp: keeps_def wait_build_def split: prod.splits option.splits)

lemma PrepareProposal_marker:
  assumes run: "PrepareProposal X tc k rt goctx ctx reqHeight s n = Some (r, n')"
    and "reqHeight \<noteq> 1" "0 \<le> sint (HeaderHeight ctx)" "GetBlockState k s = Ok state"
  shows "marker n' = marker (swap_version (HeaderHeight ctx)
     (CalculateTimestamp k (BlockTime ctx) (HeaderHeight ctx) (Timestamp state))
     (GetPayloadEngineRPCVersion (chainSpec k)
        (CalculateTimestamp k (BlockTime ctx) (HeaderHeight ctx) (Timestamp state))) n)"
    (is "_ = marker (swap_version _ ?t ?v n)")
proof -
  let ?c = "WithTimeout rt goctx prepareTimeout (outside n)" and ?h = "HeaderHeight ctx"
  have last: "keeps marker (case p of None \<Rightarrow> pureP (Panic nil_dereference)
      | Some payload \<Rightarrow> pureP (encode_payload X tc payload))" for p
    by (auto intro: keeps_intros split: option.splits)
  have "toUint64 ?h = Ok ?h" using assms(3) by (simp add: toUint64_def)
  with run assms(2,4) have "bindP (request_build k rt ?c ctx (BytesToHash X (AppHash ctx)) ?h ?t ?v s) (\<lambda>payloadID.
      bindP (wait_build rt ?c) (\<lambda>_.
      bindP (poll_payload X k rt ?c ?h ?t payloadID) (\<lambda>payloadResponse.
      case payloadResponse of None \<Rightarrow> pureP (Panic nil_dereference)
        | Some payload \<Rightarrow> pureP (encode_payload X tc payload)))) (swap_version ?h ?t ?v n) = Some (r, n')"
    by (simp add: PrepareProposal_def Let_def bindP_step)
  then show ?thesis
    by (rule keepsD [rotated])
      (intro keeps_intros request_build_marker wait_build_marker poll_payload_marker last)
qed

section \<open>Properties\<close>


definition sample_tx :: "sdk_msg list \<Rightarrow> Tx" where
  "sample_tx msgs = \<lparr>GetMsgs = msgs, isSigningTx = True, GetSignaturesV2 = Ok [], GetMemo = [],
     GetFee = None, FeePayer = ''evm'', FeeGranter = None\<rparr>"

text \<open>A codec of the two transactions the witnesses use.\<close>

definition sample_req_msg :: sdk_msg where
  "sample_req_msg = ExecutionPayloadMsg sample_req"

definition sample_config :: TxConfig where
  "sample_config = \<lparr>
     TxDecoder = (\<lambda>b. if b = ''tx'' then Ok (sample_tx [sample_req_msg])
        else if b = ''send'' then Ok (sample_tx [MsgSend ''send'']) else Err (New ''tx parse error'')),
     NewTxBuilder = sample_tx [],
     SetMsgs = (\<lambda>ms t. Ok (t\<lparr>GetMsgs := ms,
        FeePayer := (case ms of [ExecutionPayloadMsg m] \<Rightarrow> drop 6 (msg_Authority m) | _ \<Rightarrow> [])\<rparr>)),
     TxEncoder = (\<lambda>t. if t = sample_tx [sample_req_msg] then Ok ''tx''
        else if t = sample_tx [MsgSend ''send''] then Ok ''send'' else Err (New ''cannot encode''))\<rparr>"

definition sample_node :: "nat Node" where
  "sample_node = \<lparr>lastLoggedRPCVersion = 0, log_lines = [], outside = 0\<rparr>"

lemma sample_request_build:
  "request_build (sample_keeper None) sample_runtime goctx sample_ctx h 2 ts v (Some sample_state) n
   = Some (Ok ''id'', n\<lparr>outside := Suc (outside n)\<rparr>)"
proof -
  have "retryN sample_runtime goctx (build_attempt (sample_keeper None) sample_ctx h 2 ts v (Some sample_state))
      (pid, n) = Some (Ok (), (''id'', n\<lparr>outside := Suc (outside n)\<rparr>))" for pid
    unfolding retryN_def
    by (rule retry_Ok) (simp add: build_attempt_def buildExecutionPayload_def GetBlockState_def
        sample_keeper_def sample_item_def sample_engine_def)
  then show ?thesis by (simp add: request_build_def)
qed

lemma sample_poll_payload:
  "poll_payload sample_ext (sample_keeper None) sample_runtime goctx h ts pid n
   = Some (Ok (Some sample_payload), n\<lparr>outside := Suc (outside n)\<rparr>)"
proof -
  have "retryN2 sample_runtime goctx (get_attempt sample_ext (sample_keeper None) h ts pid) (0, None, n)
     = Some (Ok (), (0, Some sample_payload, n\<lparr>outside := Suc (outside n)\<rparr>))"
    unfolding retryN2_def
    by (rule retry_Ok) (simp add: get_attempt_def getPayload_def sample_keeper_def sample_engine_def)
  then show ?thesis by (simp add: poll_payload_def)
qed

lemma sample_prepare:
  "\<exists>n'. PrepareProposal sample_ext sample_config (sample_keeper None) sample_runtime background
     sample_ctx 2 (Some sample_state) sample_node = Some (Ok [''tx''], n')"
proof -
  have h: "toUint64 (HeaderHeight sample_ctx) = Ok 2" by (simp add: toUint64_def sample_ctx_def)
  have s: "GetBlockState (sample_keeper None) (Some sample_state) = Ok sample_state"
    by (simp add: GetBlockState_def sample_keeper_def sample_item_def)
  have w: "wait_build sample_runtime goctx n = Some (Ok (), n\<lparr>outside := outside n + 100\<rparr>)" for goctx n
    by (simp add: wait_build_def sample_runtime_def buildDelay_def)
  have e: "encode_payload sample_ext sample_config sample_payload = Ok [''tx'']"
    by (simp add: encode_payload_def sample_ext_def sample_config_def sample_tx_def sample_req_msg_def
        sample_req_def ModuleName_def MaxTxSize_def)
  show ?thesis
    by (simp add: PrepareProposal_def Let_def bindP_def h s w e sample_request_build sample_poll_payload pureP_def)
qed


text \<open>
  C21. Building a proposal always returns: the handler puts a deadline of ten seconds on its
  context, so both polling loops end whatever the execution client answers and however slowly.
\<close>

theorem prepare_returns:
  assumes "clock_law rt" and "engine_clock rt (k_engineClient k)"
  shows "\<exists>r n'. PrepareProposal X tc k rt goctx ctx reqHeight s n = Some (r, n')"
  using assms by (rule PrepareProposal_returns)

theorem prepare_returns_witness:
  "\<exists>r n'. PrepareProposal sample_ext sample_config (sample_keeper None) sample_runtime background
     sample_ctx 5 None sample_node = Some (r, n')"
  by (rule prepare_returns [OF sample_clock_law])
    (simp add: engine_clock_def sample_keeper_def sample_engine_def sample_runtime_def)

text \<open>
  Polling for a payload that the execution client keeps reporting as unknown is given up after
  500 attempts, with an error that wraps the client's, even when the context never expires.
\<close>

theorem unknown_polling_gives_up:
  assumes "\<forall>e. \<exists>err e'. getPayload k ts pid e = (Err err, e') \<and> isPayloadUnknown X (Some err)"
    and "\<forall>e. ctx_Err rt goctx e = None"
  shows "\<exists>err n'. poll_payload X k rt goctx height ts pid n =
    Some (Err (still_unknown 500 height (GetPayloadEngineRPCVersion (chainSpec k) ts) pid err), n')"
proof -
  have c: "maxConsecutiveUnknownPayloadAttempts = 500"
    by (simp add: maxConsecutiveUnknownPayloadAttempts_def maxUnknownPayloadPoll_def retryDelay_def)
  have "\<exists>err w'. retryN2 rt goctx (get_attempt X k height ts pid) (0, None, n) = Some (Err
      (still_unknown 500 height (GetPayloadEngineRPCVersion (chainSpec k) ts) pid err), w')"
    using unknown_polling [of k ts pid X rt goctx 0 height None n] assms unfolding c by simp
  then show ?thesis by (auto simp: poll_payload_def split: prod.splits)
qed

theorem unknown_polling_gives_up_witness:
  "\<exists>err n'. poll_payload sample_ext ((sample_keeper None)\<lparr>k_engineClient :=
       sample_engine\<lparr>GetPayloadV4 := \<lambda>_ e. (Err (New ''unknown payload''), e + 1)\<rparr>\<rparr>) sample_runtime background
      2 100 ''id'' sample_node = Some (Err (still_unknown 500 2 4 ''id'' err), n')"
proof -
  let ?k = "(sample_keeper None)\<lparr>k_engineClient :=
       sample_engine\<lparr>GetPayloadV4 := \<lambda>_ e. (Err (New ''unknown payload''), e + 1)\<rparr>\<rparr>"
  have v: "GetPayloadEngineRPCVersion (chainSpec ?k) 100 = 4"
    by (simp add: sample_keeper_def GetPayloadEngineRPCVersion_def IsOsakaActive_def IsPragueActive_def)
  have "\<forall>e. \<exists>err e'. getPayload ?k 100 ''id'' e = (Err err, e') \<and> isPayloadUnknown sample_ext (Some err)"
    by (simp add: sample_keeper_def getPayload_def IsOsakaActive_def IsPragueActive_def isPayloadUnknown_def
        sample_ext_def) code_simp
  moreover have "\<forall>e. ctx_Err sample_runtime background e = None"
    by (simp add: ctx_Err_def background_def)
  ultimately show ?thesis using unknown_polling_gives_up unfolding v [symmetric] by blast
qed

text \<open>
  Each change of the \<open>getPayload\<close> version is logged once: a call that reaches the swap leaves the
  version of its timestamp as the last one logged, and adds one marker line if, and only if, the
  version differs from the one logged before; the retries that follow add none.
\<close>

theorem version_change_logged_once:
  assumes "PrepareProposal X tc k rt goctx ctx reqHeight s n = Some (r, n')"
    and "reqHeight \<noteq> 1" and "0 \<le> sint (HeaderHeight ctx)" and "GetBlockState k s = Ok state"
    and "ts = CalculateTimestamp k (BlockTime ctx) (HeaderHeight ctx) (Timestamp state)"
    and "v = GetPayloadEngineRPCVersion (chainSpec k) ts"
  shows "lastLoggedRPCVersion n' = v \<and>
    filter is_VersionChanged (log_lines n') = filter is_VersionChanged (log_lines n) @
      (if lastLoggedRPCVersion n = v then []
       else [VersionChanged (HeaderHeight ctx) ts (lastLoggedRPCVersion n) v])"
  using PrepareProposal_marker [OF assms(1-4)] assms(5,6)
  by (auto simp: marker_def swap_version_def emit_def Let_def is_VersionChanged_def)

theorem version_change_logged_once_witness:
  "\<exists>n'. lastLoggedRPCVersion (n' :: nat Node) = 4 \<and>
     filter is_VersionChanged (log_lines n') = [VersionChanged 2 100 0 4]"
proof -
  obtain n' where run: "PrepareProposal sample_ext sample_config (sample_keeper None) sample_runtime background
     sample_ctx 2 (Some sample_state) sample_node = Some (Ok [''tx''], n')"
    using sample_prepare by blast
  have "lastLoggedRPCVersion n' = 4 \<and> filter is_VersionChanged (log_lines n') =
      filter is_VersionChanged (log_lines sample_node) @ (if lastLoggedRPCVersion sample_node = 4 then []
        else [VersionChanged (HeaderHeight sample_ctx) 100 (lastLoggedRPCVersion sample_node) 4])"
    by (rule version_change_logged_once [OF run, where state = sample_state])
      (simp_all add: sample_ctx_def sample_state_def sample_keeper_def GetBlockState_def sample_item_def
        CalculateTimestamp_def GetPayloadEngineRPCVersion_def IsOsakaActive_def IsPragueActive_def)
  then show ?thesis by (auto simp: sample_node_def sample_ctx_def)
qed

end
