(* ===== verification/Proposal.thy ===== *)
theory Proposal
  imports Abci
begin

text \<open>
  Blocks as proposed and as voted on (\<open>app/proposal.go\<close>): the allowlist of messages, the
  classification of transactions, the handler that builds a proposal and the handler that decides
  whether to vote for one. The ten-second context of the second handler is read by no call it
  makes, so the model has none there.
\<close>

section \<open>Transactions of a block\<close>

record parsedTx =
  raw :: bytes
  tx :: Tx
  isEVM :: bool

fun allowedMsgTypes :: "sdk_msg \<Rightarrow> bool" where
  "allowedMsgTypes (MsgSubmitProposal _) = True"
| "allowedMsgTypes (MsgVote _) = True"
| "allowedMsgTypes (MsgVoteWeighted _) = True"
| "allowedMsgTypes (MsgDeposit _) = True"
| "allowedMsgTypes (MsgSend _) = True"
| "allowedMsgTypes (MsgSoftwareUpgrade _) = True"
| "allowedMsgTypes (MsgCancelUpgrade _) = True"
| "allowedMsgTypes _ = False"

text \<open>What \<open>%T\<close> prints; the types of the allowlist are never printed.\<close>

fun type_name :: "sdk_msg \<Rightarrow> string" where
  "type_name (ExecutionPayloadMsg _) = ''*types.MsgExecutionPayload''"
| "type_name (UpdateParamsMsg _) = ''*types.MsgUpdateParams''"
| "type_name (MsgSubmitProposal _) = ''*v1.MsgSubmitProposal''"
| "type_name (MsgVote _) = ''*v1.MsgVote''"
| "type_name (MsgVoteWeighted _) = ''*v1.MsgVoteWeighted''"
| "type_name (MsgDeposit _) = ''*v1.MsgDeposit''"
| "type_name (MsgSend _) = ''*types.MsgSend''"
| "type_name (MsgSoftwareUpgrade _) = ''*types.MsgSoftwareUpgrade''"
| "type_name (MsgCancelUpgrade _) = ''*types.MsgCancelUpgrade''"
| "type_name (OtherMsg n _) = n"

fun isPayloadMsg :: "sdk_msg \<Rightarrow> bool" where
  "isPayloadMsg (ExecutionPayloadMsg _) = True"
| "isPayloadMsg _ = False"

definition validateMsgAllowed :: "Tx \<Rightarrow> unit outcome" where
  "validateMsgAllowed t =
     (case GetMsgs t of
        [m] \<Rightarrow> if isPayloadMsg m \<or> allowedMsgTypes m then Ok ()
               else Err (New (''message type '' @ type_name m @ '' not permitted''))
      | _ \<Rightarrow> Err (New ''expected exactly one message''))"

definition validateTx :: "Ext \<Rightarrow> Tx \<Rightarrow> unit outcome" where
  "validateTx X t =
     (if length (GetMsgs t) \<noteq> 1 then Err (New ''expected exactly one message'')
      else if \<not> isSigningTx t then Err (New ''expected standard transaction'')
      else bindO (GetSignaturesV2 t) (\<lambda>signatures.
        if length signatures \<noteq> 0 then Err (New ''expected no signatures'')
        else if length (GetMemo t) \<noteq> 0 then Err (New ''expected no memo'')
        else if GetFee t \<noteq> None then Err (New ''expected no fee'')
        else if FeePayer t \<noteq> NewModuleAddress X ModuleName
        then Err (New ''expected fee payer to be the evm module'')
        else if FeeGranter t \<noteq> None then Err (New ''expected no fee granter'')
        else Ok ()))"

definition parseTx :: "Ext \<Rightarrow> TxConfig \<Rightarrow> bytes \<Rightarrow> parsedTx outcome" where
  "parseTx X txConfig rawTx =
     bindO (TxDecoder txConfig rawTx) (\<lambda>t.
     bindO (validateMsgAllowed t) (\<lambda>_.
     let evm = isPayloadMsg (hd (GetMsgs t))
     in bindO (if evm then validateTx X t else Ok ()) (\<lambda>_.
        Ok \<lparr>raw = rawTx, tx = t, isEVM = evm\<rparr>)))"

section \<open>Building a proposal\<close>

text \<open>The loop that picks transactions of the mempool; \<open>cosmosTxs\<close> are those picked so far.\<close>

fun pick_txs :: "Ext \<Rightarrow> TxConfig \<Rightarrow> int \<Rightarrow> bytes list \<Rightarrow> bytes list \<Rightarrow> bytes list outcome" where
  "pick_txs X txConfig maxCosmosTxs cosmosTxs [] = Ok cosmosTxs"
| "pick_txs X txConfig maxCosmosTxs cosmosTxs (rawTx # rest) =
     (if int (length cosmosTxs) \<ge> maxCosmosTxs then Ok cosmosTxs
      else case parseTx X txConfig rawTx of
             Err _ \<Rightarrow> pick_txs X txConfig maxCosmosTxs cosmosTxs rest
           | Panic e \<Rightarrow> Panic e
           | Ok parsed \<Rightarrow>
               if isEVM parsed then pick_txs X txConfig maxCosmosTxs cosmosTxs rest
               else pick_txs X txConfig maxCosmosTxs (cosmosTxs @ [rawTx]) rest)"

record RequestPrepareProposal =
  prep_Height :: i64
  prep_Txs :: "bytes list"

definition prepareProposalHandler ::
    "Ext \<Rightarrow> TxConfig \<Rightarrow> ('s, 'e) Keeper \<Rightarrow> int \<Rightarrow> 'e Runtime \<Rightarrow> 'e Context \<Rightarrow> SdkContext
     \<Rightarrow> RequestPrepareProposal \<Rightarrow> 's \<Rightarrow> ('e Node, bytes list) proc" where
  "prepareProposalHandler X txConfig k maxCosmosTxs rt goctx ctx req s =
     (if prep_Height req = 1 then pureP (Ok [])
      else bindP (pureP (pick_txs X txConfig maxCosmosTxs [] (prep_Txs req))) (\<lambda>cosmosTxs.
        bindP (PrepareProposal X txConfig k rt goctx ctx (prep_Height req) s) (\<lambda>evmTxs.
        pureP (Ok (cosmosTxs @ evmTxs)))))"

section \<open>Voting on a proposal\<close>

datatype block_id_flag = BlockIDFlagUnknown | BlockIDFlagAbsent | BlockIDFlagCommit | BlockIDFlagNil

record VoteInfo =
  Power :: i64
  BlockIdFlag :: block_id_flag

record RequestProcessProposal =
  proc_Height :: i64
  proc_Txs :: "bytes list"
  Votes :: "VoteInfo list"

datatype proposal_status = ACCEPT | REJECT go_error

definition rejectProposal :: "go_error \<Rightarrow> proposal_status outcome" where
  "rejectProposal err = Ok (REJECT err)"

text \<open>The loop over the last commit: the total power and the power that committed, as \<open>int64\<close>.\<close>

definition tally :: "VoteInfo list \<Rightarrow> i64 \<times> i64" where
  "tally votes = foldl (\<lambda>(total, voted) v.
     (total + Power v, if BlockIdFlag v = BlockIDFlagCommit then voted + Power v else voted)) (0, 0) votes"

text \<open>The loop over the transactions: \<open>cosmosTxCount\<close> and \<open>evmMsg\<close> are its variables.\<close>

fun classify ::
    "Ext \<Rightarrow> TxConfig \<Rightarrow> int \<Rightarrow> int \<Rightarrow> MsgExecutionPayload option \<Rightarrow> bytes list
     \<Rightarrow> MsgExecutionPayload option outcome" where
  "classify X txConfig maxCosmosTxs cosmosTxCount evmMsg [] = Ok evmMsg"
| "classify X txConfig maxCosmosTxs cosmosTxCount evmMsg (rawTx # rest) =
     (if length rawTx > MaxTxSize
      then Err (New (''transaction too large: '' @ show_nat (length rawTx)
             @ '' bytes exceeds maximum of '' @ show_nat MaxTxSize @ '' bytes''))
      else bindO (parseTx X txConfig rawTx) (\<lambda>parsed.
        let isLast = (rest = [])
        in if isEVM parsed \<and> \<not> isLast then Err (New ''EVM payload must be the last transaction'')
           else if \<not> isEVM parsed \<and> isLast then Err (New ''last transaction must be the EVM payload'')
           else if \<not> isEVM parsed then
             (if cosmosTxCount + 1 > maxCosmosTxs
              then Err (New (''too many cosmos transactions: max '' @ show_int maxCosmosTxs))
              else classify X txConfig maxCosmosTxs (cosmosTxCount + 1) evmMsg rest)
           else (case hd (GetMsgs (tx parsed)) of
                   ExecutionPayloadMsg msg \<Rightarrow> classify X txConfig maxCosmosTxs cosmosTxCount (Some msg) rest
                 | _ \<Rightarrow> Err (New ''expected EVM payload message''))))"

text \<open>The router of \<open>makeProcessProposalRouter\<close>: the handlers of the proposal server of the module.\<close>

definition proposalRouter ::
    "Ext \<Rightarrow> ('s, 'e) Keeper \<Rightarrow> sdk_msg \<Rightarrow> (SdkContext \<Rightarrow> 's \<Rightarrow> unit outcome) option" where
  "proposalRouter X k m =
     (case m of
        ExecutionPayloadMsg msg \<Rightarrow> Some (\<lambda>ctx. proposal_ExecutionPayload X k ctx msg)
      | UpdateParamsMsg msg \<Rightarrow> Some (\<lambda>_ _. proposal_UpdateParams msg)
      | _ \<Rightarrow> None)"

definition processProposalHandler ::
    "(sdk_msg \<Rightarrow> (SdkContext \<Rightarrow> 's \<Rightarrow> unit outcome) option) \<Rightarrow> Ext \<Rightarrow> TxConfig \<Rightarrow> int \<Rightarrow> SdkContext
     \<Rightarrow> RequestProcessProposal \<Rightarrow> 's \<Rightarrow> proposal_status outcome" where
  "processProposalHandler router X txConfig maxCosmosTxs ctx req s =
     (if proc_Height req = 1 then
        (if length (proc_Txs req) > 0 then rejectProposal (New ''initial block cannot have transactions'')
         else Ok ACCEPT)
      else if length (proc_Txs req) = 0
      then rejectProposal (New ''block must contain at least one transaction'')
      else let (totalPower, votedPower) = tally (Votes req)
      in if sint votedPower \<le> sint (quot_i64 (totalPower * 2) 3)
      then rejectProposal (New ''reject blocks with less than (or equal to) 2/3 of the voting power'')
      else (case classify X txConfig maxCosmosTxs 0 None (proc_Txs req) of
        Err err \<Rightarrow> rejectProposal err
      | Panic err \<Rightarrow> Panic err
      | Ok None \<Rightarrow> Panic nil_dereference
      | Ok (Some evmMsg) \<Rightarrow>
          (case router (ExecutionPayloadMsg evmMsg) of
             None \<Rightarrow> rejectProposal (New ''expected handler'')
           | Some handler \<Rightarrow>
               (case handler ctx s of
                  Err err \<Rightarrow> rejectProposal err
                | Panic err \<Rightarrow> Panic err
                | Ok _ \<Rightarrow> Ok ACCEPT))))"

section \<open>Lemmas\<close>

subsection \<open>Transactions\<close>

text \<open>A transaction that may stand before the payload, and one that may carry it.\<close>

definition cosmos_tx :: "TxConfig \<Rightarrow> bytes \<Rightarrow> bool" where
  "cosmos_tx tc b \<longleftrightarrow> (\<exists>t m. TxDecoder tc b = Ok t \<and> GetMsgs t = [m] \<and> allowedMsgTypes m)"

definition payload_tx :: "Ext \<Rightarrow> TxConfig \<Rightarrow> bytes \<Rightarrow> MsgExecutionPayload \<Rightarrow> bool" where
  "payload_tx X tc b m \<longleftrightarrow> (\<exists>t. TxDecoder tc b = Ok t \<and> GetMsgs t = [ExecutionPayloadMsg m]
     \<and> isSigningTx t \<and> GetSignaturesV2 t = Ok [] \<and> GetMemo t = [] \<and> GetFee t = None
     \<and> FeePayer t = NewModuleAddress X ModuleName \<and> FeeGranter t = None)"

lemma not_payload_allowed: "allowedMsgTypes m \<Longrightarrow> \<not> isPayloadMsg m"
  by (cases m) auto

lemma isPayloadMsg_iff: "isPayloadMsg m \<longleftrightarrow> (\<exists>p. m = ExecutionPayloadMsg p)"
  by (cases m) auto

lemma validateMsgAllowed_Ok:
  "validateMsgAllowed t = Ok () \<longleftrightarrow> (\<exists>m. GetMsgs t = [m] \<and> (isPayloadMsg m \<or> allowedMsgTypes m))"
  by (auto simp: validateMsgAllowed_def split: list.splits)

lemma validateTx_Ok:
  "validateTx X t = Ok () \<longleftrightarrow> length (GetMsgs t) = 1 \<and> isSigningTx t \<and> GetSignaturesV2 t = Ok []
     \<and> GetMemo t = [] \<and> GetFee t = None \<and> FeePayer t = NewModuleAddress X ModuleName \<and> FeeGranter t = None"
  unfolding validateTx_def outcome_simps by auto

lemma parseTx_Ok:
  "parseTx X tc b = Ok p \<longleftrightarrow> (\<exists>t m. TxDecoder tc b = Ok t \<and> GetMsgs t = [m]
     \<and> (isPayloadMsg m \<and> validateTx X t = Ok () \<or> allowedMsgTypes m)
     \<and> p = \<lparr>raw = b, tx = t, isEVM = isPayloadMsg m\<rparr>)"
  unfolding parseTx_def Let_def
  by (auto simp: outcome_simps validateMsgAllowed_Ok not_payload_allowed split: if_splits)

lemma parseTx_cosmos: "parseTx X tc b = Ok p \<Longrightarrow> \<not> isEVM p \<Longrightarrow> cosmos_tx tc b"
  by (auto simp: parseTx_Ok cosmos_tx_def)

lemma cosmos_parseTx: "cosmos_tx tc b \<Longrightarrow> \<exists>p. parseTx X tc b = Ok p \<and> \<not> isEVM p"
  by (fastforce simp: parseTx_Ok cosmos_tx_def not_payload_allowed)

lemma parseTx_payload:
  "parseTx X tc b = Ok p \<Longrightarrow> isEVM p \<Longrightarrow>
   \<exists>m. hd (GetMsgs (tx p)) = ExecutionPayloadMsg m \<and> payload_tx X tc b m"
  by (auto simp: parseTx_Ok payload_tx_def validateTx_Ok isPayloadMsg_iff not_payload_allowed)

lemma payload_parseTx:
  "payload_tx X tc b m \<Longrightarrow>
   \<exists>p. parseTx X tc b = Ok p \<and> isEVM p \<and> hd (GetMsgs (tx p)) = ExecutionPayloadMsg m"
  by (auto simp: parseTx_Ok payload_tx_def validateTx_Ok)

lemma classify_single:
  "classify X tc maxc cnt evm [b] = Ok r \<longleftrightarrow>
     length b \<le> MaxTxSize \<and> (\<exists>m. r = Some m \<and> payload_tx X tc b m)" (is "?l \<longleftrightarrow> ?r")
proof
  assume ?l
  then obtain p where p: "parseTx X tc b = Ok p" "isEVM p" "length b \<le> MaxTxSize"
    by (auto simp: outcome_simps Let_def split: if_splits)
  with parseTx_payload [OF p(1,2)] \<open>?l\<close> show ?r by auto
next
  assume ?r
  then show ?l using payload_parseTx by fastforce
qed

lemma classify_Cons:
  assumes "rest \<noteq> []"
  shows "classify X tc maxc cnt evm (b # rest) = Ok r \<longleftrightarrow>
    length b \<le> MaxTxSize \<and> cosmos_tx tc b \<and> cnt + 1 \<le> maxc \<and> classify X tc maxc (cnt + 1) evm rest = Ok r"
    (is "?l \<longleftrightarrow> ?r")
proof
  assume l: ?l
  with assms obtain p where "parseTx X tc b = Ok p" "\<not> isEVM p" "length b \<le> MaxTxSize" "cnt + 1 \<le> maxc"
    by (auto simp: outcome_simps Let_def split: if_splits)
  with l assms show ?r using parseTx_cosmos by auto
next
  assume ?r
  with cosmos_parseTx [of tc b X] assms show ?l by auto
qed

lemma classify_Ok:
  assumes "txs \<noteq> []"
  shows "classify X tc maxc cnt evm txs = Ok r \<longleftrightarrow>
    (\<exists>cs b m. txs = cs @ [b] \<and> r = Some m \<and> (\<forall>c\<in>set cs. cosmos_tx tc c) \<and> payload_tx X tc b m
       \<and> (\<forall>c\<in>set txs. length c \<le> MaxTxSize) \<and> (cs \<noteq> [] \<longrightarrow> cnt + int (length cs) \<le> maxc))"
  using assms
proof (induction txs arbitrary: cnt evm)
  case (Cons b rest)
  show ?case
  proof (cases "rest = []")
    case True
    then show ?thesis by (auto simp: classify_single Cons_eq_append_conv simp del: classify.simps)
  next
    case False
    then show ?thesis
      unfolding classify_Cons [OF False] Cons.IH [OF False] by (fastforce simp: Cons_eq_append_conv)
  qed
qed simp

subsection \<open>Voting power\<close>

text \<open>The powers as mathematical integers.\<close>

definition total_power :: "VoteInfo list \<Rightarrow> int" where
  "total_power vs = (\<Sum>v\<leftarrow>vs. sint (Power v))"

definition committed_power :: "VoteInfo list \<Rightarrow> int" where
  "committed_power vs = (\<Sum>v\<leftarrow>filter (\<lambda>v. BlockIdFlag v = BlockIDFlagCommit) vs. sint (Power v))"

text \<open>The bound CometBFT keeps: no negative power, and a total of at most \<open>MaxInt64 / 8\<close>.\<close>

definition bounded_power :: "VoteInfo list \<Rightarrow> bool" where
  "bounded_power vs \<longleftrightarrow> (\<forall>v\<in>set vs. 0 \<le> sint (Power v)) \<and> total_power vs \<le> (2 ^ 63 - 1) div 8"

lemma tally_word:
  "foldl (\<lambda>(total, voted) v. (total + Power v,
      if BlockIdFlag v = BlockIDFlagCommit then voted + Power v else voted)) (a, b) vs
   = (a + word_of_int (total_power vs), b + word_of_int (committed_power vs))"
  by (induction vs arbitrary: a b) (auto simp: total_power_def committed_power_def algebra_simps)

lemma tally_eq: "tally vs = (word_of_int (total_power vs), word_of_int (committed_power vs))"
  by (simp add: tally_def tally_word)

lemma power_bounds:
  "\<forall>v\<in>set vs. 0 \<le> sint (Power v) \<Longrightarrow> 0 \<le> committed_power vs \<and> committed_power vs \<le> total_power vs"
  by (induction vs) (auto simp: total_power_def committed_power_def)

lemma sint_small: "0 \<le> i \<Longrightarrow> i < 2 ^ 63 \<Longrightarrow> sint (word_of_int i :: i64) = i"
  by (simp add: sint_word_ariths signed_take_bit_int_eq_self sint_sbintrunc')

text \<open>Under the bound the comparison of the code is the exact one.\<close>

lemma quorum_exact:
  assumes "bounded_power vs" and "tally vs = (t, v)"
  shows "sint v \<le> sint (quot_i64 (t * 2) 3) \<longleftrightarrow> 3 * committed_power vs \<le> 2 * total_power vs"
proof -
  from assms(1) have b: "0 \<le> committed_power vs" "committed_power vs \<le> total_power vs"
      "total_power vs < 2 ^ 60"
    using power_bounds [of vs] by (auto simp: bounded_power_def)
  from assms(2) have tv: "t * 2 = word_of_int (2 * total_power vs)" "v = word_of_int (committed_power vs)"
    by (auto simp: tally_eq)
  have t: "sint (t * 2) = 2 * total_power vs" "sint v = committed_power vs"
    using b by (auto simp: tv sint_small simp del: of_int_mult)
  have "sint (quot_i64 (t * 2) 3) = 2 * total_power vs div 3"
    unfolding quot_i64_def t using b
    by (cases "total_power vs = 0") (auto simp: sint_small simp del: of_int_mult)
  then show ?thesis unfolding t by linarith
qed

subsection \<open>The handlers\<close>

lemma process_ACCEPT:
  assumes "proc_Height req \<noteq> 1"
  shows "processProposalHandler (proposalRouter X k) X tc maxc ctx req s = Ok ACCEPT \<longleftrightarrow>
    (\<exists>cs b m t v. proc_Txs req = cs @ [b] \<and> tally (Votes req) = (t, v) \<and> \<not> sint v \<le> sint (quot_i64 (t * 2) 3)
      \<and> (\<forall>c\<in>set cs. cosmos_tx tc c) \<and> payload_tx X tc b m \<and> (\<forall>c\<in>set (proc_Txs req). length c \<le> MaxTxSize)
      \<and> (cs \<noteq> [] \<longrightarrow> int (length cs) \<le> maxc) \<and> proposal_ExecutionPayload X k ctx m s = Ok ())"
proof (cases "proc_Txs req = []")
  case True
  with assms show ?thesis by (simp add: processProposalHandler_def rejectProposal_def)
next
  case False
  obtain t v where tv: "tally (Votes req) = (t, v)" by force
  have "processProposalHandler (proposalRouter X k) X tc maxc ctx req s = Ok ACCEPT \<longleftrightarrow>
    \<not> sint v \<le> sint (quot_i64 (t * 2) 3) \<and>
    (\<exists>m. classify X tc maxc 0 None (proc_Txs req) = Ok (Some m) \<and> proposal_ExecutionPayload X k ctx m s = Ok ())"
    using assms False
    by (auto simp: processProposalHandler_def rejectProposal_def proposalRouter_def tv
        split: outcome.splits option.splits)
  also have "\<dots> \<longleftrightarrow> (\<exists>cs b m. proc_Txs req = cs @ [b] \<and> \<not> sint v \<le> sint (quot_i64 (t * 2) 3)
      \<and> (\<forall>c\<in>set cs. cosmos_tx tc c) \<and> payload_tx X tc b m \<and> (\<forall>c\<in>set (proc_Txs req). length c \<le> MaxTxSize)
      \<and> (cs \<noteq> [] \<longrightarrow> int (length cs) \<le> maxc) \<and> proposal_ExecutionPayload X k ctx m s = Ok ())"
    unfolding classify_Ok [OF False] by auto
  finally show ?thesis using tv by simp
qed

lemma pick_txs_Ok:
  "pick_txs X tc maxc acc txs = Ok cs \<Longrightarrow>
   \<exists>ys. cs = acc @ ys \<and> (\<forall>y\<in>set ys. cosmos_tx tc y \<and> y \<in> set txs)
     \<and> (ys \<noteq> [] \<longrightarrow> int (length cs) \<le> maxc)"
proof (induction txs arbitrary: acc)
  case (Cons b rest)
  show ?case
  proof (cases "int (length acc) \<ge> maxc")
    case False
    show ?thesis
    proof (cases "\<exists>p. parseTx X tc b = Ok p \<and> \<not> isEVM p")
      case True
      then obtain p where p: "parseTx X tc b = Ok p" "\<not> isEVM p" by blast
      with Cons.prems False have "pick_txs X tc maxc (acc @ [b]) rest = Ok cs" by simp
      from Cons.IH [OF this] obtain ys where ys: "cs = (acc @ [b]) @ ys"
        "\<forall>y\<in>set ys. cosmos_tx tc y \<and> y \<in> set rest" "ys \<noteq> [] \<longrightarrow> int (length cs) \<le> maxc" by blast
      moreover have "cosmos_tx tc b" using p by (rule parseTx_cosmos)
      ultimately show ?thesis using False by (intro exI [of _ "b # ys"]) auto
    next
      case no: False
      with Cons.prems False have "pick_txs X tc maxc acc rest = Ok cs"
        by (auto split: outcome.splits if_splits)
      from Cons.IH [OF this] show ?thesis by auto
    qed
  qed (use Cons.prems in auto)
qed simp

text \<open>
  The transaction codec: a transaction decodes to what was encoded; a fresh builder holds only the
  messages set, and the fee payer of a transaction without one is the signer of its message, which
  for a payload is the address its authority spells.
\<close>

definition txconfig_law :: "Ext \<Rightarrow> TxConfig \<Rightarrow> bool" where
  "txconfig_law X tc \<longleftrightarrow>
     (\<forall>t b. TxEncoder tc t = Ok b \<longrightarrow> TxDecoder tc b = Ok t) \<and>
     (\<forall>m a t. msg_Authority m = AddressString X a \<longrightarrow>
        SetMsgs tc [ExecutionPayloadMsg m] (NewTxBuilder tc) = Ok t \<longrightarrow>
        GetMsgs t = [ExecutionPayloadMsg m] \<and> isSigningTx t \<and> GetSignaturesV2 t = Ok [] \<and> GetMemo t = []
        \<and> GetFee t = None \<and> FeePayer t = a \<and> FeeGranter t = None)"

text \<open>
  The execution client, asked to build on the stored head: the payload it later returns is the next
  block of the chain of that head, has the requested timestamp and withdrawals and the fields of
  the Cancun fork, and no witness.
\<close>

definition engine_builds :: "('s, 'e) Keeper \<Rightarrow> BlockState \<Rightarrow> PayloadAttributes \<Rightarrow> bool" where
  "engine_builds k state attrs \<longleftrightarrow>
     (\<forall>e0 resp e1 pid ts e2 p e3.
        ForkchoiceUpdatedV3 (k_engineClient k) (head_state (Hash state)) (Some attrs) e0 = (Ok resp, e1) \<longrightarrow>
        ResponseStatus resp = VALID \<longrightarrow> ResponsePayloadID resp = Some pid \<longrightarrow>
        getPayload k ts pid e2 = (Ok p, e3) \<longrightarrow>
        ParentHash p = Hash state \<and> Number p = Height state + 1 \<and> PayloadTimestamp p = AttrTimestamp attrs
        \<and> Withdrawals p = Some (AttrWithdrawals attrs) \<and> BlobGasUsed p \<noteq> None \<and> ExcessBlobGas p \<noteq> None
        \<and> ExecutionWitness p = None)"

lemma txconfig_decode: "txconfig_law X tc \<Longrightarrow> TxEncoder tc t = Ok b \<Longrightarrow> TxDecoder tc b = Ok t"
  by (simp add: txconfig_law_def)

lemma txconfig_builder:
  "txconfig_law X tc \<Longrightarrow> msg_Authority m = AddressString X a \<Longrightarrow>
   SetMsgs tc [ExecutionPayloadMsg m] (NewTxBuilder tc) = Ok t \<Longrightarrow>
   GetMsgs t = [ExecutionPayloadMsg m] \<and> isSigningTx t \<and> GetSignaturesV2 t = Ok [] \<and> GetMemo t = []
   \<and> GetFee t = None \<and> FeePayer t = a \<and> FeeGranter t = None"
  unfolding txconfig_law_def by blast

lemma encode_payload_tx:
  assumes "txconfig_law X tc" "encode_payload X tc p = Ok txs"
  obtains b body where "txs = [b]" "length b \<le> MaxTxSize" "MarshalPayload X p = Ok body"
    "payload_tx X tc b \<lparr>msg_Authority = evm_module_address X, msg_ExecutionPayload = body\<rparr>"
proof -
  from assms(2) obtain body t b where *: "MarshalPayload X p = Ok body"
    "SetMsgs tc [ExecutionPayloadMsg \<lparr>msg_Authority = evm_module_address X, msg_ExecutionPayload = body\<rparr>]
       (NewTxBuilder tc) = Ok t"
    "TxEncoder tc t = Ok b" "txs = [b]" "length b \<le> MaxTxSize"
    by (auto simp: encode_payload_def outcome_simps Let_def evm_module_address_def)
  moreover have "payload_tx X tc b \<lparr>msg_Authority = evm_module_address X, msg_ExecutionPayload = body\<rparr>"
    using txconfig_decode [OF assms(1) *(3)] txconfig_builder [OF assms(1) _ *(2)]
    by (simp add: payload_tx_def evm_module_address_def)
  ultimately show ?thesis using that by blast
qed

section \<open>Properties\<close>

text \<open>
  C6. The decision to vote for a proposal, in declarative terms: above height 1 a proposal is
  accepted if, and only if, more than two thirds of the voting power committed to the last block
  (exactly, with no rounding or wrap-around, for every distribution of power CometBFT allows), its
  transactions are at most \<open>maxCosmosTxs\<close> transactions with one permitted message each, followed by
  exactly one payload transaction that is unsigned, free of fee and memo and paid by the module, no
  transaction exceeds \<open>MaxTxSize\<close>, and the payload is from the module and is a well-formed block
  that extends the stored head with the prescribed timestamp.
\<close>

theorem process_accepts_iff:
  assumes "bounded_power (Votes req)" and "proc_Height req \<noteq> 1"
  shows "processProposalHandler (proposalRouter X k) X tc maxc ctx req s = Ok ACCEPT \<longleftrightarrow>
    3 * committed_power (Votes req) > 2 * total_power (Votes req) \<and>
    (\<forall>c\<in>set (proc_Txs req). length c \<le> MaxTxSize) \<and>
    (\<exists>cosmos b m state p. proc_Txs req = cosmos @ [b]
       \<and> (\<forall>c\<in>set cosmos. cosmos_tx tc c) \<and> (cosmos \<noteq> [] \<longrightarrow> int (length cosmos) \<le> maxc)
       \<and> payload_tx X tc b m \<and> msg_Authority m = evm_module_address X
       \<and> UnmarshalPayload X (msg_ExecutionPayload m) = Ok p
       \<and> GetBlockState k s = Ok state \<and> well_formed p \<and> extends state p \<and> 0 \<le> sint (HeaderHeight ctx)
       \<and> PayloadTimestamp p = CalculateTimestamp k (BlockTime ctx) (HeaderHeight ctx) (Timestamp state))"
proof -
  obtain t v where tv: "tally (Votes req) = (t, v)" by force
  have q: "\<not> sint v \<le> sint (quot_i64 (t * 2) 3) \<longleftrightarrow> 3 * committed_power (Votes req) > 2 * total_power (Votes req)"
    using quorum_exact [OF assms(1) tv] by linarith
  show ?thesis
    unfolding process_ACCEPT [OF assms(2)] proposal_ExecutionPayload_Ok validatePayload_Ok tv prod.inject
    using q by blast
qed

definition sample_proposal :: RequestProcessProposal where
  "sample_proposal = \<lparr>proc_Height = 2, proc_Txs = [''send'', ''tx''],
     Votes = [\<lparr>Power = 3, BlockIdFlag = BlockIDFlagCommit\<rparr>, \<lparr>Power = 1, BlockIdFlag = BlockIDFlagNil\<rparr>]\<rparr>"

lemma sample_txs:
  "cosmos_tx sample_config ''send''" "payload_tx sample_ext sample_config ''tx'' sample_req"
  by (simp_all add: cosmos_tx_def payload_tx_def sample_config_def sample_tx_def sample_req_msg_def
      sample_ext_def ModuleName_def)

lemma sample_power:
  "bounded_power (Votes sample_proposal)" "committed_power (Votes sample_proposal) = 3"
  "total_power (Votes sample_proposal) = 4"
  by (simp_all add: bounded_power_def sample_proposal_def total_power_def committed_power_def)

lemma sample_facts:
  "msg_Authority sample_req = evm_module_address sample_ext"
  "UnmarshalPayload sample_ext (msg_ExecutionPayload sample_req) = Ok sample_payload"
  "GetBlockState (sample_keeper ubt) (Some sample_state) = Ok sample_state"
  "well_formed sample_payload" "extends sample_state sample_payload" "0 \<le> sint (HeaderHeight sample_ctx)"
  "PayloadTimestamp sample_payload =
     CalculateTimestamp (sample_keeper None) (BlockTime sample_ctx) (HeaderHeight sample_ctx) (Timestamp sample_state)"
  by (simp_all add: sample_req_def sample_ext_def evm_module_address_def ModuleName_def GetBlockState_def
      sample_keeper_def sample_item_def well_formed_def extends_def sample_payload_def sample_state_def
      sample_ctx_def CalculateTimestamp_def)

theorem process_accepts_iff_witness:
  "processProposalHandler (proposalRouter sample_ext (sample_keeper None)) sample_ext sample_config 1
     sample_ctx sample_proposal (Some sample_state) = Ok ACCEPT"
proof -
  have h: "proc_Height sample_proposal \<noteq> 1" by (simp add: sample_proposal_def)
  have t: "proc_Txs sample_proposal = [''send''] @ [''tx'']" by (simp add: sample_proposal_def)
  show ?thesis
    unfolding process_accepts_iff [OF sample_power(1) h] sample_power
  proof (intro conjI exI)
    show "proc_Txs sample_proposal = [''send''] @ [''tx'']" by (rule t)
    show "\<forall>c\<in>set [''send'']. cosmos_tx sample_config c" using sample_txs(1) by simp
    show "payload_tx sample_ext sample_config ''tx'' sample_req" by (rule sample_txs)
  qed (use sample_facts in \<open>auto simp: sample_proposal_def MaxTxSize_def\<close>)
qed

text \<open>
  A proposal between two nodes: the one that builds has the keeper \<open>k\<close> and the state \<open>s\<close>, the one that votes
  \<open>k'\<close> and \<open>s'\<close>. They need the same head and the same clock.
\<close>

lemma proposal_between_nodes:
  assumes codec: "txconfig_law X tc" "payload_codec_law X"
    and head: "GetBlockState k s = Ok state" and head': "GetBlockState k' s' = Ok state"
    and clock: "CalculateTimestamp k' (BlockTime ctx) (HeaderHeight ctx) (Timestamp state)
      = CalculateTimestamp k (BlockTime ctx) (HeaderHeight ctx) (Timestamp state)"
    and builds: "engine_builds k state
      (build_attributes k ctx (BytesToHash X (AppHash ctx)) (HeaderHeight ctx) state)"
    and later: "Timestamp state < CalculateTimestamp k (BlockTime ctx) (HeaderHeight ctx) (Timestamp state)"
    and sizes: "\<forall>c\<in>set (prep_Txs preq). length c \<le> MaxTxSize"
    and run: "prepareProposalHandler X tc k maxc rt goctx ctx preq s n = Some (Ok txs, n')"
    and req: "proc_Height req = prep_Height preq" "proc_Txs req = txs" "prep_Height preq \<noteq> 1"
    and power: "bounded_power (Votes req)" "3 * committed_power (Votes req) > 2 * total_power (Votes req)"
  shows "processProposalHandler (proposalRouter X k') X tc maxc ctx req s' = Ok ACCEPT"
proof -
  from run req(3) obtain cs evm where cs: "pick_txs X tc maxc [] (prep_Txs preq) = Ok cs"
    and evm: "PrepareProposal X tc k rt goctx ctx (prep_Height preq) s n = Some (Ok evm, n')" and txs: "txs = cs @ evm"
    by (auto simp: prepareProposalHandler_def outcome_simps)
  from evm req(3) obtain resp pid p e0 e1 e2 where
    fc: "ForkchoiceUpdatedV3 (k_engineClient k) (head_state (Hash state))
      (Some (build_attributes k ctx (BytesToHash X (AppHash ctx)) (HeaderHeight ctx) state)) e0 = (Ok resp, e1)"
      "ResponseStatus resp = VALID" "ResponsePayloadID resp = Some pid"
    and get: "getPayload k (CalculateTimestamp k (BlockTime ctx) (HeaderHeight ctx) (Timestamp state)) pid e2
      = (Ok p, outside n')"
    and enc: "encode_payload X tc p = Ok evm" and h: "0 \<le> sint (HeaderHeight ctx)"
    by (rule PrepareProposal_OkE) (use head in auto)
  from codec(1) enc obtain b body where b: "evm = [b]" "length b \<le> MaxTxSize" "MarshalPayload X p = Ok body"
    "payload_tx X tc b \<lparr>msg_Authority = evm_module_address X, msg_ExecutionPayload = body\<rparr>"
    by (rule encode_payload_tx)
  have dec: "UnmarshalPayload X body = Ok p" using codec(2) b(3) by (simp add: payload_codec_law_def)
  have p: "extends state p" "well_formed p"
    "PayloadTimestamp p = CalculateTimestamp k (BlockTime ctx) (HeaderHeight ctx) (Timestamp state)"
    using builds [unfolded engine_builds_def, rule_format, OF fc get] later
    by (auto simp: extends_def well_formed_def build_attributes_def)
  from pick_txs_Ok [OF cs] have c: "\<forall>c\<in>set cs. cosmos_tx tc c \<and> length c \<le> MaxTxSize"
    "cs \<noteq> [] \<longrightarrow> int (length cs) \<le> maxc" using sizes by auto
  obtain t v where tv: "tally (Votes req) = (t, v)" by force
  have q: "\<not> sint v \<le> sint (quot_i64 (t * 2) 3)" using quorum_exact [OF power(1) tv] power(2) by simp
  have ok: "proposal_ExecutionPayload X k' ctx
      \<lparr>msg_Authority = evm_module_address X, msg_ExecutionPayload = body\<rparr> s' = Ok ()"
    using head' h p dec clock by (simp add: proposal_ExecutionPayload_Ok validatePayload_Ok)
  have ht: "proc_Height req \<noteq> 1" using req by simp
  show ?thesis
    unfolding process_ACCEPT [OF ht] req(2) txs b(1) using c b(2,4) tv q ok by auto
qed


lemma sample_txconfig_law: "txconfig_law sample_ext sample_config"
  by (auto simp: txconfig_law_def sample_config_def sample_tx_def sample_ext_def sample_req_msg_def split: if_splits)

lemma sample_engine_builds: "engine_builds (sample_keeper None) sample_state
   (build_attributes (sample_keeper None) sample_ctx h (HeaderHeight sample_ctx) sample_state)"
  using sample_facts(4,5,7)
  by (auto simp: engine_builds_def getPayload_def sample_keeper_def sample_engine_def extends_def
      well_formed_def build_attributes_def)


end
