(* ===== verification/Chain.thy ===== *)
theory Chain
  imports Proposal
begin

text \<open>
  The node as a state machine over its store: a block is finalized, a finalization fails, the
  parameters are updated, or time passes outside (queries, proposals). The chain of finalized
  payloads is the sequence of labels of a run. \<open>head_machine\<close> is the contract between the stored
  head and the machine; the lemmas about chains are proved from it and reach the node through its
  interpretation.
\<close>

section \<open>Chains\<close>

text \<open>A sequence of payloads that extends a block, and the head after it.\<close>

fun chained :: "BlockState \<Rightarrow> ExecutableData list \<Rightarrow> bool" where
  "chained b [] = True"
| "chained b (p # ps) = (extends b p \<and> well_formed p \<and> chained (next_head p) ps)"

fun head_after :: "BlockState \<Rightarrow> ExecutableData list \<Rightarrow> BlockState" where
  "head_after b [] = b"
| "head_after b (p # ps) = head_after (next_head p) ps"

lemma next_head_simps [simp]:
  "Hash (next_head p) = BlockHash p" "Height (next_head p) = Number p"
  "Timestamp (next_head p) = PayloadTimestamp p"
  by (simp_all add: next_head_def)

lemma head_after_append: "head_after b (ps @ [p]) = next_head p"
  by (induction ps arbitrary: b) auto

lemma chained_append: "chained b (ps @ [p]) \<longleftrightarrow> chained b ps \<and> extends (head_after b ps) p \<and> well_formed p"
  by (induction ps arbitrary: b) auto

lemma chained_Height: "chained b ps \<Longrightarrow> Height (head_after b ps) = Height b + of_nat (length ps)"
  by (induction ps arbitrary: b) (auto simp: extends_def)

lemma chained_sorted: "chained b ps \<Longrightarrow> sorted_wrt (<) (Timestamp b # map PayloadTimestamp ps)"
proof (induction ps arbitrary: b)
  case (Cons p ps)
  then have "Timestamp b < PayloadTimestamp p" "sorted_wrt (<) (PayloadTimestamp p # map PayloadTimestamp ps)"
    using Cons.IH [of "next_head p"] by (auto simp: extends_def)
  then show ?case by auto
qed simp

lemma chained_time: "chained b ps \<Longrightarrow> unat (Timestamp b) + length ps \<le> unat (Timestamp (head_after b ps))"
proof (induction ps arbitrary: b)
  case (Cons p ps)
  then have "unat (Timestamp b) < unat (PayloadTimestamp p)" by (simp add: extends_def word_less_nat_alt)
  with Cons.IH [of "next_head p"] Cons.prems show ?case by simp
qed simp

lemma chained_parents: "chained b ps \<Longrightarrow> map ParentHash ps = butlast (Hash b # map BlockHash ps)"
  by (induction ps arbitrary: b) (auto simp: extends_def)

section \<open>Runs\<close>

inductive run :: "('w \<Rightarrow> 'l option \<Rightarrow> 'w \<Rightarrow> bool) \<Rightarrow> 'w \<Rightarrow> 'l list \<Rightarrow> 'w \<Rightarrow> bool"
  for step where
  run_start: "run step w [] w"
| run_silent: "run step w ls w1 \<Longrightarrow> step w1 None w2 \<Longrightarrow> run step w ls w2"
| run_label: "run step w ls w1 \<Longrightarrow> step w1 (Some l) w2 \<Longrightarrow> run step w (ls @ [l]) w2"

text \<open>
  The contract: a step labelled with a payload found a head that the payload extends and left the
  payload's block as the head; any other step left the head alone.
\<close>

locale head_machine =
  fixes head :: "'w \<Rightarrow> BlockState outcome"
    and step :: "'w \<Rightarrow> ExecutableData option \<Rightarrow> 'w \<Rightarrow> bool"
  assumes advance: "step w (Some p) w' \<Longrightarrow>
      \<exists>b. head w = Ok b \<and> extends b p \<and> well_formed p \<and> head w' = Ok (next_head p)"
    and keep: "step w None w' \<Longrightarrow> head w' = head w"
begin

lemma run_head: "run step w ps w' \<Longrightarrow> head w = Ok b \<Longrightarrow> chained b ps \<and> head w' = Ok (head_after b ps)"
proof (induction rule: run.induct)
  case (run_silent w ps w1 w2)
  then show ?case using keep by simp
next
  case (run_label w ps w1 p w2)
  then show ?case using advance [of w1 p w2] by (auto simp: chained_append head_after_append)
qed simp

lemma run_bounded:
  assumes "run step w ps w'" and "head w = Ok b"
  shows "unat (Timestamp b) + length ps < 2 ^ 64"
proof -
  from run_head [OF assms] have "unat (Timestamp b) + length ps \<le> unat (Timestamp (head_after b ps))"
    by (blast intro: chained_time)
  moreover have "unat (Timestamp (head_after b ps)) < 2 ^ LENGTH(64)" by (rule unsigned_less)
  ultimately show ?thesis by simp
qed

end

section \<open>The node\<close>

inductive node_step ::
    "Ext \<Rightarrow> ('s, 'e) Keeper \<Rightarrow> 'e Runtime \<Rightarrow> 's \<times> 'e \<Rightarrow> ExecutableData option \<Rightarrow> 's \<times> 'e \<Rightarrow> bool"
  for X k rt where
  finalize_ok: "ExecutionPayload X k rt goctx ctx req w = Some (Ok (), w') \<Longrightarrow>
     UnmarshalPayload X (msg_ExecutionPayload req) = Ok p \<Longrightarrow> node_step X k rt w (Some p) w'"
| finalize_failed: "ExecutionPayload X k rt goctx ctx req w = Some (r, w') \<Longrightarrow> r \<noteq> Ok () \<Longrightarrow>
     node_step X k rt w None w'"
| update_params: "UpdateParams k upd w = Some (r, w') \<Longrightarrow> node_step X k rt w None w'"
| elsewhere: "node_step X k rt (s, e) None (s, e')"

text \<open>
  What the store's library promises: the head is stored and read back, and the parameters are kept
  under another key. A step of a node whose store keeps these promises:
\<close>

definition lawful_store :: "('s, 'e) Keeper \<Rightarrow> bool" where
  "lawful_store k \<longleftrightarrow> item_law (BlockStateItem k) \<and>
     (\<forall>p s. GetBlockState k (snd (item_Set (ParamsItem k) p s)) = GetBlockState k s)"

definition lawful_step ::
    "Ext \<Rightarrow> ('s, 'e) Keeper \<Rightarrow> 'e Runtime \<Rightarrow> 's \<times> 'e \<Rightarrow> ExecutableData option \<Rightarrow> 's \<times> 'e \<Rightarrow> bool" where
  "lawful_step X k rt w l w' \<longleftrightarrow> lawful_store k \<and> node_step X k rt w l w'"

inductive_cases node_step_SomeE: "node_step X k rt w (Some p) w'"
inductive_cases node_step_NoneE: "node_step X k rt w None w'"

lemma UpdateParams_keeps_head:
  assumes "lawful_store k"
  shows "keeps (\<lambda>w. GetBlockState k (fst w)) (UpdateParams k upd)"
proof -
  have "keeps (\<lambda>w. GetBlockState k (fst w)) (writeS (item_Set (ParamsItem k) p))" for p
    unfolding keeps_def writeS_Some using assms
    by (auto simp: lawful_store_def) (metis snd_conv)
  then show ?thesis unfolding UpdateParams_def by (intro keeps_intros)
qed

lemma finalize_advances:
  assumes law: "item_law (BlockStateItem k)"
    and run: "ExecutionPayload X k rt goctx ctx req w = Some (Ok (), w')"
    and dec: "UnmarshalPayload X (msg_ExecutionPayload req) = Ok p"
  shows "\<exists>b. GetBlockState k (fst w) = Ok b \<and> extends b p \<and> well_formed p
     \<and> GetBlockState k (fst w') = Ok (next_head p)"
proof -
  obtain s e s' e' where w: "w = (s, e)" "w' = (s', e')" by (cases w, cases w')
  from run [unfolded w] obtain state q where st: "GetBlockState k s = Ok state"
    and v: "validatePayload X k ctx req state = Ok q" and set: "SetBlockState k (next_head q) s = (Ok (), s')"
    by (rule ExecutionPayload_OkE)
  from v dec have "q = p" "extends state p" "well_formed p" by (auto simp: validatePayload_Ok)
  with st set show ?thesis
    using item_Get_Set [OF law] by (simp add: w SetBlockState_def GetBlockState_def)
qed

interpretation node: head_machine "\<lambda>w. GetBlockState k (fst w)" "lawful_step X k rt" for X k rt
proof unfold_locales
  fix w p w'
  assume "lawful_step X k rt w (Some p) w'"
  then show "\<exists>b. GetBlockState k (fst w) = Ok b \<and> extends b p \<and> well_formed p
     \<and> GetBlockState k (fst w') = Ok (next_head p)"
    by (auto simp: lawful_step_def lawful_store_def elim!: node_step_SomeE intro: finalize_advances)
next
  fix w w'
  assume *: "lawful_step X k rt w None w'"
  then have law: "lawful_store k" "item_law (BlockStateItem k)" by (auto simp: lawful_step_def lawful_store_def)
  from * have "node_step X k rt w None w'" by (simp add: lawful_step_def)
  then show "GetBlockState k (fst w') = GetBlockState k (fst w)"
  proof (rule node_step_NoneE)
    fix goctx ctx req r
    assume "ExecutionPayload X k rt goctx ctx req w = Some (r, w')" "r \<noteq> Ok ()"
    then show ?thesis using keeps_failD [OF ExecutionPayload_keeps_fail [OF law(2)]] by auto
  next
    fix upd r
    assume "UpdateParams k upd w = Some (r, w')"
    then show ?thesis using keepsD [OF UpdateParams_keeps_head [OF law(1)]] by auto
  qed auto
qed

section \<open>From a vote to a finalized payload\<close>

text \<open>What a vote for a payload checked still holds when the payload is executed, and what execution then needs of the client.\<close>

lemma accepted_validates:
  assumes "proposal_ExecutionPayload X k pctx m s = Ok ()" "UnmarshalPayload X (msg_ExecutionPayload m) = Ok p"
    and "HeaderHeight ctx = HeaderHeight pctx" "BlockTime ctx = BlockTime pctx"
  shows "\<exists>state. GetBlockState k s = Ok state \<and> validatePayload X k ctx m state = Ok p"
  using assms by (auto simp: proposal_ExecutionPayload_Ok validatePayload_Ok)

lemma payload_executes:
  assumes mode: "ExecMode ctx = ExecModeFinalize" and ne: "length (msg_ExecutionPayload m) \<noteq> 0"
    and st: "GetBlockState k s = Ok state" and v: "validatePayload X k ctx m state = Ok p"
    and send: "sendPayload X k ctx p e = (Ok status, e1)" "status \<in> {VALID, SYNCING}"
    and fc: "ForkchoiceUpdatedV3 (k_engineClient k) (head_state (BlockHash p)) None e1 = (Ok resp, e2)"
      "ResponseStatus resp \<noteq> INVALID"
    and store: "SetBlockState k (next_head p) s = (Ok (), s')"
  shows "ExecutionPayload X k rt goctx ctx m (s, e) = Some (Ok (), (s', e2))"
proof -
  have r1: "retryE rt goctx (send_attempt X k ctx p) (s, e) = Some (Ok (), (s, e1))"
    unfolding retryE_def by (rule retry_Ok) (use send in \<open>auto simp: send_attempt_def\<close>)
  have r2: "retryE rt goctx (forkchoice_attempt k (head_state (BlockHash p))) (s, e1) = Some (Ok (), (s, e2))"
    unfolding retryE_def by (rule retry_Ok) (use fc in \<open>auto simp: forkchoice_attempt_def\<close>)
  show ?thesis
    using store mode ne
    by (simp add: ExecutionPayload_def bindP_def readS_def pureP_def writeS_def st v r1 r2 next_head_def)
qed

section \<open>Properties\<close>

text \<open>
  C4. Whatever the node does, its finalized payloads form a chain: from a head \<open>b\<close>, after any run
  of finalizations, failures and parameter updates, the payloads finalized link each to the block
  before it, their timestamps strictly increase, the stored head is the last of them, and its
  height is \<open>b\<close>'s plus their number.
\<close>

theorem finalized_payloads_form_chain:
  assumes store: "lawful_store k" and steps: "run (lawful_step X k rt) w ps w'"
    and head: "GetBlockState k (fst w) = Ok b"
  shows "GetBlockState k (fst w') = Ok (head_after b ps)
    \<and> map ParentHash ps = butlast (Hash b # map BlockHash ps)
    \<and> sorted_wrt (<) (Timestamp b # map PayloadTimestamp ps)
    \<and> Height (head_after b ps) = Height b + of_nat (length ps)
    \<and> unat (Timestamp b) + length ps < 2 ^ 64"
proof -
  from node.run_head [OF steps head] have "chained b ps" "GetBlockState k (fst w') = Ok (head_after b ps)" by auto
  with node.run_bounded [OF steps head] show ?thesis
    by (simp add: chained_parents chained_sorted chained_Height del: sorted_wrt.simps)
qed

lemma sample_lawful_store: "lawful_store (sample_keeper None)"
  using sample_item_law by (simp add: lawful_store_def sample_keeper_def sample_params_item_def)

theorem finalized_payloads_form_chain_witness:
  "Height (head_after sample_state [sample_payload]) = 1 \<and>
   map ParentHash [sample_payload] = butlast (Hash sample_state # map BlockHash [sample_payload])"
proof -
  let ?step = "lawful_step sample_ext (sample_keeper None) sample_runtime"
  have "?step (Some sample_state, 0) (Some sample_payload) (Some (next_head sample_payload), 2)"
    using finalize_ok [OF sample_finalize sample_facts(2)] sample_lawful_store by (simp add: lawful_step_def)
  from run_label [of ?step, OF run_start this]
  have r: "run ?step (Some sample_state, 0) [sample_payload] (Some (next_head sample_payload), 2)" by simp
  have h: "GetBlockState (sample_keeper None) (fst (Some sample_state, 0 :: nat)) = Ok sample_state"
    by (simp add: sample_facts)
  from finalized_payloads_form_chain [OF sample_lawful_store r h] show ?thesis
    by (simp add: sample_state_def)
qed

text \<open>The proposal of the witnesses is accepted, and the client takes its payload.\<close>

lemma sample_accepted:
  "processProposalHandler (proposalRouter sample_ext (sample_keeper None)) sample_ext sample_config 1
     sample_ctx sample_proposal (Some sample_state) = Ok ACCEPT"
proof -
  have h: "proc_Height sample_proposal \<noteq> 1" by (simp add: sample_proposal_def)
  have q: "\<not> sint v \<le> sint (quot_i64 (t * 2) 3)" if "tally (Votes sample_proposal) = (t, v)" for t v
    using quorum_exact [OF sample_power(1) that] sample_power by simp
  have ok: "proposal_ExecutionPayload sample_ext (sample_keeper None) sample_ctx sample_req (Some sample_state) = Ok ()"
    using sample_facts by (auto simp: proposal_ExecutionPayload_Ok validatePayload_Ok)
  show ?thesis
    unfolding process_ACCEPT [OF h] using q ok sample_txs
    by (cases "tally (Votes sample_proposal)")
      (fastforce simp: sample_proposal_def MaxTxSize_def intro!: exI [of _ "[''send'']"])
qed

lemma sample_client_accepts: "sendPayload sample_ext (sample_keeper None) sample_ctx sample_payload 0 = (Ok VALID, 1)"
  by (simp add: sendPayload_def payload_hashes_def sample_ext_def sample_ctx_def sample_payload_def
      sample_keeper_def sample_engine_def MaxBlobsPerBlock_def IsAmsterdamActive_def IsPragueActive_def)

text \<open>
  What is accepted can be finalized: if a proposal was accepted, its blobs are within the limit
  and the execution client accepts the payload and the new head, then finalizing the payload of the
  proposal succeeds, whatever context it runs in, and the head becomes the payload's block.
\<close>

theorem accepted_proposal_finalizes:
  assumes accept: "processProposalHandler (proposalRouter X k) X tc maxc pctx preq s = Ok ACCEPT"
      "proc_Height preq \<noteq> 1" "proc_Txs preq = cosmos @ [b]" "payload_tx X tc b m"
    and same: "HeaderHeight ctx = HeaderHeight pctx" "BlockTime ctx = BlockTime pctx" "ExecMode ctx = ExecModeFinalize"
    and json: "\<forall>p. UnmarshalPayload X [] \<noteq> Ok p"
    and dec: "UnmarshalPayload X (msg_ExecutionPayload m) = Ok p"
    and send: "sendPayload X k ctx p e = (Ok st, e1)" "st \<in> {VALID, SYNCING}"
    and fc: "ForkchoiceUpdatedV3 (k_engineClient k) (head_state (BlockHash p)) None e1 = (Ok resp, e2)"
      "ResponseStatus resp \<noteq> INVALID"
    and store: "SetBlockState k (next_head p) s = (Ok (), s')"
  shows "ExecutionPayload X k rt goctx ctx m (s, e) = Some (Ok (), (s', e2))"
proof -
  from accept(1,3) obtain m' where m': "payload_tx X tc b m'" "proposal_ExecutionPayload X k pctx m' s = Ok ()"
    unfolding process_ACCEPT [OF accept(2)] by auto
  have "m' = m" using m'(1) accept(4) by (auto simp: payload_tx_def)
  with accepted_validates [of X k pctx m s p ctx] m'(2) dec same obtain state
    where st: "GetBlockState k s = Ok state" and v: "validatePayload X k ctx m state = Ok p" by auto
  have ne: "length (msg_ExecutionPayload m) \<noteq> 0" using dec json by auto
  show ?thesis by (rule payload_executes [OF same(3) ne st v send fc store])
qed

theorem accepted_proposal_finalizes_witness:
  "ExecutionPayload sample_ext (sample_keeper None) sample_runtime background sample_ctx sample_req
     (Some sample_state, 0) = Some (Ok (), (Some (next_head sample_payload), 2))"
  by (rule accepted_proposal_finalizes [OF sample_accepted _ _ sample_txs(2),
        where resp = "\<lparr>ResponseStatus = VALID, ResponsePayloadID = None\<rparr>" and cosmos = "[''send'']", OF _ _ _ _ _ _ _ sample_client_accepts])
    (simp_all add: sample_proposal_def sample_ctx_def sample_facts sample_ext_def sample_req_def sample_keeper_def
      sample_engine_def SetBlockState_def sample_item_def)

end
