(* ===== verification/Base64.thy ===== *)
theory Base64
  imports Go_Std
begin

text \<open>
  \<open>base64.StdEncoding\<close> of Go's standard library: \<open>EncodeToString\<close> and \<open>DecodeString\<close>. The decoder
  takes four characters at a time, skips line breaks, wants the padding that the encoder writes, and
  reports the offset of the first byte it cannot use. Bits of an incomplete last byte are ignored, as
  the standard (not strict) encoding does.
\<close>

section \<open>Definitions\<close>

definition b64_char :: "nat \<Rightarrow> char" where
  "b64_char n =
     (if n < 26 then char_of (65 + n)
      else if n < 52 then char_of (71 + n)
      else if n < 62 then char_of (n - 4)
      else if n = 62 then CHR ''+'' else CHR ''/'')"

definition b64_value :: "char \<Rightarrow> nat option" where
  "b64_value c = (let n = of_char c :: nat in
     if 65 \<le> n \<and> n \<le> 90 then Some (n - 65)
     else if 97 \<le> n \<and> n \<le> 122 then Some (n - 71)
     else if 48 \<le> n \<and> n \<le> 57 then Some (n + 4)
     else if n = 43 then Some 62
     else if n = 47 then Some 63
     else None)"

definition b64_pad :: char where "b64_pad = CHR ''=''"

text \<open>Three bytes as a number of 24 bits.\<close>

definition b64_join :: "nat \<Rightarrow> nat \<Rightarrow> nat \<Rightarrow> nat" where
  "b64_join a b c = a * 65536 + b * 256 + c"

fun b64_encode :: "bytes \<Rightarrow> string" where
  "b64_encode [] = []"
| "b64_encode [a] =
     (let v = b64_join (of_char a) 0 0
      in [b64_char (v div 262144 mod 64), b64_char (v div 4096 mod 64), b64_pad, b64_pad])"
| "b64_encode [a, b] =
     (let v = b64_join (of_char a) (of_char b) 0
      in [b64_char (v div 262144 mod 64), b64_char (v div 4096 mod 64), b64_char (v div 64 mod 64), b64_pad])"
| "b64_encode (a # b # c # bs) =
     (let v = b64_join (of_char a) (of_char b) (of_char c)
      in [b64_char (v div 262144 mod 64), b64_char (v div 4096 mod 64), b64_char (v div 64 mod 64),
          b64_char (v mod 64)] @ b64_encode bs)"

definition CorruptInputError :: "nat \<Rightarrow> go_error" where
  "CorruptInputError i = New (''illegal base64 data at input byte '' @ show_nat i)"

definition is_newline :: "char \<Rightarrow> bool" where
  "is_newline c \<longleftrightarrow> c = CHR 0x0A \<or> c = CHR 0x0D"

text \<open>The bytes of a quantum of two, three or four values.\<close>

definition b64_bytes :: "nat list \<Rightarrow> bytes" where
  "b64_bytes ds =
     (let v = (\<lambda>i. if i < length ds then ds ! i else 0);
          val = v 0 * 262144 + v 1 * 4096 + v 2 * 64 + v 3
      in take (length ds - 1) [char_of (val div 65536 mod 256), char_of (val div 256 mod 256), char_of (val mod 256)])"

text \<open>After the last padding character: only line breaks may follow.\<close>

definition b64_end :: "string \<Rightarrow> nat \<Rightarrow> nat list \<Rightarrow> bytes outcome" where
  "b64_end src si ds =
     (let rest = dropWhile is_newline src
      in if rest \<noteq> [] then Err (CorruptInputError (si + (length src - length rest))) else Ok (b64_bytes ds))"

text \<open>After the first padding character, with two or three values read.\<close>

definition b64_padding :: "string \<Rightarrow> nat \<Rightarrow> nat list \<Rightarrow> bytes outcome" where
  "b64_padding src si ds =
     (if length ds = 2 then
        (let rest = dropWhile is_newline src; si' = si + (length src - length rest)
         in case rest of
              [] \<Rightarrow> Err (CorruptInputError si')
            | c # cs \<Rightarrow> if c \<noteq> b64_pad then Err (CorruptInputError (si' - 1)) else b64_end cs (si' + 1) ds)
      else b64_end src si ds)"

fun b64_loop :: "string \<Rightarrow> nat \<Rightarrow> nat list \<Rightarrow> bytes outcome" where
  "b64_loop [] si ds = (if ds = [] then Ok [] else Err (CorruptInputError (si - length ds)))"
| "b64_loop (c # cs) si ds =
     (case b64_value c of
        Some v \<Rightarrow>
          if length ds = 3 then bindO (b64_loop cs (si + 1) []) (\<lambda>bs. Ok (b64_bytes (ds @ [v]) @ bs))
          else b64_loop cs (si + 1) (ds @ [v])
      | None \<Rightarrow>
          if is_newline c then b64_loop cs (si + 1) ds
          else if c \<noteq> b64_pad then Err (CorruptInputError si)
          else if length ds < 2 then Err (CorruptInputError si)
          else b64_padding cs (si + 1) ds)"

definition b64_decode :: "string \<Rightarrow> bytes outcome" where
  "b64_decode s = b64_loop s 0 []"

section \<open>Lemmas\<close>

lemma b64_value_char [simp]: "n < 64 \<Longrightarrow> b64_value (b64_char n) = Some n"
  by (auto simp: b64_value_def b64_char_def Let_def)

lemma b64_value_pad [simp]: "b64_value b64_pad = None"
  by (simp add: b64_value_def b64_pad_def)

lemma pad_not_newline [simp]: "\<not> is_newline b64_pad"
  by (simp add: is_newline_def b64_pad_def)

lemma b64_join_bytes:
  assumes "a < 256" "b < 256" "c < 256"
  shows "b64_join a b c < 16777216"
    "b64_join a b c div 65536 = a" "b64_join a b c div 256 mod 256 = b" "b64_join a b c mod 256 = c"
proof -
  have j: "b64_join a b c = (a * 256 + b) * 256 + c" by (simp add: b64_join_def)
  show "b64_join a b c < 16777216" "b64_join a b c div 65536 = a" using assms by (simp_all add: b64_join_def)
  show "b64_join a b c mod 256 = c" unfolding j using assms by (simp only: mod_mult_self3) simp
  have "b64_join a b c div 256 = a * 256 + b" unfolding j using assms by simp
  then show "b64_join a b c div 256 mod 256 = b" using assms by (simp only: mod_mult_self3) simp
qed

lemma b64_join_low: "b64_join a b 0 mod 64 = 0" "b64_join a 0 0 div 64 mod 64 = 0"
  by (simp_all add: b64_join_def mod_mult_right_eq)

lemma sextets:
  fixes v :: nat
  assumes "v < 16777216"
  shows "v div 262144 mod 64 * 262144 + v div 4096 mod 64 * 4096 + v div 64 mod 64 * 64 + v mod 64 = v"
proof -
  have "v div 262144 < 64" using assms by simp
  then have a: "v div 262144 mod 64 = v div 262144" by simp
  have b: "v div 4096 = 64 * (v div 262144) + v div 4096 mod 64"
    using div_mult_mod_eq [of "v div 4096" 64] by (simp add: div_mult2_eq [symmetric])
  have c: "v div 64 = 64 * (v div 4096) + v div 64 mod 64"
    using div_mult_mod_eq [of "v div 64" 64] by (simp add: div_mult2_eq [symmetric])
  have d: "v = 64 * (v div 64) + v mod 64" by simp
  show ?thesis unfolding a using b c d by linarith
qed

lemma char_of_modE: "x mod 256 = of_char c \<Longrightarrow> char_of x = c" for x :: nat
proof -
  assume "x mod 256 = of_char c"
  then have "char_of (x mod 256) = c" by simp
  then show ?thesis by simp
qed

lemma of_char_256: "of_char c < (256::nat)"
  by simp

lemma b64_bytes_4: "b64_bytes [v div 262144 mod 64, v div 4096 mod 64, v div 64 mod 64, v mod 64] = [a, b, c]"
  if v: "v = b64_join (of_char a) (of_char b) (of_char c)"
proof -
  note j = b64_join_bytes [OF of_char_256 [of a] of_char_256 [of b] of_char_256 [of c], folded v]
  show ?thesis using sextets [OF j(1)] j by (simp add: b64_bytes_def Let_def char_of_modE)
qed

lemma b64_bytes_3: "b64_bytes [v div 262144 mod 64, v div 4096 mod 64, v div 64 mod 64] = [a, b]"
  if v: "v = b64_join (of_char a) (of_char b) 0"
proof -
  note j = b64_join_bytes [OF of_char_256 [of a] of_char_256 [of b], of 0, folded v, simplified]
  show ?thesis using sextets [OF j(1)] j b64_join_low(1) [of "of_char a" "of_char b", folded v]
    by (simp add: b64_bytes_def Let_def char_of_modE)
qed

lemma b64_bytes_2: "b64_bytes [v div 262144 mod 64, v div 4096 mod 64] = [a]"
  if v: "v = b64_join (of_char a) 0 0"
proof -
  note j = b64_join_bytes [OF of_char_256 [of a], of 0 0, folded v, simplified]
  show ?thesis using sextets [OF j(1)] j b64_join_low(1) [of "of_char a" 0, folded v]
      b64_join_low(2) [of "of_char a", folded v]
    by (simp add: b64_bytes_def Let_def)
qed

lemma b64_loop_encode: "b64_loop (b64_encode bs) si [] = Ok bs"
proof (induction bs arbitrary: si rule: b64_encode.induct)
  case 1
  then show ?case by simp
next
  case (2 a)
  then show ?case
    by (simp add: Let_def b64_padding_def b64_end_def b64_bytes_2)
next
  case (3 a b)
  then show ?case
    by (simp add: Let_def b64_padding_def b64_end_def b64_bytes_3)
next
  case (4 a b c bs)
  then show ?case by (simp add: Let_def b64_bytes_4)
qed

lemma b64_decode_encode [simp]: "b64_decode (b64_encode bs) = Ok bs"
  by (simp add: b64_decode_def b64_loop_encode)

text \<open>The decoder never panics.\<close>

lemma b64_loop_not_Panic: "b64_loop s si ds \<noteq> Panic e"
proof (induction s si ds rule: b64_loop.induct)
  case (2 c cs si ds)
  then show ?case
    by (auto simp: b64_padding_def b64_end_def Let_def outcome_simps split: option.splits list.splits)
qed simp

lemma b64_decode_not_Panic [simp]: "b64_decode s \<noteq> Panic e"
  by (simp add: b64_decode_def b64_loop_not_Panic)

end
