(* ===== verification/Metrics.thy ===== *)
theory Metrics
  imports Upgrades
begin

text \<open>
  The validator gauges that the end of every block sets (\<open>app/metrics.go\<close>). The result of the
  function is the sequence of calls to \<open>telemetry.SetGaugeWithLabels\<close>; a count is below \<open>2 ^ 24\<close>, where
  \<open>float32\<close> is exact. \<open>IterateValidators\<close> is the list of validators visited with the error it ends
  with, and \<open>GetMoniker\<close> reads the opaque description.
\<close>

record Gauge =
  g_keys :: "string list"
  g_value :: int
  g_labels :: "(string \<times> string) list"

record Counts =
  n_bonded :: int
  n_unbonding :: int
  n_unbonded :: int
  n_jailed :: int
  n_tombstoned :: int

definition no_counts :: Counts where
  "no_counts = \<lparr>n_bonded = 0, n_unbonding = 0, n_unbonded = 0, n_jailed = 0, n_tombstoned = 0\<rparr>"

definition is_tombstoned :: "'s SdkKeepers \<Rightarrow> 's \<Rightarrow> Validator \<Rightarrow> bool outcome" where
  "is_tombstoned K s val =
     (case GetConsAddr K val of
        Panic e \<Rightarrow> Panic e
      | Err _ \<Rightarrow> Ok False
      | Ok consAddr \<Rightarrow>
          (case GetValidatorSigningInfo K consAddr s of
             Panic e \<Rightarrow> Panic e
           | Err _ \<Rightarrow> Ok False
           | Ok info \<Rightarrow> Ok (Tombstoned info)))"

text \<open>The closure passed to \<open>IterateValidators\<close>.\<close>

definition visit_validator ::
    "'s SdkKeepers \<Rightarrow> (Validator \<Rightarrow> string) \<Rightarrow> 's \<Rightarrow> Validator \<Rightarrow> Counts \<Rightarrow> (Gauge list \<times> Counts) outcome" where
  "visit_validator K GetMoniker s val n =
     bindO (is_tombstoned K s val) (\<lambda>tombstoned.
       let isBonded = of_bool (Status val = Bonded);
           isUnbonding = of_bool (Status val = Unbonding);
           isUnbonded = of_bool (Status val = Unbonded);
           isJailed = of_bool (Jailed val);
           isTombstoned = of_bool tombstoned;
           labels = [(''moniker'', GetMoniker val), (''address'', OperatorAddress val)];
           gauge = (\<lambda>key value. \<lparr>g_keys = [''validator'', key], g_value = value, g_labels = labels\<rparr>)
       in Ok ([gauge ''bonded'' isBonded, gauge ''unbonding'' isUnbonding, gauge ''unbonded'' isUnbonded,
               gauge ''jailed'' isJailed, gauge ''tombstoned'' isTombstoned],
              \<lparr>n_bonded = n_bonded n + isBonded, n_unbonding = n_unbonding n + isUnbonding,
               n_unbonded = n_unbonded n + isUnbonded, n_jailed = n_jailed n + isJailed,
               n_tombstoned = n_tombstoned n + isTombstoned\<rparr>))"

fun visit_validators ::
    "'s SdkKeepers \<Rightarrow> (Validator \<Rightarrow> string) \<Rightarrow> 's \<Rightarrow> Validator list \<Rightarrow> Counts \<Rightarrow> (Gauge list \<times> Counts) outcome" where
  "visit_validators K GetMoniker s [] n = Ok ([], n)"
| "visit_validators K GetMoniker s (val # vals) n =
     bindO (visit_validator K GetMoniker s val n) (\<lambda>(gs, n1).
     bindO (visit_validators K GetMoniker s vals n1) (\<lambda>(gs', n2). Ok (gs @ gs', n2)))"

definition network_gauges :: "Counts \<Rightarrow> Gauge list" where
  "network_gauges n =
     [\<lparr>g_keys = [''network'', ''validators''], g_value = n_bonded n, g_labels = [(''bond_status'', ''bonded'')]\<rparr>,
      \<lparr>g_keys = [''network'', ''validators''], g_value = n_unbonding n, g_labels = [(''bond_status'', ''unbonding'')]\<rparr>,
      \<lparr>g_keys = [''network'', ''validators''], g_value = n_unbonded n, g_labels = [(''bond_status'', ''unbonded'')]\<rparr>,
      \<lparr>g_keys = [''network'', ''validators'', ''jailed''], g_value = n_jailed n, g_labels = []\<rparr>,
      \<lparr>g_keys = [''network'', ''validators'', ''tombstoned''], g_value = n_tombstoned n, g_labels = []\<rparr>]"

definition updateValidatorMetrics ::
    "'s SdkKeepers \<Rightarrow> ('s \<Rightarrow> Validator list \<times> unit outcome) \<Rightarrow> (Validator \<Rightarrow> string) \<Rightarrow> 's \<Rightarrow> Gauge list outcome" where
  "updateValidatorMetrics K IterateValidators GetMoniker s =
     (let (vals, end_of_iteration) = IterateValidators s
      in bindO (visit_validators K GetMoniker s vals no_counts) (\<lambda>(gs, n).
           case end_of_iteration of
             Panic e \<Rightarrow> Panic e
           | Err _ \<Rightarrow> Ok gs
           | Ok _ \<Rightarrow> Ok (gs @ network_gauges n)))"

section \<open>Lemmas\<close>

text \<open>The number of validators whose gauge of a kind is set.\<close>

definition gauge_sum :: "string \<Rightarrow> Gauge list \<Rightarrow> int" where
  "gauge_sum key gs = sum_list (map g_value (filter (\<lambda>g. g_keys g = [''validator'', key]) gs))"

lemma gauge_sum_simps [simp]:
  "gauge_sum key [] = 0"
  "gauge_sum key (g # gs) = (if g_keys g = [''validator'', key] then g_value g else 0) + gauge_sum key gs"
  "gauge_sum key (gs @ hs) = gauge_sum key gs + gauge_sum key hs"
  by (simp_all add: gauge_sum_def)

text \<open>The counters are the sums of the gauges of the validators.\<close>

lemma visit_validator_sums:
  assumes "visit_validator K mon s v n = Ok (gs, n')"
  shows "n_bonded n' = n_bonded n + gauge_sum ''bonded'' gs"
    "n_unbonding n' = n_unbonding n + gauge_sum ''unbonding'' gs"
    "n_unbonded n' = n_unbonded n + gauge_sum ''unbonded'' gs"
    "n_jailed n' = n_jailed n + gauge_sum ''jailed'' gs"
    "n_tombstoned n' = n_tombstoned n + gauge_sum ''tombstoned'' gs"
  using assms by (auto simp: visit_validator_def outcome_simps Let_def)

lemma visit_validators_sums:
  assumes "visit_validators K mon s vals n = Ok (gs, n')"
  shows "n_bonded n' = n_bonded n + gauge_sum ''bonded'' gs
    \<and> n_unbonding n' = n_unbonding n + gauge_sum ''unbonding'' gs
    \<and> n_unbonded n' = n_unbonded n + gauge_sum ''unbonded'' gs
    \<and> n_jailed n' = n_jailed n + gauge_sum ''jailed'' gs
    \<and> n_tombstoned n' = n_tombstoned n + gauge_sum ''tombstoned'' gs"
  using assms
proof (induction vals arbitrary: n gs)
  case (Cons v vals)
  then obtain g1 n1 g2 where "visit_validator K mon s v n = Ok (g1, n1)"
    "visit_validators K mon s vals n1 = Ok (g2, n')" "gs = g1 @ g2"
    by (auto simp: outcome_simps split: prod.splits)
  with visit_validator_sums [OF this(1)] Cons.IH [of n1 g2] show ?case by simp
qed simp

text \<open>A validator of a known status has exactly one of the three status gauges set.\<close>

lemma visit_validators_partition:
  assumes "visit_validators K mon s vals n = Ok (gs, n')" and "\<forall>v \<in> set vals. Status v \<noteq> Unspecified"
  shows "n_bonded n' + n_unbonding n' + n_unbonded n' = n_bonded n + n_unbonding n + n_unbonded n + int (length vals)"
  using assms
proof (induction vals arbitrary: n gs)
  case (Cons v vals)
  then obtain g1 n1 g2 where 1: "visit_validator K mon s v n = Ok (g1, n1)"
    and 2: "visit_validators K mon s vals n1 = Ok (g2, n')"
    by (auto simp: outcome_simps split: prod.splits)
  have "n_bonded n1 + n_unbonding n1 + n_unbonded n1 = n_bonded n + n_unbonding n + n_unbonded n + 1"
    using 1 Cons.prems(2) by (cases "Status v") (auto simp: visit_validator_def outcome_simps Let_def)
  with Cons.IH [OF 2] Cons.prems(2) show ?case by simp
qed simp

section \<open>Properties\<close>

text \<open>
  The network gauges agree with the gauges of the validators: each network count is the sum of
  the validators' gauges of its kind, and when every validator has a known bond status the three
  status counts add up to the number of validators.
\<close>

theorem network_gauges_agree:
  assumes "IterateValidators s = (vals, Ok ())" and "\<forall>v \<in> set vals. Status v \<noteq> Unspecified"
    and "updateValidatorMetrics K IterateValidators mon s = Ok out"
  shows "\<exists>gs n. out = gs @ network_gauges n
    \<and> n_bonded n = gauge_sum ''bonded'' gs \<and> n_unbonding n = gauge_sum ''unbonding'' gs
    \<and> n_unbonded n = gauge_sum ''unbonded'' gs \<and> n_jailed n = gauge_sum ''jailed'' gs
    \<and> n_tombstoned n = gauge_sum ''tombstoned'' gs
    \<and> n_bonded n + n_unbonding n + n_unbonded n = int (length vals)"
proof -
  from assms(1,3) obtain gs n where v: "visit_validators K mon s vals no_counts = Ok (gs, n)"
    and out: "out = gs @ network_gauges n"
    by (auto simp: updateValidatorMetrics_def outcome_simps)
  from visit_validators_sums [OF v] visit_validators_partition [OF v assms(2)] out
  show ?thesis by (intro exI [of _ gs] exI [of _ n]) (simp add: no_counts_def)
qed

theorem network_gauges_agree_witness:
  "\<exists>gs n. updateValidatorMetrics sample_keepers (\<lambda>s. (sc_validators s, Ok ())) v_Description sample_chain
       = Ok (gs @ network_gauges n)
     \<and> n_bonded n = gauge_sum ''bonded'' gs \<and> n_bonded n + n_unbonding n + n_unbonded n = 1"
proof -
  obtain out where out: "updateValidatorMetrics sample_keepers (\<lambda>s. (sc_validators s, Ok ())) v_Description sample_chain = Ok out"
    by (simp add: updateValidatorMetrics_def visit_validator_def is_tombstoned_def Let_def
        sample_chain_def sample_keepers_def sample_validator_def found_def)
  have "(sc_validators sample_chain, Ok ()) = ([sample_validator], Ok ())"
    "\<forall>v \<in> set [sample_validator]. Status v \<noteq> Unspecified"
    by (simp_all add: sample_chain_def sample_validator_def)
  from network_gauges_agree [where IterateValidators = "\<lambda>s. (sc_validators s, Ok ())", OF this out]
  show ?thesis using out by auto
qed

end
