(* ===== verification/Block_Hooks.thy ===== *)
theory Block_Hooks
  imports Base64 Chain_Spec Metrics
begin

text \<open>
  Hooks that the configuration schedules at block heights (\<open>app/block_hooks.go\<close>), and the end of a
  block, which performs them (\<open>EndBlocker\<close> of \<open>app/app.go\<close>). A value that the YAML decoder leaves in
  an \<open>interface{}\<close> is an \<open>iface\<close>; the keys of a map are distinct. The decoder, the address codec and
  the constants of the key library are arguments.
\<close>

section \<open>Types\<close>

datatype iface =
    IfString string
  | IfBool bool
  | IfMap "(string \<times> iface) list"
  | IfOther

record unjailParams =
  u_validator :: string
  u_targetTokens :: "int option"

record addValidatorParams =
  a_validator :: string
  a_options :: "AddValidatorOptions option"

record removeValidatorParams =
  r_validator :: string
  r_options :: "RemoveValidatorOptions option"

text \<open>What \<open>Params\<close> of a hook holds: the decoded value, or the parameters of an action.\<close>

datatype hook_params =
    Raw iface
  | Unjail_Params unjailParams
  | AddValidator_Params addValidatorParams
  | RemoveValidator_Params removeValidatorParams
  | ReconcileStakingPools_Params

record BlockHook =
  Block :: i64
  Action :: string
  hook_Params :: hook_params

type_synonym BlockHooks = "i64 \<Rightarrow> BlockHook list option"

definition hookUnjail :: string where "hookUnjail = ''unjail''"
definition hookAddValidator :: string where "hookAddValidator = ''add_validator''"
definition hookRemoveValidator :: string where "hookRemoveValidator = ''remove_validator''"
definition hookReconcileStakingPools :: string where "hookReconcileStakingPools = ''reconcile_staking_pools''"

lemmas hook_names = hookUnjail_def hookAddValidator_def hookRemoveValidator_def hookReconcileStakingPools_def

record HookEnv =
  KeyType :: string
  PubKeySize :: nat
  AccAddressFromBech32 :: "string \<Rightarrow> bytes outcome"
  ValAddressFromBech32 :: "string \<Rightarrow> bytes outcome"
  show_params :: "hook_params \<Rightarrow> string"

section \<open>Reading parameters\<close>

text \<open>\<open>raw.(map[string]interface{})\<close> and \<open>value.(string)\<close>, with a panic when the type is another.\<close>

fun expectParamsIsMap :: "iface \<Rightarrow> string \<Rightarrow> (string \<times> iface) list outcome" where
  "expectParamsIsMap (IfMap m) action = Ok m"
| "expectParamsIsMap _ action = Panic (New (''failed to read '' @ action @ '' params as map''))"

fun requireValueIsString :: "iface \<Rightarrow> string \<Rightarrow> string outcome" where
  "requireValueIsString (IfString s) field = Ok s"
| "requireValueIsString _ field = Panic (New (field @ '' field is not type string''))"

definition requireFieldIsString :: "(string \<times> iface) list \<Rightarrow> string \<Rightarrow> string outcome" where
  "requireFieldIsString params key =
     (case map_of params key of
        None \<Rightarrow> Panic (New (''failed to read '' @ key @ '' field from params''))
      | Some value \<Rightarrow> requireValueIsString value key)"

definition parseInt :: "iface \<Rightarrow> string \<Rightarrow> int outcome" where
  "parseInt value field =
     bindO (requireValueIsString value field) (\<lambda>strValue.
       panicfO (''failed to parse '' @ field @ '' as int64: '') (ParseInt strValue))"

fun parseBool :: "iface \<Rightarrow> string \<Rightarrow> bool outcome" where
  "parseBool (IfBool b) field = Ok b"
| "parseBool (IfString s) field =
     panicfO (''failed to parse '' @ field @ '' as bool: '') (ParseBool s)"
| "parseBool _ field = Panic (New (field @ '' field is not a bool or string''))"

definition parsePubKey :: "HookEnv \<Rightarrow> iface \<Rightarrow> bytes outcome" where
  "parsePubKey env value =
     bindO (expectParamsIsMap value ''pub_key'') (\<lambda>pubKeyMap.
     bindO (requireFieldIsString pubKeyMap ''type'') (\<lambda>t.
     let keyType = (if ToLower t = [] then KeyType env else ToLower t)
     in bindO (requireFieldIsString pubKeyMap ''value'') (\<lambda>rawValue.
        bindO (panicfO ''failed to decode pub_key value: '' (b64_decode rawValue)) (\<lambda>decoded.
        if keyType = ToLower (KeyType env) \<or> keyType = ''tendermint/pubkeyed25519''
        then if length decoded \<noteq> PubKeySize env
             then Panic (New (''invalid ed25519 pubkey size: '' @ show_nat (length decoded)))
             else Ok decoded
        else Panic (New (''unsupported pub_key type '' @ Quote keyType))))))"

section \<open>Loading\<close>

text \<open>The value to be read as a map; the parameters of an action are not one.\<close>

fun raw_params :: "hook_params \<Rightarrow> iface" where
  "raw_params (Raw v) = v"
| "raw_params _ = IfOther"

definition parseUnjailHook :: "BlockHook \<Rightarrow> unjailParams outcome" where
  "parseUnjailHook hook =
     bindO (expectParamsIsMap (raw_params (hook_Params hook)) ''unjail'') (\<lambda>params.
     bindO (requireFieldIsString params ''validator'') (\<lambda>v.
     case map_of params ''target_tokens'' of
       None \<Rightarrow> Ok \<lparr>u_validator = v, u_targetTokens = None\<rparr>
     | Some raw \<Rightarrow> bindO (parseInt raw ''target_tokens'') (\<lambda>t.
         if \<not> t > 0 then Panic (New (''target_tokens must be positive, got '' @ show_int t))
         else Ok \<lparr>u_validator = v, u_targetTokens = Some t\<rparr>)))"

definition parseAddValidatorHook :: "HookEnv \<Rightarrow> BlockHook \<Rightarrow> addValidatorParams outcome" where
  "parseAddValidatorHook env hook =
     bindO (expectParamsIsMap (raw_params (hook_Params hook)) ''add_validator'') (\<lambda>params.
     bindO (requireFieldIsString params ''validator'') (\<lambda>v.
     case map_of params ''pub_key'' of
       None \<Rightarrow> Panic (New ''failed to read pub_key field from params'')
     | Some pubKeyRaw \<Rightarrow>
         (case map_of params ''min_self_delegation'' of
            None \<Rightarrow> Panic (New ''failed to read min_self_delegation field from params'')
          | Some minRaw \<Rightarrow>
              bindO (parsePubKey env pubKeyRaw) (\<lambda>pk.
              bindO (parseInt minRaw ''min_self_delegation'') (\<lambda>m.
              case map_of params ''initial_tokens'' of
                None \<Rightarrow> Panic (New ''failed to read initial_tokens field from params'')
              | Some initRaw \<Rightarrow>
                  bindO (parseInt initRaw ''initial_tokens'') (\<lambda>t.
                  if \<not> t > 0 then Panic (New (''initial_tokens must be positive, got '' @ show_int t))
                  else Ok \<lparr>a_validator = v,
                    a_options = Some \<lparr>PubKey = Some pk, Description = [], InitialTokens = Some t,
                                     MinSelfDelegation = Some m\<rparr>\<rparr>))))))"

definition parseRemoveValidatorHook :: "HookEnv \<Rightarrow> BlockHook \<Rightarrow> removeValidatorParams outcome" where
  "parseRemoveValidatorHook env hook =
     bindO (expectParamsIsMap (raw_params (hook_Params hook)) ''remove_validator'') (\<lambda>params.
     bindO (requireFieldIsString params ''validator'') (\<lambda>v.
     bindO (case map_of params ''burn_tokens'' of
              None \<Rightarrow> Ok False
            | Some raw \<Rightarrow> parseBool raw ''burn_tokens'') (\<lambda>burn.
     bindO (case map_of params ''token_recipient'' of
              None \<Rightarrow> Ok None
            | Some raw \<Rightarrow>
                bindO (requireValueIsString raw ''token_recipient'') (\<lambda>recipient.
                bindO (panicfO ''invalid token_recipient address: '' (AccAddressFromBech32 env recipient))
                  (\<lambda>a. Ok (Some a)))) (\<lambda>recipient.
     Ok \<lparr>r_validator = v, r_options = Some \<lparr>BurnTokens = burn, TokenRecipient = recipient\<rparr>\<rparr>))))"

definition parse_params :: "HookEnv \<Rightarrow> BlockHook \<Rightarrow> hook_params outcome" where
  "parse_params env hook =
     (if Action hook = hookUnjail then bindO (parseUnjailHook hook) (\<lambda>p. Ok (Unjail_Params p))
      else if Action hook = hookAddValidator
      then bindO (parseAddValidatorHook env hook) (\<lambda>p. Ok (AddValidator_Params p))
      else if Action hook = hookRemoveValidator
      then bindO (parseRemoveValidatorHook env hook) (\<lambda>p. Ok (RemoveValidator_Params p))
      else if Action hook = hookReconcileStakingPools then Ok ReconcileStakingPools_Params
      else Panic (New (''unexpected hook action '' @ Action hook)))"

definition hooks_at :: "BlockHooks \<Rightarrow> i64 \<Rightarrow> BlockHook list" where
  "hooks_at hooks block = (case hooks block of None \<Rightarrow> [] | Some hs \<Rightarrow> hs)"

fun load_loop :: "HookEnv \<Rightarrow> BlockHook list \<Rightarrow> BlockHooks \<Rightarrow> BlockHooks outcome" where
  "load_loop env [] hooks = Ok hooks"
| "load_loop env (hook # rest) hooks =
     bindO (parse_params env hook) (\<lambda>params.
     load_loop env rest
       (hooks(Block hook \<mapsto> hooks_at hooks (Block hook) @ [hook\<lparr>hook_Params := params\<rparr>])))"

definition LoadHooks ::
    "HookEnv \<Rightarrow> (bytes \<Rightarrow> BlockHook list outcome) \<Rightarrow> (string \<Rightarrow> string) \<Rightarrow> (string \<Rightarrow> file_state) \<Rightarrow> BlockHooks outcome" where
  "LoadHooks env yaml_Unmarshal getenv files =
     (case ReadConfigFile getenv files of
        Err _ \<Rightarrow> Ok Map.empty
      | Panic e \<Rightarrow> Panic e
      | Ok d \<Rightarrow> bindO (panicO ''failed to decode config '' [] (yaml_Unmarshal d))
                 (\<lambda>config. load_loop env config Map.empty))"

section \<open>Performing\<close>

definition performUnjailHook ::
    "HookEnv \<Rightarrow> 's SdkKeepers \<Rightarrow> HookContext \<Rightarrow> BlockHook \<Rightarrow> ('s, unit) proc" where
  "performUnjailHook env K ctx hook =
     (case hook_Params hook of
        Unjail_Params p \<Rightarrow>
          bindP (pureP (ValAddressFromBech32 env (u_validator p))) (\<lambda>valAddr.
          ExecuteUnjailing K ctx valAddr
            (case u_targetTokens p of None \<Rightarrow> None | Some t \<Rightarrow> if t > 0 then Some t else None))
      | _ \<Rightarrow> pureP (Err (New ''invalid unjail params { {<nil>}}'')))"

definition performAddValidatorHook ::
    "HookEnv \<Rightarrow> 's SdkKeepers \<Rightarrow> HookContext \<Rightarrow> BlockHook \<Rightarrow> ('s, unit) proc" where
  "performAddValidatorHook env K ctx hook =
     (case hook_Params hook of
        AddValidator_Params p \<Rightarrow>
          bindP (pureP (ValAddressFromBech32 env (a_validator p))) (\<lambda>valAddr.
          ExecuteAddValidator K ctx valAddr (a_options p))
      | p \<Rightarrow> pureP (Err (New (''invalid add_validator params '' @ show_params env p))))"

definition performRemoveValidatorHook ::
    "HookEnv \<Rightarrow> 's SdkKeepers \<Rightarrow> BlockHook \<Rightarrow> ('s, unit) proc" where
  "performRemoveValidatorHook env K hook =
     (case hook_Params hook of
        RemoveValidator_Params p \<Rightarrow>
          bindP (pureP (ValAddressFromBech32 env (r_validator p))) (\<lambda>valAddr.
          ExecuteRemoveValidator K valAddr (r_options p))
      | p \<Rightarrow> pureP (Err (New (''invalid remove_validator params '' @ show_params env p))))"

definition performReconcileStakingPoolsHook ::
    "HookEnv \<Rightarrow> 's SdkKeepers \<Rightarrow> BlockHook \<Rightarrow> ('s, unit) proc" where
  "performReconcileStakingPoolsHook env K hook =
     (case hook_Params hook of
        ReconcileStakingPools_Params \<Rightarrow> callK (ExecuteReconcileStakingPools K)
      | p \<Rightarrow> pureP (Err (New (''invalid reconcile_staking_pools params '' @ show_params env p))))"

definition PerformHook ::
    "HookEnv \<Rightarrow> 's SdkKeepers \<Rightarrow> HookContext \<Rightarrow> BlockHook \<Rightarrow> ('s, unit) proc" where
  "PerformHook env K ctx hook =
     (if Action hook = hookUnjail then performUnjailHook env K ctx hook
      else if Action hook = hookAddValidator then performAddValidatorHook env K ctx hook
      else if Action hook = hookRemoveValidator then performRemoveValidatorHook env K hook
      else if Action hook = hookReconcileStakingPools then performReconcileStakingPoolsHook env K hook
      else pureP (Err (New (''unrecognized hook action '' @ Action hook))))"

section \<open>The end of a block\<close>

text \<open>
  The hooks of a height in order: an error is logged and the next hook runs, a panic ends the block.
  The result is the log, an action and the error it failed with.
\<close>

definition logged :: "string \<Rightarrow> ('s, unit) proc \<Rightarrow> ('s, string \<times> go_error option) proc" where
  "logged action m = (\<lambda>s. map_option (\<lambda>(r, s').
     ((case r of Ok _ \<Rightarrow> Ok (action, None) | Err e \<Rightarrow> Ok (action, Some e) | Panic e \<Rightarrow> Panic e), s')) (m s))"

fun run_hooks ::
    "HookEnv \<Rightarrow> 's SdkKeepers \<Rightarrow> HookContext \<Rightarrow> BlockHook list \<Rightarrow> ('s, (string \<times> go_error option) list) proc" where
  "run_hooks env K ctx [] = pureP (Ok [])"
| "run_hooks env K ctx (hook # hooks) =
     bindP (logged (Action hook) (PerformHook env K ctx hook)) (\<lambda>entry.
     bindP (run_hooks env K ctx hooks) (\<lambda>entries. pureP (Ok (entry # entries))))"

definition EndBlocker ::
    "HookEnv \<Rightarrow> 's SdkKeepers \<Rightarrow> ('s \<Rightarrow> Validator list \<times> unit outcome) \<Rightarrow> (Validator \<Rightarrow> string)
     \<Rightarrow> ('s \<Rightarrow> 'r outcome \<times> 's) \<Rightarrow> BlockHooks \<Rightarrow> HookContext
     \<Rightarrow> ('s, 'r \<times> (string \<times> go_error option) list \<times> Gauge list) proc" where
  "EndBlocker env K IterateValidators GetMoniker ModuleManager_EndBlock hooks ctx =
     bindP (callK ModuleManager_EndBlock) (\<lambda>endBlockResponse.
     bindP (case hooks (hc_BlockHeight ctx) of
              None \<Rightarrow> pureP (Ok [])
            | Some hs \<Rightarrow> run_hooks env K ctx hs) (\<lambda>entries.
     bindP (readK (updateValidatorMetrics K IterateValidators GetMoniker)) (\<lambda>gauges.
     pureP (Ok (endBlockResponse, entries, gauges)))))"

section \<open>Lemmas\<close>

subsection \<open>Loaded parameters\<close>

text \<open>What the parameters of an action are after loading.\<close>

fun params_fit :: "HookEnv \<Rightarrow> string \<Rightarrow> hook_params \<Rightarrow> bool" where
  "params_fit env action (Raw v) \<longleftrightarrow> False"
| "params_fit env action (Unjail_Params p) \<longleftrightarrow>
     action = hookUnjail \<and> (case u_targetTokens p of None \<Rightarrow> True | Some t \<Rightarrow> 0 < t)"
| "params_fit env action (AddValidator_Params p) \<longleftrightarrow>
     action = hookAddValidator \<and>
     (case a_options p of
        None \<Rightarrow> False
      | Some opts \<Rightarrow>
          (case PubKey opts of None \<Rightarrow> False | Some pk \<Rightarrow> length pk = PubKeySize env) \<and>
          (case InitialTokens opts of None \<Rightarrow> False | Some t \<Rightarrow> 0 < t \<and> t < 2 ^ 63) \<and>
          MinSelfDelegation opts \<noteq> None)"
| "params_fit env action (RemoveValidator_Params p) \<longleftrightarrow> action = hookRemoveValidator \<and> r_options p \<noteq> None"
| "params_fit env action ReconcileStakingPools_Params \<longleftrightarrow> action = hookReconcileStakingPools"

lemma parseInt_Ok: "parseInt v f = Ok t \<Longrightarrow> - (2 ^ 63) \<le> t \<and> t < 2 ^ 63"
  by (auto simp: parseInt_def outcome_simps dest: ParseInt_range)

lemma parsePubKey_Ok: "parsePubKey env v = Ok pk \<Longrightarrow> length pk = PubKeySize env"
  by (auto simp: parsePubKey_def outcome_simps Let_def split: if_splits)

lemma parseAddValidatorHook_Ok:
  assumes "parseAddValidatorHook env hook = Ok p"
  shows "\<exists>pk m t. a_options p = Some \<lparr>PubKey = Some pk, Description = [], InitialTokens = Some t, MinSelfDelegation = Some m\<rparr>
    \<and> length pk = PubKeySize env \<and> 0 < t \<and> t < 2 ^ 63"
  using assms
  by (auto simp: parseAddValidatorHook_def outcome_simps dest!: parsePubKey_Ok parseInt_Ok)

lemma parse_params_fit:
  assumes "parse_params env hook = Ok p"
  shows "params_fit env (Action hook) p"
proof -
  consider (unjail) q where "Action hook = hookUnjail" "parseUnjailHook hook = Ok q" "p = Unjail_Params q"
    | (add) q where "Action hook = hookAddValidator" "parseAddValidatorHook env hook = Ok q" "p = AddValidator_Params q"
    | (remove) q where "Action hook = hookRemoveValidator" "parseRemoveValidatorHook env hook = Ok q" "p = RemoveValidator_Params q"
    | (reconcile) "Action hook = hookReconcileStakingPools" "p = ReconcileStakingPools_Params"
    using assms by (auto simp: parse_params_def outcome_simps split: if_splits)
  then show ?thesis
  proof cases
    case unjail
    then show ?thesis by (auto simp: parseUnjailHook_def outcome_simps split: option.splits if_splits)
  next
    case add
    then show ?thesis using parseAddValidatorHook_Ok [of env hook q] by auto
  next
    case remove
    then show ?thesis by (auto simp: parseRemoveValidatorHook_def outcome_simps)
  qed simp
qed

subsection \<open>The loaded table\<close>

lemma hooks_at_update: "hooks_at (hooks(b \<mapsto> hs)) c = (if c = b then hs else hooks_at hooks c)"
  by (simp add: hooks_at_def)

lemma load_loop_order:
  "load_loop env config hooks = Ok hooks' \<Longrightarrow>
   map (\<lambda>h. (Block h, Action h)) (hooks_at hooks' b)
     = map (\<lambda>h. (Block h, Action h)) (hooks_at hooks b @ filter (\<lambda>h. Block h = b) config)"
  by (induction config arbitrary: hooks) (auto simp: outcome_simps hooks_at_update)

lemma load_loop_fit:
  assumes "load_loop env config hooks = Ok hooks'"
    and "\<And>b h. h \<in> set (hooks_at hooks b) \<Longrightarrow> Block h = b \<and> params_fit env (Action h) (hook_Params h)"
    and "h \<in> set (hooks_at hooks' b)"
  shows "Block h = b \<and> params_fit env (Action h) (hook_Params h)"
  using assms
proof (induction config arbitrary: hooks)
  case (Cons hook rest)
  then obtain p where p: "parse_params env hook = Ok p"
    and rest: "load_loop env rest
       (hooks(Block hook \<mapsto> hooks_at hooks (Block hook) @ [hook\<lparr>hook_Params := p\<rparr>])) = Ok hooks'"
    by (auto simp: outcome_simps)
  show ?case
  proof (rule Cons.IH [OF rest _ Cons.prems(3)])
    fix c g
    assume "g \<in> set (hooks_at (hooks(Block hook \<mapsto> hooks_at hooks (Block hook) @ [hook\<lparr>hook_Params := p\<rparr>])) c)"
    with Cons.prems(2) [of g c] parse_params_fit [OF p]
    show "Block g = c \<and> params_fit env (Action g) (hook_Params g)"
      by (auto simp: hooks_at_update split: if_splits)
  qed
qed simp

subsection \<open>Performing\<close>

lemma always_returns_logged [returns_intros]: "always_returns m \<Longrightarrow> always_returns (logged action m)"
  by (simp add: always_returns_def logged_def)

lemma setValidatorBalance_returns [returns_intros]: "always_returns (setValidatorBalance K a v t)"
  unfolding setValidatorBalance_def Let_def by (intro returns_intros)

lemma ExecuteUnjailing_returns [returns_intros]: "always_returns (ExecuteUnjailing K ctx a t)"
  unfolding ExecuteUnjailing_def by (intro returns_intros)

lemma persist_validator_returns [returns_intros]: "always_returns (persist_validator K ctx a v)"
  unfolding persist_validator_def ensure_signing_info_def by (intro returns_intros)

lemma ExecuteAddValidator_returns [returns_intros]: "always_returns (ExecuteAddValidator K ctx a opts)"
  unfolding ExecuteAddValidator_def create_validator_def Let_def by (intro returns_intros)

lemma ExecuteRemoveValidator_returns [returns_intros]: "always_returns (ExecuteRemoveValidator K a opts)"
  unfolding ExecuteRemoveValidator_def tombstoneValidator_def handleValidatorTokens_def Let_def
  by (intro returns_intros)

lemma PerformHook_returns [returns_intros]: "always_returns (PerformHook env K ctx hook)"
  unfolding PerformHook_def performUnjailHook_def performAddValidatorHook_def performRemoveValidatorHook_def
    performReconcileStakingPoolsHook_def
  by (cases "hook_Params hook") (simp_all add: returns_intros)

lemma run_hooks_returns [returns_intros]: "always_returns (run_hooks env K ctx hs)"
  by (induction hs) (auto intro!: returns_intros)

text \<open>A sequence of hooks never returns an error, and its log has an entry for each.\<close>

lemma no_err_logged: "no_err (logged action m)"
  by (auto simp: no_err_def logged_def split: outcome.splits)

lemma no_err_run_hooks: "no_err (run_hooks env K ctx hs)"
  by (induction hs) (auto intro!: no_err_bindP no_err_logged no_err_simple)

lemma logged_Ok: "logged action m s = Some (Ok entry, s') \<Longrightarrow> fst entry = action \<and> (\<exists>r. m s = Some (r, s'))"
proof -
  assume "logged action m s = Some (Ok entry, s')"
  then obtain r where r: "m s = Some (r, s')"
    "(case r of Ok _ \<Rightarrow> Ok (action, None) | Err e \<Rightarrow> Ok (action, Some e) | Panic e \<Rightarrow> Panic e) = Ok entry"
    by (auto simp: logged_def)
  then show ?thesis by (cases r) auto
qed

lemma run_hooks_log: "run_hooks env K ctx hs s = Some (Ok entries, s') \<Longrightarrow> map fst entries = map Action hs"
proof (induction hs arbitrary: s entries)
  case (Cons h hs)
  then obtain entry entries' s1 where "logged (Action h) (PerformHook env K ctx h) s = Some (Ok entry, s1)"
    "run_hooks env K ctx hs s1 = Some (Ok entries', s')" "entries = entry # entries'"
    by (auto simp: outcome_simps)
  with Cons.IH logged_Ok show ?case by fastforce
qed (simp add: outcome_simps)

lemma run_hooks_append:
  "run_hooks env K ctx (hs @ gs) s = Some (Ok entries, s') \<Longrightarrow>
   \<exists>s1 xs ys. run_hooks env K ctx hs s = Some (Ok xs, s1) \<and> run_hooks env K ctx gs s1 = Some (Ok ys, s')"
proof (induction hs arbitrary: s entries)
  case (Cons h hs)
  then obtain entry rest s1 where 1: "logged (Action h) (PerformHook env K ctx h) s = Some (Ok entry, s1)"
    and "run_hooks env K ctx (hs @ gs) s1 = Some (Ok rest, s')"
    by (auto simp: outcome_simps)
  from Cons.IH [OF this(2)] obtain s2 xs ys where
    "run_hooks env K ctx hs s1 = Some (Ok xs, s2)" "run_hooks env K ctx gs s2 = Some (Ok ys, s')"
    by blast
  with 1 show ?case by (auto simp: outcome_simps)
qed (auto simp: outcome_simps)

text \<open>Only the first call of a sequence can fail when what follows never does.\<close>

lemma bindP_callK_Err:
  assumes "\<And>a. no_err (f a)"
  shows "bindP (callK g) f s = Some (Err e, s') \<longleftrightarrow> g s = (Err e, s')"
proof (cases "g s")
  case (Pair r s1)
  with assms show ?thesis by (cases r) (auto simp: bindP_def callK_def no_err_def)
qed

lemma visit_validators_not_Err: "visit_validators K mon s vals n \<noteq> Err e"
  by (induction vals arbitrary: n)
    (auto simp: visit_validator_def is_tombstoned_def outcome_simps Let_def split: outcome.splits)

lemma no_err_metrics: "no_err (readK (updateValidatorMetrics K it mon))"
  by (auto simp: no_err_def readK_def updateValidatorMetrics_def outcome_simps visit_validators_not_Err
      split: outcome.splits prod.splits)

section \<open>Properties\<close>

text \<open>
  C26. Loading types the hooks. In a loaded table every hook is filed under its own block, in the order
  of the configuration, and holds the parameters of its action: a positive token target, a public key
  of the right size, positive initial tokens in the range of an \<open>int64\<close>. So the branches of
  \<open>PerformHook\<close> for parameters of another type and for unknown actions are never taken.
\<close>

theorem loaded_hooks_are_typed:
  assumes "ReadConfigFile getenv files = Ok d" and "yaml_Unmarshal d = Ok config"
    and "LoadHooks env yaml_Unmarshal getenv files = Ok hooks"
  shows "map (\<lambda>h. (Block h, Action h)) (hooks_at hooks b)
      = map (\<lambda>h. (Block h, Action h)) (filter (\<lambda>h. Block h = b) config)
    \<and> (\<forall>h \<in> set (hooks_at hooks b). Block h = b \<and> params_fit env (Action h) (hook_Params h))"
proof -
  have l: "load_loop env config Map.empty = Ok hooks"
    using assms by (simp add: LoadHooks_def)
  have "map (\<lambda>h. (Block h, Action h)) (hooks_at hooks b)
      = map (\<lambda>h. (Block h, Action h)) (filter (\<lambda>h. Block h = b) config)"
    using load_loop_order [OF l] by (simp add: hooks_at_def)
  moreover have "Block h = b \<and> params_fit env (Action h) (hook_Params h)" if "h \<in> set (hooks_at hooks b)" for h
    by (rule load_loop_fit [OF l _ that]) (simp add: hooks_at_def)
  ultimately show ?thesis by blast
qed

text \<open>A configuration with one hook of each kind of parameter.\<close>

definition sample_hook_env :: HookEnv where
  "sample_hook_env = \<lparr>KeyType = ''ed25519'', PubKeySize = 32, AccAddressFromBech32 = Ok, ValAddressFromBech32 = Ok,
     show_params = (\<lambda>_. [])\<rparr>"

definition sample_hook_config :: "BlockHook list" where
  "sample_hook_config =
     [\<lparr>Block = 7, Action = ''unjail'', hook_Params = Raw (IfMap [(''validator'', IfString ''val''),
         (''target_tokens'', IfString ''12'')])\<rparr>,
      \<lparr>Block = 9, Action = ''remove_validator'', hook_Params = Raw (IfMap [(''validator'', IfString ''val''),
         (''burn_tokens'', IfBool True)])\<rparr>,
      \<lparr>Block = 7, Action = ''reconcile_staking_pools'', hook_Params = Raw IfOther\<rparr>]"

definition sample_hooks :: BlockHooks where
  "sample_hooks = [7 \<mapsto> [\<lparr>Block = 7, Action = ''unjail'', hook_Params = Unjail_Params \<lparr>u_validator = ''val'', u_targetTokens = Some 12\<rparr>\<rparr>,
       \<lparr>Block = 7, Action = ''reconcile_staking_pools'', hook_Params = ReconcileStakingPools_Params\<rparr>],
     9 \<mapsto> [\<lparr>Block = 9, Action = ''remove_validator'', hook_Params = RemoveValidator_Params
       \<lparr>r_validator = ''val'', r_options = Some \<lparr>BurnTokens = True, TokenRecipient = None\<rparr>\<rparr>\<rparr>]]"

lemma sample_ParseInt: "ParseInt ''12'' = Ok 12"
  by (simp add: ParseInt_def char_digit_def)

lemma sample_load:
  "LoadHooks sample_hook_env (\<lambda>_. Ok sample_hook_config) (\<lambda>_. ''c'') (\<lambda>_. Contents []) = Ok sample_hooks"
  by (simp add: LoadHooks_def ReadConfigFile_def sample_hook_config_def sample_hooks_def parse_params_def hook_names
      parseUnjailHook_def parseRemoveValidatorHook_def requireFieldIsString_def parseInt_def sample_ParseInt
      hooks_at_def fun_upd_twist)

theorem loaded_hooks_are_typed_witness:
  "map (\<lambda>h. (Block h, Action h)) (hooks_at sample_hooks 7) = [(7, ''unjail''), (7, ''reconcile_staking_pools'')]"
proof -
  have "ReadConfigFile (\<lambda>_. ''c'') (\<lambda>_. Contents []) = Ok []" by (simp add: ReadConfigFile_def)
  from loaded_hooks_are_typed [OF this refl sample_load, of 7]
  show ?thesis by (simp add: sample_hook_config_def)
qed


definition sample_hook_ctx :: HookContext where
  "sample_hook_ctx = \<lparr>hc_BlockTime = 100 * 1000000000, hc_BlockHeight = 7\<rparr>"

text \<open>A block whose modules drop the signing infos: its first hook fails, the second one runs.\<close>

definition sample_end_block :: "SampleChain \<Rightarrow> unit outcome \<times> SampleChain" where
  "sample_end_block s = (Ok (), s\<lparr>sc_infos := Map.empty\<rparr>)"

lemma sample_end_block_runs:
  "\<exists>entries gs s'. EndBlocker sample_hook_env sample_keepers (\<lambda>s. (sc_validators s, Ok ())) v_Description sample_end_block
     sample_hooks sample_hook_ctx sample_chain = Some (Ok ((), entries, gs), s')"
  by (simp add: EndBlocker_def sample_hook_ctx_def sample_hooks_def sample_end_block_def sample_hook_env_def
      PerformHook_def hook_names performUnjailHook_def performReconcileStakingPoolsHook_def logged_def
      ExecuteUnjailing_def setValidatorBalance_def ExecuteReconcileStakingPools_def pool_sums_def
      bindP_def pureP_def callK_def readK_def wrapP_def sample_keepers_def sample_chain_def sample_validator_def
      sample_find_def found_def sample_mint_def sample_burn_def sample_send_def
      updateValidatorMetrics_def visit_validator_def is_tombstoned_def Let_def
      BondedPoolName_def NotBondedPoolName_def DefaultBondDenom_def)


text \<open>
  A reconciliation that a block performs last holds at the end of the block: whatever the modules
  and the hooks before it did, each staking pool then covers what the validators and the unbonding
  delegations of that very state require.
\<close>

theorem reconcile_hook_funds_pools:
  assumes bank: "bank_law K" and mint: "minter_law K"
    and readable: "\<And>s. \<exists>vs. GetAllValidators K s = Ok vs \<and> snd (UnbondingDelegations K s) = Ok ()"
    and at: "hooks (hc_BlockHeight ctx) = Some (hs @ [h])"
    and h: "Action h = hookReconcileStakingPools" "hook_Params h = ReconcileStakingPools_Params"
    and run: "EndBlocker env K it mon EndBlock hooks ctx s = Some (Ok (resp, entries, gs), s')"
    and sums: "GetAllValidators K s' = Ok vs" "pool_sums vs (fst (UnbondingDelegations K s')) = (bonded, notBonded)"
  shows "bonded \<le> GetBalance K (GetModuleAddress K BondedPoolName) DefaultBondDenom s'
    \<and> notBonded \<le> GetBalance K (GetModuleAddress K NotBondedPoolName) DefaultBondDenom s'"
proof -
  from run at obtain s1 s2 xs where "run_hooks env K ctx (hs @ [h]) s1 = Some (Ok xs, s')"
    by (auto simp: EndBlocker_def outcome_simps)
  from run_hooks_append [OF this] obtain s2 ys where "run_hooks env K ctx [h] s2 = Some (Ok ys, s')" by blast
  then obtain r where "PerformHook env K ctx h s2 = Some (r, s')"
    by (auto simp: outcome_simps dest!: logged_Ok)
  then have s': "ExecuteReconcileStakingPools K s2 = (r, s')"
    using h by (simp add: PerformHook_def hook_names performReconcileStakingPoolsHook_def callK_def)
  obtain vs2 where vs2: "GetAllValidators K s2 = Ok vs2" "snd (UnbondingDelegations K s2) = Ok ()"
    using readable by blast
  obtain b n where bn: "pool_sums vs2 (fst (UnbondingDelegations K s2)) = (b, n)" by fastforce
  from reconcile_result [OF bank mint vs2 bn] obtain s3 where s3: "ExecuteReconcileStakingPools K s2 = (Ok (), s3)"
    "GetAllValidators K s3 = GetAllValidators K s2" "UnbondingDelegations K s3 = UnbondingDelegations K s2"
    "b \<le> GetBalance K (GetModuleAddress K BondedPoolName) DefaultBondDenom s3"
    "n \<le> GetBalance K (GetModuleAddress K NotBondedPoolName) DefaultBondDenom s3"
    by (metis max.cobounded1)
  have "s' = s3" using s' s3(1) by simp
  with s3 sums vs2(1) bn show ?thesis by simp
qed

lemma sample_readable:
  "\<exists>vs. GetAllValidators sample_keepers s = Ok vs \<and> snd (UnbondingDelegations sample_keepers s) = Ok ()"
  by (simp add: sample_keepers_def)

theorem reconcile_hook_funds_pools_witness:
  "\<exists>resp entries gs s' bonded notBonded.
     EndBlocker sample_hook_env sample_keepers (\<lambda>s. (sc_validators s, Ok ())) v_Description sample_end_block
       sample_hooks sample_hook_ctx sample_chain = Some (Ok (resp, entries, gs), s')
     \<and> pool_sums (sc_validators s') [[Some 4]] = (bonded, notBonded)
     \<and> bonded \<le> int (sc_balances s' (BondedPoolName, DefaultBondDenom))"
proof -
  obtain entries gs s' where run: "EndBlocker sample_hook_env sample_keepers (\<lambda>s. (sc_validators s, Ok ())) v_Description
      sample_end_block sample_hooks sample_hook_ctx sample_chain = Some (Ok ((), entries, gs), s')"
    using sample_end_block_runs by blast
  obtain bonded notBonded where pool: "pool_sums (sc_validators s') [[Some 4]] = (bonded, notBonded)" by fastforce
  then have sums: "GetAllValidators sample_keepers s' = Ok (sc_validators s')"
    "pool_sums (sc_validators s') (fst (UnbondingDelegations sample_keepers s')) = (bonded, notBonded)"
    by (simp_all add: sample_keepers_def)
  let ?h = "\<lambda>a p. \<lparr>Block = 7, Action = a, hook_Params = p\<rparr>"
  have at: "sample_hooks (hc_BlockHeight sample_hook_ctx) =
      Some ([?h ''unjail'' (Unjail_Params \<lparr>u_validator = ''val'', u_targetTokens = Some 12\<rparr>)]
        @ [?h ''reconcile_staking_pools'' ReconcileStakingPools_Params])"
    by (simp add: sample_hooks_def sample_hook_ctx_def)
  have "bonded \<le> GetBalance sample_keepers (GetModuleAddress sample_keepers BondedPoolName) DefaultBondDenom s'"
    using reconcile_hook_funds_pools [OF sample_bank_law sample_minter_law sample_readable at _ _ run sums]
    by (simp add: hook_names)
  then have "bonded \<le> int (sc_balances s' (BondedPoolName, DefaultBondDenom))" by (simp add: sample_keepers_def)
  with run pool show ?thesis by blast
qed

text \<open>
  Public keys survive the configuration: the base64 text of a key of the right size is read back as
  that key, whatever the letter case of its type, and any other length is refused.
\<close>

theorem pub_key_round_trip:
  assumes "ToLower type = ToLower (KeyType env) \<or> ToLower type = ''tendermint/pubkeyed25519''"
    and "type \<noteq> []"
  shows "parsePubKey env (IfMap [(''type'', IfString type), (''value'', IfString (b64_encode key))])
    = (if length key = PubKeySize env then Ok key
       else Panic (New (''invalid ed25519 pubkey size: '' @ show_nat (length key))))"
  using assms by (auto simp: parsePubKey_def requireFieldIsString_def ToLower_def)

theorem pub_key_round_trip_witness:
  "parsePubKey sample_hook_env (IfMap [(''type'', IfString ''Ed25519''),
     (''value'', IfString (b64_encode (replicate 32 (CHR ''k''))))]) = Ok (replicate 32 (CHR ''k''))"
proof -
  have "ToLower ''Ed25519'' = ToLower (KeyType sample_hook_env)"
    by code_simp
  then show ?thesis
    using pub_key_round_trip [of "''Ed25519''" sample_hook_env "replicate 32 (CHR ''k'')"]
    by (simp add: sample_hook_env_def)
qed

end
