(* ===== verification/Global_Fee.thy ===== *)
theory Global_Fee
  imports Proposal
begin

text \<open>
  The consensus rule on fees (\<open>x/globalfee\<close>) and the handler in front of every transaction
  (\<open>app/ante.go\<close>). The decimals and coins of the SDK are arguments: \<open>dec_law\<close> says that they compute
  with multiples of \<open>10 ^ -18\<close>, or panic. The store, the JSON codec of the parameters and the
  handler of the SDK are arguments as well.
\<close>

section \<open>Types\<close>

record 'd DecCoin =
  Denom :: string
  Amount :: 'd

record 'd FeeParams =
  MinimumGasPrice :: "'d DecCoin"

record 'd FeeGenesis =
  fg_Params :: "'d FeeParams"

text \<open>The operations of \<open>cosmossdk.io/math\<close>, of coins and of the JSON codec that the module calls.\<close>

record 'd FeeLib =
  LegacyZeroDec :: 'd
  dec_IsZero :: "'d \<Rightarrow> bool outcome"
  dec_MulInt :: "'d \<Rightarrow> int \<Rightarrow> 'd outcome"
  dec_Ceil :: "'d \<Rightarrow> 'd outcome"
  dec_TruncateInt :: "'d \<Rightarrow> int outcome"
  dec_String :: "'d \<Rightarrow> string"
  NewDecCoinFromDec :: "string \<Rightarrow> 'd \<Rightarrow> 'd DecCoin outcome"
  DecCoin_Validate :: "'d DecCoin \<Rightarrow> unit outcome"
  params_Marshal :: "'d FeeParams \<Rightarrow> bytes outcome"
  params_Unmarshal :: "bytes \<Rightarrow> 'd FeeParams outcome"
  genesis_Marshal :: "'d FeeGenesis \<Rightarrow> bytes outcome"
  genesis_Unmarshal :: "bytes \<Rightarrow> 'd FeeGenesis outcome"

record 's KVStore =
  kv_Get :: "bytes \<Rightarrow> 's \<Rightarrow> bytes option outcome"
  kv_Set :: "bytes \<Rightarrow> bytes \<Rightarrow> 's \<Rightarrow> unit outcome \<times> 's"

text \<open>What the handlers read of \<open>sdk.FeeTx\<close> and of the context.\<close>

record FeeTx =
  GetGas :: u64
  AmountOf :: "string \<Rightarrow> int outcome"

record 's AnteContext =
  IsCheckTx :: bool
  IsReCheckTx :: bool
  ante_store :: 's

type_synonym 's AnteHandler = "'s AnteContext \<Rightarrow> Tx \<Rightarrow> bool \<Rightarrow> unit outcome \<times> 's AnteContext"

section \<open>Parameters (x/globalfee/types, x/globalfee/keeper)\<close>

definition ChainDenom :: string where "ChainDenom = ''atnex''"

definition ParamsKey :: bytes where "ParamsKey = ''params''"

definition FeeDefaultParams :: "'d FeeLib \<Rightarrow> 'd FeeParams outcome" where
  "FeeDefaultParams L =
     bindO (NewDecCoinFromDec L ChainDenom (LegacyZeroDec L)) (\<lambda>c. Ok \<lparr>MinimumGasPrice = c\<rparr>)"

definition FeeParams_Validate :: "'d FeeLib \<Rightarrow> 'd FeeParams \<Rightarrow> unit outcome" where
  "FeeParams_Validate L p =
     bindO (wrapO ''minimum_gas_price: '' [] (DecCoin_Validate L (MinimumGasPrice p))) (\<lambda>_.
       if Denom (MinimumGasPrice p) \<noteq> ChainDenom
       then Err (New (''minimum_gas_price: denom must be '' @ ChainDenom @ '', got '' @ Denom (MinimumGasPrice p)))
       else Ok ())"

definition FeeDefaultGenesis :: "'d FeeLib \<Rightarrow> 'd FeeGenesis outcome" where
  "FeeDefaultGenesis L = bindO (FeeDefaultParams L) (\<lambda>p. Ok \<lparr>fg_Params = p\<rparr>)"

definition FeeGenesis_Validate :: "'d FeeLib \<Rightarrow> 'd FeeGenesis \<Rightarrow> unit outcome" where
  "FeeGenesis_Validate L gs = FeeParams_Validate L (fg_Params gs)"

text \<open>A store or codec error panics; a missing value gives the default.\<close>

definition GetParams :: "'d FeeLib \<Rightarrow> 's KVStore \<Rightarrow> 's \<Rightarrow> 'd FeeParams outcome" where
  "GetParams L kv s =
     bindO (mustO (kv_Get kv ParamsKey s)) (\<lambda>bz.
       case bz of
         None \<Rightarrow> FeeDefaultParams L
       | Some b \<Rightarrow> mustO (params_Unmarshal L b))"

definition SetParams :: "'d FeeLib \<Rightarrow> 's KVStore \<Rightarrow> 'd FeeParams \<Rightarrow> 's \<Rightarrow> unit outcome \<times> 's" where
  "SetParams L kv p s =
     (case params_Marshal L p of
        Ok bz \<Rightarrow> kv_Set kv ParamsKey bz s
      | Err e \<Rightarrow> (Err e, s)
      | Panic e \<Rightarrow> (Panic e, s))"

section \<open>The module (x/globalfee/module)\<close>

text \<open>The error of the encoder is dropped, and the bytes it returns with an error are none.\<close>

definition FeeModule_DefaultGenesis :: "'d FeeLib \<Rightarrow> bytes outcome" where
  "FeeModule_DefaultGenesis L =
     bindO (FeeDefaultGenesis L) (\<lambda>gs.
       case genesis_Marshal L gs of Ok bz \<Rightarrow> Ok bz | Err _ \<Rightarrow> Ok [] | Panic e \<Rightarrow> Panic e)"

definition FeeModule_ValidateGenesis :: "'d FeeLib \<Rightarrow> bytes \<Rightarrow> unit outcome" where
  "FeeModule_ValidateGenesis L bz = bindO (genesis_Unmarshal L bz) (FeeGenesis_Validate L)"

definition FeeModule_InitGenesis :: "'d FeeLib \<Rightarrow> 's KVStore \<Rightarrow> bytes \<Rightarrow> 's \<Rightarrow> unit outcome \<times> 's" where
  "FeeModule_InitGenesis L kv bz s =
     (case mustO (genesis_Unmarshal L bz) of
        Ok gs \<Rightarrow> (case SetParams L kv (fg_Params gs) s of (r, s') \<Rightarrow> (mustO r, s'))
      | Err e \<Rightarrow> (Err e, s)
      | Panic e \<Rightarrow> (Panic e, s))"

definition FeeModule_ExportGenesis :: "'d FeeLib \<Rightarrow> 's KVStore \<Rightarrow> 's \<Rightarrow> bytes outcome" where
  "FeeModule_ExportGenesis L kv s =
     bindO (GetParams L kv s) (\<lambda>p. mustO (genesis_Marshal L \<lparr>fg_Params = p\<rparr>))"

section \<open>The handler in front of every transaction (x/globalfee/ante, app/ante.go)\<close>

definition required_fee :: "'d FeeLib \<Rightarrow> 'd DecCoin \<Rightarrow> u64 \<Rightarrow> int outcome" where
  "required_fee L minPrice gas =
     bindO (dec_MulInt L (Amount minPrice) (uint gas)) (\<lambda>x. bindO (dec_Ceil L x) (dec_TruncateInt L))"

definition MinGasPrice_AnteHandle ::
    "'d FeeLib \<Rightarrow> 's KVStore \<Rightarrow> (Tx \<Rightarrow> FeeTx option) \<Rightarrow> 's AnteHandler \<Rightarrow> 's AnteHandler" where
  "MinGasPrice_AnteHandle L kv as_FeeTx nxt ctx t simulate =
     (if simulate then nxt ctx t simulate
      else
        let fees = bindO (GetParams L kv (ante_store ctx)) (\<lambda>p.
              let minPrice = MinimumGasPrice p
              in bindO (dec_IsZero L (Amount minPrice)) (\<lambda>zero.
                 if zero then Ok ()
                 else case as_FeeTx t of
                        None \<Rightarrow> Err (New ''tx must implement sdk.FeeTx'')
                      | Some feeTx \<Rightarrow>
                          bindO (required_fee L minPrice (GetGas feeTx)) (\<lambda>required.
                          bindO (AmountOf feeTx (Denom minPrice)) (\<lambda>paid.
                          if paid < required
                          then Err (New (''insufficient fees: got '' @ show_int paid @ Denom minPrice @ '', required ''
                                 @ show_int required @ Denom minPrice @ '' (gas '' @ show_u64 (GetGas feeTx) @ '' ''
                                 @ [CHR 0xC3, CHR 0x97] @ '' price '' @ dec_String L (Amount minPrice) @ '')''))
                          else Ok ()))))
        in case fees of
             Ok _ \<Rightarrow> nxt ctx t simulate
           | Err e \<Rightarrow> (Err e, ctx)
           | Panic e \<Rightarrow> (Panic e, ctx))"

text \<open>A transaction with a payload message and nothing else.\<close>

definition lone_payload :: "Tx \<Rightarrow> bool" where
  "lone_payload t = (case GetMsgs t of [m] \<Rightarrow> isPayloadMsg m | _ \<Rightarrow> False)"

definition newAnteHandler ::
    "'d FeeLib \<Rightarrow> 's KVStore \<Rightarrow> (Tx \<Rightarrow> FeeTx option) \<Rightarrow> 's AnteHandler outcome \<Rightarrow> 's AnteHandler outcome" where
  "newAnteHandler L kv as_FeeTx NewAnteHandler =
     bindO (mustO NewAnteHandler) (\<lambda>sdkAnteHandler.
       Ok (\<lambda>ctx t simulate.
             if lone_payload t
             then (if IsCheckTx ctx \<or> IsReCheckTx ctx
                   then (Err (New ''MsgExecutionPayload cannot be submitted directly''), ctx)
                   else (Ok (), ctx))
             else MinGasPrice_AnteHandle L kv as_FeeTx sdkAnteHandler ctx t simulate))"

section \<open>Laws\<close>

text \<open>
  The decimals of the SDK: \<open>val d\<close> is the value of \<open>d\<close> in units of \<open>10 ^ -18\<close>. An operation panics when
  its result does not fit or its argument is nil, and otherwise is exact: \<open>Ceil\<close> rounds up to a whole
  number and \<open>TruncateInt\<close> gives a decimal's whole part, rounding towards zero.
\<close>

definition dec_law :: "'d FeeLib \<Rightarrow> ('d \<Rightarrow> int) \<Rightarrow> bool" where
  "dec_law L val \<longleftrightarrow>
     (\<forall>d b. dec_IsZero L d = Ok b \<longrightarrow> b = (val d = 0)) \<and>
     (\<forall>d n r. dec_MulInt L d n = Ok r \<longrightarrow> val r = val d * n) \<and>
     (\<forall>d r. dec_Ceil L d = Ok r \<longrightarrow> val r = - ((- val d) div 10 ^ 18) * 10 ^ 18) \<and>
     (\<forall>d n. dec_TruncateInt L d = Ok n \<longrightarrow> n = sgn (val d) * (\<bar>val d\<bar> div 10 ^ 18))"

text \<open>A store that returns what was written, and a codec that reads what it wrote.\<close>

definition kv_law :: "'s KVStore \<Rightarrow> bool" where
  "kv_law kv \<longleftrightarrow> (\<forall>k v s s'. kv_Set kv k v s = (Ok (), s') \<longrightarrow> kv_Get kv k s' = Ok (Some v))"

definition codec_law :: "'d FeeLib \<Rightarrow> bool" where
  "codec_law L \<longleftrightarrow>
     (\<forall>p b. params_Marshal L p = Ok b \<longrightarrow> params_Unmarshal L b = Ok p) \<and>
     (\<forall>g b. genesis_Marshal L g = Ok b \<longrightarrow> genesis_Unmarshal L b = Ok g)"

section \<open>Lemmas\<close>

lemma ceil_bound: "(0::int) < k \<Longrightarrow> - ((- x) div k) \<le> p \<longleftrightarrow> x \<le> p * k"
proof -
  assume k: "0 < k"
  have "- x div k * k \<le> - x" using k by (metis div_mult_mod_eq le_add_same_cancel1 pos_mod_sign)
  moreover have "- p \<le> (- x) div k" if "- p * k \<le> - x"
    using zdiv_mono1 [OF that k] nonzero_mult_div_cancel_right [of k "- p"] k by linarith
  moreover have "- p * k \<le> (- x) div k * k" if "- p \<le> (- x) div k"
    using that k by (intro mult_right_mono) simp_all
  ultimately show ?thesis by (auto simp: minus_le_iff)
qed

lemma trunc_exact: "sgn (q * k) * (\<bar>q * k\<bar> div k) = (q :: int)" if "0 < k"
  using that by (simp add: abs_mult sgn_mult mult.commute [of "\<bar>q\<bar>"] sgn_mult_abs)

lemma required_fee_law:
  assumes "dec_law L val" "required_fee L c gas = Ok n"
  shows "n \<le> paid \<longleftrightarrow> val (Amount c) * uint gas \<le> paid * 10 ^ 18"
proof -
  from assms(2) obtain x y where x: "dec_MulInt L (Amount c) (uint gas) = Ok x"
    and y: "dec_Ceil L x = Ok y" and n: "dec_TruncateInt L y = Ok n"
    by (auto simp: required_fee_def outcome_simps)
  have vx: "val x = val (Amount c) * uint gas" using assms(1) x unfolding dec_law_def by blast
  have vy: "val y = - ((- val x) div 10 ^ 18) * 10 ^ 18" using assms(1) y unfolding dec_law_def by blast
  have "n = sgn (val y) * (\<bar>val y\<bar> div 10 ^ 18)" using assms(1) n unfolding dec_law_def by blast
  then have "n = - ((- val x) div 10 ^ 18)" unfolding vy by (simp only: trunc_exact [of "10 ^ 18"] zero_less_power zero_less_numeral)
  then show ?thesis unfolding vx using ceil_bound [of "10 ^ 18"] by simp
qed

lemma AnteHandle_Ok:
  "fst (MinGasPrice_AnteHandle L kv as_FeeTx nxt ctx t False) = Ok () \<longleftrightarrow>
    fst (nxt ctx t False) = Ok () \<and>
    (\<exists>p zero. GetParams L kv (ante_store ctx) = Ok p \<and> dec_IsZero L (Amount (MinimumGasPrice p)) = Ok zero \<and>
      (zero \<or> (\<exists>feeTx required paid. as_FeeTx t = Some feeTx \<and>
         required_fee L (MinimumGasPrice p) (GetGas feeTx) = Ok required \<and>
         AmountOf feeTx (Denom (MinimumGasPrice p)) = Ok paid \<and> required \<le> paid)))"
  unfolding MinGasPrice_AnteHandle_def Let_def
  by (auto simp: outcome_simps not_less split: outcome.splits if_splits option.splits)

section \<open>Properties\<close>

text \<open>
  C11. The handler in front of every transaction lets a transaction through exactly when it is a lone payload
  message outside the mempool checks, or the SDK's handler accepts it and it pays the minimum gas
  price: the price is zero, or the fee in the price's denomination is at least the price times the
  gas as exact numbers, for every 64-bit amount of gas. A lone payload message is refused in both
  mempool checks.
\<close>

theorem min_gas_price_enforced:
  assumes law: "dec_law L val" and h: "newAnteHandler L kv as_FeeTx (Ok sdk) = Ok handler"
  shows "fst (handler ctx t False) = Ok () \<longleftrightarrow>
    (if lone_payload t then \<not> IsCheckTx ctx \<and> \<not> IsReCheckTx ctx
     else fst (sdk ctx t False) = Ok () \<and>
       (\<exists>p zero. GetParams L kv (ante_store ctx) = Ok p \<and> dec_IsZero L (Amount (MinimumGasPrice p)) = Ok zero \<and>
         (val (Amount (MinimumGasPrice p)) = 0 \<or>
          (\<exists>feeTx required paid. as_FeeTx t = Some feeTx \<and>
             required_fee L (MinimumGasPrice p) (GetGas feeTx) = Ok required \<and>
             AmountOf feeTx (Denom (MinimumGasPrice p)) = Ok paid \<and>
             val (Amount (MinimumGasPrice p)) * uint (GetGas feeTx) \<le> paid * 10 ^ 18))))"
proof -
  have zero: "zero \<longleftrightarrow> val d = 0" if "dec_IsZero L d = Ok zero" for zero d
    using law that unfolding dec_law_def by blast
  have run: "handler ctx t False =
      (if lone_payload t
       then (if IsCheckTx ctx \<or> IsReCheckTx ctx
             then (Err (New ''MsgExecutionPayload cannot be submitted directly''), ctx) else (Ok (), ctx))
       else MinGasPrice_AnteHandle L kv as_FeeTx sdk ctx t False)"
    using h by (auto simp: newAnteHandler_def)
  show ?thesis
  proof (cases "lone_payload t")
    case False
    then show ?thesis
      unfolding run if_not_P [OF False] AnteHandle_Ok using zero required_fee_law [OF law] by blast
  qed (simp add: run)
qed

text \<open>Decimals as integers, and parameters written as the amount in unary before the denomination.\<close>

definition unary_Marshal :: "int FeeParams \<Rightarrow> bytes outcome" where
  "unary_Marshal p =
     (if Amount (MinimumGasPrice p) < 0 then Err (New ''negative'')
      else Ok (replicate (nat (Amount (MinimumGasPrice p))) CHR ''1'' @ CHR '':'' # Denom (MinimumGasPrice p)))"

definition unary_Unmarshal :: "bytes \<Rightarrow> int FeeParams outcome" where
  "unary_Unmarshal b = Ok \<lparr>MinimumGasPrice = \<lparr>Denom = drop 1 (dropWhile (\<lambda>c. c = CHR ''1'') b),
     Amount = int (length (takeWhile (\<lambda>c. c = CHR ''1'') b))\<rparr>\<rparr>"

lemma unary_digits:
  "takeWhile (\<lambda>c. c = CHR ''1'') (replicate n CHR ''1'' @ CHR '':'' # d) = replicate n CHR ''1''"
  "dropWhile (\<lambda>c. c = CHR ''1'') (replicate n CHR ''1'' @ CHR '':'' # d) = CHR '':'' # d"
  by (induction n) simp_all

lemma unary_codec: "unary_Marshal p = Ok b \<Longrightarrow> unary_Unmarshal b = Ok p"
  by (auto simp: unary_Marshal_def unary_Unmarshal_def unary_digits split: if_splits)

definition sample_fee_lib :: "int FeeLib" where
  "sample_fee_lib = \<lparr>LegacyZeroDec = 0, dec_IsZero = (\<lambda>d. Ok (d = 0)), dec_MulInt = (\<lambda>d n. Ok (d * n)),
     dec_Ceil = (\<lambda>d. Ok (- ((- d) div 10 ^ 18) * 10 ^ 18)),
     dec_TruncateInt = (\<lambda>d. Ok (sgn d * (\<bar>d\<bar> div 10 ^ 18))), dec_String = show_int,
     NewDecCoinFromDec = (\<lambda>n d. Ok \<lparr>Denom = n, Amount = d\<rparr>), DecCoin_Validate = (\<lambda>c. guardO (0 \<le> Amount c) (New ''negative'')),
     params_Marshal = unary_Marshal, params_Unmarshal = unary_Unmarshal,
     genesis_Marshal = (\<lambda>g. unary_Marshal (fg_Params g)),
     genesis_Unmarshal = (\<lambda>b. bindO (unary_Unmarshal b) (\<lambda>p. Ok \<lparr>fg_Params = p\<rparr>))\<rparr>"

definition sample_kv :: "bytes option KVStore" where
  "sample_kv = \<lparr>kv_Get = (\<lambda>_ s. Ok s), kv_Set = (\<lambda>_ v _. (Ok (), Some v))\<rparr>"

lemma sample_dec_law: "dec_law sample_fee_lib (\<lambda>d. d)"
  by (simp add: dec_law_def sample_fee_lib_def)

lemma sample_kv_law: "kv_law sample_kv"
  by (simp add: kv_law_def sample_kv_def)

lemma sample_codec_law: "codec_law sample_fee_lib"
  by (auto simp: codec_law_def sample_fee_lib_def dest: unary_codec)

lemma sample_params: "GetParams sample_fee_lib sample_kv (Some ''1111:atnex'') = Ok \<lparr>MinimumGasPrice = \<lparr>Denom = ''atnex'', Amount = 4\<rparr>\<rparr>"
  by (simp add: GetParams_def sample_fee_lib_def sample_kv_def unary_Unmarshal_def)

text \<open>At a price of \<open>4 * 10 ^ -18\<close> a gas limit of \<open>2 ^ 63\<close> costs 37 units, and 36 are not enough.\<close>

theorem min_gas_price_enforced_witness:
  "\<exists>handler. newAnteHandler sample_fee_lib sample_kv (\<lambda>_. Some \<lparr>GetGas = 2 ^ 63, AmountOf = (\<lambda>_. Ok 36)\<rparr>)
       (Ok (\<lambda>ctx _ _. (Ok (), ctx))) = Ok handler
     \<and> fst (handler \<lparr>IsCheckTx = False, IsReCheckTx = False, ante_store = Some ''1111:atnex''\<rparr> (sample_tx [MsgSend ''send'']) False) \<noteq> Ok ()"
proof -
  let ?fee = "\<lambda>_ :: Tx. Some \<lparr>GetGas = 2 ^ 63 :: u64, AmountOf = (\<lambda>_. Ok (36 :: int))\<rparr>"
  let ?sdk = "\<lambda>ctx _ _. (Ok (), ctx)"
  obtain handler where h: "newAnteHandler sample_fee_lib sample_kv ?fee (Ok ?sdk) = Ok handler"
    by (simp add: newAnteHandler_def)
  have lone: "\<not> lone_payload (sample_tx [MsgSend ''send''])" by (simp add: lone_payload_def sample_tx_def)
  have "uint (2 ^ 63 :: u64) = 2 ^ 63" by simp
  then show ?thesis
    using h min_gas_price_enforced [OF sample_dec_law h, of "\<lparr>IsCheckTx = False, IsReCheckTx = False, ante_store = Some ''1111:atnex''\<rparr>" "sample_tx [MsgSend ''send'']"]
    by (simp add: lone sample_params)
qed

text \<open>
  Exporting the module's genesis and importing it into any store gives back the parameters, so
  the same minimum gas price, and the same exported bytes.
\<close>

theorem globalfee_genesis_round_trip:
  assumes "kv_law kv" and "codec_law L"
    and "FeeModule_ExportGenesis L kv s = Ok bz" and "FeeModule_InitGenesis L kv bz s0 = (Ok (), s1)"
  shows "GetParams L kv s1 = GetParams L kv s \<and> FeeModule_ExportGenesis L kv s1 = Ok bz"
proof -
  from assms(3) obtain p where p: "GetParams L kv s = Ok p" and bz: "genesis_Marshal L \<lparr>fg_Params = p\<rparr> = Ok bz"
    by (auto simp: FeeModule_ExportGenesis_def outcome_simps)
  have "genesis_Unmarshal L bz = Ok \<lparr>fg_Params = p\<rparr>" using assms(2) bz by (simp add: codec_law_def)
  then have "SetParams L kv p s0 = (Ok (), s1)"
    using assms(4) by (auto simp: FeeModule_InitGenesis_def outcome_simps split: prod.splits)
  then obtain b where b: "params_Marshal L p = Ok b" and set_b: "kv_Set kv ParamsKey b s0 = (Ok (), s1)"
    by (auto simp: SetParams_def split: outcome.splits)
  have "GetParams L kv s1 = Ok p"
    using assms(1,2) b set_b by (simp add: kv_law_def codec_law_def GetParams_def)
  then show ?thesis using p assms(3) by (simp add: FeeModule_ExportGenesis_def)
qed

theorem globalfee_genesis_round_trip_witness:
  "\<exists>s1. FeeModule_InitGenesis sample_fee_lib sample_kv ''1111:atnex'' None = (Ok (), s1)
     \<and> GetParams sample_fee_lib sample_kv s1 = Ok \<lparr>MinimumGasPrice = \<lparr>Denom = ''atnex'', Amount = 4\<rparr>\<rparr>"
proof -
  have export: "FeeModule_ExportGenesis sample_fee_lib sample_kv (Some ''1111:atnex'') = Ok ''1111:atnex''"
    unfolding FeeModule_ExportGenesis_def sample_params
    by (simp add: sample_fee_lib_def unary_Marshal_def numeral_eq_Suc)
  obtain s1 where init: "FeeModule_InitGenesis sample_fee_lib sample_kv ''1111:atnex'' None = (Ok (), s1)"
    by (simp add: FeeModule_InitGenesis_def SetParams_def sample_fee_lib_def sample_kv_def unary_Unmarshal_def unary_Marshal_def)
  show ?thesis
    using globalfee_genesis_round_trip [OF sample_kv_law sample_codec_law export init] init by (simp add: sample_params)
qed

end
