(* ===== verification/App_Config.thy ===== *)
theory App_Config
  imports Block_Hooks Global_Fee
begin

text \<open>
  The configuration of the application (\<open>app/app_config.go\<close>): the permissions of the module accounts,
  the blocked addresses, the orders in which the modules run, and the modules themselves with the settings
  they are given. The names of the SDK's modules, accounts and permissions are an argument
  (\<open>ModuleNames\<close>). The bank keeper with its documented check of permissions is \<open>guarded\<close>; the properties say that
  the permissions granted here are the ones that the scheduled hooks need.
\<close>

section \<open>Names\<close>

record ModuleNames =
  n_auth :: string
  n_vesting :: string
  n_bank :: string
  n_staking :: string
  n_slashing :: string
  n_genutil :: string
  n_authz :: string
  n_upgrade :: string
  n_distr :: string
  n_evidence :: string
  n_mint :: string
  n_group :: string
  n_nft :: string
  n_feegrant :: string
  n_gov :: string
  n_consensus :: string
  n_circuit :: string
  n_params :: string
  n_epochs :: string
  n_ibc :: string
  n_transfer :: string
  n_ica :: string
  n_runtime :: string
  n_fee_collector :: string
  n_Minter :: string
  n_Burner :: string

definition globalfee_ModuleName :: string where "globalfee_ModuleName = ''globalfee''"
definition app_Name :: string where "app_Name = ''nexus''"
definition AccountAddressPrefix :: string where "AccountAddressPrefix = ''nexus''"

section \<open>Permissions and orders\<close>

definition moduleAccPerms :: "ModuleNames \<Rightarrow> (string \<times> string list) list" where
  "moduleAccPerms N =
     [(n_fee_collector N, []),
      (n_distr N, []),
      (n_mint N, [n_Minter N]),
      (BondedPoolName, [n_Burner N, n_Minter N, n_staking N]),
      (NotBondedPoolName, [n_Burner N, n_staking N]),
      (n_gov N, [n_Burner N]),
      (n_nft N, []),
      (n_transfer N, [n_Minter N, n_Burner N]),
      (n_ica N, [])]"

definition blockAccAddrs :: "ModuleNames \<Rightarrow> string list" where
  "blockAccAddrs N = [n_fee_collector N, n_distr N, n_mint N, BondedPoolName, NotBondedPoolName, n_nft N]"

definition beginBlockers :: "ModuleNames \<Rightarrow> string list" where
  "beginBlockers N =
     [n_mint N, n_distr N, n_slashing N, n_evidence N, n_staking N, n_authz N, n_epochs N, n_ibc N, ModuleName]"

definition endBlockers :: "ModuleNames \<Rightarrow> string list" where
  "endBlockers N = [n_gov N, n_staking N, n_feegrant N, n_group N, ModuleName]"

definition preBlockers :: "ModuleNames \<Rightarrow> string list" where
  "preBlockers N = [n_upgrade N, n_auth N]"

definition initGenesis_order :: "ModuleNames \<Rightarrow> string list" where
  "initGenesis_order N =
     [n_consensus N, n_auth N, n_bank N, n_distr N, n_staking N, n_slashing N, n_gov N, n_mint N, n_genutil N,
      n_evidence N, n_authz N, n_feegrant N, n_vesting N, n_nft N, n_group N, n_upgrade N, n_circuit N, n_epochs N,
      n_ibc N, n_transfer N, n_ica N, ModuleName, globalfee_ModuleName]"

section \<open>The modules\<close>

text \<open>The settings of a module; the ones that set nothing are \<open>Plain\<close>.\<close>

datatype module_config =
    Runtime (AppName: string) (PreBlockers: "string list") (OverrideStoreKeys: "(string \<times> string) list")
      (InitGenesis_Order: "string list")
  | AuthConfig (Bech32Prefix: string) (ModuleAccountPermissions: "(string \<times> string list) list")
      (EnableUnorderedTransactions: bool)
  | BankConfig (BlockedModuleAccountsOverride: "string list")
  | TxConfigModule (SkipAnteHandler: bool) (SkipPostHandler: bool)
  | UpgradeConfig (Authority: string)
  | GroupConfig (MaxExecutionPeriod: nat) (MaxMetadataLen: nat)
  | Plain

definition appConfig :: "ModuleNames \<Rightarrow> (string \<times> module_config) list" where
  "appConfig N =
     [(n_runtime N, Runtime app_Name (preBlockers N) [(n_auth N, ''acc'')] (initGenesis_order N)),
      (n_auth N, AuthConfig AccountAddressPrefix (moduleAccPerms N) True),
      (n_vesting N, Plain),
      (n_bank N, BankConfig (blockAccAddrs N)),
      (n_staking N, Plain),
      (n_slashing N, Plain),
      (''tx'', TxConfigModule True True),
      (n_genutil N, Plain),
      (n_authz N, Plain),
      (n_upgrade N, UpgradeConfig (n_gov N)),
      (n_distr N, Plain),
      (n_evidence N, Plain),
      (n_mint N, Plain),
      (n_group N, GroupConfig (1209600 * 1000000000) 255),
      (n_nft N, Plain),
      (n_feegrant N, Plain),
      (n_gov N, Plain),
      (n_consensus N, Plain),
      (n_circuit N, Plain),
      (n_params N, Plain),
      (n_epochs N, Plain),
      (ModuleName, Plain),
      (globalfee_ModuleName, Plain)]"

section \<open>Queries of \<open>app.go\<close>\<close>

text \<open>\<open>GetMaccPerms\<close> fills a map in the order of the list, and \<open>BlockedAddresses\<close> a set.\<close>

definition GetMaccPerms :: "ModuleNames \<Rightarrow> string \<Rightarrow> string list option" where
  "GetMaccPerms N = foldl (\<lambda>dup perms. dup(fst perms \<mapsto> snd perms)) Map.empty (moduleAccPerms N)"

definition BlockedAddresses :: "ModuleNames \<Rightarrow> string \<Rightarrow> bool option" where
  "BlockedAddresses N =
     (if length (blockAccAddrs N) > 0
      then foldl (\<lambda>result addr. result(addr \<mapsto> True)) Map.empty (blockAccAddrs N)
      else (\<lambda>addr. if GetMaccPerms N addr \<noteq> None then Some True else None))"

section \<open>The bank's check of permissions\<close>

definition permitted :: "ModuleNames \<Rightarrow> string \<Rightarrow> string \<Rightarrow> bool" where
  "permitted N perm account = (case GetMaccPerms N account of None \<Rightarrow> False | Some perms \<Rightarrow> perm \<in> set perms)"

definition permission_error :: "string \<Rightarrow> string \<Rightarrow> go_error" where
  "permission_error account verb = New (''module account '' @ account @ '' does not have permissions to '' @ verb @ '' tokens'')"

text \<open>
  The bank keeper documents that minting to or burning from a module account panics unless the account exists
  and has the permission.
\<close>

definition guarded :: "ModuleNames \<Rightarrow> 's SdkKeepers \<Rightarrow> 's SdkKeepers" where
  "guarded N K = K\<lparr>
     MintCoins := (\<lambda>p c s. if permitted N (n_Minter N) p then MintCoins K p c s else (Panic (permission_error p ''mint''), s)),
     BurnCoins := (\<lambda>p c s. if permitted N (n_Burner N) p then BurnCoins K p c s else (Panic (permission_error p ''burn''), s))\<rparr>"

text \<open>The SDK's names of modules are different from each other and from those of this chain, and so are its names of accounts.\<close>

definition module_names :: "ModuleNames \<Rightarrow> string list" where
  "module_names N =
     [n_auth N, n_vesting N, n_bank N, n_staking N, n_slashing N, n_genutil N, n_authz N, n_upgrade N, n_distr N,
      n_evidence N, n_mint N, n_group N, n_nft N, n_feegrant N, n_gov N, n_consensus N, n_circuit N, n_params N,
      n_epochs N, n_ibc N, n_transfer N, n_ica N, n_runtime N, ''tx'', ModuleName, globalfee_ModuleName]"

definition account_names :: "ModuleNames \<Rightarrow> string list" where
  "account_names N = [n_fee_collector N, n_distr N, n_mint N, BondedPoolName, NotBondedPoolName, n_gov N, n_nft N,
     n_transfer N, n_ica N]"

definition names_law :: "ModuleNames \<Rightarrow> bool" where
  "names_law N \<longleftrightarrow> distinct (module_names N) \<and> distinct (account_names N)"

section \<open>Lemmas\<close>

lemma foldl_map_upd: "distinct (map fst kvs) \<Longrightarrow> foldl (\<lambda>m kv. m(fst kv \<mapsto> snd kv)) m0 kvs k =
    (case map_of kvs k of None \<Rightarrow> m0 k | Some v \<Rightarrow> Some v)"
proof (induction kvs arbitrary: m0)
  case (Cons kv kvs)
  have "map_of kvs (fst kv) = None" using Cons.prems by (simp add: map_of_eq_None_iff)
  then show ?case using Cons by (cases "k = fst kv") (auto split: option.splits)
qed simp

lemma account_names_perms: "map fst (moduleAccPerms N) = account_names N"
  by (simp add: moduleAccPerms_def account_names_def)

lemma GetMaccPerms_map_of:
  assumes "distinct (account_names N)"
  shows "GetMaccPerms N = map_of (moduleAccPerms N)"
proof
  fix k
  have "distinct (map fst (moduleAccPerms N))" using assms by (simp only: account_names_perms)
  then show "GetMaccPerms N k = map_of (moduleAccPerms N) k"
    by (simp only: GetMaccPerms_def foldl_map_upd) (simp split: option.splits)
qed

lemma permitted_iff:
  assumes "distinct (account_names N)"
  shows "permitted N perm a \<longleftrightarrow> (\<exists>perms. (a, perms) \<in> set (moduleAccPerms N) \<and> perm \<in> set perms)"
proof -
  have "distinct (map fst (moduleAccPerms N))" using assms by (simp only: account_names_perms)
  then have "map_of (moduleAccPerms N) a = Some perms \<longleftrightarrow> (a, perms) \<in> set (moduleAccPerms N)" for perms
    by (rule map_of_eq_Some_iff)
  moreover have "permitted N perm a \<longleftrightarrow> (\<exists>perms. map_of (moduleAccPerms N) a = Some perms \<and> perm \<in> set perms)"
    by (simp add: permitted_def GetMaccPerms_map_of [OF assms] split: option.splits)
  ultimately show ?thesis by simp
qed

lemma pools_permitted:
  assumes "names_law N"
  shows "permitted N (n_Minter N) BondedPoolName" "permitted N (n_Burner N) BondedPoolName"
    "permitted N (n_Burner N) NotBondedPoolName" "permitted N (n_Minter N) (n_mint N)"
proof -
  have "distinct (account_names N)" using assms by (simp only: names_law_def)
  note iff = permitted_iff [OF this] moduleAccPerms_def
  show "permitted N (n_Minter N) BondedPoolName" "permitted N (n_Burner N) BondedPoolName"
    unfolding iff by (intro exI [of _ "[n_Burner N, n_Minter N, n_staking N]"], simp)+
  show "permitted N (n_Burner N) NotBondedPoolName"
    unfolding iff by (intro exI [of _ "[n_Burner N, n_staking N]"]) simp
  show "permitted N (n_Minter N) (n_mint N)" unfolding iff by (intro exI [of _ "[n_Minter N]"]) simp
qed

lemma guarded_mint: "names_law N \<Longrightarrow> MintCoins (guarded N K) BondedPoolName = MintCoins K BondedPoolName"
  by (simp add: guarded_def pools_permitted)

lemma guarded_burn:
  "names_law N \<Longrightarrow> p = BondedPoolName \<or> p = NotBondedPoolName \<Longrightarrow> BurnCoins (guarded N K) p = BurnCoins K p"
  by (auto simp: guarded_def pools_permitted)

text \<open>The operations on validators are the same with the check as without it.\<close>

lemma guarded_same [simp]:
  "GetValidator (guarded N K) = GetValidator K" "GetAllValidators (guarded N K) = GetAllValidators K"
  "SetValidator (guarded N K) = SetValidator K" "SetValidatorByConsAddr (guarded N K) = SetValidatorByConsAddr K"
  "SetNewValidatorByPowerIndex (guarded N K) = SetNewValidatorByPowerIndex K"
  "DeleteValidatorByPowerIndex (guarded N K) = DeleteValidatorByPowerIndex K"
  "BondDenom (guarded N K) = BondDenom K" "UnbondingDelegations (guarded N K) = UnbondingDelegations K"
  "Delegate (guarded N K) = Delegate K" "GetValidatorSigningInfo (guarded N K) = GetValidatorSigningInfo K"
  "SetValidatorSigningInfo (guarded N K) = SetValidatorSigningInfo K" "Unjail (guarded N K) = Unjail K"
  "SendCoinsFromModuleToAccount (guarded N K) = SendCoinsFromModuleToAccount K"
  "SendCoinsFromModuleToModule (guarded N K) = SendCoinsFromModuleToModule K"
  "GetBalance (guarded N K) = GetBalance K" "GetModuleAddress (guarded N K) = GetModuleAddress K"
  "HasAccount (guarded N K) = HasAccount K" "SetNewAccount (guarded N K) = SetNewAccount K"
  "SetHistoricalRewards (guarded N K) = SetHistoricalRewards K" "SetCurrentRewards (guarded N K) = SetCurrentRewards K"
  "SetAccumulatedCommission (guarded N K) = SetAccumulatedCommission K" "FeePool_Get (guarded N K) = FeePool_Get K"
  "FeePool_SetInitial (guarded N K) = FeePool_SetInitial K" "NewValidator (guarded N K) = NewValidator K"
  "GetConsAddr (guarded N K) = GetConsAddr K" "AccAddressString (guarded N K) = AccAddressString K"
  "ValAddressString (guarded N K) = ValAddressString K"
  by (simp_all add: guarded_def)

lemma guarded_balance:
  assumes "names_law N" shows "setValidatorBalance (guarded N K) = setValidatorBalance K"
  by (intro ext) (simp only: setValidatorBalance_def guarded_same guarded_mint [OF assms])

lemma guarded_unjail:
  assumes "names_law N" shows "ExecuteUnjailing (guarded N K) = ExecuteUnjailing K"
  by (intro ext) (simp only: ExecuteUnjailing_def guarded_same guarded_balance [OF assms])

lemma guarded_create:
  assumes "names_law N" shows "create_validator (guarded N K) = create_validator K"
  by (intro ext) (simp only: create_validator_def persist_validator_def ensure_signing_info_def
      guarded_same guarded_balance [OF assms])

lemma guarded_add:
  assumes "names_law N" shows "ExecuteAddValidator (guarded N K) = ExecuteAddValidator K"
  by (intro ext) (simp only: ExecuteAddValidator_def guarded_same guarded_create [OF assms])

lemma guarded_tokens:
  assumes "names_law N" shows "handleValidatorTokens (guarded N K) = handleValidatorTokens K"
proof (intro ext)
  have "BurnCoins (guarded N K) (if b then NotBondedPoolName else BondedPoolName)
    = BurnCoins K (if b then NotBondedPoolName else BondedPoolName)" for b
    using guarded_burn [OF assms, of BondedPoolName K] guarded_burn [OF assms, of NotBondedPoolName K] by simp
  then show "handleValidatorTokens (guarded N K) v opts s = handleValidatorTokens K v opts s" for v opts s
    by (simp only: handleValidatorTokens_def guarded_same Let_def)
qed

lemma guarded_remove:
  assumes "names_law N" shows "ExecuteRemoveValidator (guarded N K) = ExecuteRemoveValidator K"
  by (intro ext) (simp only: ExecuteRemoveValidator_def tombstoneValidator_def guarded_same guarded_tokens [OF assms])

lemma guarded_reconcile:
  assumes "names_law N" shows "ExecuteReconcileStakingPools (guarded N K) = ExecuteReconcileStakingPools K"
  by (intro ext) (simp only: ExecuteReconcileStakingPools_def guarded_same guarded_mint [OF assms])

lemma guarded_hook:
  assumes "names_law N" shows "PerformHook env (guarded N K) = PerformHook env K"
  by (intro ext) (simp only: PerformHook_def performUnjailHook_def performAddValidatorHook_def performRemoveValidatorHook_def
      performReconcileStakingPoolsHook_def guarded_unjail [OF assms] guarded_add [OF assms] guarded_remove [OF assms]
      guarded_reconcile [OF assms])

lemma guarded_hooks:
  assumes "names_law N" shows "run_hooks env (guarded N K) ctx hs = run_hooks env K ctx hs"
  by (induction hs) (simp_all only: run_hooks.simps guarded_hook [OF assms])

lemma guarded_visit: "visit_validators (guarded N K) mon s vals n = visit_validators K mon s vals n"
  by (induction vals arbitrary: n) (simp_all only: visit_validators.simps visit_validator_def is_tombstoned_def guarded_same)

lemma guarded_metrics: "updateValidatorMetrics (guarded N K) = updateValidatorMetrics K"
  by (intro ext) (simp only: updateValidatorMetrics_def guarded_visit)

section \<open>Properties\<close>


text \<open>The names as the SDK publishes them.\<close>

definition sdk_names :: ModuleNames where
  "sdk_names = \<lparr>n_auth = ''auth'', n_vesting = ''vesting'', n_bank = ''bank'', n_staking = ''staking'', n_slashing = ''slashing'',
     n_genutil = ''genutil'', n_authz = ''authz'', n_upgrade = ''upgrade'', n_distr = ''distribution'', n_evidence = ''evidence'',
     n_mint = ''mint'', n_group = ''group'', n_nft = ''nft'', n_feegrant = ''feegrant'', n_gov = ''gov'', n_consensus = ''consensus'',
     n_circuit = ''circuit'', n_params = ''params'', n_epochs = ''epochs'', n_ibc = ''ibc'', n_transfer = ''transfer'',
     n_ica = ''interchainaccounts'', n_runtime = ''runtime'', n_fee_collector = ''fee_collector'', n_Minter = ''minter'',
     n_Burner = ''burner''\<rparr>"

lemma sdk_names_law: "names_law sdk_names"
  by code_simp


text \<open>Running one module before another.\<close>

definition runs_before :: "string list \<Rightarrow> string \<Rightarrow> string \<Rightarrow> bool" where
  "runs_before xs x y \<longleftrightarrow> (\<exists>as bs. xs = as @ bs \<and> x \<in> set as \<and> y \<in> set bs)"

lemma runs_before_take: "x \<in> set (take n xs) \<Longrightarrow> y \<in> set (drop n xs) \<Longrightarrow> runs_before xs x y"
  unfolding runs_before_def by (metis append_take_drop_id)

lemma distinct_subset_names:
  assumes "distinct (module_names N)"
  shows "distinct (beginBlockers N)" "distinct (endBlockers N)" "distinct (preBlockers N)" "distinct (initGenesis_order N)"
    "distinct (map fst (appConfig N))"
  using assms
  by (simp_all only: module_names_def beginBlockers_def endBlockers_def preBlockers_def initGenesis_order_def appConfig_def
      list.map fst_conv distinct.simps set_simps insert_iff empty_iff de_Morgan_disj simp_thms not_sym) 

lemma BlockedAddresses_iff: "BlockedAddresses N a = Some True \<longleftrightarrow> a \<in> set (blockAccAddrs N)"
proof -
  have "foldl (\<lambda>result addr. result(addr \<mapsto> True)) m xs a = Some True \<longleftrightarrow> a \<in> set xs \<or> m a = Some True" for m xs
    by (induction xs arbitrary: m) auto
  then show ?thesis by (simp add: BlockedAddresses_def blockAccAddrs_def)
qed

lemma configured_modules:
  "set (beginBlockers N) \<union> set (endBlockers N) \<union> set (preBlockers N) \<union> set (initGenesis_order N)
     \<subseteq> set (map fst (appConfig N)) \<union> {n_ibc N, n_transfer N, n_ica N}"
  by (simp add: beginBlockers_def endBlockers_def preBlockers_def initGenesis_order_def appConfig_def)

lemma blocked_accounts:
  assumes "distinct (account_names N)" and "a \<in> set (account_names N)"
  shows "BlockedAddresses N a = Some True \<longleftrightarrow> a \<notin> {n_gov N, n_transfer N, n_ica N}"
  using assms unfolding BlockedAddresses_iff by (auto simp: blockAccAddrs_def account_names_def)

text \<open>
  The orders in which the modules run name no module twice and only modules that are configured or are
  those of the IBC stack; slashing begins a block after distribution, the genesis transactions are delivered after
  staking and the accounts are set up, and upgrades come before all else. Of the module accounts exactly those of
  governance, IBC transfer and interchain accounts may receive funds.
\<close>

theorem module_configuration:
  assumes law: "names_law N"
  shows "runs_before (beginBlockers N) (n_distr N) (n_slashing N)
    \<and> runs_before (initGenesis_order N) (n_staking N) (n_genutil N)
    \<and> runs_before (initGenesis_order N) (n_auth N) (n_genutil N)
    \<and> runs_before (preBlockers N) (n_upgrade N) (n_auth N)
    \<and> list_all distinct [beginBlockers N, endBlockers N, preBlockers N, initGenesis_order N, map fst (appConfig N)]
    \<and> set (beginBlockers N) \<union> set (endBlockers N) \<union> set (preBlockers N) \<union> set (initGenesis_order N)
        \<subseteq> set (map fst (appConfig N)) \<union> {n_ibc N, n_transfer N, n_ica N}
    \<and> (\<forall>a \<in> set (account_names N). BlockedAddresses N a = Some True \<longleftrightarrow> a \<notin> {n_gov N, n_transfer N, n_ica N})"
proof (intro conjI)
  from law have d: "distinct (module_names N)" "distinct (account_names N)" by (simp_all only: names_law_def)
  show "runs_before (beginBlockers N) (n_distr N) (n_slashing N)"
    by (rule runs_before_take [of _ 2]) (simp_all add: beginBlockers_def)
  show "runs_before (initGenesis_order N) (n_staking N) (n_genutil N)" "runs_before (initGenesis_order N) (n_auth N) (n_genutil N)"
    by (rule runs_before_take [of _ 5]; simp add: initGenesis_order_def)+
  show "runs_before (preBlockers N) (n_upgrade N) (n_auth N)"
    by (rule runs_before_take [of _ 1]) (simp_all add: preBlockers_def)
  show "list_all distinct [beginBlockers N, endBlockers N, preBlockers N, initGenesis_order N, map fst (appConfig N)]"
    using distinct_subset_names [OF d(1)] by (simp only: list.pred_inject simp_thms)
  show "\<forall>a \<in> set (account_names N). BlockedAddresses N a = Some True \<longleftrightarrow> a \<notin> {n_gov N, n_transfer N, n_ica N}"
    using blocked_accounts [OF d(2)] by blast
qed (rule configured_modules)

theorem module_configuration_witness:
  "runs_before (beginBlockers sdk_names) ''distribution'' ''slashing'' \<and> BlockedAddresses sdk_names ''mint'' = Some True
   \<and> BlockedAddresses sdk_names ''gov'' \<noteq> Some True"
  using module_configuration [OF sdk_names_law] by (auto simp: account_names_def sdk_names_def)

section \<open>Addresses and genesis accounts\<close>

text \<open>The prefixes of the addresses and keys (\<open>app/config.go\<close>), for accounts, validators and consensus nodes.\<close>

record Bech32Config =
  CoinType :: nat
  Account_Prefixes :: "string \<times> string"
  Validator_Prefixes :: "string \<times> string"
  ConsensusNode_Prefixes :: "string \<times> string"

definition ChainCoinType :: nat where "ChainCoinType = 118"

definition sdk_config :: Bech32Config where
  "sdk_config = \<lparr>CoinType = ChainCoinType,
     Account_Prefixes = (AccountAddressPrefix, AccountAddressPrefix @ ''pub''),
     Validator_Prefixes = (AccountAddressPrefix @ ''valoper'', AccountAddressPrefix @ ''valoperpub''),
     ConsensusNode_Prefixes = (AccountAddressPrefix @ ''valcons'', AccountAddressPrefix @ ''valconspub'')\<rparr>"

text \<open>An account of the simulation; the validation of the accounts of the SDK is an argument.\<close>

record ('b, 'c) GenesisAccount =
  ga_BaseAccount :: 'b
  OriginalVesting :: 'c
  ga_StartTime :: i64
  ga_EndTime :: i64
  ga_ModuleName :: string
  ModulePermissions :: "string list"

definition GenesisAccount_Validate ::
    "('c \<Rightarrow> bool) \<Rightarrow> ('b \<Rightarrow> string \<Rightarrow> string list \<Rightarrow> unit outcome) \<Rightarrow> ('b \<Rightarrow> unit outcome) \<Rightarrow> ('b, 'c) GenesisAccount \<Rightarrow> unit outcome" where
  "GenesisAccount_Validate IsZero ModuleAccount_Validate BaseAccount_Validate sga =
     (if \<not> IsZero (OriginalVesting sga) \<and> sint (ga_StartTime sga) \<ge> sint (ga_EndTime sga)
      then Err (New ''vesting start-time cannot be before end-time'')
      else bindO (if ga_ModuleName sga \<noteq> []
                  then ModuleAccount_Validate (ga_BaseAccount sga) (ga_ModuleName sga) (ModulePermissions sga)
                  else Ok ()) (\<lambda>_.
           BaseAccount_Validate (ga_BaseAccount sga)))"

text \<open>A valid account with vesting coins starts to vest before it ends, and no two kinds of address share a prefix.\<close>

lemma GenesisAccount_Validate_Ok:
  "GenesisAccount_Validate Z mv bv sga = Ok () \<longleftrightarrow>
     (Z (OriginalVesting sga) \<or> sint (ga_StartTime sga) < sint (ga_EndTime sga))
     \<and> (ga_ModuleName sga = [] \<or> mv (ga_BaseAccount sga) (ga_ModuleName sga) (ModulePermissions sga) = Ok ())
     \<and> bv (ga_BaseAccount sga) = Ok ()"
  by (auto simp: GenesisAccount_Validate_def outcome_simps)

lemma sdk_config_prefixes:
  "distinct (concat (map (\<lambda>(a, k). [a, k]) [Account_Prefixes sdk_config, Validator_Prefixes sdk_config, ConsensusNode_Prefixes sdk_config]))"
  by (simp add: sdk_config_def AccountAddressPrefix_def)

end
