(* ===== verification/Notifiers.thy ===== *)
theory Notifiers
  imports Json Go_Context
begin

text \<open>
  The alerts of scheduled upgrades and halts (\<open>app/webhook_notifier.go\<close>, \<open>app/upgrade_logging.go\<close>,
  \<open>app/halt_logging.go\<close>) and the start of a block, which raises them (\<open>PreBlocker\<close> of \<open>app/app.go\<close>).
  The HTTP client and the upgrade keeper are arguments; durations are milliseconds, block times
  nanoseconds since the epoch. Log lines are values, and a goroutine that posts a message is the
  message it posts.
\<close>

section \<open>Log lines and times\<close>

datatype log_line =
    LogInfo string "(string \<times> string) list"
  | LogError string "(string \<times> string) list"

text \<open>\<open>t.UTC().Format(time.RFC3339Nano)\<close> for the years 0 to 9999.\<close>

definition pad :: "nat \<Rightarrow> nat \<Rightarrow> string" where
  "pad w n = replicate (w - length (show_nat n)) (CHR ''0'') @ show_nat n"

definition civil :: "int \<Rightarrow> int \<times> int \<times> int" where
  "civil days =
     (let z = days + 719468;
          era = z div 146097;
          doe = z mod 146097;
          yoe = (doe - doe div 1460 + doe div 36524 - doe div 146096) div 365;
          doy = doe - (365 * yoe + yoe div 4 - yoe div 100);
          mp = (5 * doy + 2) div 153;
          d = doy - (153 * mp + 2) div 5 + 1;
          m = (if mp < 10 then mp + 3 else mp - 9);
          y = yoe + era * 400 + (if m \<le> 2 then 1 else 0)
      in (y, m, d))"

definition FormatRFC3339Nano :: "int \<Rightarrow> string" where
  "FormatRFC3339Nano t =
     (let secs = t div 1000000000; ns = nat (t mod 1000000000);
          (y, m, d) = civil (secs div 86400); sod = nat (secs mod 86400);
          frac = rev (dropWhile (\<lambda>c. c = CHR ''0'') (rev (pad 9 ns)))
      in pad 4 (nat y) @ ''-'' @ pad 2 (nat m) @ ''-'' @ pad 2 (nat d) @ ''T''
         @ pad 2 (sod div 3600) @ '':'' @ pad 2 (sod div 60 mod 60) @ '':'' @ pad 2 (sod mod 60)
         @ (if frac = [] then [] else ''.'' @ frac) @ ''Z'')"

section \<open>The webhook\<close>

text \<open>
  \<open>NewRequest\<close> parses the URL, \<open>Do\<close> sends a body and returns the status of the response.
\<close>

record 'e Http =
  NewRequest :: "string \<Rightarrow> unit outcome"
  Do :: "string \<Rightarrow> bytes \<Rightarrow> 'e \<Rightarrow> int outcome \<times> 'e"

definition WebhookURLEnvVar :: string where "WebhookURLEnvVar = ''NEXUS_ALERT_WEBHOOK_URL''"

definition webhookDefaultHTTPTimeout :: nat where "webhookDefaultHTTPTimeout = 5000"
definition webhookDefaultMaxAttempts :: nat where "webhookDefaultMaxAttempts = 3"
definition webhookDefaultInitialBackoff :: nat where "webhookDefaultInitialBackoff = 1000"

record webhookNotifier =
  url :: string
  maxAttempts :: nat
  initialBackoff :: nat

definition newWebhookNotifier :: "string \<Rightarrow> webhookNotifier" where
  "newWebhookNotifier u =
     \<lparr>url = u, maxAttempts = webhookDefaultMaxAttempts, initialBackoff = webhookDefaultInitialBackoff\<rparr>"

definition newWebhookNotifierFromEnv :: "(string \<Rightarrow> string) \<Rightarrow> webhookNotifier" where
  "newWebhookNotifierFromEnv getenv = newWebhookNotifier (getenv WebhookURLEnvVar)"

text \<open>The result of one request: whether an error is worth retrying, and the error.\<close>

definition postOnce ::
    "'e Http \<Rightarrow> webhookNotifier \<Rightarrow> bytes \<Rightarrow> 'e \<Rightarrow> (bool \<times> go_error option) outcome \<times> 'e" where
  "postOnce H n body e =
     (case NewRequest H (url n) of
        Panic p \<Rightarrow> (Panic p, e)
      | Err err \<Rightarrow> (Ok (False, Some err), e)
      | Ok _ \<Rightarrow>
          (case Do H (url n) body e of
             (Panic p, e') \<Rightarrow> (Panic p, e')
           | (Err err, e') \<Rightarrow> (Ok (True, Some err), e')
           | (Ok status, e') \<Rightarrow>
               if 200 \<le> status \<and> status < 300 then (Ok (False, None), e')
               else if 500 \<le> status then (Ok (True, Some (New (''webhook returned status '' @ show_int status))), e')
               else (Ok (False, Some (New (''webhook returned status '' @ show_int status))), e')))"

text \<open>
  The loop of \<open>Notify\<close> with the number of attempts left: \<open>None\<close> when the message was delivered, else
  the last error.
\<close>

fun post_loop ::
    "'e Http \<Rightarrow> 'e Runtime \<Rightarrow> webhookNotifier \<Rightarrow> bytes \<Rightarrow> nat \<Rightarrow> nat \<Rightarrow> go_error option \<Rightarrow> 'e
     \<Rightarrow> go_error option option outcome \<times> 'e" where
  "post_loop H rt n body 0 backoff lastErr e = (Ok (Some lastErr), e)"
| "post_loop H rt n body (Suc k) backoff lastErr e =
     (case postOnce H n body e of
        (Panic p, e1) \<Rightarrow> (Panic p, e1)
      | (Err err, e1) \<Rightarrow> (Err err, e1)
      | (Ok (retryable, None), e1) \<Rightarrow> (Ok None, e1)
      | (Ok (retryable, Some err), e1) \<Rightarrow>
          if \<not> retryable \<or> k = 0 then (Ok (Some (Some err)), e1)
          else post_loop H rt n body k (2 * backoff) (Some err) (Sleep rt backoff e1))"

definition slack_body :: "string \<Rightarrow> bytes" where
  "slack_body txt = marshal_struct [(''text'', marshal_string txt)]"

definition error_field :: "go_error option \<Rightarrow> string" where
  "error_field err = (case err of None \<Rightarrow> ''<nil>'' | Some e \<Rightarrow> error_text e)"

definition Notify ::
    "'e Http \<Rightarrow> 'e Runtime \<Rightarrow> webhookNotifier option \<Rightarrow> string \<Rightarrow> string \<Rightarrow> 'e \<Rightarrow> log_line list outcome \<times> 'e" where
  "Notify H rt n event txt e =
     (case n of
        None \<Rightarrow> (Ok [], e)
      | Some w \<Rightarrow>
          if url w = [] then (Ok [], e)
          else (case post_loop H rt w (slack_body txt) (maxAttempts w) (initialBackoff w) None e of
                  (Panic p, e') \<Rightarrow> (Panic p, e')
                | (Err err, e') \<Rightarrow> (Err err, e')
                | (Ok None, e') \<Rightarrow> (Ok [], e')
                | (Ok (Some lastErr), e') \<Rightarrow>
                    (Ok [LogError ''webhook notifier: delivery failed''
                       [(''event'', event), (''attempts'', show_nat (maxAttempts w)), (''error'', error_field lastErr)]], e')))"

section \<open>Upgrade plans\<close>

record Plan =
  Name :: string
  plan_Height :: i64
  Info :: string

record 's UpgradeKeeper =
  GetUpgradePlan :: "'s \<Rightarrow> Plan outcome"
  ErrNoUpgradePlanFound :: go_error
  ShouldExecute :: "Plan \<Rightarrow> i64 \<Rightarrow> bool"
  IsSkipHeight :: "i64 \<Rightarrow> bool"
  HasHandler :: "string \<Rightarrow> bool"

record BlockHeader =
  header_Height :: i64
  header_Time :: int

definition upgradeEventName :: string where "upgradeEventName = ''upgrade_scheduled''"
definition haltEventName :: string where "haltEventName = ''halt_triggered''"

definition upgrade_log :: "Plan \<Rightarrow> string" where
  "upgrade_log plan = marshal_struct
     [(''event'', marshal_string upgradeEventName), (''name'', marshal_string (Name plan)),
      (''height'', show_i64 (plan_Height plan)), (''info'', marshal_string (Info plan))]"

definition halt_log :: "Plan \<Rightarrow> BlockHeader \<Rightarrow> string" where
  "halt_log plan hdr = marshal_struct
     [(''event'', marshal_string haltEventName), (''plan_name'', marshal_string (Name plan)),
      (''height'', show_i64 (header_Height hdr)), (''info'', marshal_string (Info plan)),
      (''timestamp'', marshal_string (FormatRFC3339Nano (header_Time hdr)))]"

definition em_dash :: string where "em_dash = [CHR 0xE2, CHR 0x80, CHR 0x94]"
definition newline :: string where "newline = [CHR 0x0A]"
definition tick :: string where "tick = [CHR 0x60]"

definition formatUpgradeScheduledText :: "Plan \<Rightarrow> string" where
  "formatUpgradeScheduledText p =
     '':warning: *Upgrade scheduled* '' @ em_dash @ '' plan '' @ tick @ Name p @ tick
     @ '' will halt the chain at height '' @ tick @ show_i64 (plan_Height p) @ tick @ ''.'' @ newline @ ''Info: '' @ Info p"

definition formatHaltTriggeredText :: "Plan \<Rightarrow> BlockHeader \<Rightarrow> string" where
  "formatHaltTriggeredText p hdr =
     '':rotating_light: *Chain halt triggered* '' @ em_dash @ '' plan '' @ tick @ Name p @ tick
     @ '' at height '' @ tick @ show_i64 (header_Height hdr) @ tick
     @ '' ('' @ FormatRFC3339Nano (header_Time hdr) @ '').'' @ newline @ ''Info: '' @ Info p"

record upgradeNotifier =
  webhook :: "webhookNotifier option"
  lastLoggedOK :: bool
  lastName :: string
  lastHeight :: i64
  lastInfo :: string

definition newUpgradeNotifier :: "webhookNotifier option \<Rightarrow> upgradeNotifier" where
  "newUpgradeNotifier w = \<lparr>webhook = w, lastLoggedOK = False, lastName = [], lastHeight = 0, lastInfo = []\<rparr>"

definition forgetLastPlan :: "upgradeNotifier \<Rightarrow> upgradeNotifier" where
  "forgetLastPlan n = n\<lparr>lastLoggedOK := False, lastName := [], lastHeight := 0, lastInfo := []\<rparr>"

text \<open>
  The log lines, the messages posted in the background, and the notifier afterwards. The notifier and
  its keeper, which the code checks for nil, are both set when the node starts; \<open>json.Marshal\<close> of a struct
  of strings and integers does not fail.
\<close>

definition MaybeLogNewPlan ::
    "'s UpgradeKeeper \<Rightarrow> BlockHeader \<Rightarrow> 's \<Rightarrow> upgradeNotifier
     \<Rightarrow> (log_line list \<times> (string \<times> string) list \<times> upgradeNotifier) outcome" where
  "MaybeLogNewPlan K hdr s n =
     (case GetUpgradePlan K s of
        Panic e \<Rightarrow> Panic e
      | Err err \<Rightarrow>
          if errors_Is err (ErrNoUpgradePlanFound K) then Ok ([], [], forgetLastPlan n)
          else Ok ([LogError ''upgrade logger: failed to read upgrade plan'' [(''error'', error_text err)]], [], n)
      | Ok plan \<Rightarrow>
          if ShouldExecute K plan (header_Height hdr) then Ok ([], [], n)
          else if lastLoggedOK n \<and> lastName n = Name plan \<and> lastHeight n = plan_Height plan \<and> lastInfo n = Info plan
          then Ok ([], [], n)
          else Ok ([LogInfo (upgrade_log plan) []],
                   (if webhook n = None then [] else [(upgradeEventName, formatUpgradeScheduledText plan)]),
                   n\<lparr>lastLoggedOK := True, lastName := Name plan, lastHeight := plan_Height plan, lastInfo := Info plan\<rparr>))"

definition logHaltIfTriggered ::
    "'e Http \<Rightarrow> 'e Runtime \<Rightarrow> 's UpgradeKeeper \<Rightarrow> BlockHeader \<Rightarrow> webhookNotifier option \<Rightarrow> 's \<Rightarrow> 'e
     \<Rightarrow> log_line list outcome \<times> 'e" where
  "logHaltIfTriggered H rt K hdr w s e =
     (case GetUpgradePlan K s of
        Panic p \<Rightarrow> (Panic p, e)
      | Err err \<Rightarrow>
          if \<not> errors_Is err (ErrNoUpgradePlanFound K)
          then (Ok [LogError ''halt logger: failed to read upgrade plan'' [(''error'', error_text err)]], e)
          else (Ok [], e)
      | Ok plan \<Rightarrow>
          if \<not> ShouldExecute K plan (header_Height hdr) then (Ok [], e)
          else if IsSkipHeight K (header_Height hdr) then (Ok [], e)
          else if HasHandler K (Name plan) then (Ok [], e)
          else (case Notify H rt w haltEventName (formatHaltTriggeredText plan hdr) e of
                  (Ok ls, e') \<Rightarrow> (Ok (LogError (halt_log plan hdr) [] # ls), e')
                | r \<Rightarrow> r))"

definition PreBlocker ::
    "'e Http \<Rightarrow> 'e Runtime \<Rightarrow> 's UpgradeKeeper \<Rightarrow> BlockHeader \<Rightarrow> webhookNotifier option
     \<Rightarrow> ('s \<Rightarrow> 'r outcome \<times> 's) \<Rightarrow> upgradeNotifier \<Rightarrow> 's \<Rightarrow> 'e
     \<Rightarrow> (log_line list \<times> (string \<times> string) list \<times> upgradeNotifier \<times> 'r outcome) outcome \<times> 's \<times> 'e" where
  "PreBlocker H rt K hdr w ModuleManager_PreBlock n s e =
     (case logHaltIfTriggered H rt K hdr w s e of
        (Panic p, e1) \<Rightarrow> (Panic p, s, e1)
      | (Err err, e1) \<Rightarrow> (Err err, s, e1)
      | (Ok ls, e1) \<Rightarrow>
          (case MaybeLogNewPlan K hdr s n of
             Panic p \<Rightarrow> (Panic p, s, e1)
           | Err err \<Rightarrow> (Err err, s, e1)
           | Ok (ls', posts, n') \<Rightarrow>
               (case ModuleManager_PreBlock s of (r, s') \<Rightarrow> (Ok (ls @ ls', posts, n', r), s', e1))))"

section \<open>Lemmas\<close>

subsection \<open>Blocks under one plan\<close>

text \<open>A run of the notifier over the blocks of a chain.\<close>

fun log_run ::
    "'s UpgradeKeeper \<Rightarrow> (BlockHeader \<times> 's) list \<Rightarrow> upgradeNotifier
     \<Rightarrow> (log_line list \<times> (string \<times> string) list \<times> upgradeNotifier) outcome" where
  "log_run K [] n = Ok ([], [], n)"
| "log_run K ((hdr, s) # blocks) n =
     bindO (MaybeLogNewPlan K hdr s n) (\<lambda>(ls, posts, n1).
     bindO (log_run K blocks n1) (\<lambda>(ls', posts', n2). Ok (ls @ ls', posts @ posts', n2)))"

definition remembers :: "upgradeNotifier \<Rightarrow> Plan \<Rightarrow> bool" where
  "remembers n p \<longleftrightarrow> lastLoggedOK n \<and> lastName n = Name p \<and> lastHeight n = plan_Height p \<and> lastInfo n = Info p"

fun is_info :: "log_line \<Rightarrow> bool" where
  "is_info (LogInfo m fs) \<longleftrightarrow> True"
| "is_info (LogError m fs) \<longleftrightarrow> False"

text \<open>A block at which the plan is scheduled, or at which the store could not be read.\<close>

definition plan_or_unreadable :: "'s UpgradeKeeper \<Rightarrow> Plan \<Rightarrow> 's \<Rightarrow> bool" where
  "plan_or_unreadable K p s \<longleftrightarrow>
     (case GetUpgradePlan K s of Ok q \<Rightarrow> q = p | Err e \<Rightarrow> \<not> errors_Is e (ErrNoUpgradePlanFound K) | Panic _ \<Rightarrow> False)"

definition announces :: "'s UpgradeKeeper \<Rightarrow> Plan \<Rightarrow> BlockHeader \<Rightarrow> 's \<Rightarrow> bool" where
  "announces K p hdr s \<longleftrightarrow> GetUpgradePlan K s = Ok p \<and> \<not> ShouldExecute K p (header_Height hdr)"

lemma MaybeLog_quiet:
  assumes "plan_or_unreadable K p s" "remembers n p \<or> \<not> announces K p hdr s"
  shows "\<exists>ls. MaybeLogNewPlan K hdr s n = Ok (ls, [], n) \<and> filter is_info ls = []"
  using assms
  by (cases "GetUpgradePlan K s")
    (auto simp: plan_or_unreadable_def MaybeLogNewPlan_def remembers_def announces_def)

lemma MaybeLog_loud:
  assumes "announces K p hdr s" "\<not> remembers n p"
  obtains n' where "MaybeLogNewPlan K hdr s n = Ok ([LogInfo (upgrade_log p) []],
      if webhook n = None then [] else [(upgradeEventName, formatUpgradeScheduledText p)], n')" "remembers n' p"
  using assms that [of "n\<lparr>lastLoggedOK := True, lastName := Name p, lastHeight := plan_Height p, lastInfo := Info p\<rparr>"]
  by (auto simp: MaybeLogNewPlan_def remembers_def announces_def)

lemma log_run_remembered:
  assumes "\<forall>(hdr, s) \<in> set blocks. plan_or_unreadable K p s" "remembers n p"
  shows "\<exists>ls. log_run K blocks n = Ok (ls, [], n) \<and> filter is_info ls = []"
  using assms(1)
proof (induction blocks)
  case (Cons b blocks)
  obtain hdr s where b: "b = (hdr, s)" by fastforce
  with Cons obtain ls where "MaybeLogNewPlan K hdr s n = Ok (ls, [], n)" "filter is_info ls = []"
    using MaybeLog_quiet [of K p s n hdr] assms(2) by auto
  moreover obtain ls' where "log_run K blocks n = Ok (ls', [], n)" "filter is_info ls' = []"
    using Cons by auto
  ultimately show ?case by (simp add: b)
qed simp

lemma log_run_announced:
  assumes "\<forall>(hdr, s) \<in> set blocks. plan_or_unreadable K p s" "\<not> remembers n p"
    and "\<exists>(hdr, s) \<in> set blocks. announces K p hdr s"
  shows "\<exists>ls n'. log_run K blocks n = Ok (ls, if webhook n = None then [] else [(upgradeEventName, formatUpgradeScheduledText p)], n')
    \<and> filter is_info ls = [LogInfo (upgrade_log p) []]"
  using assms(1,3)
proof (induction blocks)
  case (Cons b blocks)
  obtain hdr s where b: "b = (hdr, s)" by fastforce
  have p: "plan_or_unreadable K p s" using Cons.prems(1) b by auto
  show ?case
  proof (cases "announces K p hdr s")
    case True
    then obtain n' where 1: "MaybeLogNewPlan K hdr s n = Ok ([LogInfo (upgrade_log p) []],
      if webhook n = None then [] else [(upgradeEventName, formatUpgradeScheduledText p)], n')" "remembers n' p"
      using assms(2) by (rule MaybeLog_loud)
    then obtain ls where "log_run K blocks n' = Ok (ls, [], n')" "filter is_info ls = []"
      using log_run_remembered [of blocks K p n'] Cons.prems(1) by auto
    with 1 show ?thesis by (simp add: b)
  next
    case False
    then obtain ls where "MaybeLogNewPlan K hdr s n = Ok (ls, [], n)" "filter is_info ls = []"
      using MaybeLog_quiet [OF p] by blast
    moreover obtain ls' n' where "log_run K blocks n = Ok (ls', if webhook n = None then []
        else [(upgradeEventName, formatUpgradeScheduledText p)], n')" "filter is_info ls' = [LogInfo (upgrade_log p) []]"
      using Cons.IH Cons.prems False b by auto
    ultimately show ?thesis by (simp add: b)
  qed
qed simp

subsection \<open>The time a notification takes\<close>

lemma postOnce_time:
  assumes "\<And>u b e. now rt (snd (Do H u b e)) \<le> now rt e + T"
  shows "now rt (snd (postOnce H n body e)) \<le> now rt e + T"
proof -
  obtain r e' where d: "Do H (url n) body e = (r, e')" by fastforce
  then have "now rt e' \<le> now rt e + T" using assms [of "url n" body e] by simp
  then show ?thesis by (cases "NewRequest H (url n)"; cases r) (simp_all add: postOnce_def d)
qed

lemma post_loop_time:
  assumes "\<And>u b e. now rt (snd (Do H u b e)) \<le> now rt e + T"
    and "\<And>d e. now rt (Sleep rt d e) \<le> now rt e + d + slack"
  shows "now rt (snd (post_loop H rt n body k backoff lastErr e))
    \<le> now rt e + k * T + (k - 1) * slack + (2 ^ (k - 1) - 1) * backoff"
proof (induction k arbitrary: backoff lastErr e)
  case (Suc k)
  obtain r e1 where 1: "postOnce H n body e = (r, e1)" by fastforce
  then have t: "now rt e1 \<le> now rt e + T" using postOnce_time [OF assms(1), of n body e] by simp
  show ?case
  proof (cases "\<exists>err. r = Ok (True, Some err) \<and> k \<noteq> 0")
    case False
    have "snd (post_loop H rt n body (Suc k) backoff lastErr e) = e1"
      using False 1 by (auto split: outcome.splits option.splits)
    then show ?thesis using t by simp
  next
    case True
    then obtain err j where e: "r = Ok (True, Some err)" "k = Suc j" by (cases k) auto
    have "now rt (snd (post_loop H rt n body (Suc k) backoff lastErr e))
        \<le> now rt (Sleep rt backoff e1) + k * T + (k - 1) * slack + (2 ^ (k - 1) - 1) * (2 * backoff)"
      using Suc.IH [of "2 * backoff" "Some err" "Sleep rt backoff e1"] 1 e by simp
    also have "\<dots> \<le> now rt e + T + backoff + slack + k * T + j * slack + (2 ^ j - 1) * (2 * backoff)"
      using t assms(2) [of backoff e1] e(2) by simp
    also have "\<dots> = now rt e + Suc k * T + k * slack + (2 ^ k - 1) * backoff"
    proof -
      obtain p where "2 ^ j = Suc p" using not0_implies_Suc [of "2 ^ j"] by auto
      then show ?thesis using e(2) by (simp add: algebra_simps)
    qed
    finally show ?thesis by simp
  qed
qed simp

text \<open>
  A response in the 400s ends the attempts after one request, as intended; the error that is logged
  then still reports the maximal number of attempts as the number made.
\<close>

lemma client_error_is_terminal:
  assumes "NewRequest H (url w) = Ok ()" and "Do H (url w) (slack_body txt) e = (Ok status, e')"
    and "400 \<le> status" and "status < 500" and "url w \<noteq> []" and "0 < maxAttempts w"
  shows "Notify H rt (Some w) event txt e =
    (Ok [LogError ''webhook notifier: delivery failed'' [(''event'', event), (''attempts'', show_nat (maxAttempts w)),
       (''error'', ''webhook returned status '' @ show_int status)]], e')"
proof -
  obtain k where k: "maxAttempts w = Suc k" using assms(6) by (cases "maxAttempts w") auto
  show ?thesis using assms by (simp add: Notify_def k postOnce_def error_field_def)
qed

section \<open>Properties\<close>

text \<open>
  C39. A scheduled upgrade is announced exactly once. As long as one plan stays scheduled, and at least
  one block comes before its height, the notifier writes one \<open>upgrade_scheduled\<close> line and posts at most one
  message, whatever the number of blocks and of failed reads of the store in between.
\<close>

theorem upgrade_announced_once:
  assumes "\<forall>(hdr, s) \<in> set blocks. plan_or_unreadable K p s"
    and "\<exists>(hdr, s) \<in> set blocks. announces K p hdr s"
  shows "\<exists>ls n'. log_run K blocks (newUpgradeNotifier w)
      = Ok (ls, if w = None then [] else [(upgradeEventName, formatUpgradeScheduledText p)], n')
    \<and> filter is_info ls = [LogInfo (upgrade_log p) []]"
  using log_run_announced [OF assms(1) _ assms(2), of "newUpgradeNotifier w"]
  by (simp add: newUpgradeNotifier_def remembers_def)

definition sample_plan :: Plan where
  "sample_plan = \<lparr>Name = ''v2'', plan_Height = 50, Info = ''https://example.org''\<rparr>"

definition sample_upgrade_keeper :: "bool UpgradeKeeper" where
  "sample_upgrade_keeper = \<lparr>GetUpgradePlan = (\<lambda>s. if s then Ok sample_plan else Err (New ''disk'')),
     ErrNoUpgradePlanFound = Sentinel ''no plan'', ShouldExecute = (\<lambda>p h. plan_Height p = h),
     IsSkipHeight = (\<lambda>_. False), HasHandler = (\<lambda>_. False)\<rparr>"

theorem upgrade_announced_once_witness:
  "\<exists>ls n'. log_run sample_upgrade_keeper
       [(\<lparr>header_Height = 48, header_Time = 0\<rparr>, True), (\<lparr>header_Height = 49, header_Time = 1\<rparr>, False),
        (\<lparr>header_Height = 50, header_Time = 2\<rparr>, True)] (newUpgradeNotifier None) = Ok (ls, [], n')
     \<and> filter is_info ls = [LogInfo (upgrade_log sample_plan) []]"
proof -
  let ?bs = "[(\<lparr>header_Height = 48, header_Time = 0\<rparr>, True), (\<lparr>header_Height = 49, header_Time = 1\<rparr>, False),
    (\<lparr>header_Height = 50, header_Time = 2\<rparr>, True)]"
  have "\<forall>(hdr, s) \<in> set ?bs. plan_or_unreadable sample_upgrade_keeper sample_plan s"
    by (simp add: plan_or_unreadable_def sample_upgrade_keeper_def)
  moreover have "\<exists>(hdr, s) \<in> set ?bs. announces sample_upgrade_keeper sample_plan hdr s"
    by (simp add: announces_def sample_upgrade_keeper_def sample_plan_def)
  ultimately show ?thesis using upgrade_announced_once [of ?bs sample_upgrade_keeper sample_plan None] by simp
qed

text \<open>
  At the start of a block the alert of a halt is raised exactly when the plan is due, its height is
  not skipped and the binary has no handler for it; and a plan that is due is never announced as
  scheduled in the same block.
\<close>

theorem halt_alert_iff:
  assumes "GetUpgradePlan K s = Ok plan"
    and "PreBlocker H rt K hdr w PreBlock n s e = (Ok (ls, posts, n', r), s', e')"
  shows "(LogError (halt_log plan hdr) [] \<in> set ls \<longleftrightarrow>
      ShouldExecute K plan (header_Height hdr) \<and> \<not> IsSkipHeight K (header_Height hdr) \<and> \<not> HasHandler K (Name plan))
    \<and> (ShouldExecute K plan (header_Height hdr) \<longrightarrow> posts = [] \<and> filter is_info ls = [])"
proof -
  from assms(2) obtain l1 l2 e1 where 1: "logHaltIfTriggered H rt K hdr w s e = (Ok l1, e1)"
    and 2: "MaybeLogNewPlan K hdr s n = Ok (l2, posts, n')" and ls: "ls = l1 @ l2"
    by (auto simp: PreBlocker_def split: prod.splits outcome.splits)
  have l2: "LogError (halt_log plan hdr) [] \<notin> set l2"
    "ShouldExecute K plan (header_Height hdr) \<longrightarrow> posts = [] \<and> l2 = []"
    using 2 assms(1) by (auto simp: MaybeLogNewPlan_def split: if_splits)
  have quiet: "filter is_info ls = [] \<and> LogError m [] \<notin> set ls" if "Notify H rt w ev t e = (Ok ls, e')" for ls e' m ev t
    using that by (auto simp: Notify_def split: option.splits if_splits prod.splits outcome.splits)
  show ?thesis
    using 1 l2 assms(1) unfolding ls
    by (auto simp: logHaltIfTriggered_def split: if_splits prod.splits outcome.splits dest: quiet)
qed

definition sample_http :: "nat Http" where
  "sample_http = \<lparr>NewRequest = (\<lambda>_. Ok ()), Do = (\<lambda>u b e. (Ok (if u = ''gone'' then 404 else 503), e + 5000))\<rparr>"

definition sample_timer :: "nat Runtime" where
  "sample_timer = \<lparr>now = (\<lambda>e. e), Sleep = (\<lambda>d e. e + d), select_after = (\<lambda>_ d e. (None, e + d))\<rparr>"

lemma sample_pre_block:
  "\<exists>ls n'. PreBlocker sample_http sample_timer sample_upgrade_keeper \<lparr>header_Height = 50, header_Time = 0\<rparr> None
     (\<lambda>s. (Ok (), s)) (newUpgradeNotifier None) True 0 = (Ok (ls, [], n', Ok ()), True, 0)"
  by (simp add: PreBlocker_def logHaltIfTriggered_def MaybeLogNewPlan_def sample_upgrade_keeper_def sample_plan_def Notify_def)

theorem halt_alert_iff_witness:
  "\<exists>ls n'. PreBlocker sample_http sample_timer sample_upgrade_keeper \<lparr>header_Height = 50, header_Time = 0\<rparr> None
     (\<lambda>s. (Ok (), s)) (newUpgradeNotifier None) True 0 = (Ok (ls, [], n', Ok ()), True, 0)
     \<and> LogError (halt_log sample_plan \<lparr>header_Height = 50, header_Time = 0\<rparr>) [] \<in> set ls"
proof -
  have plan: "GetUpgradePlan sample_upgrade_keeper True = Ok sample_plan" by (simp add: sample_upgrade_keeper_def)
  obtain ls n' where run: "PreBlocker sample_http sample_timer sample_upgrade_keeper \<lparr>header_Height = 50, header_Time = 0\<rparr>
      None (\<lambda>s. (Ok (), s)) (newUpgradeNotifier None) True 0 = (Ok (ls, [], n', Ok ()), True, 0)"
    using sample_pre_block by blast
  from halt_alert_iff [OF plan run] run show ?thesis by (auto simp: sample_upgrade_keeper_def sample_plan_def)
qed

text \<open>
  A notification cannot delay a halt for long. When a request ends within its timeout and a pause
  overruns by at most some slack, the notifier built from the environment returns within 18 seconds
  and two slacks: three requests of five seconds and pauses of one and two seconds.
\<close>

theorem notification_is_bounded:
  assumes "\<And>u b e. now rt (snd (Do H u b e)) \<le> now rt e + webhookDefaultHTTPTimeout"
    and "\<And>d e. now rt (Sleep rt d e) \<le> now rt e + d + slack"
  shows "now rt (snd (Notify H rt (Some (newWebhookNotifierFromEnv getenv)) event txt e)) \<le> now rt e + 18000 + 2 * slack"
proof -
  let ?w = "newWebhookNotifierFromEnv getenv"
  have "now rt (snd (post_loop H rt ?w (slack_body txt) 3 1000 None e)) \<le> now rt e + 18000 + 2 * slack"
    using post_loop_time [OF assms, of ?w "slack_body txt" 3 1000 None e] by (simp add: webhookDefaultHTTPTimeout_def)
  moreover have "snd (Notify H rt (Some ?w) event txt e) = e
      \<or> snd (Notify H rt (Some ?w) event txt e) = snd (post_loop H rt ?w (slack_body txt) 3 1000 None e)"
    by (auto simp: Notify_def newWebhookNotifierFromEnv_def newWebhookNotifier_def webhookDefaultMaxAttempts_def
        webhookDefaultInitialBackoff_def split: prod.splits outcome.splits option.splits)
  ultimately show ?thesis by (auto simp del: post_loop.simps)
qed

theorem notification_is_bounded_witness:
  "now sample_timer (snd (Notify sample_http sample_timer (Some (newWebhookNotifierFromEnv (\<lambda>_. ''url''))) ''e'' ''t'' 7)) \<le> 18007"
  using notification_is_bounded [of sample_timer sample_http 0 "\<lambda>_. ''url''" "''e''" "''t''" 7]
  by (simp add: sample_timer_def sample_http_def webhookDefaultHTTPTimeout_def)

end
