(* ===== verification/Readiness.thy ===== *)
theory Readiness
  imports Genesis Json
begin

text \<open>
  The readiness probe of the node (\<open>app/rpc_readiness.go\<close>): the committed head is readable, consensus
  is not catching up, the execution client recognizes the head, and the head is not too far from that
  of a trusted peer. The HTTP client, the local status and the query context are arguments; the names
  of extra headers are handed on as they are, and the body of a response is what \<open>io.ReadAll\<close> returns.
\<close>

section \<open>Types\<close>

record readinessProbeConfig =
  TrustedPeerStatusURL :: string
  TrustedPeerHeadersJSON :: string
  HeadLagMaxBlocks :: u64

text \<open>An error tagged with the stage that failed, or any other error.\<close>

datatype ready_error =
    readinessProbeError string go_error
  | OtherError go_error

type_synonym ready_check = "ready_error option outcome"

record 'e PeerClient =
  peer_NewRequest :: "string \<Rightarrow> unit outcome"
  peer_Do :: "string \<Rightarrow> (string \<Rightarrow> string option) \<Rightarrow> 'e \<Rightarrow> (int \<times> bytes outcome) outcome \<times> 'e"

record SyncInfo =
  CatchingUp :: "bool option"
  LatestBlockHeight :: string

record StatusWrap =
  wrap_Result :: "SyncInfo option option"
  wrap_Error :: "string option"

record cometStatusParsed =
  catchingUp :: "bool option"
  latestBlockHeight :: "int option"

section \<open>Operations\<close>

definition loadReadinessProbeConfig :: "(string \<Rightarrow> string) \<Rightarrow> readinessProbeConfig" where
  "loadReadinessProbeConfig getenv =
     (let s = TrimSpace (getenv ''HEAD_LAG_MAX_BLOCKS'');
          maxLag = (if s \<noteq> [] then (case ParseUint s of Ok v \<Rightarrow> v | _ \<Rightarrow> 2) else 2)
      in \<lparr>TrustedPeerStatusURL = TrimSpace (getenv ''TRUSTED_PEER_STATUS_URL''),
          TrustedPeerHeadersJSON = getenv ''TRUSTED_PEER_STATUS_HEADERS'',
          HeadLagMaxBlocks = maxLag\<rparr>)"

definition readinessFailureHTTPStatus :: "ready_error \<Rightarrow> nat" where
  "readinessFailureHTTPStatus err = (case err of readinessProbeError _ _ \<Rightarrow> 503 | OtherError _ \<Rightarrow> 500)"

text \<open>The stage and the text that a failure is logged with.\<close>

definition logReadinessFailure :: "ready_error \<Rightarrow> string \<times> string" where
  "logReadinessFailure err =
     (case err of
        readinessProbeError kind e \<Rightarrow> (kind, error_text e)
      | OtherError e \<Rightarrow> (''internal'', error_text e))"

text \<open>The status, the body and the log entry of the response.\<close>

definition writeReadinessResult :: "ready_error option \<Rightarrow> nat \<times> string \<times> (string \<times> string) option" where
  "writeReadinessResult err =
     (case err of
        None \<Rightarrow> (200, ''ok'', None)
      | Some e \<Rightarrow> (readinessFailureHTTPStatus e, ''unhealthy'', Some (logReadinessFailure e)))"

definition parseJSONInt64 :: "string \<Rightarrow> int outcome" where
  "parseJSONInt64 raw0 =
     (let raw = TrimSpace raw0
      in case raw of
           [] \<Rightarrow> Err (New ''empty'')
         | c # _ \<Rightarrow>
             if c = CHR 0x22
             then bindO (json_parse raw) (\<lambda>v. bindO (decode_string v []) (\<lambda>s. ParseInt (TrimSpace s)))
             else bindO (json_parse raw) (\<lambda>v. decode_int64 v 0))"

text \<open>A pointer to a struct: \<open>null\<close> clears it, an object is decoded into the struct it points to.\<close>

definition decode_ptr :: "(json \<Rightarrow> 'a \<Rightarrow> 'a outcome) \<Rightarrow> 'a \<Rightarrow> json \<Rightarrow> 'a option \<Rightarrow> 'a option outcome" where
  "decode_ptr dec zero v old =
     (if v = JNull then Ok None
      else bindO (dec v (case old of None \<Rightarrow> zero | Some x \<Rightarrow> x)) (\<lambda>x. Ok (Some x)))"

definition sync_info_fields :: "(string \<times> (string \<Rightarrow> json \<Rightarrow> SyncInfo \<Rightarrow> SyncInfo outcome)) list" where
  "sync_info_fields =
     [(''catching_up'', \<lambda>raw v t. bindO (decode_bool_ptr v) (\<lambda>x. Ok (t\<lparr>CatchingUp := x\<rparr>))),
      (''latest_block_height'', \<lambda>raw v t. Ok (t\<lparr>LatestBlockHeight := raw\<rparr>))]"

definition result_fields :: "(string \<times> (string \<Rightarrow> json \<Rightarrow> SyncInfo option \<Rightarrow> SyncInfo option outcome)) list" where
  "result_fields =
     [(''sync_info'', \<lambda>raw v t. decode_ptr (decode_struct sync_info_fields) \<lparr>CatchingUp = None, LatestBlockHeight = []\<rparr> v t)]"

definition wrap_fields :: "(string \<times> (string \<Rightarrow> json \<Rightarrow> StatusWrap \<Rightarrow> StatusWrap outcome)) list" where
  "wrap_fields =
     [(''result'', \<lambda>raw v t. bindO (decode_ptr (decode_struct result_fields) None v (wrap_Result t)) (\<lambda>x. Ok (t\<lparr>wrap_Result := x\<rparr>))),
      (''error'', \<lambda>raw v t. Ok (t\<lparr>wrap_Error := (if v = JNull then None else Some raw)\<rparr>))]"

definition parseCometStatusJSON :: "bytes \<Rightarrow> cometStatusParsed outcome" where
  "parseCometStatusJSON b =
     bindO (wrapO ''json decode: '' [] (bindO (json_parse b) (\<lambda>v.
              decode_struct wrap_fields v \<lparr>wrap_Result = None, wrap_Error = None\<rparr>))) (\<lambda>wrap.
     case wrap_Error wrap of
       Some e \<Rightarrow> Err (New (''rpc error: '' @ e))
     | None \<Rightarrow>
         (case wrap_Result wrap of
            Some (Some si) \<Rightarrow>
              if LatestBlockHeight si \<noteq> []
              then bindO (wrapO ''latest_block_height: '' [] (parseJSONInt64 (LatestBlockHeight si))) (\<lambda>h.
                   Ok \<lparr>catchingUp = CatchingUp si, latestBlockHeight = Some h\<rparr>)
              else Ok \<lparr>catchingUp = CatchingUp si, latestBlockHeight = None\<rparr>
          | _ \<Rightarrow> Err (New ''missing sync_info'')))"

text \<open>\<open>None\<close> is a client that is not configured; the status is whether the node is catching up.\<close>

definition checkLocalCometNotCatchingUp :: "('e \<Rightarrow> bool outcome \<times> 'e) option \<Rightarrow> 'e \<Rightarrow> unit outcome \<times> 'e" where
  "checkLocalCometNotCatchingUp statusFn e =
     (case statusFn of
        None \<Rightarrow> (Err (New ''comet rpc client not configured for readiness''), e)
      | Some f \<Rightarrow>
          (case f e of
             (Ok catching, e') \<Rightarrow> ((if catching then Err (New ''catching_up=true'') else Ok ()), e')
           | (Err err, e') \<Rightarrow> (Err (Wrapf ''status: '' err []), e')
           | (Panic p, e') \<Rightarrow> (Panic p, e')))"

definition parseOptionalJSONHeaders :: "string \<Rightarrow> (string \<Rightarrow> string option) outcome" where
  "parseOptionalJSONHeaders raw0 =
     (let raw = TrimSpace raw0
      in if raw = [] then Ok Map.empty
         else wrapO ''TRUSTED_PEER_STATUS_HEADERS must be JSON object: '' [] (bindO (json_parse raw) decode_string_map))"

definition truncateBytes :: "bytes \<Rightarrow> nat \<Rightarrow> string" where
  "truncateBytes b n = (if length b \<le> n then b else take n b @ ''...'')"

text \<open>The distance of two heights, on 64-bit integers.\<close>

definition head_distance :: "int \<Rightarrow> u64 \<Rightarrow> u64" where
  "head_distance peerH localCommittedHeight =
     (let lh = localCommittedHeight; peer = word_of_int peerH :: i64
      in if sint lh \<le> peerH then peer - lh else lh - peer)"

text \<open>What the height in a parsed status gives.\<close>

definition check_lag :: "cometStatusParsed \<Rightarrow> u64 \<Rightarrow> u64 \<Rightarrow> ready_error option" where
  "check_lag parsed localCommittedHeight maxLag =
     (case latestBlockHeight parsed of
        None \<Rightarrow> Some (readinessProbeError ''trusted_peer_response'' (New ''missing sync_info.latest_block_height''))
      | Some peerH \<Rightarrow>
          if peerH < 0 then Some (readinessProbeError ''trusted_peer_response'' (New ''latest_block_height negative''))
          else if head_distance peerH localCommittedHeight > maxLag
          then Some (readinessProbeError ''head_lag''
                 (New (show_u64 (head_distance peerH localCommittedHeight) @ '' blocks apart (local_committed=''
                    @ show_u64 localCommittedHeight @ '' peer='' @ show_int peerH @ '' max_abs='' @ show_u64 maxLag @ '')'')))
          else None)"

definition checkTrustedPeerLag ::
    "'e PeerClient \<Rightarrow> u64 \<Rightarrow> string \<Rightarrow> string \<Rightarrow> u64 \<Rightarrow> 'e \<Rightarrow> ready_check \<times> 'e" where
  "checkTrustedPeerLag P localCommittedHeight peerStatusURL headersJSON maxLag e =
     (let fail = (\<lambda>kind err. Ok (Some (readinessProbeError kind err)))
      in if TrimSpace peerStatusURL = [] then (Ok None, e)
         else case parseOptionalJSONHeaders headersJSON of
           Panic p \<Rightarrow> (Panic p, e)
         | Err err \<Rightarrow> (fail ''trusted_peer_config'' err, e)
         | Ok extra \<Rightarrow>
             (case peer_NewRequest P peerStatusURL of
                Panic p \<Rightarrow> (Panic p, e)
              | Err err \<Rightarrow> (fail ''trusted_peer_request'' err, e)
              | Ok _ \<Rightarrow>
                  (case peer_Do P peerStatusURL extra e of
                     (Panic p, e') \<Rightarrow> (Panic p, e')
                   | (Err err, e') \<Rightarrow> (fail ''trusted_peer_request'' err, e')
                   | (Ok (status, body), e') \<Rightarrow>
                       (case body of
                          Panic p \<Rightarrow> (Panic p, e')
                        | Err err \<Rightarrow> (fail ''trusted_peer_request'' err, e')
                        | Ok bytes0 \<Rightarrow>
                            let b = take 1048576 bytes0
                            in if status \<noteq> 200
                               then (fail ''trusted_peer_response''
                                       (New (''http '' @ show_int status @ '': '' @ truncateBytes b 200)), e')
                               else (case parseCometStatusJSON b of
                                       Panic p \<Rightarrow> (Panic p, e')
                                     | Err err \<Rightarrow> (fail ''trusted_peer_response'' (Wrapf ''status body: '' err []), e')
                                     | Ok parsed \<Rightarrow> (Ok (check_lag parsed localCommittedHeight maxLag), e'))))))"

definition readinessChecksPhases ::
    "Ext \<Rightarrow> ('s, 'e) Keeper \<Rightarrow> ('e \<Rightarrow> bool outcome \<times> 'e) option \<Rightarrow> 'e PeerClient \<Rightarrow> BlockState
     \<Rightarrow> readinessProbeConfig \<Rightarrow> 'e \<Rightarrow> ready_check \<times> 'e" where
  "readinessChecksPhases X k statusFn P committed cfg e =
     (case checkLocalCometNotCatchingUp statusFn e of
        (Panic p, e1) \<Rightarrow> (Panic p, e1)
      | (Err err, e1) \<Rightarrow> (Ok (Some (readinessProbeError ''cosmos'' err)), e1)
      | (Ok _, e1) \<Rightarrow>
          (case ProbeCommittedExecutionHead X k committed e1 of
             (Panic p, e2) \<Rightarrow> (Panic p, e2)
           | (Err err, e2) \<Rightarrow> (Ok (Some (readinessProbeError ''reth'' err)), e2)
           | (Ok _, e2) \<Rightarrow>
               checkTrustedPeerLag P (Height committed) (TrustedPeerStatusURL cfg) (TrustedPeerHeadersJSON cfg)
                 (HeadLagMaxBlocks cfg) e2))"

definition runReadinessChecks ::
    "Ext \<Rightarrow> ('s, 'e) Keeper \<Rightarrow> 's outcome \<Rightarrow> ('e \<Rightarrow> bool outcome \<times> 'e) option \<Rightarrow> 'e PeerClient
     \<Rightarrow> readinessProbeConfig \<Rightarrow> 'e \<Rightarrow> ready_check \<times> 'e" where
  "runReadinessChecks X k query_context statusFn P cfg e =
     (case query_context of
        Panic p \<Rightarrow> (Panic p, e)
      | Err err \<Rightarrow> (Ok (Some (readinessProbeError ''query_context'' (Wrapf ''create query context: '' err []))), e)
      | Ok qctx \<Rightarrow>
          (case GetBlockState k qctx of
             Panic p \<Rightarrow> (Panic p, e)
           | Err err \<Rightarrow>
               if errors_Is err ErrNotFound
               then (Ok (Some (readinessProbeError ''committed_state'' (Wrapf ''block state not initialized: '' err []))), e)
               else (Ok (Some (OtherError (Wrapf ''block state: '' err []))), e)
           | Ok committed \<Rightarrow> readinessChecksPhases X k statusFn P committed cfg e))"

definition readinessHTTPHandler ::
    "Ext \<Rightarrow> ('s, 'e) Keeper \<Rightarrow> 's outcome \<Rightarrow> ('e \<Rightarrow> bool outcome \<times> 'e) option \<Rightarrow> 'e PeerClient
     \<Rightarrow> readinessProbeConfig \<Rightarrow> 'e \<Rightarrow> (nat \<times> string \<times> (string \<times> string) option) outcome \<times> 'e" where
  "readinessHTTPHandler X k query_context statusFn P cfg e =
     (case runReadinessChecks X k query_context statusFn P cfg e of
        (r, e') \<Rightarrow> (bindO r (\<lambda>err. Ok (writeReadinessResult err)), e'))"

section \<open>Lemmas\<close>

lemma decode_int64_range:
  "decode_int64 v old = Ok i \<Longrightarrow> - (2 ^ 63) \<le> old \<and> old < 2 ^ 63 \<Longrightarrow> - (2 ^ 63) \<le> i \<and> i < 2 ^ 63"
  by (cases v) (auto split: outcome.splits dest: ParseInt_range)

lemma parseJSONInt64_range: "parseJSONInt64 raw = Ok h \<Longrightarrow> h < 2 ^ 63"
  by (auto simp: parseJSONInt64_def Let_def outcome_simps split: list.splits if_splits
      dest!: ParseInt_range decode_int64_range)

lemma parsed_height_range:
  "parseCometStatusJSON b = Ok parsed \<Longrightarrow> latestBlockHeight parsed = Some h \<Longrightarrow> h < 2 ^ 63"
  by (auto simp: parseCometStatusJSON_def outcome_simps split: option.splits if_splits dest: parseJSONInt64_range)

lemma sint_uint_small: "uint (w :: u64) < 2 ^ 63 \<Longrightarrow> sint w = uint w"
proof -
  assume "uint w < 2 ^ 63"
  moreover have "- (2 ^ 63) \<le> uint w" by (rule order_trans [OF _ uint_ge_0]) simp
  ultimately have "signed_take_bit 63 (uint w) = uint w" by (intro signed_take_bit_int_eq_self)
  then show ?thesis by (simp add: sint_uint)
qed

text \<open>The distance on 64-bit integers is that of the heights.\<close>

lemma head_distance_exact:
  assumes "0 \<le> h" "h < 2 ^ 63" "uint l < 2 ^ 63"
  shows "uint (head_distance h l) = \<bar>h - uint l\<bar>"
proof -
  have p: "uint (word_of_int h :: i64) = h"
    using assms(1,2) by (simp add: uint_word_of_int)
  show ?thesis
  proof (cases "uint l \<le> h")
    case True
    then have "uint (word_of_int h - l) = h - uint l"
      using uint_sub_lem [of l "word_of_int h"] p by simp
    with True show ?thesis using p assms by (simp add: head_distance_def sint_uint_small)
  next
    case False
    then have "uint (l - word_of_int h) = uint l - h"
      using uint_sub_lem [of "word_of_int h" l] p by simp
    with False show ?thesis using p assms by (simp add: head_distance_def sint_uint_small)
  qed
qed

lemma check_lag_iff:
  assumes "parseCometStatusJSON b = Ok parsed" "uint l < 2 ^ 63"
  shows "check_lag parsed l maxLag = None \<longleftrightarrow>
    (\<exists>h. latestBlockHeight parsed = Some h \<and> 0 \<le> h \<and> \<bar>h - uint l\<bar> \<le> uint maxLag)"
proof (cases "latestBlockHeight parsed")
  case (Some h)
  have "maxLag < head_distance h l \<longleftrightarrow> uint maxLag < \<bar>h - uint l\<bar>" if "0 \<le> h"
    using head_distance_exact [OF that parsed_height_range [OF assms(1) Some] assms(2)]
    by (simp add: word_less_def)
  with Some show ?thesis by (auto simp: check_lag_def)
qed (simp add: check_lag_def)

text \<open>The peer answers, and its height is within the allowed distance.\<close>

definition peer_close :: "'e PeerClient \<Rightarrow> readinessProbeConfig \<Rightarrow> u64 \<Rightarrow> 'e \<Rightarrow> bool" where
  "peer_close P cfg l e \<longleftrightarrow>
     (\<exists>extra body e' parsed h.
        parseOptionalJSONHeaders (TrustedPeerHeadersJSON cfg) = Ok extra \<and>
        peer_NewRequest P (TrustedPeerStatusURL cfg) = Ok () \<and>
        peer_Do P (TrustedPeerStatusURL cfg) extra e = (Ok (200, Ok body), e') \<and>
        parseCometStatusJSON (take 1048576 body) = Ok parsed \<and> latestBlockHeight parsed = Some h \<and>
        0 \<le> h \<and> \<bar>h - uint l\<bar> \<le> uint (HeadLagMaxBlocks cfg))"

lemma checkTrustedPeerLag_iff:
  assumes "uint l < 2 ^ 63"
  shows "fst (checkTrustedPeerLag P l (TrustedPeerStatusURL cfg) (TrustedPeerHeadersJSON cfg) (HeadLagMaxBlocks cfg) e) = Ok None
    \<longleftrightarrow> TrimSpace (TrustedPeerStatusURL cfg) = [] \<or> peer_close P cfg l e"
proof -
  let ?u = "TrustedPeerStatusURL cfg"
  have lag: "check_lag parsed l (HeadLagMaxBlocks cfg) = None \<longleftrightarrow>
      (\<exists>h. latestBlockHeight parsed = Some h \<and> 0 \<le> h \<and> \<bar>h - uint l\<bar> \<le> uint (HeadLagMaxBlocks cfg))"
    if "parseCometStatusJSON b = Ok parsed" for b parsed
    using check_lag_iff [OF that assms] .
  show ?thesis
    unfolding checkTrustedPeerLag_def peer_close_def Let_def
    by (auto simp: lag split: outcome.splits prod.splits)
qed

lemma writeReadinessResult_ok: "writeReadinessResult err = (200, ''ok'', None) \<longleftrightarrow> err = None"
  by (cases err) (auto simp: writeReadinessResult_def)

lemma handler_ok:
  "fst (readinessHTTPHandler X k q statusFn P cfg e) = Ok (200, ''ok'', None)
    \<longleftrightarrow> fst (runReadinessChecks X k q statusFn P cfg e) = Ok None"
  by (simp add: readinessHTTPHandler_def outcome_simps writeReadinessResult_ok split: prod.splits)

text \<open>The status of a node that has caught up.\<close>

lemma checkLocal_ok:
  "checkLocalCometNotCatchingUp statusFn e = (Ok u, e')
    \<longleftrightarrow> (\<exists>f. statusFn = Some f \<and> f e = (Ok False, e'))"
  by (auto simp: checkLocalCometNotCatchingUp_def split: option.splits prod.splits outcome.splits if_splits)

lemma phases_ok:
  assumes "uint (Height committed) < 2 ^ 63"
  shows "fst (readinessChecksPhases X k statusFn P committed cfg e) = Ok None \<longleftrightarrow>
    (\<exists>e1 e2. checkLocalCometNotCatchingUp statusFn e = (Ok (), e1) \<and>
       ProbeCommittedExecutionHead X k committed e1 = (Ok (), e2) \<and>
       (TrimSpace (TrustedPeerStatusURL cfg) = [] \<or> peer_close P cfg (Height committed) e2))"
  by (auto simp: readinessChecksPhases_def checkTrustedPeerLag_iff [OF assms] split: outcome.splits prod.splits)

lemma checks_ok:
  "fst (runReadinessChecks X k q statusFn P cfg e) = Ok None \<longleftrightarrow>
    (\<exists>qctx committed. q = Ok qctx \<and> GetBlockState k qctx = Ok committed \<and>
       fst (readinessChecksPhases X k statusFn P committed cfg e) = Ok None)"
  by (auto simp: runReadinessChecks_def split: outcome.splits if_splits)

text \<open>
  The status of a peer whose height is \<open>null\<close>: decoding \<open>null\<close> into an \<open>int64\<close> leaves it as it is, so the
  peer counts as being at height 0 instead of as one that reports no height.
\<close>

definition null_status :: bytes where
  "null_status = [CHR 0x7B, CHR 0x22] @ ''result'' @ [CHR 0x22, CHR 0x3A, CHR 0x7B, CHR 0x22] @ ''sync_info''
    @ [CHR 0x22, CHR 0x3A, CHR 0x7B, CHR 0x22] @ ''latest_block_height'' @ [CHR 0x22, CHR 0x3A] @ ''null''
    @ [CHR 0x7D, CHR 0x7D, CHR 0x7D]"

lemma null_height_is_zero: "parseCometStatusJSON null_status = Ok \<lparr>catchingUp = None, latestBlockHeight = Some 0\<rparr>"
  by code_simp

definition sample_peer :: "nat PeerClient" where
  "sample_peer = \<lparr>peer_NewRequest = (\<lambda>_. Ok ()), peer_Do = (\<lambda>_ _ e. (Ok (200, Ok null_status), e + 1))\<rparr>"

definition sample_probe :: readinessProbeConfig where
  "sample_probe = \<lparr>TrustedPeerStatusURL = ''http://peer/status'', TrustedPeerHeadersJSON = [], HeadLagMaxBlocks = 2\<rparr>"

lemma sample_peer_close: "peer_close sample_peer sample_probe 0 e"
proof -
  have "take 1048576 null_status = null_status" by (simp add: null_status_def)
  then show ?thesis
    using null_height_is_zero
    by (auto simp: peer_close_def sample_peer_def sample_probe_def parseOptionalJSONHeaders_def TrimSpace_def Let_def)
qed

section \<open>Properties\<close>



end
