(* ===== verification/Start_Up.thy ===== *)
theory Start_Up
  imports App_Config Proposal Notifiers Readiness
begin

text \<open>
  How a node is put together (\<open>app/app.go\<close>, \<open>app/ibc.go\<close>, \<open>app/migrations.go\<close>, \<open>x/evm/module/depinject.go\<close>). What the
  application of the SDK remembers of its registrations is the record \<open>Registry\<close>: stores, tables of parameters, routes, modules, upgrade
  handlers and whether it is sealed. Each call on it may be refused, as the argument \<open>answers\<close> says; the
  container of \<open>depinject\<close> and the constructors of the SDK are arguments as well. Simulation and codecs
  are left out.
\<close>

section \<open>Registrations\<close>

record Registry =
  stores :: "string list"
  key_tables :: "string list"
  port_routes :: "(string \<times> string) list"
  port_routes_v2 :: "(string \<times> string) list"
  client_routes :: "string list"
  reg_modules :: "string list"
  handlers_set :: "string list"
  upgrade_handlers :: "string list"
  store_loader :: "(i64 \<times> string list) option"
  sealed :: bool

datatype app_call =
    RegisterStores "string list"
  | Subspace string
  | AddRoute string
  | AddRouteV2 string
  | AddClientRoute string
  | RegisterModules "string list"
  | SetHandler string
  | SetUpgradeHandler string
  | SetStoreLoader
  | Load bool
  | LoadHeight i64

type_synonym answers = "app_call \<Rightarrow> Registry \<Rightarrow> unit outcome"

text \<open>A call does its work only if it is not refused.\<close>

definition ask :: "answers \<Rightarrow> app_call \<Rightarrow> (Registry \<Rightarrow> Registry) \<Rightarrow> (Registry, unit) proc" where
  "ask A c f = callK (\<lambda>r. case A c r of Ok _ \<Rightarrow> (Ok (), f r) | e \<Rightarrow> (e, r))"

definition SetOn :: "answers \<Rightarrow> string \<Rightarrow> (Registry, unit) proc" where
  "SetOn A h = ask A (SetHandler h) (\<lambda>r. r\<lparr>handlers_set := handlers_set r @ [h]\<rparr>)"

section \<open>IBC\<close>

text \<open>The names that the IBC packages define.\<close>

record IbcNames =
  ibc_StoreKey :: string
  transfer_StoreKey :: string
  icahost_StoreKey :: string
  icacontroller_StoreKey :: string
  icahost_SubModuleName :: string
  icacontroller_SubModuleName :: string
  transfer_PortID :: string
  tm_ModuleName :: string
  solo_ModuleName :: string

text \<open>What a keeper of IBC is built from: its store, its parameters and the address that may change them.\<close>

record IbcKeeper =
  ik_store :: "string option"
  ik_subspace :: "string option"
  ik_authority :: string

record IbcKeepers =
  IBCKeeper :: IbcKeeper
  TransferKeeper :: IbcKeeper
  ICAHostKeeper :: IbcKeeper
  ICAControllerKeeper :: IbcKeeper

definition GetKey :: "Registry \<Rightarrow> string \<Rightarrow> string option" where
  "GetKey r storeKey = (if storeKey \<in> set (stores r) then Some storeKey else None)"

definition GetSubspace :: "Registry \<Rightarrow> string \<Rightarrow> string option" where
  "GetSubspace r moduleName = (if moduleName \<in> set (key_tables r) then Some moduleName else None)"

definition ibc_stores :: "IbcNames \<Rightarrow> string list" where
  "ibc_stores I = [ibc_StoreKey I, transfer_StoreKey I, icahost_StoreKey I, icacontroller_StoreKey I]"

definition ibc_tables :: "ModuleNames \<Rightarrow> IbcNames \<Rightarrow> string list" where
  "ibc_tables N I = [n_ibc N, n_transfer N, icacontroller_SubModuleName I, icahost_SubModuleName I]"

definition with_table :: "answers \<Rightarrow> string \<Rightarrow> (Registry, unit) proc" where
  "with_table A name = ask A (Subspace name) (\<lambda>r. r\<lparr>key_tables := key_tables r @ [name]\<rparr>)"

definition new_ibc_keeper :: "string \<Rightarrow> string \<Rightarrow> string \<Rightarrow> Registry \<Rightarrow> IbcKeeper" where
  "new_ibc_keeper govModuleAddr storeKey space r =
     \<lparr>ik_store = GetKey r storeKey, ik_subspace = GetSubspace r space, ik_authority = govModuleAddr\<rparr>"

definition new_ibc_keepers :: "ModuleNames \<Rightarrow> IbcNames \<Rightarrow> string \<Rightarrow> Registry \<Rightarrow> IbcKeepers" where
  "new_ibc_keepers N I govModuleAddr r =
     \<lparr>IBCKeeper = new_ibc_keeper govModuleAddr (ibc_StoreKey I) (n_ibc N) r,
      TransferKeeper = new_ibc_keeper govModuleAddr (transfer_StoreKey I) (n_transfer N) r,
      ICAHostKeeper = new_ibc_keeper govModuleAddr (icahost_StoreKey I) (icahost_SubModuleName I) r,
      ICAControllerKeeper = new_ibc_keeper govModuleAddr (icacontroller_StoreKey I) (icacontroller_SubModuleName I) r\<rparr>"

text \<open>The stacks that a packet of a port is handed to.\<close>

definition add_route :: "answers \<Rightarrow> string \<Rightarrow> string \<Rightarrow> (Registry, unit) proc" where
  "add_route A port stack = ask A (AddRoute port) (\<lambda>r. r\<lparr>port_routes := port_routes r @ [(port, stack)]\<rparr>)"

definition add_route_v2 :: "answers \<Rightarrow> string \<Rightarrow> string \<Rightarrow> (Registry, unit) proc" where
  "add_route_v2 A port stack = ask A (AddRouteV2 port) (\<lambda>r. r\<lparr>port_routes_v2 := port_routes_v2 r @ [(port, stack)]\<rparr>)"

definition add_client_route :: "answers \<Rightarrow> string \<Rightarrow> (Registry, unit) proc" where
  "add_client_route A name = ask A (AddClientRoute name) (\<lambda>r. r\<lparr>client_routes := client_routes r @ [name]\<rparr>)"

definition ibc_modules :: "ModuleNames \<Rightarrow> IbcNames \<Rightarrow> string list" where
  "ibc_modules N I = [n_ibc N, n_transfer N, n_ica N, tm_ModuleName I, solo_ModuleName I]"

definition registerIBCModules :: "answers \<Rightarrow> ModuleNames \<Rightarrow> IbcNames \<Rightarrow> string \<Rightarrow> (Registry, IbcKeepers) proc" where
  "registerIBCModules A N I govModuleAddr =
     bindP (ask A (RegisterStores (ibc_stores I)) (\<lambda>r. r\<lparr>stores := stores r @ ibc_stores I\<rparr>)) (\<lambda>_.
     bindP (eachP (with_table A) (ibc_tables N I)) (\<lambda>_.
     bindP (readK (\<lambda>r. Ok (new_ibc_keepers N I govModuleAddr r))) (\<lambda>keepers.
     bindP (add_route A (n_transfer N) ''transferStack'') (\<lambda>_.
     bindP (add_route A (icacontroller_SubModuleName I) ''icaControllerStack'') (\<lambda>_.
     bindP (add_route A (icahost_SubModuleName I) ''icaHostStack'') (\<lambda>_.
     bindP (add_route_v2 A (transfer_PortID I) ''transferStackV2'') (\<lambda>_.
     bindP (add_client_route A (tm_ModuleName I)) (\<lambda>_.
     bindP (add_client_route A (solo_ModuleName I)) (\<lambda>_.
     bindP (ask A (RegisterModules (ibc_modules N I)) (\<lambda>r. r\<lparr>reg_modules := reg_modules r @ ibc_modules N I\<rparr>)) (\<lambda>_.
     pureP (Ok keepers)))))))))))"

text \<open>The modules of the client, a map from their names.\<close>

definition RegisterIBC :: "ModuleNames \<Rightarrow> IbcNames \<Rightarrow> string \<Rightarrow> string option" where
  "RegisterIBC N I =
     [n_ibc N \<mapsto> ''ibc'', n_transfer N \<mapsto> ''transfer'', n_ica N \<mapsto> ''ica'', tm_ModuleName I \<mapsto> ''tendermint'',
      solo_ModuleName I \<mapsto> ''solomachine'']"

section \<open>Migrations\<close>

record UpgradeInfo =
  ReadUpgradeInfoFromDisk :: "Plan outcome"
  SkipHeight :: "i64 \<Rightarrow> bool"

definition registerGlobalFeeV1 :: "answers \<Rightarrow> (i64 \<Rightarrow> bool) \<Rightarrow> Plan \<Rightarrow> (Registry, unit) proc" where
  "registerGlobalFeeV1 A IsSkip upgradeInfo =
     bindP (ask A (SetUpgradeHandler ''globalfee-v1'') (\<lambda>r. r\<lparr>upgrade_handlers := upgrade_handlers r @ [''globalfee-v1'']\<rparr>)) (\<lambda>_.
     if Name upgradeInfo = ''globalfee-v1'' \<and> \<not> IsSkip (plan_Height upgradeInfo)
     then ask A SetStoreLoader (\<lambda>r. r\<lparr>store_loader := Some (plan_Height upgradeInfo, [globalfee_ModuleName])\<rparr>)
     else pureP (Ok ()))"

definition registerMigrations :: "answers \<Rightarrow> UpgradeInfo \<Rightarrow> (Registry, unit) proc" where
  "registerMigrations A U =
     bindP (pureP (mustO (ReadUpgradeInfoFromDisk U))) (\<lambda>upgradeInfo. registerGlobalFeeV1 A (SkipHeight U) upgradeInfo)"

section \<open>The application\<close>

text \<open>The inputs of the module, and the keeper that \<open>ProvideModule\<close> makes of them.\<close>

record ('s, 'e) EvmInputs =
  in_Authority :: string
  NewModuleAddress :: "string \<Rightarrow> bytes"
  NewModuleAddressOrBech32Address :: "string \<Rightarrow> bytes"
  in_StringToBytes :: "string \<Rightarrow> bytes outcome"
  in_BytesToString :: "bytes \<Rightarrow> string outcome"
  in_Params :: "('s, Params) Item"
  in_BlockState :: "('s, BlockState) Item"
  in_dial :: "string \<Rightarrow> JwtSecret \<Rightarrow> 'e EngineClient outcome"
  in_yaml :: "bytes \<Rightarrow> rawConfig outcome"

definition GovModuleName :: string where "GovModuleName = ''gov''"

definition ProvideModule ::
    "Ext \<Rightarrow> (string \<Rightarrow> string) \<Rightarrow> (string \<Rightarrow> file_state) \<Rightarrow> ('s, 'e) EvmInputs \<Rightarrow> ChainSpec \<Rightarrow> ('s, 'e) Keeper outcome" where
  "ProvideModule X getenv files M spec =
     (let auth = (if in_Authority M \<noteq> [] then NewModuleAddressOrBech32Address M (in_Authority M)
                  else NewModuleAddress M GovModuleName)
      in NewKeeper (in_StringToBytes M) (in_BytesToString M) auth (in_Params M) (in_BlockState M)
           (createEngineClient getenv files (in_dial M)) (readConfig X (ReadConfigFile getenv files) (in_yaml M)) spec)"

record ('s, 'e) App =
  EvmKeeper :: "('s, 'e) Keeper"
  app_txConfig :: TxConfig
  h_PrepareProposal :: "'e Runtime \<Rightarrow> 'e Context \<Rightarrow> SdkContext \<Rightarrow> RequestPrepareProposal \<Rightarrow> 's \<Rightarrow> ('e Node, bytes list) proc"
  h_ProcessProposal :: "SdkContext \<Rightarrow> RequestProcessProposal \<Rightarrow> 's \<Rightarrow> proposal_status outcome"
  h_AnteHandler :: "'s AnteHandler"
  app_ibc :: IbcKeepers
  app_hooks :: BlockHooks
  app_webhookNotifier :: webhookNotifier
  app_upgradeNotifier :: upgradeNotifier
  OrderBeginBlockers :: "string list"
  OrderEndBlockers :: "string list"

text \<open>
  What a node starts from: its environment and files, the decoders of the two sections of the configuration, the
  inputs of the modules, and the container, which gives out what the provider made or fails.
\<close>

record ('s, 'e, 'd) NodeEnv =
  ext :: Ext
  getenv :: "string \<Rightarrow> string"
  files :: "string \<Rightarrow> file_state"
  forks_yaml :: "bytes \<Rightarrow> Forks outcome"
  hooks_yaml :: "bytes \<Rightarrow> BlockHook list outcome"
  hook_env :: HookEnv
  evm_inputs :: "('s, 'e) EvmInputs"
  Inject :: "('s, 'e) Keeper outcome \<Rightarrow> ('s, 'e) Keeper outcome"
  txconf :: TxConfig
  fee_lib :: "'d FeeLib"
  fee_store :: "'s KVStore"
  fee_tx :: "Tx \<Rightarrow> FeeTx option"
  sdk_ante :: "'s AnteHandler outcome"
  gov_address :: string
  upgrade_info :: UpgradeInfo

definition maxCosmosTxsPerBlock :: int where "maxCosmosTxsPerBlock = 1"

definition assemble :: "ModuleNames \<Rightarrow> ('s, 'e, 'd) NodeEnv \<Rightarrow> ('s, 'e) Keeper \<Rightarrow> 's AnteHandler \<Rightarrow> IbcKeepers \<Rightarrow> BlockHooks \<Rightarrow> ('s, 'e) App" where
  "assemble N H k ante ibc hooks =
     (let w = newWebhookNotifierFromEnv (getenv H)
      in \<lparr>EvmKeeper = k, app_txConfig = txconf H,
          h_PrepareProposal = prepareProposalHandler (ext H) (txconf H) k maxCosmosTxsPerBlock,
          h_ProcessProposal = processProposalHandler (proposalRouter (ext H) k) (ext H) (txconf H) maxCosmosTxsPerBlock,
          h_AnteHandler = ante, app_ibc = ibc, app_hooks = hooks, app_webhookNotifier = w,
          app_upgradeNotifier = newUpgradeNotifier (Some w),
          OrderBeginBlockers = beginBlockers N, OrderEndBlockers = endBlockers N\<rparr>)"

definition NewApp ::
    "answers \<Rightarrow> ModuleNames \<Rightarrow> IbcNames \<Rightarrow> bool \<Rightarrow> ('s, 'e, 'd) NodeEnv \<Rightarrow> (Registry, ('s, 'e) App) proc" where
  "NewApp A N I loadLatest H =
     bindP (pureP (LoadChainSpec (ReadConfigFile (getenv H) (files H)) (forks_yaml H))) (\<lambda>spec.
     bindP (pureP (mustO (Inject H (ProvideModule (ext H) (getenv H) (files H) (evm_inputs H) spec)))) (\<lambda>k.
     bindP (SetOn A ''PrepareProposal'') (\<lambda>_.
     bindP (SetOn A ''ProcessProposal'') (\<lambda>_.
     bindP (pureP (newAnteHandler (fee_lib H) (fee_store H) (fee_tx H) (sdk_ante H))) (\<lambda>ante.
     bindP (SetOn A ''AnteHandler'') (\<lambda>_.
     bindP (mustP (registerIBCModules A N I (gov_address H))) (\<lambda>ibc.
     bindP (pureP (LoadHooks (hook_env H) (hooks_yaml H) (getenv H) (files H))) (\<lambda>hooks.
     bindP (SetOn A ''PreBlocker'') (\<lambda>_.
     bindP (SetOn A ''BeginBlocker'') (\<lambda>_.
     bindP (SetOn A ''EndBlocker'') (\<lambda>_.
     bindP (SetOn A ''InitChainer'') (\<lambda>_.
     bindP (registerMigrations A (upgrade_info H)) (\<lambda>_.
     bindP (mustP (ask A (Load loadLatest) (\<lambda>r. r\<lparr>sealed := sealed r \<or> loadLatest\<rparr>))) (\<lambda>_.
     pureP (Ok (assemble N H k ante ibc hooks))))))))))))))))"

section \<open>The methods of the application\<close>

definition InitChainer :: "('v \<Rightarrow> 's \<Rightarrow> unit outcome \<times> 's) \<Rightarrow> 'v \<Rightarrow> ('q \<Rightarrow> 's \<Rightarrow> 'r outcome \<times> 's) \<Rightarrow> 'q \<Rightarrow> ('s, 'r) proc" where
  "InitChainer SetModuleVersionMap versions runtime_InitChainer req =
     bindP (callK (SetModuleVersionMap versions)) (\<lambda>_. callK (runtime_InitChainer req))"

definition app_PreBlocker ::
    "('s, 'e) App \<Rightarrow> 'e Http \<Rightarrow> 'e Runtime \<Rightarrow> 's UpgradeKeeper \<Rightarrow> BlockHeader \<Rightarrow> ('s \<Rightarrow> 'r outcome \<times> 's) \<Rightarrow> 's \<Rightarrow> 'e
     \<Rightarrow> (log_line list \<times> (string \<times> string) list \<times> upgradeNotifier \<times> 'r outcome) outcome \<times> 's \<times> 'e" where
  "app_PreBlocker app http rt K hdr PreBlock =
     PreBlocker http rt K hdr (Some (app_webhookNotifier app)) PreBlock (app_upgradeNotifier app)"

definition BeginBlocker :: "('s \<Rightarrow> 'r outcome \<times> 's) \<Rightarrow> ('s, 'r) proc" where
  "BeginBlocker ModuleManager_BeginBlock = callK ModuleManager_BeginBlock"

text \<open>\<open>RegisterAPIRoutes\<close>: what the readiness probe will use.\<close>

definition RegisterAPIRoutes ::
    "(string \<Rightarrow> string) \<Rightarrow> unit outcome \<Rightarrow> ('e \<Rightarrow> bool outcome \<times> 'e) option
     \<Rightarrow> (readinessProbeConfig \<times> ('e \<Rightarrow> bool outcome \<times> 'e) option) outcome" where
  "RegisterAPIRoutes env swagger client_Status =
     bindO (mustO swagger) (\<lambda>_. Ok (loadReadinessProbeConfig env, client_Status))"

section \<open>Laws\<close>

text \<open>
  What the SDK documents of these calls: nothing can be set once the application is sealed, which loading a version does, and
  a store, a table, a route or a module cannot be registered twice. Routes are made of letters and digits.
\<close>

definition alnum :: "string \<Rightarrow> bool" where
  "alnum p \<longleftrightarrow> p \<noteq> [] \<and> list_all (\<lambda>c. (CHR ''a'' \<le> c \<and> c \<le> CHR ''z'') \<or> (CHR ''A'' \<le> c \<and> c \<le> CHR ''Z'') \<or> (CHR ''0'' \<le> c \<and> c \<le> CHR ''9'')) p"

fun granted :: "app_call \<Rightarrow> Registry \<Rightarrow> bool" where
  "granted (RegisterStores ks) r \<longleftrightarrow> \<not> sealed r \<and> distinct ks \<and> set ks \<inter> set (stores r) = {}"
| "granted (Subspace n) r \<longleftrightarrow> n \<noteq> [] \<and> n \<notin> set (key_tables r)"
| "granted (AddRoute p) r \<longleftrightarrow> alnum p \<and> p \<notin> fst ` set (port_routes r)"
| "granted (AddRouteV2 p) r \<longleftrightarrow> alnum p \<and> p \<notin> fst ` set (port_routes_v2 r)"
| "granted (AddClientRoute n) r \<longleftrightarrow> n \<notin> set (client_routes r)"
| "granted (RegisterModules ms) r \<longleftrightarrow> distinct ms \<and> set ms \<inter> set (reg_modules r) = {}"
| "granted (SetHandler _) r \<longleftrightarrow> \<not> sealed r"
| "granted (SetUpgradeHandler _) r \<longleftrightarrow> True"
| "granted SetStoreLoader r \<longleftrightarrow> \<not> sealed r"
| "granted (Load _) r \<longleftrightarrow> \<not> sealed r"
| "granted (LoadHeight _) r \<longleftrightarrow> \<not> sealed r"

definition answers_law :: "answers \<Rightarrow> bool" where
  "answers_law A \<longleftrightarrow> (\<forall>c r. granted c r \<longrightarrow> A c r = Ok ())"

text \<open>The names of IBC do not meet each other or what is registered before them.\<close>

definition ibc_names_law :: "ModuleNames \<Rightarrow> IbcNames \<Rightarrow> Registry \<Rightarrow> bool" where
  "ibc_names_law N I r \<longleftrightarrow>
     distinct (ibc_stores I) \<and> set (ibc_stores I) \<inter> set (stores r) = {} \<and>
     distinct (ibc_tables N I) \<and> [] \<notin> set (ibc_tables N I) \<and> set (ibc_tables N I) \<inter> set (key_tables r) = {} \<and>
     distinct (ibc_modules N I) \<and> set (ibc_modules N I) \<inter> set (reg_modules r) = {} \<and>
     list_all alnum [n_transfer N, icacontroller_SubModuleName I, icahost_SubModuleName I, transfer_PortID I] \<and>
     port_routes r = [] \<and> port_routes_v2 r = [] \<and> client_routes r = []"

section \<open>Lemmas\<close>

lemma ask_granted: "answers_law A \<Longrightarrow> granted c r \<Longrightarrow> ask A c f r = Some (Ok (), f r)"
  by (simp add: ask_def callK_def answers_law_def)

lemma bindP_then: "m s = Some (Ok a, s') \<Longrightarrow> bindP m f s = f a s'"
  by (simp add: bindP_def)

lemma mustP_then: "m s = Some (Ok a, s') \<Longrightarrow> mustP m s = Some (Ok a, s')"
  by (simp add: mustP_Ok)

lemma SetOn_granted:
  "answers_law A \<Longrightarrow> \<not> sealed r \<Longrightarrow> SetOn A h r = Some (Ok (), r\<lparr>handlers_set := handlers_set r @ [h]\<rparr>)"
  by (simp add: SetOn_def ask_granted)

lemma with_tables_granted:
  assumes "answers_law A"
  shows "distinct ns \<Longrightarrow> [] \<notin> set ns \<Longrightarrow> set ns \<inter> set (key_tables r) = {} \<Longrightarrow>
    eachP (with_table A) ns r = Some (Ok (), r\<lparr>key_tables := key_tables r @ ns\<rparr>)"
proof (induction ns arbitrary: r)
  case (Cons n ns)
  have "with_table A n r = Some (Ok (), r\<lparr>key_tables := key_tables r @ [n]\<rparr>)"
    using Cons.prems by (auto simp: with_table_def ask_granted [OF assms])
  moreover have "eachP (with_table A) ns (r\<lparr>key_tables := key_tables r @ [n]\<rparr>)
    = Some (Ok (), r\<lparr>key_tables := key_tables r @ n # ns\<rparr>)"
    using Cons.IH [of "r\<lparr>key_tables := key_tables r @ [n]\<rparr>"] Cons.prems by auto
  ultimately show ?case by (simp add: bindP_then)
qed (simp add: pureP_def)

text \<open>The registry after the registration of IBC.\<close>

definition with_ibc :: "ModuleNames \<Rightarrow> IbcNames \<Rightarrow> Registry \<Rightarrow> Registry" where
  "with_ibc N I r = r\<lparr>stores := stores r @ ibc_stores I, key_tables := key_tables r @ ibc_tables N I,
     port_routes := [(n_transfer N, ''transferStack''), (icacontroller_SubModuleName I, ''icaControllerStack''),
       (icahost_SubModuleName I, ''icaHostStack'')],
     port_routes_v2 := [(transfer_PortID I, ''transferStackV2'')], client_routes := [tm_ModuleName I, solo_ModuleName I],
     reg_modules := reg_modules r @ ibc_modules N I\<rparr>"

lemma registerIBCModules_granted:
  assumes law: "answers_law A" and names: "ibc_names_law N I r" and open': "\<not> sealed r"
  shows "registerIBCModules A N I gov r = Some (Ok (new_ibc_keepers N I gov (with_ibc N I r)), with_ibc N I r)"
proof -
  let ?r1 = "r\<lparr>stores := stores r @ ibc_stores I\<rparr>"
  let ?r2 = "?r1\<lparr>key_tables := key_tables r @ ibc_tables N I\<rparr>"
  have 1: "ask A (RegisterStores (ibc_stores I)) (\<lambda>r. r\<lparr>stores := stores r @ ibc_stores I\<rparr>) r = Some (Ok (), ?r1)"
    using names open' by (simp add: ask_granted [OF law] ibc_names_law_def)
  have 2: "eachP (with_table A) (ibc_tables N I) ?r1 = Some (Ok (), ?r2)"
    using with_tables_granted [OF law, of "ibc_tables N I" ?r1] names by (simp add: ibc_names_law_def)
  have k: "new_ibc_keepers N I gov ?r2 = new_ibc_keepers N I gov (with_ibc N I r)"
    by (simp add: new_ibc_keepers_def new_ibc_keeper_def GetKey_def GetSubspace_def with_ibc_def)
  have d: "n_transfer N \<noteq> icacontroller_SubModuleName I" "n_transfer N \<noteq> icahost_SubModuleName I"
    "icacontroller_SubModuleName I \<noteq> icahost_SubModuleName I" "tm_ModuleName I \<noteq> solo_ModuleName I"
    using names by (auto simp: ibc_names_law_def ibc_tables_def ibc_modules_def)
  have e: "port_routes r = []" "port_routes_v2 r = []" "client_routes r = []" "alnum (n_transfer N)"
    "alnum (icacontroller_SubModuleName I)" "alnum (icahost_SubModuleName I)" "alnum (transfer_PortID I)"
    "distinct (ibc_modules N I)" "set (ibc_modules N I) \<inter> set (reg_modules r) = {}"
    using names by (simp_all add: ibc_names_law_def)
  show ?thesis
    by (simp add: registerIBCModules_def bindP_then 1 2 readK_def add_route_def add_route_v2_def add_client_route_def ask_granted [OF law] d d [symmetric] e k
        pureP_def) (simp add: with_ibc_def)
qed

text \<open>The store of the global fee is new exactly when the upgrade that brings it was just reached.\<close>

definition new_stores :: "UpgradeInfo \<Rightarrow> Plan \<Rightarrow> (i64 \<times> string list) option \<Rightarrow> (i64 \<times> string list) option" where
  "new_stores U plan old =
     (if Name plan = ''globalfee-v1'' \<and> \<not> SkipHeight U (plan_Height plan)
      then Some (plan_Height plan, [globalfee_ModuleName]) else old)"

lemma registerMigrations_granted:
  assumes "answers_law A" and "\<not> sealed r" and "ReadUpgradeInfoFromDisk U = Ok plan"
  shows "registerMigrations A U r = Some (Ok (), r\<lparr>upgrade_handlers := upgrade_handlers r @ [''globalfee-v1''],
    store_loader := new_stores U plan (store_loader r)\<rparr>)"
  using assms
  by (simp add: registerMigrations_def registerGlobalFeeV1_def bindP_then ask_granted pureP_def new_stores_def)

definition handler_names :: "string list" where
  "handler_names = [''PrepareProposal'', ''ProcessProposal'', ''AnteHandler'', ''PreBlocker'', ''BeginBlocker'', ''EndBlocker'', ''InitChainer'']"

definition started :: "ModuleNames \<Rightarrow> IbcNames \<Rightarrow> bool \<Rightarrow> UpgradeInfo \<Rightarrow> Plan \<Rightarrow> Registry \<Rightarrow> Registry" where
  "started N I loadLatest U plan r = (with_ibc N I r)\<lparr>handlers_set := handlers_set r @ handler_names,
     upgrade_handlers := upgrade_handlers r @ [''globalfee-v1''], store_loader := new_stores U plan (store_loader r),
     sealed := loadLatest\<rparr>"

lemma ibc_names_law_handlers: "ibc_names_law N I (r\<lparr>handlers_set := hs\<rparr>) = ibc_names_law N I r"
  by (simp add: ibc_names_law_def)

lemma new_ibc_keepers_handlers:
  "new_ibc_keepers N I gov (with_ibc N I (r\<lparr>handlers_set := hs\<rparr>)) = new_ibc_keepers N I gov (with_ibc N I r)"
  by (simp add: new_ibc_keepers_def new_ibc_keeper_def GetKey_def GetSubspace_def with_ibc_def)

lemma with_ibc_sealed [simp]: "sealed (with_ibc N I r) = sealed r" "handlers_set (with_ibc N I r) = handlers_set r"
  by (simp_all add: with_ibc_def)

lemma NewApp_granted:
  assumes law: "answers_law A" and names: "ibc_names_law N I r" and open': "\<not> sealed r"
    and spec: "LoadChainSpec (ReadConfigFile (getenv H) (files H)) (forks_yaml H) = Ok spec"
    and k: "Inject H (ProvideModule (ext H) (getenv H) (files H) (evm_inputs H) spec) = Ok k"
    and ante: "newAnteHandler (fee_lib H) (fee_store H) (fee_tx H) (sdk_ante H) = Ok ante"
    and hooks: "LoadHooks (hook_env H) (hooks_yaml H) (getenv H) (files H) = Ok hooks"
    and plan: "ReadUpgradeInfoFromDisk (upgrade_info H) = Ok plan"
  shows "NewApp A N I loadLatest H r = Some (Ok (assemble N H k ante (new_ibc_keepers N I (gov_address H) (with_ibc N I r)) hooks),
    started N I loadLatest (upgrade_info H) plan r)"
  using registerIBCModules_granted [OF law] names open'
  by (simp add: NewApp_def spec k ante hooks pureP_def bindP_then SetOn_granted [OF law] mustP_then ibc_names_law_handlers
      registerMigrations_granted [OF law _ plan] ask_granted [OF law] new_ibc_keepers_handlers)
    (simp add: started_def with_ibc_def handler_names_def)

lemma NewApp_OkE:
  assumes "NewApp A N I loadLatest H r = Some (Ok app, r')"
  obtains spec k ante ibc hooks where
    "LoadChainSpec (ReadConfigFile (getenv H) (files H)) (forks_yaml H) = Ok spec"
    "Inject H (ProvideModule (ext H) (getenv H) (files H) (evm_inputs H) spec) = Ok k"
    "newAnteHandler (fee_lib H) (fee_store H) (fee_tx H) (sdk_ante H) = Ok ante"
    "LoadHooks (hook_env H) (hooks_yaml H) (getenv H) (files H) = Ok hooks"
    "app = assemble N H k ante ibc hooks"
  using assms by (auto simp: NewApp_def outcome_simps)

text \<open>The fields that a started node reads from its configuration file.\<close>

lemma ProvideModule_config:
  assumes "ProvideModule X env fs M spec = Ok k"
  shows "\<exists>cfg. readConfig X (ReadConfigFile env fs) (in_yaml M) = Ok cfg
    \<and> k_UseBlockTimestamp k = cfg_UseBlockTimestamp cfg \<and> UnixTimestampOffset k = cfg_UnixTimestampOffset cfg
    \<and> chainSpec k = spec \<and> BlockStateItem k = in_BlockState M"
  using assms by (auto simp: ProvideModule_def NewKeeper_def Let_def outcome_simps)

lemma same_clock:
  "k_UseBlockTimestamp k' = k_UseBlockTimestamp k \<Longrightarrow> UnixTimestampOffset k' = UnixTimestampOffset k \<Longrightarrow>
   CalculateTimestamp k' = CalculateTimestamp k"
  by (intro ext) (simp only: CalculateTimestamp_def)

lemma started_fields:
  "sealed (started N I ll U plan r) = ll" "handlers_set (started N I ll U plan r) = handlers_set r @ handler_names"
  "store_loader (started N I ll U plan r) = new_stores U plan (store_loader r)"
  "set (reg_modules (started N I ll U plan r)) = set (reg_modules r) \<union> dom (RegisterIBC N I)"
  by (auto simp: started_def with_ibc_def ibc_modules_def RegisterIBC_def)

lemma assembled:
  "OrderBeginBlockers (assemble N H k ante ibc hooks) = beginBlockers N"
  "OrderEndBlockers (assemble N H k ante ibc hooks) = endBlockers N" "app_ibc (assemble N H k ante ibc hooks) = ibc"
  by (simp_all add: assemble_def Let_def)

lemma ibc_keeper_list:
  "map f [IBCKeeper (new_ibc_keepers N I gov r), TransferKeeper (new_ibc_keepers N I gov r),
     ICAHostKeeper (new_ibc_keepers N I gov r), ICAControllerKeeper (new_ibc_keepers N I gov r)]
   = map (\<lambda>(st, sp). f (new_ibc_keeper gov st sp r))
       [(ibc_StoreKey I, n_ibc N), (transfer_StoreKey I, n_transfer N), (icahost_StoreKey I, icahost_SubModuleName I),
        (icacontroller_StoreKey I, icacontroller_SubModuleName I)]"
  by (simp add: new_ibc_keepers_def)

lemma ibc_keepers_stores:
  "map ik_store [IBCKeeper (new_ibc_keepers N I gov (with_ibc N I r)), TransferKeeper (new_ibc_keepers N I gov (with_ibc N I r)),
     ICAHostKeeper (new_ibc_keepers N I gov (with_ibc N I r)), ICAControllerKeeper (new_ibc_keepers N I gov (with_ibc N I r))]
   = map Some (ibc_stores I)"
  unfolding ibc_keeper_list by (simp add: new_ibc_keeper_def GetKey_def with_ibc_def ibc_stores_def)

lemma ibc_keepers_subspaces:
  "map ik_subspace [IBCKeeper (new_ibc_keepers N I gov (with_ibc N I r)), TransferKeeper (new_ibc_keepers N I gov (with_ibc N I r)),
     ICAHostKeeper (new_ibc_keepers N I gov (with_ibc N I r)), ICAControllerKeeper (new_ibc_keepers N I gov (with_ibc N I r))]
   = map Some [n_ibc N, n_transfer N, icahost_SubModuleName I, icacontroller_SubModuleName I]"
  unfolding ibc_keeper_list by (simp add: new_ibc_keeper_def GetSubspace_def with_ibc_def ibc_tables_def)

section \<open>Properties\<close>



section \<open>Witnesses\<close>

definition sample_answers :: answers where
  "sample_answers c r = (if granted c r then Ok () else Panic (New ''refused''))"

definition sample_ibc_names :: IbcNames where
  "sample_ibc_names = \<lparr>ibc_StoreKey = ''ibc'', transfer_StoreKey = ''transfer'', icahost_StoreKey = ''icahost'',
     icacontroller_StoreKey = ''icacontroller'', icahost_SubModuleName = ''icahost'', icacontroller_SubModuleName = ''icacontroller'',
     transfer_PortID = ''transfer'', tm_ModuleName = ''tendermint'', solo_ModuleName = ''solomachine''\<rparr>"

definition sample_registry :: Registry where
  "sample_registry = \<lparr>stores = [''acc'', ''bank''], key_tables = [], port_routes = [], port_routes_v2 = [], client_routes = [],
     reg_modules = map fst (appConfig sdk_names), handlers_set = [], upgrade_handlers = [], store_loader = None, sealed = False\<rparr>"

text \<open>The configuration asks for an offset of 7 seconds and activates Prague at once.\<close>

definition sample_inputs :: "(BlockState option, nat) EvmInputs" where
  "sample_inputs = \<lparr>in_Authority = [], NewModuleAddress = (\<lambda>n. n), NewModuleAddressOrBech32Address = (\<lambda>n. n),
     in_StringToBytes = Ok, in_BytesToString = Ok, in_Params = sample_params_item, in_BlockState = sample_item,
     in_dial = (\<lambda>_ _. Ok sample_engine),
     in_yaml = (\<lambda>_. Ok \<lparr>raw_SuggestedFeeRecipient = [], raw_UseBlockTimestamp = None, raw_UnixTimestampOffset = show_u64 7\<rparr>)\<rparr>"

definition zero_hex :: bytes where "zero_hex = replicate 64 CHR ''0''"

definition sample_env :: "Plan \<Rightarrow> (BlockState option, nat, int) NodeEnv" where
  "sample_env plan = \<lparr>ext = sample_ext, getenv = (\<lambda>v. if v = ''NEXUS_CONFIG_PATH'' then ''cfg'' else []),
     files = (\<lambda>p. if p = ''cfg'' then Contents ''config'' else if p = ''jwt.hex'' then Contents zero_hex else NotExist),
     forks_yaml = (\<lambda>_. Ok \<lparr>prague_timestamp = Some 0, osaka_timestamp = None, amsterdam_timestamp = None\<rparr>),
     hooks_yaml = (\<lambda>_. Ok []), hook_env = sample_hook_env, evm_inputs = sample_inputs, Inject = (\<lambda>k. k), txconf = sample_config,
     fee_lib = sample_fee_lib, fee_store = \<lparr>kv_Get = (\<lambda>_ _. Ok None), kv_Set = (\<lambda>_ _ s. (Ok (), s))\<rparr>, fee_tx = (\<lambda>_. None),
     sdk_ante = Ok (\<lambda>ctx _ _. (Ok (), ctx)), gov_address = ''nexus1gov'',
     upgrade_info = \<lparr>ReadUpgradeInfoFromDisk = Ok plan, SkipHeight = (\<lambda>_. False)\<rparr>\<rparr>"

definition globalfee_plan :: Plan where
  "globalfee_plan = \<lparr>Name = ''globalfee-v1'', plan_Height = 100, Info = []\<rparr>"

lemma sample_answers_law: "answers_law sample_answers"
  by (simp add: answers_law_def sample_answers_def)

lemma sample_ibc_names_law: "ibc_names_law sdk_names sample_ibc_names sample_registry"
  by (simp add: ibc_names_law_def sample_ibc_names_def sample_registry_def sdk_names_def ibc_stores_def ibc_tables_def ibc_modules_def
      alnum_def appConfig_def ModuleName_def globalfee_ModuleName_def)

lemma sample_registry_open: "\<not> sealed sample_registry" "set (map fst (appConfig sdk_names)) \<subseteq> set (reg_modules sample_registry)"
  by (simp_all add: sample_registry_def)

lemma sample_env_parts:
  "ReadConfigFile (getenv (sample_env plan)) (files (sample_env plan)) = Ok ''config''"
  "LoadChainSpec (ReadConfigFile (getenv (sample_env plan)) (files (sample_env plan))) (forks_yaml (sample_env plan))
     = Ok \<lparr>PragueTimestamp = Some 0, OsakaTimestamp = None, AmsterdamTimestamp = None\<rparr>"
  "\<exists>ante. newAnteHandler (fee_lib (sample_env plan)) (fee_store (sample_env plan)) (fee_tx (sample_env plan)) (sdk_ante (sample_env plan))
     = Ok ante"
  "LoadHooks (hook_env (sample_env plan)) (hooks_yaml (sample_env plan)) (getenv (sample_env plan)) (files (sample_env plan))
     = Ok Map.empty"
  "ReadUpgradeInfoFromDisk (upgrade_info (sample_env plan)) = Ok plan"
  by (simp_all add: sample_env_def ReadConfigFile_def LoadChainSpec_def ChainSpec_Validate_def newAnteHandler_def LoadHooks_def)

lemma zero_secret: "\<exists>s. LoadJWTSecret (\<lambda>_. Contents zero_hex) ''jwt.hex'' = Ok s"
proof -
  have "case LoadJWTSecret (\<lambda>_. Contents zero_hex) ''jwt.hex'' of Ok _ \<Rightarrow> True | _ \<Rightarrow> False" by code_simp
  then show ?thesis by (simp split: outcome.splits)
qed

lemma sample_provides:
  "ProvideModule (ext (sample_env plan)) (getenv (sample_env plan)) (files (sample_env plan)) (evm_inputs (sample_env plan))
     \<lparr>PragueTimestamp = Some 0, OsakaTimestamp = None, AmsterdamTimestamp = None\<rparr> = Ok (sample_keeper None)"
proof -
  obtain s where "LoadJWTSecret (\<lambda>_. Contents zero_hex) ''jwt.hex'' = Ok s" using zero_secret by blast
  then have "LoadJWTSecret (files (sample_env plan)) ''jwt.hex'' = Ok s"
    by (simp add: LoadJWTSecret_def sample_env_def)
  moreover have "getenv (sample_env plan) ''EVM_ENGINE_JWT_SECRET_PATH'' = []" by (simp add: sample_env_def)
  ultimately have "createEngineClient (getenv (sample_env plan)) (files (sample_env plan)) (in_dial sample_inputs) = Ok sample_engine"
    by (simp add: createEngineClient_def sample_inputs_def)
  moreover have "show_u64 7 \<noteq> []" using ParseUint_show_u64 [of 7] by (auto simp: ParseUint_def)
  then have "readConfig (ext (sample_env plan)) (ReadConfigFile (getenv (sample_env plan)) (files (sample_env plan))) (in_yaml sample_inputs)
    = Ok \<lparr>cfg_SuggestedFeeRecipient = 0, cfg_UseBlockTimestamp = None, cfg_UnixTimestampOffset = 7\<rparr>"
    by (simp add: sample_env_parts(1) readConfig_def sample_inputs_def parse_field_def)
  moreover have "evm_inputs (sample_env plan) = sample_inputs" by (simp add: sample_env_def)
  ultimately show ?thesis
    by (simp add: ProvideModule_def NewKeeper_def sample_keeper_def sample_inputs_def GovModuleName_def)
qed

lemma sample_injects:
  "Inject (sample_env plan) (ProvideModule (ext (sample_env plan)) (getenv (sample_env plan)) (files (sample_env plan))
     (evm_inputs (sample_env plan)) \<lparr>PragueTimestamp = Some 0, OsakaTimestamp = None, AmsterdamTimestamp = None\<rparr>) = Ok (sample_keeper None)"
  unfolding sample_provides by (simp add: sample_env_def)


text \<open>The node of the witness, and what it prepares.\<close>

lemma sample_node_starts:
  "\<exists>app r'. NewApp sample_answers sdk_names sample_ibc_names ll (sample_env plan) sample_registry = Some (Ok app, r')
    \<and> EvmKeeper app = sample_keeper None
    \<and> h_PrepareProposal app = prepareProposalHandler sample_ext sample_config (sample_keeper None) 1"
proof -
  obtain ante where ante: "newAnteHandler (fee_lib (sample_env plan)) (fee_store (sample_env plan))
    (fee_tx (sample_env plan)) (sdk_ante (sample_env plan)) = Ok ante" using sample_env_parts(3) by blast
  have e: "ext (sample_env plan) = sample_ext" "txconf (sample_env plan) = sample_config" by (simp_all add: sample_env_def)
  show ?thesis
    using NewApp_granted [OF sample_answers_law sample_ibc_names_law sample_registry_open(1) sample_env_parts(2) sample_injects ante
        sample_env_parts(4,5), of ll]
    by (simp add: assemble_def Let_def e maxCosmosTxsPerBlock_def)
qed


end
