(* ===== verification/Application.thy ===== *)
theory Application
  imports Chain Start_Up
begin

text \<open>
  A whole block through the application that \<open>New\<close> assembled (\<open>app/app.go\<close>, \<open>app/ante.go\<close>,
  \<open>app/block_hooks.go\<close>, \<open>x/evm/keeper/msg_server.go\<close>): the pre-blocker, the begin-blocker, every transaction
  through the handler in front of it and its messages, and the end-blocker with its hooks. The calls are made by the base
  application of the SDK in the order it documents; here that order is written out over the handlers of the program, so that what
  each handler promises can be put together into what a block does to the head of the chain.
\<close>

section \<open>The platform\<close>

text \<open>What the SDK and the process give the handlers: the keepers, the block methods and the messages of the other modules.\<close>

record ('s, 'e, 'r) Platform =
  pl_http :: "'e Http"
  pl_runtime :: "'e Runtime"
  pl_goctx :: "'e Context"
  pl_upgrade :: "'s UpgradeKeeper"
  pl_keepers :: "'s SdkKeepers"
  pl_hook_env :: HookEnv
  pl_validators :: "'s \<Rightarrow> Validator list \<times> unit outcome"
  pl_moniker :: "Validator \<Rightarrow> string"
  pl_PreBlock :: "'s \<Rightarrow> 'r outcome \<times> 's"
  pl_BeginBlock :: "'s \<Rightarrow> 'r outcome \<times> 's"
  pl_EndBlock :: "'s \<Rightarrow> 'r outcome \<times> 's"
  pl_message :: "sdk_msg \<Rightarrow> 's \<Rightarrow> unit outcome \<times> 's"

record BlockInput =
  bi_header :: BlockHeader
  bi_ctx :: SdkContext
  bi_hook_ctx :: HookContext
  bi_txs :: "bytes list"

section \<open>Transactions\<close>

text \<open>The handler of a message: the two messages of the EVM module, or another module's.\<close>

fun handle_message ::
    "Ext \<Rightarrow> ('s, 'e, 'r) Platform \<Rightarrow> ('s, 'e) App \<Rightarrow> SdkContext \<Rightarrow> sdk_msg \<Rightarrow> ('s \<times> 'e, unit) proc" where
  "handle_message X P app ctx (ExecutionPayloadMsg req) =
     ExecutionPayload X (EvmKeeper app) (pl_runtime P) (pl_goctx P) ctx req"
| "handle_message X P app ctx (UpdateParamsMsg req) = UpdateParams (EvmKeeper app) req"
| "handle_message X P app ctx m = writeS (pl_message P m)"

fun run_messages ::
    "Ext \<Rightarrow> ('s, 'e, 'r) Platform \<Rightarrow> ('s, 'e) App \<Rightarrow> SdkContext \<Rightarrow> sdk_msg list \<Rightarrow> ('s \<times> 'e, unit) proc" where
  "run_messages X P app ctx [] = pureP (Ok ())"
| "run_messages X P app ctx (m # ms) = bindP (handle_message X P app ctx m) (\<lambda>_. run_messages X P app ctx ms)"

text \<open>
  A transaction: it is decoded, the handler in front of it runs, then its messages. If the handler fails nothing is kept; if a
  message fails nothing of the messages is kept. Either way the block goes on with the result, an error or a panic included.
\<close>

definition deliver_tx ::
    "Ext \<Rightarrow> ('s, 'e, 'r) Platform \<Rightarrow> ('s, 'e) App \<Rightarrow> SdkContext \<Rightarrow> bytes \<Rightarrow> ('s \<times> 'e, unit outcome) proc" where
  "deliver_tx X P app ctx b = (\<lambda>(s, e).
     case TxDecoder (app_txConfig app) b of
       Err x \<Rightarrow> Some (Ok (Err x), (s, e))
     | Panic x \<Rightarrow> Some (Ok (Panic x), (s, e))
     | Ok t \<Rightarrow>
         (case h_AnteHandler app \<lparr>IsCheckTx = False, IsReCheckTx = False, ante_store = s\<rparr> t False of
            (Ok _, c) \<Rightarrow>
              map_option (\<lambda>(r, w). (Ok r, if r = Ok () then w else (ante_store c, snd w)))
                (run_messages X P app ctx (GetMsgs t) (ante_store c, e))
          | (r, _) \<Rightarrow> Some (Ok r, (s, e))))"

fun deliver_txs ::
    "Ext \<Rightarrow> ('s, 'e, 'r) Platform \<Rightarrow> ('s, 'e) App \<Rightarrow> SdkContext \<Rightarrow> bytes list \<Rightarrow> ('s \<times> 'e, unit outcome list) proc" where
  "deliver_txs X P app ctx [] = pureP (Ok [])"
| "deliver_txs X P app ctx (b # bs) =
     bindP (deliver_tx X P app ctx b) (\<lambda>r. bindP (deliver_txs X P app ctx bs) (\<lambda>rs. pureP (Ok (r # rs))))"

section \<open>Blocks\<close>

definition store_part :: "('s, 'a) proc \<Rightarrow> ('s \<times> 'e, 'a) proc" where
  "store_part m = (\<lambda>(s, e). map_option (\<lambda>(r, s'). (r, (s', e))) (m s))"

definition block_body ::
    "Ext \<Rightarrow> ('s, 'e, 'r) Platform \<Rightarrow> ('s, 'e) App \<Rightarrow> BlockInput \<Rightarrow> ('s \<times> 'e, unit outcome list) proc" where
  "block_body X P app I =
     bindP (store_part (BeginBlocker (pl_BeginBlock P))) (\<lambda>_.
     bindP (deliver_txs X P app (bi_ctx I) (bi_txs I)) (\<lambda>results.
     bindP (store_part (EndBlocker (pl_hook_env P) (pl_keepers P) (pl_validators P) (pl_moniker P) (pl_EndBlock P)
              (app_hooks app) (bi_hook_ctx I))) (\<lambda>_.
     pureP (Ok results))))"

text \<open>The notifier is a field of the application. Nothing of a block that fails is committed.\<close>

definition execute_block ::
    "Ext \<Rightarrow> ('s, 'e, 'r) Platform \<Rightarrow> BlockInput
     \<Rightarrow> (('s, 'e) App \<times> 's \<times> 'e, unit outcome list) proc" where
  "execute_block X P I = (\<lambda>(app, s, e).
     case app_PreBlocker app (pl_http P) (pl_runtime P) (pl_upgrade P) (bi_header I) (pl_PreBlock P) s e of
       (Err x, _, e1) \<Rightarrow> Some (Err x, (app, s, e1))
     | (Panic x, _, e1) \<Rightarrow> Some (Panic x, (app, s, e1))
     | (Ok (_, _, n, r), s1, e1) \<Rightarrow>
         (let app' = app\<lparr>app_upgradeNotifier := n\<rparr>
          in case r of
               Err x \<Rightarrow> Some (Err x, (app', s, e1))
             | Panic x \<Rightarrow> Some (Panic x, (app', s, e1))
             | Ok _ \<Rightarrow>
                 map_option (\<lambda>(res, w). (res, (app', case res of Ok _ \<Rightarrow> fst w | _ \<Rightarrow> s, snd w)))
                   (block_body X P app' I (s1, e1))))"

section \<open>Laws\<close>

text \<open>
  A module's keeper writes under the module's own store key, so what the EVM module reads is the same after a call of another
  module's keeper. \<open>p\<close> is what is read.
\<close>

definition keepers_apart :: "('s \<Rightarrow> 'b) \<Rightarrow> 's SdkKeepers \<Rightarrow> bool" where
  "keepers_apart p K \<longleftrightarrow>
     (\<forall>v. keeps p (callK (SetValidator K v))) \<and> (\<forall>v. keeps p (callK (SetValidatorByConsAddr K v))) \<and>
     (\<forall>v. keeps p (callK (SetNewValidatorByPowerIndex K v))) \<and> (\<forall>v. keeps p (callK (DeleteValidatorByPowerIndex K v))) \<and>
     (\<forall>m. keeps p (callK (Delegate K m))) \<and> (\<forall>c i. keeps p (callK (SetValidatorSigningInfo K c i))) \<and>
     (\<forall>c. keeps p (callK (Unjail K c))) \<and> (\<forall>n c. keeps p (callK (MintCoins K n c))) \<and>
     (\<forall>n c. keeps p (callK (BurnCoins K n c))) \<and> (\<forall>n a c. keeps p (callK (SendCoinsFromModuleToAccount K n a c))) \<and>
     (\<forall>n n' c. keeps p (callK (SendCoinsFromModuleToModule K n n' c))) \<and>
     (\<forall>a s. p (SetNewAccount K a s) = p s) \<and>
     (\<forall>a i j. keeps p (callK (SetHistoricalRewards K a i j))) \<and> (\<forall>a i. keeps p (callK (SetCurrentRewards K a i))) \<and>
     (\<forall>a. keeps p (callK (SetAccumulatedCommission K a))) \<and> keeps p (callK (FeePool_SetInitial K))"

definition ante_apart :: "('s \<Rightarrow> 'b) \<Rightarrow> 's AnteHandler \<Rightarrow> bool" where
  "ante_apart p h \<longleftrightarrow> (\<forall>c t sim. p (ante_store (snd (h c t sim))) = p (ante_store c))"

definition modules_apart :: "('s \<Rightarrow> 'b) \<Rightarrow> ('s, 'e, 'r) Platform \<Rightarrow> bool" where
  "modules_apart p P \<longleftrightarrow> keepers_apart p (pl_keepers P) \<and>
     (\<forall>s. p (snd (pl_PreBlock P s)) = p s) \<and> (\<forall>s. p (snd (pl_BeginBlock P s)) = p s) \<and>
     (\<forall>s. p (snd (pl_EndBlock P s)) = p s) \<and> (\<forall>m s. p (snd (pl_message P m s)) = p s)"

section \<open>Lemmas\<close>

subsection \<open>What leaves the head alone\<close>

lemma keepers_apartD [keeps_intros]:
  assumes "keepers_apart p K"
  shows "keeps p (callK (SetValidator K v))" "keeps p (callK (SetValidatorByConsAddr K v))"
    "keeps p (callK (SetNewValidatorByPowerIndex K v))" "keeps p (callK (DeleteValidatorByPowerIndex K v))"
    "keeps p (callK (Delegate K m))" "keeps p (callK (SetValidatorSigningInfo K c i))" "keeps p (callK (Unjail K c))"
    "keeps p (callK (MintCoins K n x))" "keeps p (callK (BurnCoins K n x))"
    "keeps p (callK (SendCoinsFromModuleToAccount K n c x))" "keeps p (callK (SendCoinsFromModuleToModule K n n' x))"
    "keeps p (callK (SetHistoricalRewards K c j j'))" "keeps p (callK (SetCurrentRewards K c j))"
    "keeps p (callK (SetAccumulatedCommission K c))" "keeps p (callK (FeePool_SetInitial K))"
  using assms by (simp_all add: keepers_apart_def del: split_paired_All)

lemma keeps_account:
  "keepers_apart p K \<Longrightarrow> keeps p (\<lambda>s. Some (Ok (), if HasAccount K a s then s else SetNewAccount K a s))"
  by (simp add: keeps_def keepers_apart_def)

lemma setValidatorBalance_keeps: "keepers_apart p K \<Longrightarrow> keeps p (setValidatorBalance K a v t)"
  unfolding setValidatorBalance_def by (intro keeps_intros)

lemma ExecuteUnjailing_keeps: "keepers_apart p K \<Longrightarrow> keeps p (ExecuteUnjailing K ctx a t)"
  unfolding ExecuteUnjailing_def by (intro keeps_intros setValidatorBalance_keeps)

lemma persist_validator_keeps: "keepers_apart p K \<Longrightarrow> keeps p (persist_validator K ctx a v)"
  unfolding persist_validator_def ensure_signing_info_def by (intro keeps_intros)

lemma ExecuteAddValidator_keeps: "keepers_apart p K \<Longrightarrow> keeps p (ExecuteAddValidator K ctx a opts)"
  unfolding ExecuteAddValidator_def create_validator_def
  by (intro keeps_intros persist_validator_keeps setValidatorBalance_keeps keeps_account)

lemma ExecuteRemoveValidator_keeps: "keepers_apart p K \<Longrightarrow> keeps p (ExecuteRemoveValidator K a opts)"
  unfolding ExecuteRemoveValidator_def tombstoneValidator_def
  by (intro keeps_intros handleValidatorTokens_keeps)

lemma keeps_callK: "keeps p (callK f) \<longleftrightarrow> (\<forall>s. p (snd (f s)) = p s)"
  by (simp add: keeps_def callK_def) (metis snd_conv surj_pair)

lemma ExecuteReconcile_keeps:
  assumes "keepers_apart p K"
  shows "keeps p (callK (ExecuteReconcileStakingPools K))"
proof -
  have *: "p (snd (MintCoins K n c s)) = p s" "p (snd (SendCoinsFromModuleToModule K n n' c s)) = p s" for n n' c s
    using keepers_apartD(8,11) [OF assms] unfolding keeps_callK by blast+
  have m: "MintCoins K n c s = (r, s') \<Longrightarrow> p s' = p s" for n c s r s' using *(1) [of n c s] by simp
  have t: "SendCoinsFromModuleToModule K n n' c s = (r, s') \<Longrightarrow> p s' = p s" for n n' c s r s' using *(2) [of n n' c s] by simp
  show ?thesis unfolding keeps_callK ExecuteReconcileStakingPools_def Let_def
    by (auto split: prod.splits outcome.splits if_splits dest!: m t)
qed

lemma PerformHook_keeps:
  assumes "keepers_apart p K"
  shows "keeps p (PerformHook env K ctx hook)"
proof -
  have "keeps p (performUnjailHook env K ctx hook)" "keeps p (performAddValidatorHook env K ctx hook)"
    "keeps p (performRemoveValidatorHook env K hook)" "keeps p (performReconcileStakingPoolsHook env K hook)"
    unfolding performUnjailHook_def performAddValidatorHook_def performRemoveValidatorHook_def performReconcileStakingPoolsHook_def
    by (cases "hook_Params hook"; simp; intro keeps_intros ExecuteUnjailing_keeps ExecuteAddValidator_keeps
        ExecuteRemoveValidator_keeps ExecuteReconcile_keeps assms)+
  then show ?thesis unfolding PerformHook_def by (intro keeps_intros)
qed

lemma keeps_logged: "keeps p m \<Longrightarrow> keeps p (logged action m)"
  by (fastforce simp: keeps_def logged_def)

lemma run_hooks_keeps: "keepers_apart p K \<Longrightarrow> keeps p (run_hooks env K ctx hs)"
  by (induction hs) (auto intro!: keeps_intros keeps_logged PerformHook_keeps)

lemma EndBlocker_keeps:
  assumes "modules_apart p P"
  shows "keeps p (EndBlocker env (pl_keepers P) it mon (pl_EndBlock P) hooks ctx)"
proof -
  have "keepers_apart p (pl_keepers P)" "keeps p (callK (pl_EndBlock P))"
    using assms by (simp_all add: modules_apart_def keeps_callK)
  then show ?thesis unfolding EndBlocker_def by (intro keeps_intros run_hooks_keeps)
qed

subsection \<open>The handler in front of a transaction\<close>

lemma MinGasPrice_apart: "ante_apart p nxt \<Longrightarrow> ante_apart p (MinGasPrice_AnteHandle L kv f nxt)"
  by (auto simp: ante_apart_def MinGasPrice_AnteHandle_def Let_def split: outcome.splits)

lemma newAnteHandler_apart:
  assumes "newAnteHandler L kv f (Ok sdk) = Ok h" "ante_apart p sdk"
  shows "ante_apart p h"
  using assms(1) MinGasPrice_apart [OF assms(2), of L kv f]
  by (auto simp: newAnteHandler_def ante_apart_def)

lemma newAnteHandler_payload:
  assumes "newAnteHandler L kv f (Ok sdk) = Ok h" "lone_payload t" "\<not> IsCheckTx c" "\<not> IsReCheckTx c"
  shows "h c t sim = (Ok (), c)"
  using assms by (auto simp: newAnteHandler_def)

text \<open>What \<open>New\<close> installs, seen from a block.\<close>

definition node_app :: "Ext \<Rightarrow> ('s, 'e) App \<Rightarrow> bool" where
  "node_app X app \<longleftrightarrow>
     h_ProcessProposal app
       = processProposalHandler (proposalRouter X (EvmKeeper app)) X (app_txConfig app) maxCosmosTxsPerBlock \<and>
     ante_apart (GetBlockState (EvmKeeper app)) (h_AnteHandler app) \<and>
     (\<forall>c t. lone_payload t \<longrightarrow> \<not> IsCheckTx c \<longrightarrow> \<not> IsReCheckTx c \<longrightarrow> h_AnteHandler app c t False = (Ok (), c))"

lemma NewApp_node_app:
  assumes run: "NewApp A N I loadLatest H r = Some (Ok app, r')"
    and sdk: "sdk_ante H = Ok sdk" and ap: "ante_apart (GetBlockState (EvmKeeper app)) sdk"
  shows "node_app (ext H) app"
proof -
  obtain k ante ibc hooks where app: "app = assemble N H k ante ibc hooks"
    and ante: "newAnteHandler (fee_lib H) (fee_store H) (fee_tx H) (sdk_ante H) = Ok ante"
    by (rule NewApp_OkE [OF run]) blast
  then show ?thesis
    using newAnteHandler_apart [OF ante [unfolded sdk]] newAnteHandler_payload [OF ante [unfolded sdk]] ap
    by (simp add: node_app_def assemble_def Let_def)
qed

lemma node_app_notifier [simp]: "node_app X (app\<lparr>app_upgradeNotifier := n\<rparr>) = node_app X app"
  by (simp add: node_app_def)

subsection \<open>Accepted blocks\<close>

definition block_shape :: "Ext \<Rightarrow> TxConfig \<Rightarrow> bytes list \<Rightarrow> bool" where
  "block_shape X tc txs \<longleftrightarrow> txs = [] \<or>
     (\<exists>cs b m. txs = cs @ [b] \<and> (\<forall>c\<in>set cs. cosmos_tx tc c) \<and> payload_tx X tc b m)"

lemma accepted_shape:
  assumes "node_app X app" "h_ProcessProposal app ctx req s = Ok ACCEPT"
  shows "block_shape X (app_txConfig app) (proc_Txs req)"
proof (cases "proc_Height req = 1")
  case True
  with assms show ?thesis
    by (auto simp: node_app_def block_shape_def processProposalHandler_def rejectProposal_def split: if_splits)
next
  case False
  with assms show ?thesis by (auto simp: node_app_def block_shape_def process_ACCEPT)
qed

lemma run_messages_allowed:
  assumes "allowedMsgTypes m"
  shows "run_messages X P app ctx [m] (s, e) = Some (fst (pl_message P m s), (snd (pl_message P m s), e))"
  using assms by (cases m) (auto simp: bindP_def pureP_def writeS_def split: prod.splits outcome.splits)

lemma cosmos_deliver:
  assumes "node_app X app" "modules_apart (GetBlockState (EvmKeeper app)) P" "cosmos_tx (app_txConfig app) b"
  shows "\<exists>r s'. deliver_tx X P app ctx b (s, e) = Some (Ok r, (s', e))
    \<and> GetBlockState (EvmKeeper app) s' = GetBlockState (EvmKeeper app) s"
proof -
  let ?p = "GetBlockState (EvmKeeper app)" and ?c = "\<lparr>IsCheckTx = False, IsReCheckTx = False, ante_store = s\<rparr>"
  from assms(3) obtain t m where t: "TxDecoder (app_txConfig app) b = Ok t" "GetMsgs t = [m]" "allowedMsgTypes m"
    by (auto simp: cosmos_tx_def)
  obtain r c where c: "h_AnteHandler app ?c t False = (r, c)" by force
  have pc: "?p (ante_store c) = ?p s"
    using assms(1) c unfolding node_app_def ante_apart_def by (metis AnteContext.select_convs(3) snd_conv)
  have pm: "?p (snd (pl_message P m s)) = ?p s" for s using assms(2) by (simp add: modules_apart_def)
  show ?thesis
  proof (cases r)
    case (Ok u)
    then have "deliver_tx X P app ctx b (s, e) = Some (Ok (fst (pl_message P m (ante_store c))),
        (if fst (pl_message P m (ante_store c)) = Ok () then snd (pl_message P m (ante_store c)) else ante_store c, e))"
      by (simp add: deliver_tx_def t c run_messages_allowed [OF t(3)] del: run_messages.simps)
    then show ?thesis using pc pm by auto
  qed (use t c in \<open>auto simp: deliver_tx_def\<close>)
qed

lemma cosmos_deliver_all:
  assumes "node_app X app" "modules_apart (GetBlockState (EvmKeeper app)) P" "\<forall>b\<in>set bs. cosmos_tx (app_txConfig app) b"
  shows "\<exists>rs s'. deliver_txs X P app ctx bs (s, e) = Some (Ok rs, (s', e)) \<and> length rs = length bs
    \<and> GetBlockState (EvmKeeper app) s' = GetBlockState (EvmKeeper app) s"
  using assms(3)
proof (induction bs arbitrary: s)
  case (Cons b bs)
  then obtain r s1 where 1: "deliver_tx X P app ctx b (s, e) = Some (Ok r, (s1, e))"
    "GetBlockState (EvmKeeper app) s1 = GetBlockState (EvmKeeper app) s"
    using cosmos_deliver [OF assms(1,2), of b ctx s e] by auto
  from Cons obtain rs s2 where "deliver_txs X P app ctx bs (s1, e) = Some (Ok rs, (s2, e))" "length rs = length bs"
    "GetBlockState (EvmKeeper app) s2 = GetBlockState (EvmKeeper app) s1" by fastforce
  with 1 show ?case by (simp add: bindP_def pureP_def)
qed (simp add: pureP_def)

lemma deliver_txs_snoc:
  assumes "deliver_txs X P app ctx bs w = Some (Ok rs, w1)"
  shows "deliver_txs X P app ctx (bs @ [b]) w
    = map_option (\<lambda>(r, w2). (case r of Ok x \<Rightarrow> Ok (rs @ [x]) | Err e \<Rightarrow> Err e | Panic e \<Rightarrow> Panic e, w2)) (deliver_tx X P app ctx b w1)"
  using assms
proof (induction bs arbitrary: w rs)
  case Nil
  then show ?case by (auto simp: bindP_def pureP_def split: option.splits outcome.splits prod.splits)
next
  case (Cons a bs)
  then obtain r w' rs' where "deliver_tx X P app ctx a w = Some (Ok r, w')"
    "deliver_txs X P app ctx bs w' = Some (Ok rs', w1)" "rs = r # rs'"
    by (auto simp: bindP_def pureP_def split: option.splits outcome.splits prod.splits)
  with Cons.IH [of w' rs'] show ?case
    by (auto simp: bindP_def pureP_def split: option.splits outcome.splits prod.splits)
qed

lemma payload_deliver:
  assumes "node_app X app" "payload_tx X (app_txConfig app) b m"
  shows "deliver_tx X P app ctx b (s, e) = map_option (\<lambda>(r, w). (Ok r, if r = Ok () then w else (s, snd w)))
     (ExecutionPayload X (EvmKeeper app) (pl_runtime P) (pl_goctx P) ctx m (s, e))"
proof -
  from assms(2) obtain t where t: "TxDecoder (app_txConfig app) b = Ok t" "GetMsgs t = [ExecutionPayloadMsg m]"
    by (auto simp: payload_tx_def)
  then have "h_AnteHandler app \<lparr>IsCheckTx = False, IsReCheckTx = False, ante_store = s\<rparr> t False
     = (Ok (), \<lparr>IsCheckTx = False, IsReCheckTx = False, ante_store = s\<rparr>)"
    using assms(1) by (simp add: node_app_def lone_payload_def)
  then show ?thesis
    by (auto simp: deliver_tx_def t bindP_def pureP_def split: option.splits outcome.splits prod.splits)
qed

section \<open>The chain of blocks\<close>

text \<open>The payload that a block finalized: the one of its last transaction, when that transaction succeeded.\<close>

definition block_payload :: "Ext \<Rightarrow> TxConfig \<Rightarrow> bytes list \<Rightarrow> ExecutableData option" where
  "block_payload X tc txs =
     (if txs = [] then None
      else case TxDecoder tc (last txs) of
             Ok t \<Rightarrow>
               (case GetMsgs t of
                  [ExecutionPayloadMsg m] \<Rightarrow>
                    (case UnmarshalPayload X (msg_ExecutionPayload m) of Ok p \<Rightarrow> Some p | _ \<Rightarrow> None)
                | _ \<Rightarrow> None)
           | _ \<Rightarrow> None)"

definition finalized :: "Ext \<Rightarrow> TxConfig \<Rightarrow> bytes list \<Rightarrow> unit outcome list outcome \<Rightarrow> ExecutableData option" where
  "finalized X tc txs res =
     (case res of Ok rs \<Rightarrow> if rs \<noteq> [] \<and> last rs = Ok () then block_payload X tc txs else None | _ \<Rightarrow> None)"

text \<open>
  A step of the application: a block whose proposal was accepted is executed, by whatever store the proposal was checked
  against, or something happens outside.
\<close>

inductive block_step ::
    "Ext \<Rightarrow> ('s, 'e, 'r) Platform \<Rightarrow> ('s, 'e) App \<times> 's \<times> 'e \<Rightarrow> ExecutableData option \<Rightarrow> ('s, 'e) App \<times> 's \<times> 'e \<Rightarrow> bool"
  for X P where
  executed: "h_ProcessProposal app pctx preq s0 = Ok ACCEPT \<Longrightarrow> bi_txs I = proc_Txs preq \<Longrightarrow>
     execute_block X P I (app, s, e) = Some (res, w') \<Longrightarrow>
     block_step X P (app, s, e) (finalized X (app_txConfig app) (bi_txs I) res) w'"
| idle: "block_step X P (app, s, e) None (app, s, e')"

inductive_cases block_stepE: "block_step X P w l w'"

definition app_head :: "('s, 'e) App \<times> 's \<times> 'e \<Rightarrow> BlockState outcome" where
  "app_head w = GetBlockState (EvmKeeper (fst w)) (fst (snd w))"

definition lawful_app :: "Ext \<Rightarrow> ('s, 'e, 'r) Platform \<Rightarrow> ('s, 'e) App \<Rightarrow> bool" where
  "lawful_app X P app \<longleftrightarrow> node_app X app \<and> lawful_store (EvmKeeper app) \<and> modules_apart (GetBlockState (EvmKeeper app)) P"

definition lawful_block ::
    "Ext \<Rightarrow> ('s, 'e, 'r) Platform \<Rightarrow> ('s, 'e) App \<times> 's \<times> 'e \<Rightarrow> ExecutableData option \<Rightarrow> ('s, 'e) App \<times> 's \<times> 'e \<Rightarrow> bool" where
  "lawful_block X P w l w' \<longleftrightarrow> lawful_app X P (fst w) \<and> block_step X P w l w'"

text \<open>How the head may move with a label.\<close>

definition moves :: "ExecutableData option \<Rightarrow> BlockState outcome \<Rightarrow> BlockState outcome \<Rightarrow> bool" where
  "moves l h h' \<longleftrightarrow>
     (case l of None \<Rightarrow> h' = h
      | Some p \<Rightarrow> \<exists>b. h = Ok b \<and> extends b p \<and> well_formed p \<and> h' = Ok (next_head p))"

lemma deliver_moves:
  assumes law: "lawful_app X P app" and shape: "block_shape X (app_txConfig app) txs"
    and run: "deliver_txs X P app ctx txs (s, e) = Some (res, (s', e'))"
  shows "\<exists>rs. res = Ok rs \<and>
    moves (finalized X (app_txConfig app) txs (Ok rs)) (GetBlockState (EvmKeeper app) s) (GetBlockState (EvmKeeper app) s')"
proof (cases "txs = []")
  case True
  then have "res = Ok []" "s' = s" using run by (auto simp: pureP_def)
  then show ?thesis by (simp add: moves_def finalized_def)
next
  case False
  let ?k = "EvmKeeper app"
  note law' = law [unfolded lawful_app_def]
  from False shape obtain cs b m where txs: "txs = cs @ [b]" "\<forall>c\<in>set cs. cosmos_tx (app_txConfig app) c"
    and m: "payload_tx X (app_txConfig app) b m" by (auto simp: block_shape_def)
  obtain rs s1 where cs: "deliver_txs X P app ctx cs (s, e) = Some (Ok rs, (s1, e))"
    and h1: "GetBlockState ?k s1 = GetBlockState ?k s"
    using cosmos_deliver_all [of X app P cs ctx s e] law' txs(2) by auto
  from run obtain r w where x: "ExecutionPayload X ?k (pl_runtime P) (pl_goctx P) ctx m (s1, e) = Some (r, w)"
    and res: "res = Ok (rs @ [r])" and s': "s' = (if r = Ok () then fst w else s1)"
    unfolding txs(1) deliver_txs_snoc [OF cs] using payload_deliver [of X app b m P ctx s1 e] law' m
    by (auto split: if_splits)
  show ?thesis
  proof (cases "r = Ok ()")
    case True
    from x [unfolded True] obtain state q where v: "validatePayload X ?k ctx m state = Ok q"
      by (cases w) (auto elim!: ExecutionPayload_OkE)
    then have q: "UnmarshalPayload X (msg_ExecutionPayload m) = Ok q" by (simp add: validatePayload_Ok)
    then have "block_payload X (app_txConfig app) txs = Some q"
      using m by (auto simp: block_payload_def txs(1) payload_tx_def)
    with finalize_advances [of ?k X _ _ _ m "(s1, e)" w q] x q law' True show ?thesis
      by (auto simp: res s' moves_def finalized_def h1 lawful_store_def)
  next
    case False
    then show ?thesis by (simp add: res s' moves_def finalized_def h1)
  qed
qed

lemma store_part_Some: "store_part m (s, e) = Some (r, (s', e')) \<longleftrightarrow> m s = Some (r, s') \<and> e' = e"
  by (auto simp: store_part_def)

lemma block_body_moves:
  assumes law: "lawful_app X P app" and shape: "block_shape X (app_txConfig app) (bi_txs I)"
    and run: "block_body X P app I (s, e) = Some (Ok rs, (s', e'))"
  shows "moves (finalized X (app_txConfig app) (bi_txs I) (Ok rs)) (GetBlockState (EvmKeeper app) s) (GetBlockState (EvmKeeper app) s')"
proof -
  let ?h = "GetBlockState (EvmKeeper app)"
  have ap: "modules_apart ?h P" using law by (simp add: lawful_app_def)
  from run obtain v s1 s2 v' e2 where b: "BeginBlocker (pl_BeginBlock P) s = Some (Ok v, s1)"
    and d: "deliver_txs X P app (bi_ctx I) (bi_txs I) (s1, e) = Some (Ok rs, (s2, e2))"
    and n: "EndBlocker (pl_hook_env P) (pl_keepers P) (pl_validators P) (pl_moniker P) (pl_EndBlock P) (app_hooks app)
       (bi_hook_ctx I) s2 = Some (Ok v', s')"
    unfolding block_body_def bindP_Ok by (auto simp: store_part_Some pureP_def)
  have "?h s1 = ?h s" using b ap by (auto simp: BeginBlocker_def callK_Some modules_apart_def) (metis snd_conv)
  moreover have "?h s' = ?h s2" using keepsD [OF EndBlocker_keeps [OF ap] n] .
  ultimately show ?thesis using deliver_moves [OF law shape d] by auto
qed

lemma execute_block_moves:
  assumes law: "lawful_app X P app" and shape: "block_shape X (app_txConfig app) (bi_txs I)"
    and run: "execute_block X P I (app, s, e) = Some (res, (app', s', e'))"
  shows "(\<exists>n. app' = app\<lparr>app_upgradeNotifier := n\<rparr>) \<and>
    moves (finalized X (app_txConfig app) (bi_txs I) res) (GetBlockState (EvmKeeper app) s) (GetBlockState (EvmKeeper app) s')"
proof -
  let ?h = "GetBlockState (EvmKeeper app)"
  obtain o1 s1 e1 where pre: "app_PreBlocker app (pl_http P) (pl_runtime P) (pl_upgrade P) (bi_header I) (pl_PreBlock P) s e
     = (o1, s1, e1)" by (metis prod_cases3)
  have same: "\<exists>n. app = app\<lparr>app_upgradeNotifier := n\<rparr>" by (rule exI [of _ "app_upgradeNotifier app"]) simp
  show ?thesis
  proof (cases o1)
    case (Ok a)
    obtain ls ps n r where a: "a = (ls, ps, n, r)" by (cases a)
    let ?app = "app\<lparr>app_upgradeNotifier := n\<rparr>"
    have h1: "?h s1 = ?h s"
    proof -
      have "pl_PreBlock P s = (r, s1)" using pre Ok a
        by (auto simp: app_PreBlocker_def PreBlocker_def split: outcome.splits prod.splits)
      then show ?thesis using law by (auto simp: lawful_app_def modules_apart_def) (metis snd_conv)
    qed
    show ?thesis
    proof (cases r)
      case r: (Ok v)
      from run have run': "map_option (\<lambda>(res, w). (res, (?app, case res of Ok _ \<Rightarrow> fst w | _ \<Rightarrow> s, snd w)))
          (block_body X P ?app I (s1, e1)) = Some (res, (app', s', e'))"
        by (simp add: execute_block_def pre Ok a r Let_def)
      then obtain w where w: "block_body X P ?app I (s1, e1) = Some (res, w)" "app' = ?app"
        "s' = (case res of Ok _ \<Rightarrow> fst w | _ \<Rightarrow> s)" by auto
      show ?thesis
      proof (cases res)
        case (Ok rs)
        with w block_body_moves [of X P ?app I s1 e1 rs "fst w" "snd w"] law shape h1 show ?thesis
          by (auto simp: lawful_app_def)
      qed (use w in \<open>auto simp: finalized_def moves_def\<close>)
    qed (use run pre Ok a in \<open>auto simp: execute_block_def Let_def finalized_def moves_def\<close>)
  qed (use run pre same in \<open>auto simp: execute_block_def finalized_def moves_def\<close>)
qed

lemma block_step_moves:
  assumes "lawful_app X P (fst w)" "block_step X P w l w'"
  shows "(\<exists>n. fst w' = fst w\<lparr>app_upgradeNotifier := n\<rparr>) \<and> moves l (app_head w) (app_head w')"
  using assms(2)
proof (cases rule: block_step.cases)
  case (executed app pctx preq s0 I s e res)
  obtain app' s' e' where w': "w' = (app', s', e')" by (cases w')
  from executed assms(1) have "block_shape X (app_txConfig app) (bi_txs I)"
    using accepted_shape [of X app pctx preq s0] by (simp add: lawful_app_def)
  with execute_block_moves [of X P app I s e res app' s' e'] executed assms(1) show ?thesis
    by (auto simp: app_head_def w')
next
  case (idle app s e e')
  then show ?thesis by (auto simp: app_head_def moves_def intro: exI [of _ "app_upgradeNotifier app"])
qed

interpretation blocks: head_machine app_head "lawful_block X P" for X P
  by unfold_locales (use block_step_moves in \<open>fastforce simp: lawful_block_def moves_def\<close>)+

text \<open>The laws are kept by the steps, so they need to hold at the start only.\<close>

lemma run_lawful:
  assumes "run (block_step X P) w ps w'" "lawful_app X P (fst w)"
  shows "run (lawful_block X P) w ps w' \<and> lawful_app X P (fst w')"
  using assms
proof (induction rule: run.induct)
  case (run_silent w ls w1 w2)
  with block_step_moves [of X P w1 None w2] show ?case
    by (auto simp: lawful_block_def lawful_app_def intro: run.run_silent)
next
  case (run_label w ls w1 l w2)
  with block_step_moves [of X P w1 "Some l" w2] show ?case
    by (auto simp: lawful_block_def lawful_app_def intro: run.run_label)
qed (auto intro: run_start)

subsection \<open>A block whose payload the client accepts\<close>

lemma begin_keeps:
  assumes "modules_apart p P" "BeginBlocker (pl_BeginBlock P) s = Some (r, s')"
  shows "p s' = p s"
  using assms by (auto simp: BeginBlocker_def callK_Some modules_apart_def) (metis snd_conv)

lemma block_body_runs:
  assumes "BeginBlocker (pl_BeginBlock P) s = Some (Ok v, s1)"
    and "deliver_txs X P app (bi_ctx I) (bi_txs I) (s1, e) = Some (Ok rs, (s2, e2))"
    and "EndBlocker (pl_hook_env P) (pl_keepers P) (pl_validators P) (pl_moniker P) (pl_EndBlock P) (app_hooks app)
       (bi_hook_ctx I) s2 = Some (Ok v', s')"
  shows "block_body X P app I (s, e) = Some (Ok rs, (s', e2))"
  using assms by (simp add: block_body_def bindP_def store_part_def pureP_def)

lemma deliver_finalizes:
  assumes law: "lawful_app X P app"
    and txs: "txs = cs @ [b]" "\<forall>c\<in>set cs. cosmos_tx (app_txConfig app) c" "payload_tx X (app_txConfig app) b m"
    and mode: "ExecMode ctx = ExecModeFinalize" "length (msg_ExecutionPayload m) \<noteq> 0"
    and st: "GetBlockState (EvmKeeper app) s = Ok state" "validatePayload X (EvmKeeper app) ctx m state = Ok p"
    and send: "sendPayload X (EvmKeeper app) ctx p e = (Ok status, e1)" "status \<in> {VALID, SYNCING}"
    and fc: "ForkchoiceUpdatedV3 (k_engineClient (EvmKeeper app)) (head_state (BlockHash p)) None e1 = (Ok resp, e2)"
      "ResponseStatus resp \<noteq> INVALID"
    and store: "\<And>s. \<exists>s'. SetBlockState (EvmKeeper app) (next_head p) s = (Ok (), s')"
  shows "\<exists>rs s'. deliver_txs X P app ctx txs (s, e) = Some (Ok (rs @ [Ok ()]), (s', e2)) \<and> length rs = length cs
    \<and> GetBlockState (EvmKeeper app) s' = Ok (next_head p)"
proof -
  let ?k = "EvmKeeper app"
  note law' = law [unfolded lawful_app_def]
  obtain rs s1 where cs: "deliver_txs X P app ctx cs (s, e) = Some (Ok rs, (s1, e))" "length rs = length cs"
    and h1: "GetBlockState ?k s1 = GetBlockState ?k s"
    using cosmos_deliver_all [of X app P cs ctx s e] law' txs(2) by auto
  obtain s2 where s2: "SetBlockState ?k (next_head p) s1 = (Ok (), s2)" using store by blast
  have "ExecutionPayload X ?k (pl_runtime P) (pl_goctx P) ctx m (s1, e) = Some (Ok (), (s2, e2))"
    by (rule payload_executes [OF mode _ st(2) send fc s2]) (simp add: h1 st)
  then have "deliver_tx X P app ctx b (s1, e) = Some (Ok (Ok ()), (s2, e2))"
    using payload_deliver [of X app b m P ctx s1 e] law' txs(3) by simp
  moreover have "GetBlockState ?k s2 = Ok (next_head p)"
    using s2 law' item_Get_Set [of "BlockStateItem ?k"] by (simp add: SetBlockState_def GetBlockState_def lawful_store_def)
  ultimately show ?thesis using cs by (simp add: txs(1) deliver_txs_snoc [OF cs(1)])
qed

lemma block_finalizes:
  assumes law: "lawful_app X P app"
    and accept: "h_ProcessProposal app pctx preq s = Ok ACCEPT" "proc_Height preq \<noteq> 1" "bi_txs B = proc_Txs preq"
    and same: "HeaderHeight (bi_ctx B) = HeaderHeight pctx" "BlockTime (bi_ctx B) = BlockTime pctx"
      "ExecMode (bi_ctx B) = ExecModeFinalize"
    and json: "\<forall>p. UnmarshalPayload X [] \<noteq> Ok p"
    and payload: "block_payload X (app_txConfig app) (bi_txs B) = Some p"
    and pre: "app_PreBlocker app (pl_http P) (pl_runtime P) (pl_upgrade P) (bi_header B) (pl_PreBlock P) s e
       = (Ok (ls, posts, n, Ok v), s1, e1)"
    and first: "\<And>s. \<exists>v s'. BeginBlocker (pl_BeginBlock P) s = Some (Ok v, s')"
    and send: "sendPayload X (EvmKeeper app) (bi_ctx B) p e1 = (Ok st, e2)" "st \<in> {VALID, SYNCING}"
    and fc: "ForkchoiceUpdatedV3 (k_engineClient (EvmKeeper app)) (head_state (BlockHash p)) None e2 = (Ok resp, e3)"
      "ResponseStatus resp \<noteq> INVALID"
    and store: "\<And>s. \<exists>s'. SetBlockState (EvmKeeper app) (next_head p) s = (Ok (), s')"
    and finish: "\<And>s. \<exists>v s'. EndBlocker (pl_hook_env P) (pl_keepers P) (pl_validators P) (pl_moniker P) (pl_EndBlock P)
       (app_hooks app) (bi_hook_ctx B) s = Some (Ok v, s')"
  shows "\<exists>rs s'. execute_block X P B (app, s, e)
       = Some (Ok (rs @ [Ok ()]), (app\<lparr>app_upgradeNotifier := n\<rparr>, s', e3)) \<and> length rs \<le> 1
     \<and> GetBlockState (EvmKeeper app) s' = Ok (next_head p)"
proof -
  let ?k = "EvmKeeper app" and ?app = "app\<lparr>app_upgradeNotifier := n\<rparr>"
  have law': "lawful_app X P ?app" and ap: "modules_apart (GetBlockState ?k) P" using law by (auto simp: lawful_app_def)
  from accept law obtain cs b m where txs: "proc_Txs preq = cs @ [b]" "\<forall>c\<in>set cs. cosmos_tx (app_txConfig app) c"
    "payload_tx X (app_txConfig app) b m" "length cs \<le> 1" and vote: "proposal_ExecutionPayload X ?k pctx m s = Ok ()"
    by (auto simp: lawful_app_def node_app_def process_ACCEPT maxCosmosTxsPerBlock_def) fastforce
  have p: "UnmarshalPayload X (msg_ExecutionPayload m) = Ok p"
    using payload txs(3) unfolding accept(3) txs(1) by (auto simp: block_payload_def payload_tx_def split: outcome.splits)
  then have ne: "length (msg_ExecutionPayload m) \<noteq> 0" using json by auto
  from accepted_validates [OF vote p same(1,2)] obtain state
    where st: "GetBlockState ?k s = Ok state" "validatePayload X ?k (bi_ctx B) m state = Ok p" by blast
  have "pl_PreBlock P s = (Ok v, s1)"
    using pre by (auto simp: app_PreBlocker_def PreBlocker_def split: outcome.splits prod.splits)
  then have h1: "GetBlockState ?k s1 = GetBlockState ?k s" using ap by (auto simp: modules_apart_def) (metis snd_conv)
  obtain v2 s2 where s2: "BeginBlocker (pl_BeginBlock P) s1 = Some (Ok v2, s2)" using first by blast
  from begin_keeps [OF ap s2] h1 st(1) have h2: "GetBlockState ?k s2 = Ok state" by simp
  from deliver_finalizes [OF law', of "bi_txs B" cs b m "bi_ctx B" s2 state p e1 st e2 resp e3]
  obtain rs s3 where s3: "deliver_txs X P ?app (bi_ctx B) (bi_txs B) (s2, e1) = Some (Ok (rs @ [Ok ()]), (s3, e3))"
    "length rs = length cs" "GetBlockState ?k s3 = Ok (next_head p)"
    using txs accept(3) same(3) ne h2 st(2) send fc store by auto
  obtain v4 s4 where s4: "EndBlocker (pl_hook_env P) (pl_keepers P) (pl_validators P) (pl_moniker P) (pl_EndBlock P)
       (app_hooks app) (bi_hook_ctx B) s3 = Some (Ok v4, s4)" using finish [of s3] by blast
  have h4: "GetBlockState ?k s4 = GetBlockState ?k s3" by (rule keepsD [OF EndBlocker_keeps [OF ap] s4])
  have "block_body X P ?app B (s1, e1) = Some (Ok (rs @ [Ok ()]), (s4, e3))"
    by (rule block_body_runs [OF s2 s3(1)]) (simp add: s4)
  then have "execute_block X P B (app, s, e) = Some (Ok (rs @ [Ok ()]), (?app, s4, e3))"
    by (simp add: execute_block_def pre Let_def)
  then show ?thesis using s3 h4 txs(4) by auto
qed

section \<open>Properties\<close>

text \<open>
  What a started node relies on: its store keeps the head, and the rest of the SDK writes to stores of its own.
\<close>

definition sdk_apart :: "('s, 'e, 'd) NodeEnv \<Rightarrow> ('s, 'e, 'r) Platform \<Rightarrow> ('s, 'e) App \<Rightarrow> bool" where
  "sdk_apart H P app \<longleftrightarrow> (\<exists>sdk. sdk_ante H = Ok sdk \<and> ante_apart (GetBlockState (EvmKeeper app)) sdk) \<and>
     lawful_store (EvmKeeper app) \<and> modules_apart (GetBlockState (EvmKeeper app)) P"

lemma started_lawful:
  "NewApp A N I loadLatest H r = Some (Ok app, r') \<Longrightarrow> sdk_apart H P app \<Longrightarrow> lawful_app (ext H) P app"
  using NewApp_node_app by (auto simp: sdk_apart_def lawful_app_def)

lemma chained_Number: "chained b ps \<Longrightarrow> i < length ps \<Longrightarrow> Number (ps ! i) = Height b + of_nat (Suc i)"
proof (induction ps arbitrary: b i)
  case (Cons p ps)
  then have p: "Number p = Height b + 1" by (simp add: extends_def)
  show ?case
  proof (cases i)
    case (Suc j)
    then have "Number (ps ! j) = Number p + of_nat (Suc j)" using Cons.IH [of "next_head p" j] Cons.prems by simp
    then show ?thesis by (simp add: Suc p algebra_simps)
  qed (simp add: p)
qed simp

lemma chained_first: "chained b ps \<Longrightarrow> ps \<noteq> [] \<Longrightarrow> ParentHash (hd ps) = Hash b"
  by (cases ps) (auto simp: extends_def)

lemma head_after_last: "ps \<noteq> [] \<Longrightarrow> head_after b ps = next_head (last ps)"
  by (induction ps arbitrary: b) auto

text \<open>A run of blocks of a started node, as a chain.\<close>

lemma started_run_chained:
  assumes start: "NewApp A N I loadLatest H r = Some (Ok app, r')" and apart: "sdk_apart H P app"
    and steps: "run (block_step (ext H) P) (app, s, e) ps (app', s', e')"
    and head: "GetBlockState (EvmKeeper app) s = Ok b"
  shows "chained b ps" "GetBlockState (EvmKeeper app') s' = Ok (head_after b ps)" "unat (Timestamp b) + length ps < 2 ^ 64"
proof -
  from run_lawful [OF steps] started_lawful [OF start apart]
  have r: "run (lawful_block (ext H) P) (app, s, e) ps (app', s', e')" by simp
  have h: "app_head (app, s, e) = Ok b" using head by (simp add: app_head_def)
  from blocks.run_head [OF r h] blocks.run_bounded [OF r h]
  show "chained b ps" "GetBlockState (EvmKeeper app') s' = Ok (head_after b ps)" "unat (Timestamp b) + length ps < 2 ^ 64"
    by (auto simp: app_head_def)
qed

text \<open>
  C2. A started node keeps one chain through whole blocks. Whatever accepted blocks are executed, with their pre-blocker,
  begin-blocker, fee checks, messages of other modules, hooks and failures, each block finalizes at most the payload of its last
  transaction, and the payloads so finalized link each to the block before it, with strictly increasing timestamps; the stored head is the
  last of them.
\<close>

theorem blocks_form_chain:
  assumes start: "NewApp A N I loadLatest H r = Some (Ok app, r')" and apart: "sdk_apart H P app"
    and steps: "run (block_step (ext H) P) (app, s, e) ps (app', s', e')"
    and head: "GetBlockState (EvmKeeper app) s = Ok b"
  shows "GetBlockState (EvmKeeper app') s' = Ok (head_after b ps)
    \<and> map ParentHash ps = butlast (Hash b # map BlockHash ps)
    \<and> sorted_wrt (<) (Timestamp b # map PayloadTimestamp ps)
    \<and> Height (head_after b ps) = Height b + of_nat (length ps)
    \<and> unat (Timestamp b) + length ps < 2 ^ 64"
  using started_run_chained [OF start apart steps head]
  by (simp add: chained_parents chained_sorted chained_Height del: sorted_wrt.simps)

text \<open>
  C3. A block that was voted for ends with its payload as the head: if the client accepts the payload and the new head, and the block
  methods of the modules succeed, then the whole block succeeds on a started node, whatever becomes of the at most one transaction before
  the payload, and the stored head is the payload's block.
\<close>

theorem accepted_block_finalizes:
  assumes start: "NewApp A N I loadLatest H r = Some (Ok app, r')" and apart: "sdk_apart H P app"
    and accept: "h_ProcessProposal app pctx preq s = Ok ACCEPT" "proc_Height preq \<noteq> 1" "bi_txs B = proc_Txs preq"
    and same: "HeaderHeight (bi_ctx B) = HeaderHeight pctx" "BlockTime (bi_ctx B) = BlockTime pctx"
      "ExecMode (bi_ctx B) = ExecModeFinalize"
    and json: "\<forall>p. UnmarshalPayload (ext H) [] \<noteq> Ok p"
    and payload: "block_payload (ext H) (app_txConfig app) (bi_txs B) = Some p"
    and pre: "app_PreBlocker app (pl_http P) (pl_runtime P) (pl_upgrade P) (bi_header B) (pl_PreBlock P) s e
       = (Ok (ls, posts, n, Ok v), s1, e1)"
    and first: "\<And>s. \<exists>v s'. BeginBlocker (pl_BeginBlock P) s = Some (Ok v, s')"
    and send: "sendPayload (ext H) (EvmKeeper app) (bi_ctx B) p e1 = (Ok st, e2)" "st \<in> {VALID, SYNCING}"
    and fc: "ForkchoiceUpdatedV3 (k_engineClient (EvmKeeper app)) (head_state (BlockHash p)) None e2 = (Ok resp, e3)"
      "ResponseStatus resp \<noteq> INVALID"
    and store: "\<And>s. \<exists>s'. SetBlockState (EvmKeeper app) (next_head p) s = (Ok (), s')"
    and finish: "\<And>s. \<exists>v s'. EndBlocker (pl_hook_env P) (pl_keepers P) (pl_validators P) (pl_moniker P) (pl_EndBlock P)
       (app_hooks app) (bi_hook_ctx B) s = Some (Ok v, s')"
  shows "\<exists>rs s'. execute_block (ext H) P B (app, s, e)
       = Some (Ok (rs @ [Ok ()]), (app\<lparr>app_upgradeNotifier := n\<rparr>, s', e3)) \<and> length rs \<le> 1
     \<and> GetBlockState (EvmKeeper app) s' = Ok (next_head p)"
  by (rule block_finalizes [OF started_lawful [OF start apart] accept same json payload pre first send fc store finish])

section \<open>Witnesses\<close>

text \<open>Keepers of a chain without validators: nothing they do is seen by the EVM module.\<close>

definition still_keepers :: "BlockState option SdkKeepers" where
  "still_keepers = \<lparr>GetValidator = (\<lambda>a s. Err (New ''not found'')), GetAllValidators = (\<lambda>s. Ok []),
     SetValidator = (\<lambda>v s. (Ok (), s)), SetValidatorByConsAddr = (\<lambda>v s. (Ok (), s)),
     SetNewValidatorByPowerIndex = (\<lambda>v s. (Ok (), s)), DeleteValidatorByPowerIndex = (\<lambda>v s. (Ok (), s)),
     BondDenom = (\<lambda>s. Ok DefaultBondDenom), UnbondingDelegations = (\<lambda>s. ([], Ok ())), Delegate = (\<lambda>m s. (Err (New ''not found''), s)),
     GetValidatorSigningInfo = (\<lambda>c s. Err (New ''not found'')), SetValidatorSigningInfo = (\<lambda>c i s. (Ok (), s)),
     Unjail = (\<lambda>a s. (Ok (), s)), MintCoins = (\<lambda>n c s. (Ok (), s)), BurnCoins = (\<lambda>n c s. (Ok (), s)),
     SendCoinsFromModuleToAccount = (\<lambda>n a c s. (Ok (), s)), SendCoinsFromModuleToModule = (\<lambda>n m c s. (Ok (), s)),
     GetBalance = (\<lambda>a d s. 0), GetModuleAddress = (\<lambda>n. n), HasAccount = (\<lambda>a s. True), SetNewAccount = (\<lambda>a s. s),
     SetHistoricalRewards = (\<lambda>a p r s. (Ok (), s)), SetCurrentRewards = (\<lambda>a p s. (Ok (), s)),
     SetAccumulatedCommission = (\<lambda>a s. (Ok (), s)), FeePool_Get = (\<lambda>s. Ok ()), FeePool_SetInitial = (\<lambda>s. (Ok (), s)),
     NewValidator = (\<lambda>o' pk d. Err (New ''no key'')), GetConsAddr = (\<lambda>v. Ok (ConsensusPubkey v)),
     AccAddressString = (\<lambda>a. a), ValAddressString = (\<lambda>a. a)\<rparr>"

definition still_upgrades :: "BlockState option UpgradeKeeper" where
  "still_upgrades = \<lparr>GetUpgradePlan = (\<lambda>s. Err (New ''no plan'')), ErrNoUpgradePlanFound = New ''no plan'',
     ShouldExecute = (\<lambda>p h. False), IsSkipHeight = (\<lambda>h. False), HasHandler = (\<lambda>n. False)\<rparr>"

definition sample_platform :: "(BlockState option, nat, unit) Platform" where
  "sample_platform = \<lparr>pl_http = sample_http, pl_runtime = sample_runtime, pl_goctx = background, pl_upgrade = still_upgrades,
     pl_keepers = still_keepers, pl_hook_env = sample_hook_env, pl_validators = (\<lambda>s. ([], Ok ())), pl_moniker = (\<lambda>v. []),
     pl_PreBlock = (\<lambda>s. (Ok (), s)), pl_BeginBlock = (\<lambda>s. (Ok (), s)), pl_EndBlock = (\<lambda>s. (Ok (), s)),
     pl_message = (\<lambda>m s. (Err (New ''insufficient funds''), s))\<rparr>"

definition sample_block :: BlockInput where
  "sample_block = \<lparr>bi_header = \<lparr>header_Height = 2, header_Time = 0\<rparr>, bi_ctx = sample_ctx, bi_hook_ctx = sample_hook_ctx,
     bi_txs = [''send'', ''tx'']\<rparr>"

lemma sample_platform_apart: "modules_apart p sample_platform"
  by (simp add: modules_apart_def sample_platform_def keepers_apart_def still_keepers_def keeps_callK)

lemma sample_started:
  "\<exists>app r'. NewApp sample_answers sdk_names sample_ibc_names True (sample_env sample_plan) sample_registry = Some (Ok app, r')
    \<and> EvmKeeper app = sample_keeper None \<and> app_txConfig app = sample_config \<and> app_hooks app = Map.empty
    \<and> h_ProcessProposal app = processProposalHandler (proposalRouter sample_ext (sample_keeper None)) sample_ext sample_config 1
    \<and> sdk_apart (sample_env sample_plan) sample_platform app"
proof -
  obtain ante where ante: "newAnteHandler (fee_lib (sample_env sample_plan)) (fee_store (sample_env sample_plan))
    (fee_tx (sample_env sample_plan)) (sdk_ante (sample_env sample_plan)) = Ok ante" using sample_env_parts(3) by blast
  have e: "ext (sample_env sample_plan) = sample_ext" "txconf (sample_env sample_plan) = sample_config"
    "sdk_ante (sample_env sample_plan) = Ok (\<lambda>ctx _ _. (Ok (), ctx))" by (simp_all add: sample_env_def)
  show ?thesis
    using NewApp_granted [OF sample_answers_law sample_ibc_names_law sample_registry_open(1) sample_env_parts(2) sample_injects ante
        sample_env_parts(4,5), of True]
    by (simp add: assemble_def Let_def e maxCosmosTxsPerBlock_def sdk_apart_def ante_apart_def sample_lawful_store sample_platform_apart)
qed

lemma sample_parts:
  "ext (sample_env sample_plan) = sample_ext" "block_payload sample_ext sample_config (bi_txs sample_block) = Some sample_payload"
  "\<forall>p. UnmarshalPayload sample_ext [] \<noteq> Ok p" "\<exists>s'. SetBlockState (sample_keeper None) b s = (Ok (), s')"
  "ForkchoiceUpdatedV3 (k_engineClient (sample_keeper None)) fs None 1
     = (Ok \<lparr>ResponseStatus = VALID, ResponsePayloadID = None\<rparr>, 2)"
  using sample_txs(2) sample_facts(2)
  by (auto simp: sample_env_def block_payload_def sample_block_def payload_tx_def sample_ext_def sample_keeper_def sample_engine_def
      SetBlockState_def sample_item_def)

lemma sample_handlers:
  "app_PreBlocker app (pl_http sample_platform) (pl_runtime sample_platform) (pl_upgrade sample_platform) (bi_header sample_block)
     (pl_PreBlock sample_platform) s e = (Ok ([], [], forgetLastPlan (app_upgradeNotifier app), Ok ()), s, e)"
  "\<exists>v s'. BeginBlocker (pl_BeginBlock sample_platform) s = Some (Ok v, s')"
  "\<exists>v s'. EndBlocker (pl_hook_env sample_platform) (pl_keepers sample_platform) (pl_validators sample_platform)
     (pl_moniker sample_platform) (pl_EndBlock sample_platform) Map.empty ctx s = Some (Ok v, s')"
  by (simp_all add: app_PreBlocker_def PreBlocker_def logHaltIfTriggered_def MaybeLogNewPlan_def sample_platform_def still_upgrades_def
      BeginBlocker_def callK_def EndBlocker_def bindP_def pureP_def readK_def updateValidatorMetrics_def)

theorem accepted_block_finalizes_witness:
  "\<exists>app r' rs app' s'. NewApp sample_answers sdk_names sample_ibc_names True (sample_env sample_plan) sample_registry = Some (Ok app, r')
    \<and> execute_block sample_ext sample_platform sample_block (app, Some sample_state, 0) = Some (Ok (rs @ [Ok ()]), (app', s', 2))
    \<and> GetBlockState (EvmKeeper app) s' = Ok (next_head sample_payload)"
proof -
  obtain app r' where start: "NewApp sample_answers sdk_names sample_ibc_names True (sample_env sample_plan) sample_registry = Some (Ok app, r')"
    and a: "EvmKeeper app = sample_keeper None" "app_txConfig app = sample_config" "app_hooks app = Map.empty"
      "h_ProcessProposal app = processProposalHandler (proposalRouter sample_ext (sample_keeper None)) sample_ext sample_config 1"
    and apart: "sdk_apart (sample_env sample_plan) sample_platform app"
    using sample_started by blast
  have b: "proc_Height sample_proposal \<noteq> 1" "bi_txs sample_block = proc_Txs sample_proposal" "bi_ctx sample_block = sample_ctx"
    "ExecMode sample_ctx = ExecModeFinalize" by (simp_all add: sample_proposal_def sample_block_def sample_ctx_def)
  have "\<exists>rs s'. execute_block (ext (sample_env sample_plan)) sample_platform sample_block (app, Some sample_state, 0)
       = Some (Ok (rs @ [Ok ()]), (app\<lparr>app_upgradeNotifier := forgetLastPlan (app_upgradeNotifier app)\<rparr>, s', 2)) \<and> length rs \<le> 1
     \<and> GetBlockState (EvmKeeper app) s' = Ok (next_head sample_payload)"
    by (rule accepted_block_finalizes [OF start apart _ _ _ _ _ _ _ _ sample_handlers(1)])
      (use sample_accepted b sample_client_accepts sample_parts sample_handlers in \<open>auto simp: a b\<close>)
  then show ?thesis using start by (auto simp: sample_parts(1))
qed

text \<open>The same block, as a run of the application.\<close>

lemma sample_block_runs:
  assumes law: "lawful_app sample_ext sample_platform app"
    and a: "EvmKeeper app = sample_keeper None" "app_txConfig app = sample_config" "app_hooks app = Map.empty"
    and acc: "h_ProcessProposal app sample_ctx sample_proposal (Some g) = Ok ACCEPT"
  shows "\<exists>app' s'. run (block_step sample_ext sample_platform) (app, Some g, 0) [sample_payload] (app', s', 2)"
proof -
  let ?app = "app\<lparr>app_upgradeNotifier := forgetLastPlan (app_upgradeNotifier app)\<rparr>"
  have b: "proc_Height sample_proposal \<noteq> 1" "bi_txs sample_block = proc_Txs sample_proposal" "bi_ctx sample_block = sample_ctx"
    "ExecMode sample_ctx = ExecModeFinalize" by (simp_all add: sample_proposal_def sample_block_def sample_ctx_def)
  have "\<exists>rs s'. execute_block sample_ext sample_platform sample_block (app, Some g, 0)
       = Some (Ok (rs @ [Ok ()]), (?app, s', 2)) \<and> length rs \<le> 1
     \<and> GetBlockState (EvmKeeper app) s' = Ok (next_head sample_payload)"
    by (rule block_finalizes [OF law acc _ _ _ _ _ _ _ sample_handlers(1)])
      (use b sample_client_accepts sample_parts sample_handlers in \<open>auto simp: a b\<close>)
  then obtain rs s' where "execute_block sample_ext sample_platform sample_block (app, Some g, 0)
       = Some (Ok (rs @ [Ok ()]), (?app, s', 2))" by blast
  from executed [where P = sample_platform, OF acc b(2) this]
  have "block_step sample_ext sample_platform (app, Some g, 0) (Some sample_payload) (?app, s', 2)"
    by (simp add: finalized_def a sample_parts(2))
  from run_label [of "block_step sample_ext sample_platform", OF run_start this] show ?thesis by auto
qed

theorem blocks_form_chain_witness:
  "\<exists>app r' app' s'. NewApp sample_answers sdk_names sample_ibc_names True (sample_env sample_plan) sample_registry = Some (Ok app, r')
    \<and> run (block_step sample_ext sample_platform) (app, Some sample_state, 0) [sample_payload] (app', s', 2)
    \<and> GetBlockState (EvmKeeper app') s' = Ok (next_head sample_payload)
    \<and> map ParentHash [sample_payload] = butlast (Hash sample_state # map BlockHash [sample_payload])"
proof -
  obtain app r' where start: "NewApp sample_answers sdk_names sample_ibc_names True (sample_env sample_plan) sample_registry = Some (Ok app, r')"
    and a: "EvmKeeper app = sample_keeper None" "app_txConfig app = sample_config" "app_hooks app = Map.empty"
      "h_ProcessProposal app = processProposalHandler (proposalRouter sample_ext (sample_keeper None)) sample_ext sample_config 1"
    and apart: "sdk_apart (sample_env sample_plan) sample_platform app"
    using sample_started by blast
  have law: "lawful_app sample_ext sample_platform app" using started_lawful [OF start apart] by (simp add: sample_parts(1))
  have acc: "h_ProcessProposal app sample_ctx sample_proposal (Some sample_state) = Ok ACCEPT" using sample_accepted by (simp add: a)
  from sample_block_runs [OF law a(1-3) acc] obtain app' s'
    where r: "run (block_step (ext (sample_env sample_plan)) sample_platform) (app, Some sample_state, 0) [sample_payload] (app', s', 2)"
    by (auto simp: sample_parts(1))
  have "GetBlockState (EvmKeeper app) (Some sample_state) = Ok sample_state" by (simp add: a sample_facts)
  from blocks_form_chain [OF start apart r this] r start show ?thesis by (auto simp: sample_parts(1))
qed

end
