(* ===== verification/Modules.thy ===== *)
theory Modules
  imports Genesis Global_Fee
begin

text \<open>
  The two modules as the SDK sees them: \<open>x/evm/module/module.go\<close>, \<open>autocli.go\<close>, \<open>simulation.go\<close>, \<open>x/evm/types/codec.go\<close>,
  \<open>x/globalfee/module/module.go\<close> and \<open>depinject.go\<close>. The
  methods on genesis that read and write the store are in \<open>Genesis\<close> and
  \<open>Global_Fee\<close>; here they are the methods of a module value. The registries of the SDK are lists of what was registered, and refusing
  a registration is up to an argument.
\<close>

section \<open>Services and messages\<close>

record ServiceDesc =
  ServiceName :: string
  Methods :: "string list"

definition Msg_serviceDesc :: ServiceDesc where
  "Msg_serviceDesc = \<lparr>ServiceName = ''nexus.evm.v1.Msg'', Methods = [''UpdateParams'', ''ExecutionPayload'']\<rparr>"

definition Query_serviceDesc :: ServiceDesc where
  "Query_serviceDesc = \<lparr>ServiceName = ''nexus.evm.v1.Query'', Methods = [''Params'']\<rparr>"

record 'r Registrar =
  RegisterService :: "ServiceDesc \<Rightarrow> 'r \<Rightarrow> unit outcome \<times> 'r"
  RegisterImplementations :: "string \<Rightarrow> string list \<Rightarrow> 'r \<Rightarrow> unit outcome \<times> 'r"
  RegisterMsgServiceDesc :: "ServiceDesc \<Rightarrow> 'r \<Rightarrow> unit outcome \<times> 'r"

text \<open>The messages by the names of their Go types, for the interface \<open>sdk.Msg\<close>.\<close>

definition RegisterInterfaces :: "'r Registrar \<Rightarrow> 'r \<Rightarrow> unit outcome \<times> 'r" where
  "RegisterInterfaces R r =
     (case RegisterImplementations R ''sdk.Msg'' [''MsgUpdateParams'', ''MsgExecutionPayload''] r of
        (Ok _, r1) \<Rightarrow> RegisterMsgServiceDesc R Msg_serviceDesc r1
      | x \<Rightarrow> x)"

section \<open>The EVM module\<close>

record JsonCodec =
  MarshalJSON :: "GenesisState \<Rightarrow> bytes outcome"
  UnmarshalJSON :: "bytes \<Rightarrow> GenesisState \<Rightarrow> unit outcome \<times> GenesisState"

text \<open>The keepers of accounts and balances, which no method uses, are left out.\<close>

record ('s, 'e) AppModule =
  am_cdc :: JsonCodec
  am_keeper :: "('s, 'e) Keeper"

definition NewAppModule :: "JsonCodec \<Rightarrow> ('s, 'e) Keeper \<Rightarrow> ('s, 'e) AppModule" where
  "NewAppModule cdc k = \<lparr>am_cdc = cdc, am_keeper = k\<rparr>"

definition ConsensusVersion :: "('s, 'e) AppModule \<Rightarrow> u64" where
  "ConsensusVersion am = 1"

definition RegisterServices :: "('s, 'e) AppModule \<Rightarrow> 'r Registrar \<Rightarrow> 'r \<Rightarrow> unit outcome \<times> 'r" where
  "RegisterServices am R r =
     (case RegisterService R Msg_serviceDesc r of
        (Ok _, r1) \<Rightarrow> RegisterService R Query_serviceDesc r1
      | x \<Rightarrow> x)"

text \<open>\<open>register\<close> is \<open>RegisterQueryHandlerClient\<close> for a client of this node.\<close>

definition RegisterGRPCGatewayRoutes :: "('m \<Rightarrow> unit outcome \<times> 'm) \<Rightarrow> 'm \<Rightarrow> unit outcome \<times> 'm" where
  "RegisterGRPCGatewayRoutes register mux = (case register mux of (r, mux') \<Rightarrow> (mustO r, mux'))"

definition AppModule_DefaultGenesis :: "('s, 'e) AppModule \<Rightarrow> bytes outcome" where
  "AppModule_DefaultGenesis am = mustO (MarshalJSON (am_cdc am) DefaultGenesis)"

definition AppModule_ValidateGenesis ::
    "(bytes \<Rightarrow> GenesisState \<Rightarrow> unit outcome \<times> GenesisState) \<Rightarrow> ('s, 'e) AppModule \<Rightarrow> bytes \<Rightarrow> unit outcome" where
  "AppModule_ValidateGenesis json_Unmarshal am bz = Module_ValidateGenesis (UnmarshalJSON (am_cdc am)) json_Unmarshal bz"

definition AppModule_InitGenesis ::
    "Ext \<Rightarrow> (bytes \<Rightarrow> GenesisState \<Rightarrow> unit outcome \<times> GenesisState) \<Rightarrow> ('s, 'e) AppModule \<Rightarrow> bytes \<Rightarrow> 's \<Rightarrow> unit outcome \<times> 's" where
  "AppModule_InitGenesis X json_Unmarshal am bz = Module_InitGenesis X (am_keeper am) (UnmarshalJSON (am_cdc am)) json_Unmarshal bz"

definition AppModule_ExportGenesis :: "Ext \<Rightarrow> ('s, 'e) AppModule \<Rightarrow> 's \<Rightarrow> bytes outcome" where
  "AppModule_ExportGenesis X am = Module_ExportGenesis X (am_keeper am) (MarshalJSON (am_cdc am))"

definition AppModule_BeginBlock :: "('s, 'e) AppModule \<Rightarrow> 's \<Rightarrow> unit outcome \<times> 's" where
  "AppModule_BeginBlock am s = (Ok (), s)"

definition AppModule_EndBlock :: "('s, 'e) AppModule \<Rightarrow> 's \<Rightarrow> unit outcome \<times> 's" where
  "AppModule_EndBlock am s = (Ok (), s)"

section \<open>The command line\<close>

record RpcCommandOptions =
  RpcMethod :: string
  cli_Use :: string
  cli_Short :: string
  Skip :: bool

record ServiceCommandDescriptor =
  Service :: string
  rpc_options :: "RpcCommandOptions list"
  EnhanceCustomCommand :: bool

record ModuleOptions =
  opt_Query :: ServiceCommandDescriptor
  opt_Tx :: ServiceCommandDescriptor

definition AutoCLIOptions :: "('s, 'e) AppModule \<Rightarrow> ModuleOptions" where
  "AutoCLIOptions am =
     \<lparr>opt_Query = \<lparr>Service = ServiceName Query_serviceDesc,
        rpc_options = [\<lparr>RpcMethod = ''Params'', cli_Use = ''params'', cli_Short = ''Shows the parameters of the module'', Skip = False\<rparr>],
        EnhanceCustomCommand = False\<rparr>,
      opt_Tx = \<lparr>Service = ServiceName Msg_serviceDesc,
        rpc_options = [\<lparr>RpcMethod = ''UpdateParams'', cli_Use = [], cli_Short = [], Skip = True\<rparr>],
        EnhanceCustomCommand = True\<rparr>\<rparr>"

section \<open>Simulation\<close>

record SimulationState =
  sim_Accounts :: "bytes list"
  GenState :: "string \<Rightarrow> bytes option"
  sim_Cdc :: JsonCodec

text \<open>The addresses that the loop collects are used nowhere.\<close>

definition GenerateGenesisState :: "('s, 'e) AppModule \<Rightarrow> SimulationState \<Rightarrow> SimulationState outcome" where
  "GenerateGenesisState am simState =
     bindO (mustO (MarshalJSON (sim_Cdc simState) (GenesisState_zero\<lparr>gs_Params := DefaultParams\<rparr>))) (\<lambda>bz.
     Ok (simState\<lparr>GenState := (GenState simState)(ModuleName \<mapsto> bz)\<rparr>))"

section \<open>The global fee module\<close>

text \<open>Its keeper holds nothing but the store.\<close>

record 's FeeModule =
  fm_keeper :: "'s KVStore"
  fm_Name :: string
  fm_services :: "ServiceDesc list"
  fm_ConsensusVersion :: u64

text \<open>A module value with what its constant methods return: a name, no services and the first version.\<close>

definition FeeNewAppModule :: "'s KVStore \<Rightarrow> 's FeeModule" where
  "FeeNewAppModule k = \<lparr>fm_keeper = k, fm_Name = ''globalfee'', fm_services = [], fm_ConsensusVersion = 1\<rparr>"

definition FeeProvideModule :: "'s KVStore \<Rightarrow> 's KVStore \<times> 's FeeModule" where
  "FeeProvideModule storeService = (let k = storeService in (k, FeeNewAppModule k))"

section \<open>Lemmas\<close>

text \<open>The command line names methods that exist, and the messages registered are the requests of the service.\<close>

lemma cli_names_methods:
  "set (map RpcMethod (rpc_options (opt_Query (AutoCLIOptions am)))) \<subseteq> set (Methods Query_serviceDesc)"
  "set (map RpcMethod (rpc_options (opt_Tx (AutoCLIOptions am)))) \<subseteq> set (Methods Msg_serviceDesc)"
  "map (\<lambda>m. ''Msg'' @ m) (Methods Msg_serviceDesc) = [''MsgUpdateParams'', ''MsgExecutionPayload'']"
  by (simp_all add: AutoCLIOptions_def Query_serviceDesc_def Msg_serviceDesc_def)

text \<open>What the codec of the SDK promises: a genesis state that was encoded is decoded again.\<close>

definition json_law :: "JsonCodec \<Rightarrow> bool" where
  "json_law cdc \<longleftrightarrow> (\<forall>gs bz. MarshalJSON cdc gs = Ok bz \<longrightarrow> UnmarshalJSON cdc bz GenesisState_zero = (Ok (), gs))"

lemma decodes:
  assumes "json_law cdc" "MarshalJSON cdc gs = Ok bz"
  shows "GenesisStateFromJSON (UnmarshalJSON cdc) j bz = Ok (NormalizeGenesisState gs)"
  using assms by (simp add: json_law_def GenesisStateFromJSON_def)

lemma normal_default:
  "NormalizeGenesisState DefaultGenesis = DefaultGenesis"
  "NormalizeGenesisState (GenesisState_zero\<lparr>gs_Params := DefaultParams\<rparr>) = DefaultGenesis"
  by (simp_all add: NormalizeGenesisState_def DefaultGenesis_def GenesisState_zero_def zero_hash_text_def)

lemma Module_InitGenesis_OkD:
  assumes "Module_InitGenesis X k u j bz s = (Ok (), s')"
  shows "\<exists>gs. GenesisStateFromJSON u j bz = Ok gs \<and> InitGenesis X k gs s = (Ok (), s')"
proof (cases "GenesisStateFromJSON u j bz")
  case (Ok gs)
  obtain r s1 where i: "InitGenesis X k gs s = (r, s1)" by force
  with assms Ok show ?thesis by (cases r) (simp_all add: Module_InitGenesis_def)
qed (use assms in \<open>simp_all add: Module_InitGenesis_def\<close>)

section \<open>Properties\<close>

text \<open>
  The module starts from what it generates. The default genesis, and the one that a simulation generates with parameters only, both
  pass the module's own validation and initialize a store whose head is the zero hash at height and timestamp 0 with the
  default parameters; beginning and ending a block leaves that store as it is.
\<close>

theorem generated_genesis_starts:
  assumes laws: "item_law (BlockStateItem (am_keeper am))" "item_law (ParamsItem (am_keeper am))" "separate_items (am_keeper am)"
      "json_law (am_cdc am)"
    and sets: "\<And>p s. \<exists>s'. item_Set (ParamsItem (am_keeper am)) p s = (Ok (), s')"
      "\<And>b s. \<exists>s'. item_Set (BlockStateItem (am_keeper am)) b s = (Ok (), s')"
    and bz: "AppModule_DefaultGenesis am = Ok bz \<or>
      sim_Cdc sim = am_cdc am \<and> GenerateGenesisState am sim = Ok sim' \<and> GenState sim' ModuleName = Some bz"
  shows "AppModule_ValidateGenesis j am bz = Ok () \<and>
    (\<exists>s'. AppModule_InitGenesis X j am bz s = (Ok (), s')
      \<and> GetBlockState (am_keeper am) s' = Ok \<lparr>Hash = HexToHash X zero_hash_text, Height = 0, Timestamp = 0\<rparr>
      \<and> item_Get (ParamsItem (am_keeper am)) s' = Ok DefaultParams
      \<and> AppModule_BeginBlock am s' = (Ok (), s') \<and> AppModule_EndBlock am s' = (Ok (), s'))"
proof -
  let ?k = "am_keeper am"
  have dec: "GenesisStateFromJSON (UnmarshalJSON (am_cdc am)) j bz = Ok DefaultGenesis"
    using bz decodes [OF laws(4), of _ bz j] normal_default
    by (auto simp: AppModule_DefaultGenesis_def GenerateGenesisState_def outcome_simps)
  have v: "GenesisState_Validate DefaultGenesis = Ok ()"
    by (simp add: Validate_Ok DefaultGenesis_def GenesisState_zero_def zero_hash_text_shape)
  obtain s1 where s1: "item_Set (ParamsItem ?k) DefaultParams s = (Ok (), s1)" using sets(1) by blast
  obtain s' where s': "item_Set (BlockStateItem ?k) \<lparr>Hash = HexToHash X zero_hash_text, Height = 0, Timestamp = 0\<rparr> s1 = (Ok (), s')"
    using sets(2) by blast
  have i: "InitGenesis X ?k DefaultGenesis s = (Ok (), s')"
    using s1 s' by (simp add: InitGenesis_def DefaultGenesis_def GenesisState_zero_def SetBlockState_def NewBlockState_def zero_hash_text_def)
  have m: "AppModule_InitGenesis X j am bz s = (Ok (), s')"
    using i by (simp add: AppModule_InitGenesis_def Module_InitGenesis_def dec)
  show ?thesis
    using dec v m InitGenesis_Ok [OF laws(1-3) i]
    by (auto simp: AppModule_ValidateGenesis_def Module_ValidateGenesis_def AppModule_BeginBlock_def AppModule_EndBlock_def
        DefaultGenesis_def GenesisState_zero_def)
qed

text \<open>A codec that knows the two states that are generated.\<close>

definition sample_codec :: JsonCodec where
  "sample_codec = \<lparr>MarshalJSON = (\<lambda>gs. if gs = DefaultGenesis then Ok ''default''
       else if gs = GenesisState_zero\<lparr>gs_Params := DefaultParams\<rparr> then Ok ''params'' else Err (New ''cannot encode'')),
     UnmarshalJSON = (\<lambda>bz gs. if bz = ''default'' then (Ok (), DefaultGenesis)
       else if bz = ''params'' then (Ok (), GenesisState_zero\<lparr>gs_Params := DefaultParams\<rparr>) else (Err (New ''cannot decode''), gs))\<rparr>"

theorem generated_genesis_starts_witness:
  "\<exists>s'. AppModule_InitGenesis sample_ext (\<lambda>_ gs. (Err (New ''no''), gs)) (NewAppModule sample_codec sample_genesis_keeper) ''params'' (None, None)
      = (Ok (), s')
    \<and> GetBlockState sample_genesis_keeper s' = Ok \<lparr>Hash = HexToHash sample_ext zero_hash_text, Height = 0, Timestamp = 0\<rparr>"
proof -
  let ?am = "NewAppModule sample_codec sample_genesis_keeper"
  let ?sim = "\<lparr>sim_Accounts = [], GenState = Map.empty, sim_Cdc = sample_codec\<rparr>"
  have am: "am_keeper ?am = sample_genesis_keeper" "am_cdc ?am = sample_codec" by (simp_all add: NewAppModule_def)
  have law: "json_law sample_codec" by (simp add: json_law_def sample_codec_def)
  have sets: "\<exists>s'. item_Set (ParamsItem sample_genesis_keeper) p s = (Ok (), s')"
    "\<exists>s'. item_Set (BlockStateItem sample_genesis_keeper) b s = (Ok (), s')" for p b s
    by (simp_all add: sample_genesis_keeper_def sample_store_item_def sample_store_params_def)
  have ne: "GenesisState_zero\<lparr>gs_Params := DefaultParams\<rparr> \<noteq> DefaultGenesis"
    by (simp add: GenesisState_zero_def DefaultGenesis_def zero_hash_text_def)
  then have sim: "GenerateGenesisState ?am ?sim = Ok (?sim\<lparr>GenState := [ModuleName \<mapsto> ''params'']\<rparr>)"
    by (simp add: GenerateGenesisState_def sample_codec_def)
  have "AppModule_DefaultGenesis ?am = Ok ''params'' \<or>
      sim_Cdc ?sim = am_cdc ?am \<and> GenerateGenesisState ?am ?sim = Ok (?sim\<lparr>GenState := [ModuleName \<mapsto> ''params'']\<rparr>)
      \<and> GenState (?sim\<lparr>GenState := [ModuleName \<mapsto> ''params'']\<rparr>) ModuleName = Some ''params''"
    using sim by (simp add: am)
  from generated_genesis_starts [of ?am, unfolded am, OF sample_genesis_laws law sets this [unfolded am]] show ?thesis by blast
qed

end
