(* ===== verification/Export.thy ===== *)
theory Export
  imports Upgrades
begin

text \<open>
  Exporting the state of the application as a genesis file (\<open>app/export.go\<close>). For a chain that starts
  again at height zero, rewards are paid out, the reward periods of validators and delegations start
  afresh, all recorded heights are reset, and validators outside an optional list are jailed. The
  keepers of the SDK are an argument; an iteration is the list of what it visits and the error it
  ends with, and the height in the context is an argument of the calls made while it is zero.
\<close>

section \<open>Types\<close>

record FullValidator = Validator +
  UnbondingHeight :: i64

record DelegationEntry =
  CreationHeight :: i64
  entry_Rest :: bytes

text \<open>A redelegation or an unbonding delegation: whose it is, and its entries.\<close>

record Unbonding =
  ub_Owner :: bytes
  Entries :: "DelegationEntry list"

text \<open>A delegation: delegator and validator.\<close>

type_synonym delegation = "string \<times> string"

record ('s, 'c) ExportKeepers =
  ValAddr_StringToBytes :: "string \<Rightarrow> bytes outcome"
  AccAddr_StringToBytes :: "string \<Rightarrow> bytes outcome"
  ValAddr_BytesToString :: "bytes \<Rightarrow> string outcome"
  it_Operators :: "'s \<Rightarrow> string list \<times> unit outcome"
  WithdrawValidatorCommission :: "bytes \<Rightarrow> 's \<Rightarrow> unit outcome \<times> 's"
  GetAllDelegations :: "'s \<Rightarrow> delegation list outcome"
  WithdrawDelegationRewards :: "bytes \<Rightarrow> bytes \<Rightarrow> 's \<Rightarrow> unit outcome \<times> 's"
  DeleteAllValidatorSlashEvents :: "'s \<Rightarrow> unit outcome \<times> 's"
  DeleteAllValidatorHistoricalRewards :: "'s \<Rightarrow> unit outcome \<times> 's"
  GetOutstandingRewards :: "bytes \<Rightarrow> 's \<Rightarrow> 'c outcome"
  CommunityPool_Get :: "'s \<Rightarrow> 'c outcome"
  CommunityPool_Set :: "'c \<Rightarrow> 's \<Rightarrow> unit outcome \<times> 's"
  coins_Add :: "'c \<Rightarrow> 'c \<Rightarrow> 'c"
  AfterValidatorCreated :: "i64 \<Rightarrow> bytes \<Rightarrow> 's \<Rightarrow> unit outcome \<times> 's"
  BeforeDelegationCreated :: "i64 \<Rightarrow> bytes \<Rightarrow> bytes \<Rightarrow> 's \<Rightarrow> unit outcome \<times> 's"
  AfterDelegationModified :: "i64 \<Rightarrow> bytes \<Rightarrow> bytes \<Rightarrow> 's \<Rightarrow> unit outcome \<times> 's"
  it_Redelegations :: "'s \<Rightarrow> Unbonding list \<times> unit outcome"
  SetRedelegation :: "Unbonding \<Rightarrow> 's \<Rightarrow> unit outcome \<times> 's"
  it_Unbondings :: "'s \<Rightarrow> Unbonding list \<times> unit outcome"
  SetUnbondingDelegation :: "Unbonding \<Rightarrow> 's \<Rightarrow> unit outcome \<times> 's"
  it_ValidatorKeys :: "'s \<Rightarrow> bytes list"
  iter_Close :: "'s \<Rightarrow> unit outcome"
  full_GetValidator :: "bytes \<Rightarrow> 's \<Rightarrow> FullValidator outcome"
  full_SetValidator :: "FullValidator \<Rightarrow> 's \<Rightarrow> unit outcome \<times> 's"
  ApplyValidatorSetUpdates :: "'s \<Rightarrow> unit outcome \<times> 's"
  it_SigningInfos :: "'s \<Rightarrow> (bytes \<times> SigningInfo) list \<times> unit outcome"
  exp_SetSigningInfo :: "bytes \<Rightarrow> SigningInfo \<Rightarrow> 's \<Rightarrow> unit outcome \<times> 's"

text \<open>What the export reads once the state is prepared.\<close>

record ('s, 'g, 'v, 'p) ExportLib =
  ExportGenesisForModules :: "string list \<Rightarrow> 's \<Rightarrow> 'g outcome"
  MarshalIndent :: "'g \<Rightarrow> bytes outcome"
  WriteValidators :: "'s \<Rightarrow> 'v outcome"
  GetConsensusParams :: "'s \<Rightarrow> 'p"

record ('v, 'p) ExportedApp =
  AppState :: bytes
  exp_Validators :: 'v
  exp_Height :: i64
  ConsensusParams :: 'p

section \<open>Operations\<close>

definition withdraw_commission :: "('s, 'c) ExportKeepers \<Rightarrow> string \<Rightarrow> ('s, unit) proc" where
  "withdraw_commission K operator =
     bindP (pureP (mustO (ValAddr_StringToBytes K operator))) (\<lambda>valBz.
     ignoreP (callK (WithdrawValidatorCommission K valBz)))"

definition withdraw_rewards :: "('s, 'c) ExportKeepers \<Rightarrow> delegation \<Rightarrow> ('s, unit) proc" where
  "withdraw_rewards K d =
     bindP (pureP (mustO (ValAddr_StringToBytes K (snd d)))) (\<lambda>valAddr.
     bindP (pureP (mustO (AccAddr_StringToBytes K (fst d)))) (\<lambda>delAddr.
     ignoreP (callK (WithdrawDelegationRewards K delAddr valAddr))))"

definition reinit_validator :: "('s, 'c) ExportKeepers \<Rightarrow> string \<Rightarrow> ('s, unit) proc" where
  "reinit_validator K operator =
     bindP (pureP (mustO (ValAddr_StringToBytes K operator))) (\<lambda>valBz.
     bindP (mustP (readK (GetOutstandingRewards K valBz))) (\<lambda>rewards.
     bindP (mustP (readK (CommunityPool_Get K))) (\<lambda>pool.
     bindP (mustP (callK (CommunityPool_Set K (coins_Add K pool rewards)))) (\<lambda>_.
     mustP (callK (AfterValidatorCreated K 0 valBz))))))"

definition reinit_delegation :: "('s, 'c) ExportKeepers \<Rightarrow> delegation \<Rightarrow> ('s, unit) proc" where
  "reinit_delegation K d =
     bindP (pureP (mustO (ValAddr_StringToBytes K (snd d)))) (\<lambda>valAddr.
     bindP (pureP (mustO (AccAddr_StringToBytes K (fst d)))) (\<lambda>delAddr.
     bindP (mustP (wrapP ''error while incrementing period: ''
       (callK (BeforeDelegationCreated K 0 delAddr valAddr)))) (\<lambda>_.
     mustP (wrapP ''error while creating a new delegation period record: ''
       (callK (AfterDelegationModified K 0 delAddr valAddr))))))"

definition reset_entries :: "Unbonding \<Rightarrow> Unbonding" where
  "reset_entries u = u\<lparr>Entries := map (\<lambda>e. e\<lparr>CreationHeight := 0\<rparr>) (Entries u)\<rparr>"

definition reset_validator ::
    "('s, 'c) ExportKeepers \<Rightarrow> bool \<Rightarrow> string set \<Rightarrow> bytes \<Rightarrow> ('s, unit) proc" where
  "reset_validator K applyAllowedAddrs allowedAddrs addr =
     bindP (\<lambda>s. Some (case full_GetValidator K addr s of
         Err _ \<Rightarrow> (Panic (New ''expected validator, not found''), s) | r \<Rightarrow> (r, s))) (\<lambda>validator.
     bindP (pureP (mustO (ValAddr_BytesToString K addr))) (\<lambda>valAddr.
     let validator1 = validator\<lparr>UnbondingHeight := 0\<rparr>;
         validator2 = (if applyAllowedAddrs \<and> valAddr \<notin> allowedAddrs then validator1\<lparr>Jailed := True\<rparr> else validator1)
     in mustP (callK (full_SetValidator K validator2))))"

definition reset_signing_info :: "('s, 'c) ExportKeepers \<Rightarrow> bytes \<times> SigningInfo \<Rightarrow> ('s, unit) proc" where
  "reset_signing_info K ai = ignoreP (callK (exp_SetSigningInfo K (fst ai) ((snd ai)\<lparr>StartHeight := 0\<rparr>)))"

text \<open>The distribution state, and the staking and slashing state.\<close>

definition reset_distribution :: "('s, 'c) ExportKeepers \<Rightarrow> ('s, unit) proc" where
  "reset_distribution K =
     bindP (mustP (iterateP (it_Operators K) (withdraw_commission K))) (\<lambda>_.
     bindP (mustP (readK (GetAllDelegations K))) (\<lambda>dels.
     bindP (eachP (withdraw_rewards K) dels) (\<lambda>_.
     bindP (callK (DeleteAllValidatorSlashEvents K)) (\<lambda>_.
     bindP (callK (DeleteAllValidatorHistoricalRewards K)) (\<lambda>_.
     bindP (mustP (iterateP (it_Operators K) (reinit_validator K))) (\<lambda>_.
     eachP (reinit_delegation K) dels))))))"

text \<open>What follows the loop over the validators: an error of the iterator's \<open>Close\<close> is logged and ends it.\<close>

definition finish_staking :: "('s, 'c) ExportKeepers \<Rightarrow> ('s, unit) proc" where
  "finish_staking K s =
     (case iter_Close K s of
        Err _ \<Rightarrow> Some (Ok (), s)
      | Panic e \<Rightarrow> Some (Panic e, s)
      | Ok _ \<Rightarrow>
          bindP (mustP (callK (ApplyValidatorSetUpdates K))) (\<lambda>_.
          mustP (iterateP (it_SigningInfos K) (reset_signing_info K))) s)"

definition reset_staking :: "('s, 'c) ExportKeepers \<Rightarrow> bool \<Rightarrow> string set \<Rightarrow> ('s, unit) proc" where
  "reset_staking K applyAllowedAddrs allowedAddrs =
     bindP (mustP (iterateP (it_Redelegations K) (\<lambda>u. mustP (callK (SetRedelegation K (reset_entries u)))))) (\<lambda>_.
     bindP (mustP (iterateP (it_Unbondings K) (\<lambda>u. mustP (callK (SetUnbondingDelegation K (reset_entries u)))))) (\<lambda>_.
     bindP (readK (\<lambda>s. Ok (it_ValidatorKeys K s))) (\<lambda>keys.
     bindP (eachP (reset_validator K applyAllowedAddrs allowedAddrs) keys) (\<lambda>_.
     finish_staking K))))"

definition prepForZeroHeightGenesis :: "('s, 'c) ExportKeepers \<Rightarrow> string list \<Rightarrow> ('s, unit) proc" where
  "prepForZeroHeightGenesis K jailAllowedAddrs =
     bindP (eachP (\<lambda>addr. pureP (bindO (mustO (ValAddr_StringToBytes K addr)) (\<lambda>_. Ok ()))) jailAllowedAddrs) (\<lambda>_.
     bindP (reset_distribution K) (\<lambda>_.
     reset_staking K (length jailAllowedAddrs > 0) (set jailAllowedAddrs)))"

text \<open>An error of \<open>WriteValidators\<close> is returned; the incomplete result that comes with it is left out.\<close>

definition ExportAppStateAndValidators ::
    "('s, 'c) ExportKeepers \<Rightarrow> ('s, 'g, 'v, 'p) ExportLib \<Rightarrow> i64 \<Rightarrow> bool \<Rightarrow> string list \<Rightarrow> string list
     \<Rightarrow> ('s, ('v, 'p) ExportedApp) proc" where
  "ExportAppStateAndValidators K E LastBlockHeight forZeroHeight jailAllowedAddrs modulesToExport =
     (let height = (if forZeroHeight then 0 else LastBlockHeight + 1)
      in bindP (if forZeroHeight then prepForZeroHeightGenesis K jailAllowedAddrs else pureP (Ok ())) (\<lambda>_.
         bindP (readK (ExportGenesisForModules E modulesToExport)) (\<lambda>genState.
         bindP (pureP (MarshalIndent E genState)) (\<lambda>appState.
         bindP (readK (WriteValidators E)) (\<lambda>validators.
         readK (\<lambda>s. Ok \<lparr>AppState = appState, exp_Validators = validators, exp_Height = height,
                        ConsensusParams = GetConsensusParams E s\<rparr>))))))"

section \<open>Laws\<close>

text \<open>
  Staking records: a validator that is set is read back under the address of its operator, and no other
  one changes; setting validators and signing infos and updating the active set neither add nor
  remove validators, and only the first changes whether one is jailed.
\<close>

definition jailed_at :: "('s, 'c) ExportKeepers \<Rightarrow> 's \<Rightarrow> bytes \<Rightarrow> bool option" where
  "jailed_at K s a = (case full_GetValidator K a s of Ok v \<Rightarrow> Some (Jailed v) | _ \<Rightarrow> None)"

definition export_law :: "('s, 'c) ExportKeepers \<Rightarrow> bool" where
  "export_law K \<longleftrightarrow>
     (\<forall>a v0 v s s'. full_GetValidator K a s = Ok v0 \<longrightarrow> OperatorAddress v = OperatorAddress v0 \<longrightarrow>
        full_SetValidator K v s = (Ok (), s') \<longrightarrow>
        it_ValidatorKeys K s' = it_ValidatorKeys K s \<and> full_GetValidator K a s' = Ok v \<and>
        (\<forall>b. b \<noteq> a \<longrightarrow> full_GetValidator K b s' = full_GetValidator K b s)) \<and>
     keeps (it_ValidatorKeys K) (callK (ApplyValidatorSetUpdates K)) \<and>
     keeps (jailed_at K) (callK (ApplyValidatorSetUpdates K)) \<and>
     (\<forall>a i. keeps (it_ValidatorKeys K) (callK (exp_SetSigningInfo K a i)) \<and>
        keeps (jailed_at K) (callK (exp_SetSigningInfo K a i)))"

section \<open>Lemmas\<close>

text \<open>A validator that is jailed, or whose address is on the list.\<close>

definition settled :: "('s, 'c) ExportKeepers \<Rightarrow> string set \<Rightarrow> 's \<Rightarrow> bytes \<Rightarrow> bool" where
  "settled K allowed s a \<longleftrightarrow>
     jailed_at K s a = Some True \<or> jailed_at K s a \<noteq> None \<and> (\<exists>x \<in> allowed. ValAddr_BytesToString K a = Ok x)"

lemma reset_validator_Ok:
  assumes law: "export_law K" and run: "reset_validator K True allowed b s = Some (Ok (), s')"
  shows "it_ValidatorKeys K s' = it_ValidatorKeys K s" and "settled K allowed s' b"
    and "settled K allowed s a \<Longrightarrow> settled K allowed s' a"
proof -
  from run obtain v x w where v: "full_GetValidator K b s = Ok v" and x: "ValAddr_BytesToString K b = Ok x"
    and w: "w = (if x \<notin> allowed then v\<lparr>UnbondingHeight := 0, Jailed := True\<rparr> else v\<lparr>UnbondingHeight := 0\<rparr>)"
    and set_w: "full_SetValidator K w s = (Ok (), s')"
    by (auto simp: reset_validator_def outcome_simps callK_def Let_def split: outcome.splits if_splits)
  have "OperatorAddress w = OperatorAddress v" by (simp add: w)
  with law v set_w have keys: "it_ValidatorKeys K s' = it_ValidatorKeys K s"
    and b: "full_GetValidator K b s' = Ok w"
    and other: "\<And>a. a \<noteq> b \<Longrightarrow> full_GetValidator K a s' = full_GetValidator K a s"
    unfolding export_law_def by blast+
  show "it_ValidatorKeys K s' = it_ValidatorKeys K s" by (rule keys)
  show fin: "settled K allowed s' b" using b x by (auto simp: settled_def jailed_at_def w)
  show "settled K allowed s' a" if "settled K allowed s a"
    using that fin other [of a] by (cases "a = b") (auto simp: settled_def jailed_at_def)
qed

lemma reset_validators_Ok:
  assumes law: "export_law K"
  shows "eachP (reset_validator K True allowed) ks s = Some (Ok (), s') \<Longrightarrow>
    it_ValidatorKeys K s' = it_ValidatorKeys K s \<and>
    (\<forall>a. a \<in> set ks \<or> settled K allowed s a \<longrightarrow> settled K allowed s' a)"
proof (induction ks arbitrary: s)
  case (Cons b ks)
  from Cons.prems obtain s1 where b: "reset_validator K True allowed b s = Some (Ok (), s1)"
    and rest: "eachP (reset_validator K True allowed) ks s1 = Some (Ok (), s')"
    by (auto simp: outcome_simps)
  note r = reset_validator_Ok [OF law b]
  from Cons.IH [OF rest] r show ?case by auto
qed (simp add: outcome_simps)

text \<open>Whether a validator is settled depends only on the records that later calls keep.\<close>

lemma settled_cong: "jailed_at K s' = jailed_at K s \<Longrightarrow> settled K allowed s' a = settled K allowed s a"
  by (simp add: settled_def)

lemma keeps_finish_staking:
  assumes "keeps p (callK (ApplyValidatorSetUpdates K))" "\<And>a i. keeps p (callK (exp_SetSigningInfo K a i))"
  shows "keeps p (finish_staking K)"
proof -
  have "keeps p (bindP (mustP (callK (ApplyValidatorSetUpdates K))) (\<lambda>_.
    mustP (iterateP (it_SigningInfos K) (reset_signing_info K))))"
    unfolding reset_signing_info_def by (intro keeps_intros assms)
  then show ?thesis unfolding keeps_def finish_staking_def by (auto split: outcome.splits)
qed

lemma export_law_frame:
  assumes "export_law K"
  shows "keeps (it_ValidatorKeys K) (finish_staking K)" and "keeps (jailed_at K) (finish_staking K)"
  using assms unfolding export_law_def by (intro keeps_finish_staking; blast)+

lemma reset_staking_settles:
  assumes law: "export_law K" and run: "reset_staking K True allowed s = Some (Ok (), s')"
  shows "\<forall>a \<in> set (it_ValidatorKeys K s'). settled K allowed s' a"
proof -
  from run obtain s1 s2 where e: "eachP (reset_validator K True allowed) (it_ValidatorKeys K s1) s1 = Some (Ok (), s2)"
    and s': "finish_staking K s2 = Some (Ok (), s')"
    by (auto simp: reset_staking_def outcome_simps readK_def)
  have settled2: "it_ValidatorKeys K s2 = it_ValidatorKeys K s1" "\<forall>a \<in> set (it_ValidatorKeys K s1). settled K allowed s2 a"
    using reset_validators_Ok [OF law e] by auto
  note keepsD [OF export_law_frame(1) [OF law] s'] keepsD [OF export_law_frame(2) [OF law] s']
  then show ?thesis using settled2 settled_cong [of K s' s2 allowed] by simp
qed

section \<open>Properties\<close>

text \<open>
  C38. An export for a fresh start has height zero and, when a list of validators is given, every validator
  that the exported state holds is on the list or jailed. An export at the current height is for the
  next block and leaves the state as it is.
\<close>

theorem zero_height_export_jails_others:
  assumes law: "export_law K" and list: "allowed \<noteq> []"
    and run: "ExportAppStateAndValidators K E lastHeight True allowed mods s = Some (Ok app, s')"
  shows "exp_Height app = 0 \<and>
    (\<forall>a \<in> set (it_ValidatorKeys K s'). \<exists>v. full_GetValidator K a s' = Ok v \<and>
       (Jailed v \<or> (\<exists>x \<in> set allowed. ValAddr_BytesToString K a = Ok x))) \<and>
    (\<forall>app2 s2. ExportAppStateAndValidators K E lastHeight False allowed mods s = Some (Ok app2, s2) \<longrightarrow>
       s2 = s \<and> exp_Height app2 = lastHeight + 1)"
proof (intro conjI)
  from run show "exp_Height app = 0"
    by (auto simp: ExportAppStateAndValidators_def Let_def outcome_simps readK_def)
  from run have "prepForZeroHeightGenesis K allowed s = Some (Ok (), s')"
    by (auto simp: ExportAppStateAndValidators_def Let_def outcome_simps readK_def)
  then obtain s1 where "reset_staking K True (set allowed) s1 = Some (Ok (), s')"
    using list by (auto simp: prepForZeroHeightGenesis_def outcome_simps)
  from reset_staking_settles [OF law this]
  show "\<forall>a \<in> set (it_ValidatorKeys K s'). \<exists>v. full_GetValidator K a s' = Ok v \<and>
       (Jailed v \<or> (\<exists>x \<in> set allowed. ValAddr_BytesToString K a = Ok x))"
    by (fastforce simp: settled_def jailed_at_def split: outcome.splits)
  show "\<forall>app2 s2. ExportAppStateAndValidators K E lastHeight False allowed mods s = Some (Ok app2, s2) \<longrightarrow>
       s2 = s \<and> exp_Height app2 = lastHeight + 1"
    by (auto simp: ExportAppStateAndValidators_def Let_def outcome_simps readK_def)
qed

text \<open>A store of two validators, and keepers that change nothing else.\<close>

definition sample_full_validator :: "string \<Rightarrow> FullValidator" where
  "sample_full_validator a = \<lparr>OperatorAddress = a, ConsensusPubkey = [], Jailed = False, Status = Bonded, Tokens = Some 1,
     DelegatorShares = 1, v_Description = [], v_MinSelfDelegation = None, UnbondingHeight = 9\<rparr>"

definition sample_export :: "(bytes \<Rightarrow> FullValidator option, nat) ExportKeepers" where
  "sample_export = \<lparr>ValAddr_StringToBytes = Ok, AccAddr_StringToBytes = Ok, ValAddr_BytesToString = Ok,
     it_Operators = (\<lambda>_. ([''a'', ''b''], Ok ())), WithdrawValidatorCommission = (\<lambda>_ s. (Err (New ''none''), s)),
     GetAllDelegations = (\<lambda>_. Ok [(''d'', ''a'')]), WithdrawDelegationRewards = (\<lambda>_ _ s. (Ok (), s)),
     DeleteAllValidatorSlashEvents = (\<lambda>s. (Ok (), s)), DeleteAllValidatorHistoricalRewards = (\<lambda>s. (Ok (), s)),
     GetOutstandingRewards = (\<lambda>_ _. Ok 1), CommunityPool_Get = (\<lambda>_. Ok 0), CommunityPool_Set = (\<lambda>_ s. (Ok (), s)),
     coins_Add = (+), AfterValidatorCreated = (\<lambda>_ _ s. (Ok (), s)), BeforeDelegationCreated = (\<lambda>_ _ _ s. (Ok (), s)),
     AfterDelegationModified = (\<lambda>_ _ _ s. (Ok (), s)), it_Redelegations = (\<lambda>_. ([], Ok ())),
     SetRedelegation = (\<lambda>_ s. (Ok (), s)), it_Unbondings = (\<lambda>_. ([], Ok ())), SetUnbondingDelegation = (\<lambda>_ s. (Ok (), s)),
     it_ValidatorKeys = (\<lambda>_. [''b'', ''a'']), iter_Close = (\<lambda>_. Ok ()),
     full_GetValidator = (\<lambda>a s. case s a of Some v \<Rightarrow> if OperatorAddress v = a then Ok v else Err (New ''key'')
        | None \<Rightarrow> Err (New ''not found'')),
     full_SetValidator = (\<lambda>v s. (Ok (), s(OperatorAddress v := Some v))),
     ApplyValidatorSetUpdates = (\<lambda>s. (Ok (), s)), it_SigningInfos = (\<lambda>_. ([], Ok ())),
     exp_SetSigningInfo = (\<lambda>_ _ s. (Ok (), s))\<rparr>"

definition sample_export_lib :: "(bytes \<Rightarrow> FullValidator option, unit, unit, unit) ExportLib" where
  "sample_export_lib = \<lparr>ExportGenesisForModules = (\<lambda>_ _. Ok ()), MarshalIndent = (\<lambda>_. Ok ''{}''),
     WriteValidators = (\<lambda>_. Ok ()), GetConsensusParams = (\<lambda>_. ())\<rparr>"

lemma sample_export_law: "export_law sample_export"
  unfolding export_law_def keeps_def callK_def
  by (auto simp: sample_export_def split: option.splits if_splits)

lemmas export_defs = prepForZeroHeightGenesis_def reset_distribution_def reset_staking_def withdraw_commission_def
  withdraw_rewards_def reinit_validator_def reinit_delegation_def reset_validator_def finish_staking_def
  reset_signing_info_def iterateP_def mustP_def ignoreP_def catchP_def wrapP_def callK_def readK_def

theorem zero_height_export_jails_others_witness:
  "\<exists>app s' v. ExportAppStateAndValidators sample_export sample_export_lib 7 True [''a''] []
       (\<lambda>a. Some (sample_full_validator a)) = Some (Ok app, s')
     \<and> full_GetValidator sample_export ''b'' s' = Ok v \<and> Jailed v"
proof -
  obtain app s' where run: "ExportAppStateAndValidators sample_export sample_export_lib 7 True [''a''] []
       (\<lambda>a. Some (sample_full_validator a)) = Some (Ok app, s')"
    by (simp add: ExportAppStateAndValidators_def export_defs sample_export_def sample_export_lib_def
        sample_full_validator_def bindP_def pureP_def)
  have "''b'' \<in> set (it_ValidatorKeys sample_export s')" "\<not> (\<exists>x \<in> set [''a'']. ValAddr_BytesToString sample_export ''b'' = Ok x)"
    by (simp_all add: sample_export_def)
  with zero_height_export_jails_others [OF sample_export_law _ run] run show ?thesis by blast
qed

end
