(* ===== verification/In_Place_Testnet.thy ===== *)
theory In_Place_Testnet
  imports App_Config Files
begin

text \<open>
  The command that turns the state of a node into a network of one validator
  (\<open>cmd/nexusd/cmd/testnet.go\<close>). The keepers and the store of the staking module are arguments; an iterator
  is the list of the keys that it visits. \<open>handleErr\<close> ends the process with status 1: that
  is the result \<open>Err\<close> here, whose text is what the process prints before it ends.
\<close>

section \<open>Types\<close>

text \<open>A value of the application's options, as far as the command looks at its type.\<close>

datatype option_value = OptNil | OptString string | OptHexBytes bytes | OptPubKey bytes | OptOther

record valArgs =
  newValAddr :: bytes
  newOperatorAddress :: string
  newValPubKey :: bytes
  accountsToFund :: "string list"
  upgradeToTrigger :: string
  homeDir :: string

text \<open>The rates are decimals scaled by \<open>10 ^ 18\<close>, like the shares.\<close>

record InPlaceValidator = Validator +
  Rate :: int
  MaxRate :: int
  MaxChangeRate :: int

record 's InPlaceKeepers =
  NewAnyWithValue :: "bytes \<Rightarrow> bytes outcome"
  moniker_only :: "string \<Rightarrow> bytes"
  val_StringToBytes :: "string \<Rightarrow> bytes outcome"
  acc_StringToBytes :: "string \<Rightarrow> bytes outcome"
  cons_String :: "bytes \<Rightarrow> bytes"
  ValidatorsPowerStoreIterator :: "'s \<Rightarrow> bytes list outcome"
  LastValidatorsIterator :: "'s \<Rightarrow> bytes list outcome"
  store_Iterator :: "bytes \<Rightarrow> bytes \<Rightarrow> 's \<Rightarrow> bytes list"
  store_Delete :: "bytes \<Rightarrow> 's \<Rightarrow> 's"
  PrefixEndBytes :: "bytes \<Rightarrow> bytes"
  ValidatorsKey :: bytes
  ValidatorQueueKey :: bytes
  ip_SetValidator :: "InPlaceValidator \<Rightarrow> 's \<Rightarrow> unit outcome \<times> 's"
  ip_SetValidatorByConsAddr :: "InPlaceValidator \<Rightarrow> 's \<Rightarrow> unit outcome \<times> 's"
  ip_SetValidatorByPowerIndex :: "InPlaceValidator \<Rightarrow> 's \<Rightarrow> unit outcome \<times> 's"
  SetLastValidatorPower :: "bytes \<Rightarrow> int \<Rightarrow> 's \<Rightarrow> unit outcome \<times> 's"
  Hooks_AfterValidatorCreated :: "bytes \<Rightarrow> 's \<Rightarrow> unit outcome \<times> 's"
  SetOutstandingRewards :: "bytes \<Rightarrow> 's \<Rightarrow> unit outcome \<times> 's"
  NewInt64Coin :: "string \<Rightarrow> int \<Rightarrow> (string \<times> int) outcome"

text \<open>The names of the options that the server and the client packages define.\<close>

record OptionKeys =
  KeyNewValAddr :: string
  KeyUserPubKey :: string
  KeyNewOpAddr :: string
  KeyTriggerTestnetUpgrade :: string
  FlagHome :: string

section \<open>Arguments\<close>

definition flagAccountsToFund :: string where "flagAccountsToFund = ''accounts-to-fund''"

definition getCommandArgs :: "OptionKeys \<Rightarrow> (option_value \<Rightarrow> string) \<Rightarrow> (string \<Rightarrow> option_value) \<Rightarrow> valArgs outcome" where
  "getCommandArgs Q cast_ToString appOpts =
     (case appOpts (KeyNewValAddr Q) of
        OptHexBytes valAddr \<Rightarrow>
          (case appOpts (KeyUserPubKey Q) of
             OptPubKey valPubKey \<Rightarrow>
               (case appOpts (KeyNewOpAddr Q) of
                  OptString opAddr \<Rightarrow>
                    (case appOpts (KeyTriggerTestnetUpgrade Q) of
                       OptString upgrade \<Rightarrow>
                         (let accountsString = cast_ToString (appOpts flagAccountsToFund);
                              home = cast_ToString (appOpts (FlagHome Q))
                          in if home = [] then Err (New ''invalid home dir'')
                             else Ok \<lparr>newValAddr = valAddr, newOperatorAddress = opAddr, newValPubKey = valPubKey,
                                    accountsToFund = Split CHR '','' accountsString, upgradeToTrigger = upgrade,
                                    homeDir = home\<rparr>)
                     | _ \<Rightarrow> Err (New ''upgradeToTrigger is not of type string''))
                | _ \<Rightarrow> Err (New ''newOperatorAddress is not of type string''))
           | _ \<Rightarrow> Err (New ''newValPubKey is not of type crypto.PubKey''))
      | _ \<Rightarrow> Err (New ''newValAddr is not of type bytes.HexBytes''))"

section \<open>Operations\<close>

definition handleErr :: "('s, 'a) proc \<Rightarrow> ('s, 'a) proc" where
  "handleErr m = wrapP ''exit status 1: '' m"

definition valVotingPower :: int where "valVotingPower = 900000000000000"

definition dec :: "int \<Rightarrow> int" where "dec hundredths = hundredths * 10 ^ 16"

definition new_validator :: "'s InPlaceKeepers \<Rightarrow> valArgs \<Rightarrow> bytes \<Rightarrow> InPlaceValidator" where
  "new_validator T args pubkeyAny =
     \<lparr>OperatorAddress = newOperatorAddress args, ConsensusPubkey = pubkeyAny, Jailed = False, Status = Bonded,
      Tokens = Some valVotingPower, DelegatorShares = dec (10000000 * 100),
      v_Description = moniker_only T ''Testnet Validator'', v_MinSelfDelegation = Some 1,
      Rate = dec 5, MaxRate = dec 10, MaxChangeRate = dec 5\<rparr>"

definition delete_keys :: "'s InPlaceKeepers \<Rightarrow> bytes list \<Rightarrow> ('s, unit) proc" where
  "delete_keys T ks = (\<lambda>s. Some (Ok (), foldl (\<lambda>s k. store_Delete T k s) s ks))"

text \<open>Everything that the staking store knows of the validators so far goes away.\<close>

definition remove_validators :: "'s InPlaceKeepers \<Rightarrow> ('s, unit) proc" where
  "remove_validators T =
     bindP (handleErr (readK (ValidatorsPowerStoreIterator T))) (\<lambda>ks.
     bindP (delete_keys T ks) (\<lambda>_.
     bindP (handleErr (readK (LastValidatorsIterator T))) (\<lambda>ks.
     bindP (delete_keys T ks) (\<lambda>_.
     bindP (readK (\<lambda>s. Ok (store_Iterator T (ValidatorsKey T) (PrefixEndBytes T (ValidatorsKey T)) s))) (\<lambda>ks.
     bindP (delete_keys T ks) (\<lambda>_.
     bindP (readK (\<lambda>s. Ok (store_Iterator T (ValidatorQueueKey T) (PrefixEndBytes T (ValidatorQueueKey T)) s))) (\<lambda>ks.
     delete_keys T ks)))))))"

definition install_validator :: "'s InPlaceKeepers \<Rightarrow> InPlaceValidator \<Rightarrow> bytes \<Rightarrow> ('s, unit) proc" where
  "install_validator T newVal validator =
     bindP (handleErr (callK (ip_SetValidator T newVal))) (\<lambda>_.
     bindP (handleErr (callK (ip_SetValidatorByConsAddr T newVal))) (\<lambda>_.
     bindP (handleErr (callK (ip_SetValidatorByPowerIndex T newVal))) (\<lambda>_.
     bindP (handleErr (callK (SetLastValidatorPower T validator 0))) (\<lambda>_.
     handleErr (callK (Hooks_AfterValidatorCreated T validator))))))"

definition install_rewards :: "'s SdkKeepers \<Rightarrow> 's InPlaceKeepers \<Rightarrow> bytes \<Rightarrow> ('s, unit) proc" where
  "install_rewards K T validator =
     bindP (handleErr (callK (SetHistoricalRewards K validator 0 1))) (\<lambda>_.
     bindP (handleErr (callK (SetCurrentRewards K validator 1))) (\<lambda>_.
     bindP (handleErr (callK (SetAccumulatedCommission K validator))) (\<lambda>_.
     handleErr (callK (SetOutstandingRewards T validator)))))"

text \<open>The zero value of Go's \<open>time.Time\<close>, in nanoseconds since the epoch.\<close>

definition zero_time :: int where "zero_time = - 62135596800 * 1000000000"

definition new_signing_info :: "'s InPlaceKeepers \<Rightarrow> bytes \<Rightarrow> i64 \<Rightarrow> SigningInfo" where
  "new_signing_info T consAddr lastHeight =
     \<lparr>si_Address = cons_String T consAddr, StartHeight = lastHeight - 1, IndexOffset = 0, JailedUntil = zero_time,
      Tombstoned = False, MissedBlocksCounter = 0\<rparr>"

definition fund_account ::
    "ModuleNames \<Rightarrow> 's SdkKeepers \<Rightarrow> 's InPlaceKeepers \<Rightarrow> string \<times> int \<Rightarrow> string \<Rightarrow> ('s, unit) proc" where
  "fund_account N K T defaultCoins accountStr =
     bindP (handleErr (callK (MintCoins K (n_mint N) defaultCoins))) (\<lambda>_.
     bindP (handleErr (pureP (acc_StringToBytes T accountStr))) (\<lambda>account.
     handleErr (callK (SendCoinsFromModuleToAccount K (n_mint N) account defaultCoins))))"

definition initAppForTestnet ::
    "ModuleNames \<Rightarrow> 's SdkKeepers \<Rightarrow> 's InPlaceKeepers \<Rightarrow> i64 \<Rightarrow> valArgs \<Rightarrow> ('s, unit) proc" where
  "initAppForTestnet N K T lastHeight args =
     bindP (handleErr (pureP (NewAnyWithValue T (newValPubKey args)))) (\<lambda>pubkeyAny.
     let newVal = new_validator T args pubkeyAny
     in bindP (handleErr (pureP (val_StringToBytes T (OperatorAddress newVal)))) (\<lambda>validator.
        bindP (remove_validators T) (\<lambda>_.
        bindP (install_validator T newVal validator) (\<lambda>_.
        bindP (install_rewards K T validator) (\<lambda>_.
        bindP (ignoreP (callK (SetValidatorSigningInfo K (newValAddr args)
                 (new_signing_info T (newValAddr args) lastHeight)))) (\<lambda>_.
        bindP (handleErr (readK (BondDenom K))) (\<lambda>bondDenom.
        bindP (pureP (NewInt64Coin T bondDenom 1000000000)) (\<lambda>defaultCoins.
        eachP (fund_account N K T defaultCoins) (accountsToFund args)))))))))"

text \<open>\<open>newTestnetApp\<close>: the application starts as usual, and an error in the arguments is a panic. What \<open>newApp\<close>
  returns is a \<open>*app.App\<close> whenever it returns, so the test of its type does not fail.\<close>

definition newTestnetApp ::
    "('s, unit) proc \<Rightarrow> OptionKeys \<Rightarrow> (option_value \<Rightarrow> string) \<Rightarrow> ModuleNames \<Rightarrow> 's SdkKeepers \<Rightarrow> 's InPlaceKeepers
     \<Rightarrow> ('s \<Rightarrow> i64) \<Rightarrow> (string \<Rightarrow> option_value) \<Rightarrow> ('s, unit) proc" where
  "newTestnetApp newApp Q cast_ToString N K T LastBlockHeight appOpts =
     bindP newApp (\<lambda>_.
     bindP (pureP (mustO (getCommandArgs Q cast_ToString appOpts))) (\<lambda>args.
     bindP (readK (\<lambda>s. Ok (LastBlockHeight s))) (\<lambda>h. initAppForTestnet N K T h args)))"

section \<open>What the store and the keepers promise\<close>

text \<open>
  \<open>ks s\<close> are the keys of the staking store in the state \<open>s\<close>. An iterator visits the keys that its domain holds when it is
  opened; \<open>pw\<close> and \<open>lp\<close> are the prefixes of the power index and of the last powers.
\<close>

definition iterator_law :: "'s InPlaceKeepers \<Rightarrow> ('s \<Rightarrow> bytes set) \<Rightarrow> bytes \<Rightarrow> bytes \<Rightarrow> bool" where
  "iterator_law T ks pw lp \<longleftrightarrow>
     (\<forall>s l. ValidatorsPowerStoreIterator T s = Ok l \<longrightarrow> set l = {k \<in> ks s. prefix pw k}) \<and>
     (\<forall>s l. LastValidatorsIterator T s = Ok l \<longrightarrow> set l = {k \<in> ks s. prefix lp k}) \<and>
     (\<forall>p s. set (store_Iterator T p (PrefixEndBytes T p) s) = {k \<in> ks s. prefix p k}) \<and>
     (\<forall>k s. ks (store_Delete T k s) = ks s - {k})"

text \<open>The keys under which a validator is stored: by address, by consensus address, by power, and its last power.\<close>

record ValidatorKeys =
  by_address :: "InPlaceValidator \<Rightarrow> bytes"
  by_consensus :: "InPlaceValidator \<Rightarrow> bytes"
  by_power :: "InPlaceValidator \<Rightarrow> bytes"
  by_last_power :: "bytes \<Rightarrow> bytes"

definition adds_key :: "('s \<Rightarrow> bytes set) \<Rightarrow> bytes \<Rightarrow> ('s \<Rightarrow> unit outcome \<times> 's) \<Rightarrow> bool" where
  "adds_key ks k f \<longleftrightarrow> (\<forall>s s'. f s = (Ok (), s') \<longrightarrow> ks s' = insert k (ks s))"

definition setter_law :: "'s InPlaceKeepers \<Rightarrow> ('s \<Rightarrow> bytes set) \<Rightarrow> ValidatorKeys \<Rightarrow> bool" where
  "setter_law T ks V \<longleftrightarrow>
     (\<forall>v. adds_key ks (by_address V v) (ip_SetValidator T v)) \<and>
     (\<forall>v. adds_key ks (by_consensus V v) (ip_SetValidatorByConsAddr T v)) \<and>
     (\<forall>v. adds_key ks (by_power V v) (ip_SetValidatorByPowerIndex T v)) \<and>
     (\<forall>a n. adds_key ks (by_last_power V a) (SetLastValidatorPower T a n))"

text \<open>The other modules have stores of their own.\<close>

definition apart_law :: "'s SdkKeepers \<Rightarrow> 's InPlaceKeepers \<Rightarrow> ('s \<Rightarrow> bytes set) \<Rightarrow> bool" where
  "apart_law K T ks \<longleftrightarrow>
     (\<forall>a. keeps ks (callK (Hooks_AfterValidatorCreated T a))) \<and>
     (\<forall>a p n. keeps ks (callK (SetHistoricalRewards K a p n))) \<and>
     (\<forall>a p. keeps ks (callK (SetCurrentRewards K a p))) \<and>
     (\<forall>a. keeps ks (callK (SetAccumulatedCommission K a))) \<and>
     (\<forall>a. keeps ks (callK (SetOutstandingRewards T a))) \<and>
     (\<forall>a i. keeps ks (callK (SetValidatorSigningInfo K a i))) \<and>
     (\<forall>m c. keeps ks (callK (MintCoins K m c))) \<and>
     (\<forall>m a c. keeps ks (callK (SendCoinsFromModuleToAccount K m a c)))"

text \<open>The keys that say who validates, and that the keys of a validator are among them, the one by consensus address excepted.\<close>

definition validator_key :: "'s InPlaceKeepers \<Rightarrow> bytes \<Rightarrow> bytes \<Rightarrow> bytes \<Rightarrow> bool" where
  "validator_key T pw lp k \<longleftrightarrow>
     prefix pw k \<or> prefix lp k \<or> prefix (ValidatorsKey T) k \<or> prefix (ValidatorQueueKey T) k"

definition key_law :: "'s InPlaceKeepers \<Rightarrow> ValidatorKeys \<Rightarrow> bytes \<Rightarrow> bytes \<Rightarrow> bool" where
  "key_law T V pw lp \<longleftrightarrow>
     (\<forall>v. prefix (ValidatorsKey T) (by_address V v)) \<and> (\<forall>v. prefix pw (by_power V v)) \<and>
     (\<forall>a. prefix lp (by_last_power V a)) \<and> (\<forall>v. \<not> validator_key T pw lp (by_consensus V v))"

section \<open>Removal and installation\<close>

lemma handleErr_Ok [outcome_simps]: "handleErr m s = Some (Ok a, s') \<longleftrightarrow> m s = Some (Ok a, s')"
  by (simp add: handleErr_def outcome_simps)

lemma keeps_handleErr [keeps_intros]: "keeps p m \<Longrightarrow> keeps p (handleErr m)"
  by (simp add: handleErr_def keeps_intros)

lemma delete_keys_keys:
  assumes "iterator_law T ks pw lp" and "delete_keys T l s = Some (r, s')"
  shows "ks s' = ks s - set l"
proof -
  have "ks (foldl (\<lambda>s k. store_Delete T k s) s l) = ks s - set l" for s
    using assms(1) by (induction l arbitrary: s) (auto simp: iterator_law_def)
  then show ?thesis using assms(2) by (auto simp: delete_keys_def)
qed

lemma remove_validators_keys:
  assumes law: "iterator_law T ks pw lp" and ok: "remove_validators T s = Some (Ok (), s')"
  shows "ks s' = {k \<in> ks s. \<not> validator_key T pw lp k}"
proof -
  note d = delete_keys_keys [OF law]
  obtain l1 l2 l3 l4 s1 s2 s3 where
    1: "ValidatorsPowerStoreIterator T s = Ok l1" "delete_keys T l1 s = Some (Ok (), s1)"
    and 2: "LastValidatorsIterator T s1 = Ok l2" "delete_keys T l2 s1 = Some (Ok (), s2)"
    and 3: "store_Iterator T (ValidatorsKey T) (PrefixEndBytes T (ValidatorsKey T)) s2 = l3" "delete_keys T l3 s2 = Some (Ok (), s3)"
    and 4: "store_Iterator T (ValidatorQueueKey T) (PrefixEndBytes T (ValidatorQueueKey T)) s3 = l4" "delete_keys T l4 s3 = Some (Ok (), s')"
    using ok by (auto simp: remove_validators_def outcome_simps)
  have l: "set l1 = {k \<in> ks s. prefix pw k}" "set l2 = {k \<in> ks s1. prefix lp k}"
    "set l3 = {k \<in> ks s2. prefix (ValidatorsKey T) k}" "set l4 = {k \<in> ks s3. prefix (ValidatorQueueKey T) k}"
    using law 1(1) 2(1) 3(1) 4(1) by (auto simp: iterator_law_def)
  have "ks s1 = {k \<in> ks s. \<not> prefix pw k}" using d [OF 1(2)] l(1) by blast
  moreover have "ks s2 = {k \<in> ks s1. \<not> prefix lp k}" using d [OF 2(2)] l(2) by blast
  moreover have "ks s3 = {k \<in> ks s2. \<not> prefix (ValidatorsKey T) k}" using d [OF 3(2)] l(3) by blast
  moreover have "ks s' = {k \<in> ks s3. \<not> prefix (ValidatorQueueKey T) k}" using d [OF 4(2)] l(4) by blast
  ultimately show ?thesis by (simp add: validator_key_def)
qed

lemma install_validator_keys:
  assumes "setter_law T ks V" and "apart_law K T ks" and ok: "install_validator T v a s = Some (Ok (), s')"
  shows "ks s' = {by_address V v, by_consensus V v, by_power V v, by_last_power V a} \<union> ks s"
proof -
  obtain s1 s2 s3 s4 where
    1: "ip_SetValidator T v s = (Ok (), s1)" and 2: "ip_SetValidatorByConsAddr T v s1 = (Ok (), s2)"
    and 3: "ip_SetValidatorByPowerIndex T v s2 = (Ok (), s3)" and 4: "SetLastValidatorPower T a 0 s3 = (Ok (), s4)"
    and 5: "callK (Hooks_AfterValidatorCreated T a) s4 = Some (Ok (), s')"
    using ok by (auto simp: install_validator_def outcome_simps)
  note adds = assms(1) [unfolded setter_law_def adds_key_def]
  have "ks s1 = insert (by_address V v) (ks s)" using adds 1 by simp
  moreover have "ks s2 = insert (by_consensus V v) (ks s1)" using adds 2 by simp
  moreover have "ks s3 = insert (by_power V v) (ks s2)" using adds 3 by simp
  moreover have "ks s4 = insert (by_last_power V a) (ks s3)" using adds 4 by simp
  moreover have "keeps ks (callK (Hooks_AfterValidatorCreated T a))" using assms(2) by (simp add: apart_law_def)
  with 5 have "ks s' = ks s4" unfolding keeps_def by blast
  ultimately show ?thesis by auto
qed

lemma keeps_install_rewards: "apart_law K T ks \<Longrightarrow> keeps ks (install_rewards K T a)"
  unfolding install_rewards_def by (intro keeps_intros) (simp_all add: apart_law_def)

lemma keeps_fund_account: "apart_law K T ks \<Longrightarrow> keeps ks (fund_account N K T c a)"
  unfolding fund_account_def by (cases c, intro keeps_intros) (simp_all add: apart_law_def)

lemma fund_account_decodes:
  "fund_account N K T c a s = Some (Ok (), s') \<Longrightarrow> \<exists>b. acc_StringToBytes T a = Ok b"
  by (auto simp: fund_account_def outcome_simps)

lemma fund_accounts_decode:
  "eachP (fund_account N K T c) as s = Some (Ok (), s') \<Longrightarrow> a \<in> set as \<Longrightarrow> \<exists>b. acc_StringToBytes T a = Ok b"
  by (induction as arbitrary: s) (auto simp: outcome_simps dest: fund_account_decodes)

lemma guarded_fund:
  assumes "names_law N" shows "fund_account N (guarded N K) T = fund_account N K T"
proof -
  have "MintCoins (guarded N K) (n_mint N) = MintCoins K (n_mint N)"
    using pools_permitted(4) [OF assms] by (simp add: guarded_def)
  then show ?thesis by (intro ext) (simp only: fund_account_def guarded_same)
qed

lemma guarded_in_place:
  assumes "names_law N" shows "initAppForTestnet N (guarded N K) T h args = initAppForTestnet N K T h args"
  by (simp only: initAppForTestnet_def install_rewards_def guarded_same guarded_fund [OF assms])

text \<open>The phases of a run that succeeds.\<close>

lemma initAppForTestnet_phases:
  assumes "initAppForTestnet N K T h args s = Some (Ok (), s')"
  obtains pk v s1 s2 s3 s4 c where
    "NewAnyWithValue T (newValPubKey args) = Ok pk" "val_StringToBytes T (newOperatorAddress args) = Ok v"
    "remove_validators T s = Some (Ok (), s1)" "install_validator T (new_validator T args pk) v s1 = Some (Ok (), s2)"
    "install_rewards K T v s2 = Some (Ok (), s3)"
    "ignoreP (callK (SetValidatorSigningInfo K (newValAddr args) (new_signing_info T (newValAddr args) h))) s3 = Some (Ok (), s4)"
    "eachP (fund_account N K T c) (accountsToFund args) s4 = Some (Ok (), s')"
  using assms by (auto simp: initAppForTestnet_def Let_def outcome_simps new_validator_def)

section \<open>Properties\<close>


text \<open>
  A store that is the list of its keys: a validator is stored under \<open>v\<close>, its consensus address under \<open>c\<close>, its
  power under \<open>p\<close>, its last power under \<open>l\<close>, and the queue under \<open>q\<close>.
\<close>

definition keys_keepers :: "string list SdkKeepers" where
  "keys_keepers = \<lparr>GetValidator = (\<lambda>_ _. Err (New [])), GetAllValidators = (\<lambda>_. Ok []),
     SetValidator = (\<lambda>v s. (Ok (), s)), SetValidatorByConsAddr = (\<lambda>v s. (Ok (), s)),
     SetNewValidatorByPowerIndex = (\<lambda>v s. (Ok (), s)), DeleteValidatorByPowerIndex = (\<lambda>v s. (Ok (), s)),
     BondDenom = (\<lambda>s. Ok DefaultBondDenom), UnbondingDelegations = (\<lambda>s. ([], Ok ())), Delegate = (\<lambda>m s. (Ok (), s)),
     GetValidatorSigningInfo = (\<lambda>c s. Err (New [])), SetValidatorSigningInfo = (\<lambda>c i s. (Err (New []), s)),
     Unjail = (\<lambda>a s. (Ok (), s)), MintCoins = (\<lambda>m c s. (Ok (), s)), BurnCoins = (\<lambda>m c s. (Ok (), s)),
     SendCoinsFromModuleToAccount = (\<lambda>m a c s. (Ok (), s)), SendCoinsFromModuleToModule = (\<lambda>m a c s. (Ok (), s)),
     GetBalance = (\<lambda>a d s. 0), GetModuleAddress = (\<lambda>n. n), HasAccount = (\<lambda>a s. True), SetNewAccount = (\<lambda>a s. s),
     SetHistoricalRewards = (\<lambda>a p r s. (Ok (), s)), SetCurrentRewards = (\<lambda>a p s. (Ok (), s)),
     SetAccumulatedCommission = (\<lambda>a s. (Ok (), s)), FeePool_Get = (\<lambda>s. Ok ()), FeePool_SetInitial = (\<lambda>s. (Ok (), s)),
     NewValidator = (\<lambda>a pk d. Err (New [])), GetConsAddr = (\<lambda>v. Ok []), AccAddressString = (\<lambda>a. a),
     ValAddressString = (\<lambda>a. a)\<rparr>"

definition keys_in_place :: "string list InPlaceKeepers" where
  "keys_in_place = \<lparr>NewAnyWithValue = Ok, moniker_only = (\<lambda>m. m), val_StringToBytes = Ok,
     acc_StringToBytes = (\<lambda>a. if a = [] then Err (New ''empty address string is not allowed'') else Ok a), cons_String = (\<lambda>a. a),
     ValidatorsPowerStoreIterator = (\<lambda>s. Ok (filter (prefix ''p'') s)), LastValidatorsIterator = (\<lambda>s. Ok (filter (prefix ''l'') s)),
     store_Iterator = (\<lambda>a b s. filter (prefix a) s), store_Delete = removeAll, PrefixEndBytes = (\<lambda>p. p),
     ValidatorsKey = ''v'', ValidatorQueueKey = ''q'', ip_SetValidator = (\<lambda>v s. (Ok (), (CHR ''v'' # OperatorAddress v) # s)),
     ip_SetValidatorByConsAddr = (\<lambda>v s. (Ok (), (CHR ''c'' # OperatorAddress v) # s)),
     ip_SetValidatorByPowerIndex = (\<lambda>v s. (Ok (), (CHR ''p'' # OperatorAddress v) # s)),
     SetLastValidatorPower = (\<lambda>a n s. (Ok (), (CHR ''l'' # a) # s)), Hooks_AfterValidatorCreated = (\<lambda>a s. (Ok (), s)),
     SetOutstandingRewards = (\<lambda>a s. (Ok (), s)), NewInt64Coin = (\<lambda>d n. Ok (d, n))\<rparr>"

definition keys_layout :: ValidatorKeys where
  "keys_layout = \<lparr>by_address = (\<lambda>v. CHR ''v'' # OperatorAddress v), by_consensus = (\<lambda>v. CHR ''c'' # OperatorAddress v),
     by_power = (\<lambda>v. CHR ''p'' # OperatorAddress v), by_last_power = (\<lambda>a. CHR ''l'' # a)\<rparr>"

lemma keys_laws:
  "iterator_law keys_in_place set ''p'' ''l''" "setter_law keys_in_place set keys_layout"
  "apart_law keys_keepers keys_in_place set" "key_law keys_in_place keys_layout ''p'' ''l''"
  by (auto simp: iterator_law_def setter_law_def adds_key_def apart_law_def key_law_def validator_key_def keys_in_place_def
      keys_keepers_def keys_layout_def keeps_def callK_def)

definition sample_val_args :: valArgs where
  "sample_val_args = \<lparr>newValAddr = ''k'', newOperatorAddress = ''new'', newValPubKey = ''pk'', accountsToFund = [''alice'', ''bob''],
     upgradeToTrigger = [], homeDir = ''/h''\<rparr>"

definition sample_keys :: "string list" where
  "sample_keys = [''vold'', ''cold'', ''pold'', ''lold'', ''q1'', ''vother'', ''zother'']"

lemma sample_in_place_run:
  "initAppForTestnet sdk_names (guarded sdk_names keys_keepers) keys_in_place 7 sample_val_args sample_keys
   = Some (Ok (), [''lnew'', ''pnew'', ''cnew'', ''vnew'', ''cold'', ''zother''])"
  unfolding guarded_in_place [OF sdk_names_law]
  by (simp add: initAppForTestnet_def remove_validators_def install_validator_def install_rewards_def fund_account_def
      handleErr_def wrapP_def bindP_def pureP_def readK_def callK_def ignoreP_def catchP_def delete_keys_def sample_val_args_def
      sample_keys_def keys_in_place_def keys_keepers_def new_validator_def Let_def)


text \<open>
  C31. Without accounts to fund the command cannot succeed: the empty flag is split into one empty address, which the codec of
  addresses refuses, so that the process ends with status 1 after the old validators are gone.
\<close>

theorem in_place_needs_accounts:
  assumes none: "cast_ToString (appOpts flagAccountsToFund) = []" and empty: "acc_StringToBytes T [] = Err e"
  shows "newTestnetApp newApp Q cast_ToString N K T height appOpts s \<noteq> Some (Ok (), s')"
proof
  assume "newTestnetApp newApp Q cast_ToString N K T height appOpts s = Some (Ok (), s')"
  then obtain args h s0 where a: "getCommandArgs Q cast_ToString appOpts = Ok args"
    and run: "initAppForTestnet N K T h args s0 = Some (Ok (), s')"
    by (auto simp: newTestnetApp_def outcome_simps)
  have "accountsToFund args = [[]]"
    using a none by (auto simp: getCommandArgs_def Let_def split: option_value.splits if_splits)
  with run empty show False
    by (auto elim!: initAppForTestnet_phases dest: fund_accounts_decode [where a = "[]"])
qed

definition sample_options :: "string \<Rightarrow> option_value" where
  "sample_options k =
     (if k = ''a'' then OptHexBytes ''k'' else if k = ''u'' then OptPubKey ''pk'' else if k = ''o'' then OptString ''new''
      else if k = ''t'' then OptString [] else if k = ''h'' then OptString ''/h'' else OptNil)"

definition sample_cast :: "option_value \<Rightarrow> string" where
  "sample_cast v = (case v of OptString x \<Rightarrow> x | _ \<Rightarrow> [])"

definition sample_option_keys :: OptionKeys where
  "sample_option_keys = \<lparr>KeyNewValAddr = ''a'', KeyUserPubKey = ''u'', KeyNewOpAddr = ''o'', KeyTriggerTestnetUpgrade = ''t'',
     FlagHome = ''h''\<rparr>"

theorem in_place_needs_accounts_witness:
  "(\<exists>args. getCommandArgs sample_option_keys sample_cast sample_options = Ok args) \<and>
   (\<forall>s'. newTestnetApp (pureP (Ok ())) sample_option_keys sample_cast sdk_names keys_keepers keys_in_place (\<lambda>_. 7) sample_options
     sample_keys \<noteq> Some (Ok (), s'))"
proof -
  have "sample_cast (sample_options flagAccountsToFund) = []"
    "acc_StringToBytes keys_in_place [] = Err (New ''empty address string is not allowed'')"
    by (simp_all add: sample_cast_def sample_options_def flagAccountsToFund_def keys_in_place_def)
  note r = in_place_needs_accounts [where cast_ToString = sample_cast and appOpts = sample_options, OF this]
  have "\<exists>args. getCommandArgs sample_option_keys sample_cast sample_options = Ok args"
    by (simp add: getCommandArgs_def sample_option_keys_def sample_options_def sample_cast_def)
  with r show ?thesis by blast
qed

end
