(* ===== verification/Node_Commands.thy ===== *)
theory Node_Commands
  imports Start_Up Export In_Place_Testnet
begin

text \<open>
  The commands that make an application of their own (\<open>cmd/nexusd/cmd/commands.go\<close>): starting it, and exporting the state of
  the latest or of an earlier height. \<open>state_at\<close> and \<open>latest\<close> are the stores that the database holds.
\<close>

section \<open>Operations\<close>

definition newApp :: "answers \<Rightarrow> ModuleNames \<Rightarrow> IbcNames \<Rightarrow> ('s, 'e, 'd) NodeEnv \<Rightarrow> (Registry, ('s, 'e) App) proc" where
  "newApp A N I H = NewApp A N I True H"

text \<open>An operation on a store that was loaded; the store is not kept.\<close>

definition on_store :: "'s \<Rightarrow> ('s, 'a) proc \<Rightarrow> (Registry, 'a) proc" where
  "on_store s m = (\<lambda>r. map_option (\<lambda>(res, _). (res, r)) (m s))"

definition load_store ::
    "answers \<Rightarrow> ModuleNames \<Rightarrow> IbcNames \<Rightarrow> ('s, 'e, 'd) NodeEnv \<Rightarrow> (i64 \<Rightarrow> 't) \<Rightarrow> 't \<Rightarrow> i64 \<Rightarrow> (Registry, 't) proc" where
  "load_store A N I H state_at latest height =
     (if height \<noteq> - 1
      then bindP (NewApp A N I False H) (\<lambda>_.
           bindP (ask A (LoadHeight height) (\<lambda>r. r\<lparr>sealed := True\<rparr>)) (\<lambda>_.
           pureP (Ok (state_at height))))
      else bindP (NewApp A N I True H) (\<lambda>_. pureP (Ok latest)))"

definition appExport ::
    "answers \<Rightarrow> ModuleNames \<Rightarrow> IbcNames \<Rightarrow> ('s, 'e, 'd) NodeEnv \<Rightarrow> ('t, 'c) ExportKeepers \<Rightarrow> ('t, 'g, 'v, 'p) ExportLib \<Rightarrow> ('t \<Rightarrow> i64)
     \<Rightarrow> (i64 \<Rightarrow> 't) \<Rightarrow> 't \<Rightarrow> option_value \<Rightarrow> bool \<Rightarrow> i64 \<Rightarrow> bool \<Rightarrow> string list \<Rightarrow> string list \<Rightarrow> (Registry, ('v, 'p) ExportedApp) proc" where
  "appExport A N I H K E LastBlockHeight state_at latest home is_viper height forZeroHeight jailAllowedAddrs modulesToExport =
     (case home of
        OptString homePath \<Rightarrow>
          if homePath = [] then pureP (Err (New ''application home not set''))
          else if \<not> is_viper then pureP (Err (New ''appOpts is not viper.Viper''))
          else bindP (load_store A N I H state_at latest height) (\<lambda>s.
               on_store s (ExportAppStateAndValidators K E (LastBlockHeight s) forZeroHeight jailAllowedAddrs modulesToExport))
      | _ \<Rightarrow> pureP (Err (New ''application home not set'')))"

text \<open>
  The root command (\<open>cmd/nexusd/cmd/root.go\<close>): the container gives out the modules for the command line and the basic modules, and those of
  IBC are added to both. Whatever fails on the way is a panic. \<open>ReadFromClientConfig\<close> returns a context
  also with an error, which is ignored here.
\<close>

record ('m, 'b) RootCommand =
  Use :: string
  autoCliOpts_Modules :: "string \<Rightarrow> 'm option"
  moduleBasicManager :: "string \<Rightarrow> 'b option"

definition ProvideClientContext ::
    "'c \<Rightarrow> ('c \<Rightarrow> 'c \<times> go_error option) \<Rightarrow> ('c \<Rightarrow> 'x outcome) \<Rightarrow> ('x \<Rightarrow> 'c \<Rightarrow> 'c) \<Rightarrow> 'c outcome" where
  "ProvideClientContext base ReadFromClientConfig NewTxConfigWithOptions WithTxConfig =
     (let clientCtx = fst (ReadFromClientConfig base)
      in bindO (mustO (NewTxConfigWithOptions clientCtx)) (\<lambda>txConfig. Ok (WithTxConfig txConfig clientCtx)))"

definition NewRootCmd ::
    "ModuleNames \<Rightarrow> IbcNames \<Rightarrow> ChainSpec outcome \<Rightarrow> (ChainSpec \<Rightarrow> ((string \<Rightarrow> 'm option) \<times> (string \<Rightarrow> 'b option)) outcome)
     \<Rightarrow> (string \<Rightarrow> 'm) \<Rightarrow> (string \<Rightarrow> 'm \<Rightarrow> 'b) \<Rightarrow> (('m, 'b) RootCommand \<Rightarrow> unit outcome) \<Rightarrow> ('m, 'b) RootCommand outcome" where
  "NewRootCmd N I loadedSpec inject ibc_module CoreAppModuleBasicAdaptor EnhanceRootCommand =
     bindO loadedSpec (\<lambda>spec.
     bindO (mustO (inject spec)) (\<lambda>(autoCli, basic).
     let cmd = \<lparr>Use = app_Name @ ''d'',
           autoCliOpts_Modules = (\<lambda>n. case RegisterIBC N I n of None \<Rightarrow> autoCli n | Some m \<Rightarrow> Some (ibc_module m)),
           moduleBasicManager = (\<lambda>n. case RegisterIBC N I n of
              None \<Rightarrow> basic n | Some m \<Rightarrow> Some (CoreAppModuleBasicAdaptor n (ibc_module m)))\<rparr>
     in bindO (mustO (EnhanceRootCommand cmd)) (\<lambda>_. Ok cmd)))"

section \<open>Lemmas\<close>

text \<open>The command line knows the modules of the container and every module of IBC that the node registers.\<close>

lemma dom_added: "dom (\<lambda>n. case r n of None \<Rightarrow> a n | Some m \<Rightarrow> Some (f n m)) = dom a \<union> dom r"
  by (auto split: option.splits)

lemma NewRootCmd_modules:
  assumes "NewRootCmd N I spec inject mk ad enh = Ok cmd"
  obtains s a b where "spec = Ok s" "inject s = Ok (a, b)" "Use cmd = ''nexusd''"
    "dom (autoCliOpts_Modules cmd) = dom a \<union> set (ibc_modules N I)" "dom (moduleBasicManager cmd) = dom b \<union> set (ibc_modules N I)"
proof -
  from assms obtain s a b where s: "spec = Ok s" "inject s = Ok (a, b)"
    and cmd: "cmd = \<lparr>Use = app_Name @ ''d'',
       autoCliOpts_Modules = (\<lambda>n. case RegisterIBC N I n of None \<Rightarrow> a n | Some m \<Rightarrow> Some (mk m)),
       moduleBasicManager = (\<lambda>n. case RegisterIBC N I n of None \<Rightarrow> b n | Some m \<Rightarrow> Some (ad n (mk m)))\<rparr>"
    by (auto simp: NewRootCmd_def Let_def outcome_simps)
  have dom: "dom (RegisterIBC N I) = set (ibc_modules N I)" by (auto simp: RegisterIBC_def ibc_modules_def)
  have "dom (autoCliOpts_Modules cmd) = dom a \<union> set (ibc_modules N I)" "dom (moduleBasicManager cmd) = dom b \<union> set (ibc_modules N I)"
    unfolding cmd by (simp_all only: RootCommand.simps dom_added dom)
  with s show ?thesis by (intro that [of s a b]) (simp_all add: cmd app_Name_def)
qed

lemma load_store_granted:
  assumes law: "answers_law A" and names: "ibc_names_law N I r" and open': "\<not> sealed r"
    and spec: "LoadChainSpec (ReadConfigFile (getenv H) (files H)) (forks_yaml H) = Ok spec"
    and k: "Inject H (ProvideModule (ext H) (getenv H) (files H) (evm_inputs H) spec) = Ok k"
    and ante: "newAnteHandler (fee_lib H) (fee_store H) (fee_tx H) (sdk_ante H) = Ok ante"
    and hooks: "LoadHooks (hook_env H) (hooks_yaml H) (getenv H) (files H) = Ok hooks"
    and plan: "ReadUpgradeInfoFromDisk (upgrade_info H) = Ok plan"
  shows "load_store A N I H state_at latest height r
    = Some (Ok (if height = - 1 then latest else state_at height), started N I True (upgrade_info H) plan r)"
proof (cases "height = - 1")
  case True
  then show ?thesis
    using NewApp_granted [OF law names open' spec k ante hooks plan, of True] by (simp add: load_store_def bindP_then pureP_def)
next
  case False
  let ?r = "started N I False (upgrade_info H) plan r"
  have "ask A (LoadHeight height) (\<lambda>r. r\<lparr>sealed := True\<rparr>) ?r = Some (Ok (), started N I True (upgrade_info H) plan r)"
    by (simp add: ask_granted [OF law] started_fields) (simp add: started_def)
  with False show ?thesis
    using NewApp_granted [OF law names open' spec k ante hooks plan, of False] by (simp add: load_store_def bindP_then pureP_def)
qed

section \<open>Properties\<close>



end
