(* ===== verification/Core_Service.thy ===== *)
theory Core_Service
  imports Jwt Calls
begin

text \<open>
  The two gRPC connections between the node and Core (\<open>lib/core_client.go\<close>, \<open>lib/cosmos_grpc_server.go\<close>, and the
  hook \<open>PostSetup\<close> of \<open>cmd/nexusd/cmd/commands.go\<close> that sets them up). The operating system and the gRPC library are arguments
  (\<open>Grpc\<close>); what they keep open is the record \<open>Net\<close>. The life of the server, the client and the
  goroutine that cleans up after them is the relation \<open>service_step\<close>.
\<close>

section \<open>Types\<close>

record CoreHeader =
  hdr_Height :: u64

record CoreBlock =
  blk_Header :: "CoreHeader option"

record NewPayloadRequest =
  npr_Block :: "CoreBlock option"

record 'f ForkchoiceUpdatedRequest =
  fur_State :: "'f option"

record HealthCheckRequest =
  hreq_SenderId :: string
  hreq_Timestamp :: i64

record HealthCheckResponse =
  hres_SenderId :: string
  hres_BlockHeight :: i64
  hres_Timestamp :: i64

record CosmosServer =
  srv_version :: string
  getHeight :: i64
  srv_addr :: string
  srv_secret :: "JwtSecret option"

record CoreClient =
  cc_addr :: string
  cc_secret :: JwtSecret

record Net =
  listening :: "string list"
  connections :: "string list"
  app_CoreClient :: "CoreClient option"
  cleanups :: "(CosmosServer \<times> CoreClient) list"

record Grpc =
  net_Listen :: "string \<Rightarrow> Net \<Rightarrow> unit outcome"
  grpc_NewClient :: "string \<Rightarrow> unit outcome"

type_synonym md = "(string \<times> string) list"

section \<open>The client of Core\<close>

definition CoreDefaultAddr :: string where "CoreDefaultAddr = ''localhost:50051''"
definition CoreAddrEnvVar :: string where "CoreAddrEnvVar = ''CORE_GRPC_ADDR''"
definition CoreGrpcServerEnabledEnvVar :: string where "CoreGrpcServerEnabledEnvVar = ''GRPC_SERVER_ENABLED''"

definition GetCoreAddr :: "(string \<Rightarrow> string) \<Rightarrow> string" where
  "GetCoreAddr getenv = (let addr = getenv CoreAddrEnvVar in if addr \<noteq> [] then addr else CoreDefaultAddr)"

definition newCoreClientInternal :: "Grpc \<Rightarrow> string \<Rightarrow> JwtSecret \<Rightarrow> (Net, CoreClient) proc" where
  "newCoreClientInternal G addr jwtSecret =
     (let addr = (if addr = [] then CoreDefaultAddr else addr)
      in bindP (wrapP ''dial grpc: '' (callK (\<lambda>w. case grpc_NewClient G addr of
             Ok _ \<Rightarrow> (Ok (), w\<lparr>connections := addr # connections w\<rparr>) | e \<Rightarrow> (e, w)))) (\<lambda>_.
         pureP (Ok \<lparr>cc_addr = addr, cc_secret = jwtSecret\<rparr>)))"

definition NewCoreClient ::
    "Grpc \<Rightarrow> (string \<Rightarrow> string) \<Rightarrow> (string \<Rightarrow> file_state) \<Rightarrow> string \<Rightarrow> (Net, CoreClient) proc" where
  "NewCoreClient G getenv files addr =
     bindP (pureP (wrapO ''JWT authentication required: '' [] (LoadJWTSecretFromEnv getenv files))) (\<lambda>jwtSecret.
     newCoreClientInternal G addr jwtSecret)"

text \<open>The calls: \<open>rpc addr req md\<close> is what the service at an address answers to a request with some metadata.\<close>

definition client_NewPayload ::
    "JwtLib \<Rightarrow> i64 \<Rightarrow> (string \<Rightarrow> NewPayloadRequest \<Rightarrow> md \<Rightarrow> 'r outcome) \<Rightarrow> CoreClient \<Rightarrow> md \<Rightarrow> NewPayloadRequest option \<Rightarrow> 'r outcome" where
  "client_NewPayload J unixNow rpc c md req =
     (case req of
        None \<Rightarrow> Err (New ''new payload: block and header are required'')
      | Some r \<Rightarrow>
          (case npr_Block r of
             None \<Rightarrow> Err (New ''new payload: block and header are required'')
           | Some b \<Rightarrow>
               if blk_Header b = None then Err (New ''new payload: block and header are required'')
               else wrapO ''new payload: '' [] (JWTUnaryClientInterceptor J (cc_secret c) unixNow (rpc (cc_addr c) r) md)))"

definition client_ForkchoiceUpdated ::
    "JwtLib \<Rightarrow> i64 \<Rightarrow> (string \<Rightarrow> 'f ForkchoiceUpdatedRequest \<Rightarrow> md \<Rightarrow> 'r outcome) \<Rightarrow> CoreClient \<Rightarrow> md
     \<Rightarrow> 'f ForkchoiceUpdatedRequest option \<Rightarrow> 'r outcome" where
  "client_ForkchoiceUpdated J unixNow rpc c md req =
     (case req of
        None \<Rightarrow> Err (New ''forkchoice updated: forkchoice state is required'')
      | Some r \<Rightarrow>
          if fur_State r = None then Err (New ''forkchoice updated: forkchoice state is required'')
          else wrapO ''forkchoice updated: '' [] (JWTUnaryClientInterceptor J (cc_secret c) unixNow (rpc (cc_addr c) r) md))"

definition client_Close :: "CoreClient \<Rightarrow> Net \<Rightarrow> Net" where
  "client_Close c w = w\<lparr>connections := remove1 (cc_addr c) (connections w)\<rparr>"

section \<open>The server for Core\<close>

definition GRPCDefaultAddr :: string where "GRPCDefaultAddr = ''0.0.0.0:50052''"
definition CosmosGrpcAddrEnvVar :: string where "CosmosGrpcAddrEnvVar = ''COSMOS_GRPC_ADDR''"

definition NewCosmosServer :: "string \<Rightarrow> i64 \<Rightarrow> CosmosServer" where
  "NewCosmosServer version height = \<lparr>srv_version = version, getHeight = height, srv_addr = [], srv_secret = None\<rparr>"

definition HealthCheck :: "CosmosServer \<Rightarrow> i64 \<Rightarrow> HealthCheckRequest \<Rightarrow> HealthCheckResponse outcome" where
  "HealthCheck s nowMilli req =
     Ok \<lparr>hres_SenderId = hreq_SenderId req, hres_BlockHeight = getHeight s, hres_Timestamp = nowMilli\<rparr>"

definition StartGRPCServerInternal :: "Grpc \<Rightarrow> string \<Rightarrow> CosmosServer \<Rightarrow> JwtSecret \<Rightarrow> (Net, CosmosServer) proc" where
  "StartGRPCServerInternal G addr impl jwtSecret =
     (let addr = (if addr = [] then GRPCDefaultAddr else addr)
      in bindP (wrapP (''failed to listen on '' @ addr @ '': '') (callK (\<lambda>w. case net_Listen G addr w of
             Ok _ \<Rightarrow> (Ok (), w\<lparr>listening := addr # listening w\<rparr>) | e \<Rightarrow> (e, w)))) (\<lambda>_.
         pureP (Ok (impl\<lparr>srv_addr := addr, srv_secret := Some jwtSecret\<rparr>))))"

definition StartGRPCServer ::
    "Grpc \<Rightarrow> (string \<Rightarrow> string) \<Rightarrow> (string \<Rightarrow> file_state) \<Rightarrow> string \<Rightarrow> CosmosServer \<Rightarrow> (Net, CosmosServer) proc" where
  "StartGRPCServer G getenv files addr impl =
     bindP (pureP (wrapO ''JWT authentication required: '' [] (LoadJWTSecretFromEnv getenv files))) (\<lambda>jwtSecret.
     StartGRPCServerInternal G addr impl jwtSecret)"

text \<open>
  A call that reaches the server: \<open>intercept\<close> is \<open>auth.UnaryServerInterceptor\<close>, given the authentication of the
  secret. A server that was never started has no interceptor and serves nothing.
\<close>

definition serve_HealthCheck ::
    "((md \<Rightarrow> md outcome) \<Rightarrow> (md \<Rightarrow> HealthCheckResponse outcome) \<Rightarrow> md \<Rightarrow> HealthCheckResponse outcome) \<Rightarrow> JwtLib \<Rightarrow> (md \<Rightarrow> string outcome)
     \<Rightarrow> CosmosServer \<Rightarrow> i64 \<Rightarrow> HealthCheckRequest \<Rightarrow> md \<Rightarrow> HealthCheckResponse outcome" where
  "serve_HealthCheck intercept J AuthFromMD s nowMilli req md =
     (case srv_secret s of
        None \<Rightarrow> Err (New ''connection refused'')
      | Some secr \<Rightarrow> intercept (AuthFunc J secr AuthFromMD) (\<lambda>_. HealthCheck s nowMilli req) md)"

definition GracefulStop :: "CosmosServer \<Rightarrow> Net \<Rightarrow> Net" where
  "GracefulStop s w = w\<lparr>listening := remove1 (srv_addr s) (listening w)\<rparr>"

text \<open>\<open>Stop\<close> of a server that was never started does nothing.\<close>

definition server_Stop :: "CosmosServer \<Rightarrow> Net \<Rightarrow> Net" where
  "server_Stop s w = (if srv_secret s \<noteq> None then GracefulStop s w else w)"

section \<open>The hook of the start command\<close>

definition PostSetup :: "Grpc \<Rightarrow> (string \<Rightarrow> string) \<Rightarrow> (string \<Rightarrow> file_state) \<Rightarrow> bool \<Rightarrow> (Net, unit) proc" where
  "PostSetup G getenv files has_app =
     (if getenv CoreGrpcServerEnabledEnvVar \<noteq> ''true'' then pureP (Ok ())
      else
        let cosmosAddr = (if getenv CosmosGrpcAddrEnvVar = [] then GRPCDefaultAddr else getenv CosmosGrpcAddrEnvVar);
            impl = NewCosmosServer [] 0
        in bindP (wrapP ''failed to start grpc server: '' (StartGRPCServer G getenv files cosmosAddr impl)) (\<lambda>grpcServer.
           bindP (wrapP ''failed to create core client: '' (NewCoreClient G getenv files (GetCoreAddr getenv))) (\<lambda>coreClient.
           callK (\<lambda>w. (Ok (), w\<lparr>app_CoreClient := (if has_app then Some coreClient else app_CoreClient w),
                               cleanups := (grpcServer, coreClient) # cleanups w\<rparr>)))))"

text \<open>
  The goroutines: the server serves until it fails or is stopped and then closes the channel of its error; the
  clean-up waits for the end of the context or for the channel.
\<close>

datatype serve_state = Serving | Failed go_error | Ended

record Service =
  svc_net :: Net
  svc_serve :: serve_state
  errCh :: "go_error list"
  errCh_closed :: bool
  ctx_Done :: bool
  cleanup_result :: "go_error option option"

definition service_start :: "Net \<Rightarrow> Service" where
  "service_start w = \<lparr>svc_net = w, svc_serve = Serving, errCh = [], errCh_closed = False, ctx_Done = False, cleanup_result = None\<rparr>"

text \<open>\<open>Serve\<close> closes its listener when it returns.\<close>

inductive service_step :: "CosmosServer \<Rightarrow> CoreClient \<Rightarrow> Service \<Rightarrow> Service \<Rightarrow> bool" for s c where
  cancel: "service_step s c v (v\<lparr>ctx_Done := True\<rparr>)"
| serve_fails: "svc_serve v = Serving \<Longrightarrow>
    service_step s c v (v\<lparr>svc_serve := Failed e, errCh := errCh v @ [e], errCh_closed := True, svc_net := GracefulStop s (svc_net v)\<rparr>)"
| cleanup_done: "cleanup_result v = None \<Longrightarrow> ctx_Done v \<Longrightarrow>
    service_step s c v (v\<lparr>svc_net := client_Close c (if svc_serve v = Serving then GracefulStop s (svc_net v) else svc_net v),
      svc_serve := (if svc_serve v = Serving then Ended else svc_serve v), errCh_closed := True, cleanup_result := Some None\<rparr>)"
| cleanup_error: "cleanup_result v = None \<Longrightarrow> errCh v = e # es \<Longrightarrow>
    service_step s c v (v\<lparr>errCh := es, cleanup_result := Some (Some e)\<rparr>)"
| cleanup_closed: "cleanup_result v = None \<Longrightarrow> errCh v = [] \<Longrightarrow> errCh_closed v \<Longrightarrow>
    service_step s c v (v\<lparr>cleanup_result := Some None\<rparr>)"

inductive_cases service_stepE: "service_step s c v v'"

section \<open>Lemmas\<close>

lemma PostSetup_disabled: "getenv CoreGrpcServerEnabledEnvVar \<noteq> ''true'' \<Longrightarrow> PostSetup G getenv files b w = Some (Ok (), w)"
  by (simp add: PostSetup_def pureP_def)

lemma StartGRPCServer_Ok:
  assumes "StartGRPCServer G getenv files addr impl w = Some (Ok s, w')"
  shows "\<exists>secr. LoadJWTSecretFromEnv getenv files = Ok secr \<and> srv_secret s = Some secr \<and> getHeight s = getHeight impl
    \<and> w' = w\<lparr>listening := srv_addr s # listening w\<rparr>"
proof -
  from assms obtain secr where "LoadJWTSecretFromEnv getenv files = Ok secr"
    and "StartGRPCServerInternal G addr impl secr w = Some (Ok s, w')"
    by (auto simp: StartGRPCServer_def outcome_simps)
  then show ?thesis
    by (auto simp: StartGRPCServerInternal_def Let_def outcome_simps split: outcome.splits)
qed

lemma NewCoreClient_Ok:
  assumes "NewCoreClient G getenv files addr w = Some (Ok c, w')"
  shows "LoadJWTSecretFromEnv getenv files = Ok (cc_secret c) \<and> w' = w\<lparr>connections := cc_addr c # connections w\<rparr>"
proof -
  from assms obtain secr where "LoadJWTSecretFromEnv getenv files = Ok secr"
    and "newCoreClientInternal G addr secr w = Some (Ok c, w')"
    by (auto simp: NewCoreClient_def outcome_simps)
  then show ?thesis
    by (auto simp: newCoreClientInternal_def Let_def outcome_simps split: outcome.splits)
qed

lemma PostSetup_Ok:
  assumes on: "getenv CoreGrpcServerEnabledEnvVar = ''true''" and run: "PostSetup G getenv files b w = Some (Ok (), w')"
  obtains s c secr where "LoadJWTSecretFromEnv getenv files = Ok secr"
    and "cleanups w' = (s, c) # cleanups w" "srv_secret s = Some secr" "cc_secret c = secr" "getHeight s = 0"
    and "listening w' = srv_addr s # listening w" "connections w' = cc_addr c # connections w"
    and "b \<longrightarrow> app_CoreClient w' = Some c"
proof -
  from run on obtain addr s c w1 w2 where s: "StartGRPCServer G getenv files addr (NewCosmosServer [] 0) w = Some (Ok s, w1)"
    and c: "NewCoreClient G getenv files (GetCoreAddr getenv) w1 = Some (Ok c, w2)"
    and w': "w' = w2\<lparr>app_CoreClient := (if b then Some c else app_CoreClient w2), cleanups := (s, c) # cleanups w2\<rparr>"
    unfolding PostSetup_def Let_def by (fastforce simp: outcome_simps)
  from StartGRPCServer_Ok [OF s] NewCoreClient_Ok [OF c] show ?thesis
    by (intro that [of "cc_secret c" s c]) (auto simp: w' NewCosmosServer_def)
qed

lemma AuthFunc_Ok: "AuthFunc J s A md = Ok md' \<longleftrightarrow> md' = md \<and> (\<exists>t. A md = Ok t \<and> ValidateToken J s t = Ok ())"
proof (cases "A md")
  case (Ok t)
  then show ?thesis by (cases "ValidateToken J s t") (auto simp: AuthFunc_def)
qed (simp_all add: AuthFunc_def)

text \<open>What holds throughout the life of the service: \<open>L\<close> and \<open>C\<close> are what the node keeps open otherwise.\<close>

definition service_inv :: "CosmosServer \<Rightarrow> CoreClient \<Rightarrow> string list \<Rightarrow> string list \<Rightarrow> Service \<Rightarrow> bool" where
  "service_inv s c L C v \<longleftrightarrow>
     (case cleanup_result v of
        None \<Rightarrow> connections (svc_net v) = cc_addr c # C \<and>
          (svc_serve v = Serving \<and> errCh v = [] \<and> \<not> errCh_closed v \<and> listening (svc_net v) = srv_addr s # L
           \<or> (\<exists>e. svc_serve v = Failed e \<and> errCh v = [e]) \<and> errCh_closed v \<and> listening (svc_net v) = L)
      | Some None \<Rightarrow> svc_serve v \<noteq> Serving \<and> listening (svc_net v) = L \<and> connections (svc_net v) = C
      | Some (Some e) \<Rightarrow> svc_serve v = Failed e \<and> listening (svc_net v) = L)"

lemma service_step_inv:
  assumes "service_step s c v v'" and "service_inv s c L C v"
  shows "service_inv s c L C v'"
  using assms
  by cases (auto simp: service_inv_def GracefulStop_def client_Close_def split: option.splits)

lemma service_reachable_inv:
  assumes "(service_step s c)\<^sup>*\<^sup>* v v'" and "service_inv s c L C v"
  shows "service_inv s c L C v'"
  using assms by (induction rule: rtranclp_induct) (auto intro: service_step_inv)

section \<open>Properties\<close>



section \<open>Witnesses\<close>

definition core_key :: bytes where "core_key = replicate 32 (CHR ''k'')"

definition core_env :: "string \<Rightarrow> string" where
  "core_env v = (if v = CoreGrpcServerEnabledEnvVar then ''true'' else if v = ''GRPC_JWT_SECRET_PATH'' then ''jwt.hex'' else [])"

definition core_files :: "string \<Rightarrow> file_state" where "core_files p = Contents (hex_encode core_key)"

definition core_grpc :: Grpc where
  "core_grpc = \<lparr>net_Listen = (\<lambda>a w. if a \<in> set (listening w) then Err (New ''address already in use'') else Ok ()),
     grpc_NewClient = (\<lambda>_. Ok ())\<rparr>"

definition quiet_net :: Net where
  "quiet_net = \<lparr>listening = [''0.0.0.0:26657''], connections = [], app_CoreClient = None, cleanups = []\<rparr>"

definition core_server :: CosmosServer where
  "core_server = \<lparr>srv_version = [], getHeight = 0, srv_addr = GRPCDefaultAddr, srv_secret = Some \<lparr>secret = core_key\<rparr>\<rparr>"

definition core_client :: CoreClient where
  "core_client = \<lparr>cc_addr = CoreDefaultAddr, cc_secret = \<lparr>secret = core_key\<rparr>\<rparr>"

definition core_net :: Net where
  "core_net = \<lparr>listening = [GRPCDefaultAddr, ''0.0.0.0:26657''], connections = [CoreDefaultAddr], app_CoreClient = Some core_client,
     cleanups = [(core_server, core_client)]\<rparr>"

lemma core_secret: "LoadJWTSecretFromEnv core_env core_files = Ok \<lparr>secret = core_key\<rparr>"
proof -
  have "TrimSpace (hex_encode core_key) = hex_encode core_key"
    using TrimSpace_padded [of "hex_encode core_key" "[]" "[]"] hex_encode_no_space by simp
  moreover have "length (hex_encode core_key) = 64" by (simp add: core_key_def)
  ultimately show ?thesis
    by (simp add: LoadJWTSecretFromEnv_def LoadJWTSecret_def core_env_def core_files_def TrimPrefix_def hex_encode_not_prefixed
        NewJwtSecret_def CoreGrpcServerEnabledEnvVar_def)
qed

lemma core_setup: "PostSetup core_grpc core_env core_files True quiet_net = Some (Ok (), core_net)"
proof -
  have env: "core_env CoreGrpcServerEnabledEnvVar = ''true''" "core_env CosmosGrpcAddrEnvVar = []" "core_env CoreAddrEnvVar = []"
    by (simp_all add: core_env_def CoreGrpcServerEnabledEnvVar_def CosmosGrpcAddrEnvVar_def CoreAddrEnvVar_def)
  show ?thesis
    by (simp add: PostSetup_def env GetCoreAddr_def StartGRPCServer_def NewCoreClient_def core_secret StartGRPCServerInternal_def
        newCoreClientInternal_def bindP_def wrapP_def callK_def pureP_def core_grpc_def quiet_net_def NewCosmosServer_def)
      (simp add: core_net_def core_server_def core_client_def GRPCDefaultAddr_def CoreDefaultAddr_def)
qed



end
