(* ===== verification/Start_Command.thy ===== *)
theory Start_Command
  imports Node_Commands Core_Service
begin

text \<open>
  The tree of commands (\<open>initRootCmd\<close>, \<open>queryCommand\<close> and \<open>txCommand\<close> of \<open>cmd/nexusd/cmd/commands.go\<close>), the default configuration
  files (\<open>cmd/nexusd/cmd/config.go\<close>), and the start command: the application that it makes is remembered, and
  \<open>PostSetup\<close> gives that application its client of Core. A command of a library is known by the function that makes it.
\<close>

section \<open>Configuration\<close>

definition initCometBFTConfig :: "'c \<Rightarrow> 'c" where
  "initCometBFTConfig DefaultConfig = DefaultConfig"

text \<open>The custom configuration squashes the default one into itself.\<close>

definition initAppConfig :: "'c \<Rightarrow> string \<Rightarrow> string \<times> 'c" where
  "initAppConfig DefaultConfig DefaultConfigTemplate = (DefaultConfigTemplate, DefaultConfig)"

section \<open>Commands\<close>

datatype creator = NewApp_Creator | NewApp_With_Capture | App_Export

datatype command =
    LibraryCommand string "creator list"
  | Group (group_use: string) (group_aliases: "string list") (group_short: string) (group_commands: "command list")

definition queryCommand :: command where
  "queryCommand = Group ''query'' [''q''] ''Querying subcommands''
     (map (\<lambda>f. LibraryCommand f []) [''rpc.WaitTxCmd'', ''rpc.ValidatorCommand'', ''server.QueryBlockCmd'', ''authcmd.QueryTxsByEventsCmd'',
        ''server.QueryBlocksCmd'', ''authcmd.QueryTxCmd'', ''server.QueryBlockResultsCmd''])"

definition txCommand :: command where
  "txCommand = Group ''tx'' [] ''Transactions subcommands''
     (map (\<lambda>f. LibraryCommand f []) [''authcmd.GetSignCommand'', ''authcmd.GetSignBatchCommand'', ''authcmd.GetMultiSignCommand'',
        ''authcmd.GetMultiSignBatchCmd'', ''authcmd.GetValidateSignaturesCommand'', ''flags.LineBreak'', ''authcmd.GetBroadcastCommand'',
        ''authcmd.GetEncodeCommand'', ''authcmd.GetDecodeCommand'', ''authcmd.GetSimulateCmd''])"

definition initRootCmd :: "command list \<Rightarrow> command list" where
  "initRootCmd rootCmd =
     rootCmd
     @ [LibraryCommand ''genutilcli.InitCmd'' [], LibraryCommand ''NewInPlaceTestnetCmd'' [], LibraryCommand ''NewTestnetMultiNodeCmd'' [],
        LibraryCommand ''debug.Cmd'' [], LibraryCommand ''confixcmd.ConfigCommand'' [],
        LibraryCommand ''pruning.Cmd'' [NewApp_Creator], LibraryCommand ''snapshot.Cmd'' [NewApp_Creator]]
     @ [LibraryCommand ''server.AddCommandsWithStartCmdOptions'' [NewApp_With_Capture, App_Export]]
     @ [LibraryCommand ''server.StatusCommand'' [], LibraryCommand ''genutilcli.Commands'' [], queryCommand, txCommand,
        LibraryCommand ''keys.Commands'' []]"

section \<open>Starting\<close>

text \<open>The variable \<open>nexusApp\<close> of the closures is part of the state.\<close>

definition newAppWithCapture ::
    "answers \<Rightarrow> ModuleNames \<Rightarrow> IbcNames \<Rightarrow> ('s, 'e, 'd) NodeEnv \<Rightarrow> (Registry \<times> ('s, 'e) App option, ('s, 'e) App) proc" where
  "newAppWithCapture A N I H = (\<lambda>(r, nexusApp).
     map_option (\<lambda>(res, r'). (res, (r', case res of Ok app \<Rightarrow> Some app | _ \<Rightarrow> nexusApp))) (NewApp A N I True H r))"

text \<open>The start command of the SDK makes the application and then calls the hook.\<close>

definition start_node ::
    "answers \<Rightarrow> ModuleNames \<Rightarrow> IbcNames \<Rightarrow> ('s, 'e, 'd) NodeEnv \<Rightarrow> Grpc \<Rightarrow> ((Registry \<times> ('s, 'e) App option) \<times> Net, ('s, 'e) App) proc" where
  "start_node A N I H G = (\<lambda>(c, net).
     case newAppWithCapture A N I H c of
       None \<Rightarrow> None
     | Some (Err x, c') \<Rightarrow> Some (Err x, (c', net))
     | Some (Panic x, c') \<Rightarrow> Some (Panic x, (c', net))
     | Some (Ok app, c') \<Rightarrow>
         map_option (\<lambda>(res, net'). (bindO res (\<lambda>_. Ok app), (c', net')))
           (PostSetup G (getenv H) (files H) (snd c' \<noteq> None) net))"

section \<open>Lemmas\<close>

lemma PostSetup_client:
  assumes "PostSetup G env fs True net = Some (Ok (), net')" "env CoreGrpcServerEnabledEnvVar = ''true''"
  shows "\<exists>srv cl rest. app_CoreClient net' = Some cl \<and> cleanups net' = (srv, cl) # rest"
  using assms by (auto simp: PostSetup_def Let_def outcome_simps)

text \<open>
  The application that serves blocks is the one that the other commands would make, it is the one remembered, and when the service of Core is
  enabled it has the client that the clean-up will close.
\<close>

theorem started_app_has_client:
  assumes run: "start_node A N I H G ((r, None), net) = Some (Ok app, ((r', captured), net'))"
  shows "newApp A N I H r = Some (Ok app, r') \<and> captured = Some app
    \<and> (if getenv H CoreGrpcServerEnabledEnvVar = ''true''
       then \<exists>srv cl rest. app_CoreClient net' = Some cl \<and> cleanups net' = (srv, cl) # rest
       else net' = net)"
proof -
  from run obtain c' where cap: "newAppWithCapture A N I H (r, None) = Some (Ok app, c')"
    and post: "PostSetup G (getenv H) (files H) (snd c' \<noteq> None) net = Some (Ok (), net')" and c': "c' = (r', captured)"
    by (auto simp: start_node_def outcome_simps split: option.splits outcome.splits)
  from cap c' have n: "NewApp A N I True H r = Some (Ok app, r')" and cd: "captured = Some app"
    by (auto simp: newAppWithCapture_def)
  show ?thesis
  proof (cases "getenv H CoreGrpcServerEnabledEnvVar = ''true''")
    case True
    then show ?thesis using PostSetup_client [of G "getenv H" "files H" net net'] post n cd c' by (simp add: newApp_def)
  next
    case False
    then show ?thesis using PostSetup_disabled [of "getenv H" G "files H"] post n cd by (simp add: newApp_def)
  qed
qed

end
