(* ===== verification/Http_Routes.thy ===== *)
theory Http_Routes
  imports Readiness
begin

text \<open>
  The routes of the node's HTTP server (\<open>docs/docs.go\<close>, \<open>RegisterAPIRoutes\<close> of \<open>app/app.go\<close>, \<open>registerReadinessHandlers\<close> of
  \<open>app/rpc_readiness.go\<close>). The router of gorilla/mux takes the first route that matches; the routes of the SDK, its Swagger page and the
  templates of the standard library are arguments.
\<close>

section \<open>Routes\<close>

datatype route_handler =
    EmbeddedFile string
  | IndexPage string
  | ReadinessProbe
  | SdkHandler string

text \<open>A route without methods takes any.\<close>

record Route =
  route_path :: string
  route_methods :: "string list"
  route_handler :: route_handler

definition apiFile :: string where "apiFile = ''/static/openapi.json''"

definition RegisterOpenAPIService :: "string \<Rightarrow> Route list \<Rightarrow> Route list" where
  "RegisterOpenAPIService appName rtr =
     rtr @ [\<lparr>route_path = apiFile, route_methods = [], route_handler = EmbeddedFile (tl apiFile)\<rparr>,
            \<lparr>route_path = ''/'', route_methods = [], route_handler = IndexPage appName\<rparr>]"

text \<open>
  The page: the error of the parser is dropped, and executing the template that it then does not return is a panic. A template gets
  the title and the URL of the specification.
\<close>

definition docs_handler :: "(string \<Rightarrow> (string \<Rightarrow> string \<Rightarrow> bytes outcome) outcome) \<Rightarrow> string \<Rightarrow> bytes outcome" where
  "docs_handler ParseFS title =
     (case ParseFS ''template/index.tpl'' of
        Ok t \<Rightarrow> (case t title apiFile of Ok page \<Rightarrow> Ok page | Err _ \<Rightarrow> Ok [] | Panic e \<Rightarrow> Panic e)
      | Err _ \<Rightarrow> Panic (New ''runtime error: invalid memory address or nil pointer dereference'')
      | Panic e \<Rightarrow> Panic e)"

definition registerReadinessHandlers :: "Route list \<Rightarrow> Route list" where
  "registerReadinessHandlers rtr =
     rtr @ [\<lparr>route_path = ''/readyz'', route_methods = [''GET''], route_handler = ReadinessProbe\<rparr>]"

text \<open>The routes in the order of registration: those of the SDK's application, of Swagger, and of the program.\<close>

definition register_routes :: "(Route list \<Rightarrow> Route list) \<Rightarrow> (Route list \<Rightarrow> Route list outcome) \<Rightarrow> string \<Rightarrow> Route list \<Rightarrow> Route list outcome" where
  "register_routes sdk_routes RegisterSwaggerAPI appName rtr =
     bindO (mustO (RegisterSwaggerAPI (sdk_routes rtr))) (\<lambda>rtr.
     Ok (registerReadinessHandlers (RegisterOpenAPIService appName rtr)))"

definition serve :: "Route list \<Rightarrow> string \<Rightarrow> string \<Rightarrow> route_handler option" where
  "serve rtr method path =
     map_option route_handler (find (\<lambda>r. route_path r = path \<and> (route_methods r = [] \<or> method \<in> set (route_methods r))) rtr)"

section \<open>Lemmas\<close>

text \<open>
  Unless the SDK claims these paths, the probe answers to \<open>GET\<close> and to no other method, and the page at the root names a
  specification that a route serves.
\<close>

lemma serve_unclaimed: "path \<notin> route_path ` set rtr \<Longrightarrow> serve (rtr @ rts) method path = serve rts method path"
  by (induction rtr) (auto simp: serve_def)

theorem program_routes_served:
  assumes "RegisterSwaggerAPI (sdk_routes []) = Ok rtr"
    and "{''/readyz'', apiFile, ''/''} \<inter> route_path ` set rtr = {}"
  shows "\<exists>rts. register_routes sdk_routes RegisterSwaggerAPI appName [] = Ok rts
    \<and> serve rts ''GET'' ''/readyz'' = Some ReadinessProbe \<and> serve rts ''POST'' ''/readyz'' = None
    \<and> serve rts ''GET'' ''/'' = Some (IndexPage appName)
    \<and> serve rts ''GET'' apiFile = Some (EmbeddedFile ''static/openapi.json'')"
proof -
  let ?own = "[\<lparr>route_path = apiFile, route_methods = [], route_handler = EmbeddedFile (tl apiFile)\<rparr>,
    \<lparr>route_path = ''/'', route_methods = [], route_handler = IndexPage appName\<rparr>,
    \<lparr>route_path = ''/readyz'', route_methods = [''GET''], route_handler = ReadinessProbe\<rparr>]"
  have r: "register_routes sdk_routes RegisterSwaggerAPI appName [] = Ok (rtr @ ?own)"
    using assms(1) by (simp add: register_routes_def registerReadinessHandlers_def RegisterOpenAPIService_def)
  have "''/readyz'' \<notin> route_path ` set rtr" "apiFile \<notin> route_path ` set rtr" "''/'' \<notin> route_path ` set rtr"
    using assms(2) by auto
  note skip = this [THEN serve_unclaimed]
  have "serve ?own ''GET'' ''/readyz'' = Some ReadinessProbe" "serve ?own ''POST'' ''/readyz'' = None"
    "serve ?own ''GET'' ''/'' = Some (IndexPage appName)" "serve ?own ''GET'' apiFile = Some (EmbeddedFile ''static/openapi.json'')"
    by (simp_all add: serve_def apiFile_def)
  then show ?thesis unfolding r by (simp add: skip)
qed

end
