(* ===== verification/Reth_Forks.thy ===== *)
theory Reth_Forks
  imports Chain_Spec
begin

text \<open>
  The fork schedule of the execution client (\<open>reth/evm/src/nexus.rs\<close>, \<open>reth/evm/src/forks.rs\<close>): the
  activation times in its own configuration file, their validation, and how they override the chain
  specification it was started with. The chain specifications of reth, their builder and parsers are
  arguments. An \<open>eyre\<close> context is a wrapped error with the context's text first.
\<close>

section \<open>Types\<close>

record ForkTimings =
  prague_time :: "u64 option"
  osaka_time :: "u64 option"

record NexusConfig =
  fork_timings :: ForkTimings

text \<open>The hardforks that the configuration names.\<close>

datatype EthereumHardfork = Prague | Osaka

text \<open>
  A chain specification \<open>'c\<close> and its builder \<open>'b\<close>. \<open>with_fork\<close> is the builder's method at the
  condition \<open>ForkCondition::Timestamp\<close>; \<open>is_active\<close> tells whether a fork is active at a timestamp.
\<close>

record ('c, 'b) RethLib =
  builder_from :: "'c \<Rightarrow> 'b"
  without_fork :: "EthereumHardfork \<Rightarrow> 'b \<Rightarrow> 'b"
  with_fork :: "EthereumHardfork \<Rightarrow> u64 \<Rightarrow> 'b \<Rightarrow> 'b"
  build :: "'b \<Rightarrow> 'c"
  is_active :: "'c \<Rightarrow> EthereumHardfork \<Rightarrow> u64 \<Rightarrow> bool"

section \<open>Operations\<close>

definition ForkTimings_validate :: "ForkTimings \<Rightarrow> unit outcome" where
  "ForkTimings_validate ft =
     (case (prague_time ft, osaka_time ft) of
        (Some prague, Some osaka) \<Rightarrow>
          if osaka \<le> prague
          then Err (New (''osaka_time ('' @ show_u64 osaka @ '') must be greater than prague_time (''
                 @ show_u64 prague @ '') when both are set''))
          else Ok ()
      | _ \<Rightarrow> Ok ())"

definition apply_forks :: "('c, 'b) RethLib \<Rightarrow> NexusConfig \<Rightarrow> 'c \<Rightarrow> 'c outcome" where
  "apply_forks R cfg chain_spec =
     bindO (ForkTimings_validate (fork_timings cfg)) (\<lambda>_.
       let builder = builder_from R chain_spec;
           builder = (case prague_time (fork_timings cfg) of
               None \<Rightarrow> builder
             | Some t \<Rightarrow> with_fork R Prague t (without_fork R Prague builder));
           builder = (case osaka_time (fork_timings cfg) of
               None \<Rightarrow> builder
             | Some t \<Rightarrow> with_fork R Osaka t (without_fork R Osaka builder))
       in Ok (build R builder))"

definition parse_nexus_config ::
    "(string \<Rightarrow> bytes outcome) \<Rightarrow> (bytes \<Rightarrow> NexusConfig outcome) \<Rightarrow> string \<Rightarrow> NexusConfig outcome" where
  "parse_nexus_config file_open from_reader path =
     (let q = [CHR 0x27]
      in bindO (wrapO (''Opening config file '' @ q @ path @ q) [] (file_open path)) (\<lambda>reader.
         bindO (wrapO (''Parsing YAML config file '' @ q @ path @ q) [] (from_reader reader)) (\<lambda>config.
         bindO (ForkTimings_validate (fork_timings config)) (\<lambda>_. Ok config))))"

definition SUPPORTED_CHAINS :: "string list" where
  "SUPPORTED_CHAINS = [''localnet'', ''devnet'', ''testnet'', ''mainnet'']"

text \<open>\<open>embedded\<close> is the text of the specification that the binary includes for a network.\<close>

definition parse_chain ::
    "(string \<Rightarrow> string) \<Rightarrow> (string \<Rightarrow> 'g outcome) \<Rightarrow> (string \<Rightarrow> 'g outcome) \<Rightarrow> ('g \<Rightarrow> 'c) \<Rightarrow> string \<Rightarrow> 'c outcome" where
  "parse_chain embedded from_str parse_genesis from_genesis s =
     (let genesis_str =
            (if s = ''localnet'' then Some (embedded ''localnet/reth.json'')
             else if s = ''devnet'' then Some (embedded ''devnet/reth.json'')
             else if s = ''testnet'' then Some (embedded ''testnet/reth.json'')
             else if s = ''mainnet'' then Some (embedded ''mainnet/reth.json'')
             else None)
      in bindO (case genesis_str of Some e \<Rightarrow> from_str e | None \<Rightarrow> parse_genesis s) (\<lambda>g. Ok (from_genesis g)))"

section \<open>Laws\<close>

text \<open>
  The builder: building what a specification starts changes no fork, and setting a fork to a timestamp
  makes it active from there on and leaves the other one as it was.
\<close>

definition builder_law :: "('c, 'b) RethLib \<Rightarrow> bool" where
  "builder_law R \<longleftrightarrow>
     (\<forall>c f t. is_active R (build R (builder_from R c)) f t = is_active R c f t) \<and>
     (\<forall>b f g u t. is_active R (build R (with_fork R f u (without_fork R f b))) g t =
        (if g = f then u \<le> t else is_active R (build R b) g t))"

section \<open>Lemmas\<close>

lemma ForkTimings_validate_iff:
  "ForkTimings_validate ft = Ok () \<longleftrightarrow>
    (\<forall>prague osaka. prague_time ft = Some prague \<longrightarrow> osaka_time ft = Some osaka \<longrightarrow> prague < osaka)"
  by (auto simp: ForkTimings_validate_def not_le split: option.splits)

text \<open>The forks of the resulting specification: those that are set, and the others as they were.\<close>

lemma apply_forks_active:
  assumes "builder_law R" "apply_forks R cfg base = Ok spec"
  shows "is_active R spec Prague t = (case prague_time (fork_timings cfg) of
           None \<Rightarrow> is_active R base Prague t | Some u \<Rightarrow> u \<le> t)"
    and "is_active R spec Osaka t = (case osaka_time (fork_timings cfg) of
           None \<Rightarrow> is_active R base Osaka t | Some u \<Rightarrow> u \<le> t)"
  using assms by (auto simp: apply_forks_def builder_law_def outcome_simps Let_def split: option.splits)

section \<open>Properties\<close>

text \<open>
  C16. The two layers agree on the forks. Let the consensus layer load a schedule, and let the
  execution client be configured with the same Prague and Osaka times over a chain specification in
  which a fork that is not set is not active. Then the client's specification has Prague or Osaka active at
  a timestamp exactly when the consensus layer fetches payloads there with version 4 or 5, and
  submits them with version 4 at least. The client refuses the shared times exactly when Prague and Osaka
  start together, which the consensus layer accepts.
\<close>

theorem fork_schedules_agree:
  assumes law: "builder_law R" and load: "LoadChainSpec config yaml = Ok c"
    and aligned: "prague_time (fork_timings cfg) = PragueTimestamp c" "osaka_time (fork_timings cfg) = OsakaTimestamp c"
    and unset: "\<And>t. PragueTimestamp c = None \<Longrightarrow> \<not> is_active R base Prague t"
      "\<And>t. OsakaTimestamp c = None \<Longrightarrow> \<not> is_active R base Osaka t"
  shows "(\<forall>spec t. apply_forks R cfg base = Ok spec \<longrightarrow>
      GetPayloadEngineRPCVersion c t =
        (if is_active R spec Osaka t then 5 else if is_active R spec Prague t then 4 else 3) \<and>
      (NewPayloadEngineRPCVersion c t \<ge> 4 \<longleftrightarrow> is_active R spec Prague t)) \<and>
    ((\<exists>spec. apply_forks R cfg base = Ok spec) \<longleftrightarrow> OsakaTimestamp c = None \<or> PragueTimestamp c \<noteq> OsakaTimestamp c)"
proof (intro conjI allI impI)
  note ord = LoadChainSpec_ordered [OF load]
  fix spec t assume ok: "apply_forks R cfg base = Ok spec"
  have p: "is_active R spec Prague t \<longleftrightarrow> IsPragueActive c t"
    unfolding apply_forks_active(1) [OF law ok] aligned(1)
    using unset(1) [of t] by (simp add: IsPragueActive_def split: option.splits)
  have o: "is_active R spec Osaka t \<longleftrightarrow> IsOsakaActive c t"
    unfolding apply_forks_active(2) [OF law ok] aligned(2)
    using unset(2) [of t] by (simp add: IsOsakaActive_def split: option.splits)
  show "GetPayloadEngineRPCVersion c t =
      (if is_active R spec Osaka t then 5 else if is_active R spec Prague t then 4 else 3)"
    by (simp add: p o GetPayloadEngineRPCVersion_def)
  show "NewPayloadEngineRPCVersion c t \<ge> 4 \<longleftrightarrow> is_active R spec Prague t"
    using osaka_prague [OF ord, of t] amsterdam_osaka [OF ord, of t] by (auto simp: p NewPayloadEngineRPCVersion_def)
next
  have "(\<exists>spec. apply_forks R cfg base = Ok spec) \<longleftrightarrow> ForkTimings_validate (fork_timings cfg) = Ok ()"
    by (cases "ForkTimings_validate (fork_timings cfg)") (simp_all add: apply_forks_def Let_def)
  also have "\<dots> \<longleftrightarrow> OsakaTimestamp c = None \<or> PragueTimestamp c \<noteq> OsakaTimestamp c"
    unfolding ForkTimings_validate_iff aligned using LoadChainSpec_ordered [OF load]
    by (fastforce simp: forks_ordered_def order.order_iff_strict)
  finally show "(\<exists>spec. apply_forks R cfg base = Ok spec) \<longleftrightarrow> OsakaTimestamp c = None \<or> PragueTimestamp c \<noteq> OsakaTimestamp c" .
qed

text \<open>A specification as the activation time of each fork, and co-activated forks that only one layer accepts.\<close>

definition sample_reth :: "(EthereumHardfork \<Rightarrow> u64 option, EthereumHardfork \<Rightarrow> u64 option) RethLib" where
  "sample_reth = \<lparr>builder_from = (\<lambda>c. c), without_fork = (\<lambda>f b. b(f := None)), with_fork = (\<lambda>f u b. b(f := Some u)),
     build = (\<lambda>b. b), is_active = (\<lambda>c f t. case c f of None \<Rightarrow> False | Some u \<Rightarrow> u \<le> t)\<rparr>"

theorem fork_schedules_agree_witness:
  "(\<nexists>spec. apply_forks sample_reth \<lparr>fork_timings = \<lparr>prague_time = Some 10, osaka_time = Some 10\<rparr>\<rparr> (\<lambda>_. None) = Ok spec)
   \<and> (\<exists>config yaml. LoadChainSpec config yaml =
        Ok \<lparr>PragueTimestamp = Some 10, OsakaTimestamp = Some 10, AmsterdamTimestamp = None\<rparr>)"
proof -
  let ?c = "\<lparr>PragueTimestamp = Some 10, OsakaTimestamp = Some 10, AmsterdamTimestamp = None\<rparr>"
  let ?cfg = "\<lparr>fork_timings = \<lparr>prague_time = Some 10, osaka_time = Some 10\<rparr>\<rparr>"
  have law: "builder_law sample_reth" by (auto simp: builder_law_def sample_reth_def)
  have load: "LoadChainSpec (Ok ''forks'') (\<lambda>_. Ok \<lparr>prague_timestamp = Some 10, osaka_timestamp = Some 10,
      amsterdam_timestamp = None\<rparr>) = Ok ?c"
    by (simp add: LoadChainSpec_def ChainSpec_Validate_def)
  have "\<nexists>spec. apply_forks sample_reth ?cfg (\<lambda>_. None) = Ok spec"
    using fork_schedules_agree [OF law load, of ?cfg "\<lambda>_. None"] by simp
  with load show ?thesis by blast
qed

end
