(* ===== verification/Execution_Client.thy ===== *)
theory Execution_Client
  imports Reth_Forks
begin

text \<open>
  The execution client (\<open>reth/evm/src/main.rs\<close>, \<open>block.rs\<close>, \<open>config.rs\<close>, \<open>evm.rs\<close>): a block executor and its factory that wrap
  Ethereum's, the configuration that names them, and the start of the node with the forks of its own configuration file. Ethereum's executor,
  its environments and the node launcher are reth's: they are arguments. \<open>tracing\<close> is a log that nothing reads.
\<close>

section \<open>The interface of a block executor\<close>

text \<open>
  The methods of \<open>BlockExecutor\<close> over the state \<open>'x\<close> of an executor. \<open>x_evm_mut\<close> is what a caller does through the mutable
  reference; \<open>x_finish\<close> consumes the executor, so the state it returns is what is left to be seen, the log.
\<close>

record ('x, 't, 'h, 'v, 'k, 'e, 'r, 'o) Executor =
  x_apply_pre :: "'x \<Rightarrow> unit outcome \<times> 'x"
  x_execute :: "'t \<Rightarrow> ('h \<Rightarrow> bool) \<Rightarrow> 'x \<Rightarrow> u64 option outcome \<times> 'x"
  x_finish :: "'x \<Rightarrow> ('e \<times> 'o) outcome \<times> 'x"
  x_set_state_hook :: "'k option \<Rightarrow> 'x \<Rightarrow> 'x"
  x_evm_mut :: "('e \<Rightarrow> 'e) \<Rightarrow> 'x \<Rightarrow> 'x"
  x_evm :: "'x \<Rightarrow> 'e"
  x_receipts :: "'x \<Rightarrow> 'r list"
  x_without_commit :: "'t \<Rightarrow> 'x \<Rightarrow> 'v outcome \<times> 'x"
  x_commit :: "'v \<Rightarrow> 't \<Rightarrow> 'x \<Rightarrow> u64 outcome \<times> 'x"

text \<open>What the wrapper prints: the number and the time of the block that the EVM was made for, 256-bit values, and a transaction's hash.\<close>

record ('t, 'e) BlockView =
  block_number :: "'e \<Rightarrow> nat"
  block_timestamp :: "'e \<Rightarrow> nat"
  trie_hash :: "'t \<Rightarrow> bytes"

datatype block_log =
    Block_Starting u64 u64
  | Tx_Starting u64 bytes
  | Block_Finished u64 u64

definition saturating_to_u64 :: "nat \<Rightarrow> u64" where
  "saturating_to_u64 n = (if n < 2 ^ 64 then of_nat n else - 1)"

section \<open>The wrapping executor (block.rs)\<close>

definition nx_apply_pre_execution_changes where
  "nx_apply_pre_execution_changes V E = (\<lambda>(x, lg).
     let n = saturating_to_u64 (block_number V (x_evm E x)); t = saturating_to_u64 (block_timestamp V (x_evm E x));
         (r, x') = x_apply_pre E x
     in (r, (x', lg @ [Block_Starting n t])))"

definition nx_execute_transaction_with_commit_condition where
  "nx_execute_transaction_with_commit_condition V E tx f = (\<lambda>(x, lg).
     let n = saturating_to_u64 (block_number V (x_evm E x)); h = trie_hash V tx; (r, x') = x_execute E tx f x
     in (r, (x', lg @ [Tx_Starting n h])))"

definition nx_finish where
  "nx_finish V E = (\<lambda>(x, lg).
     case x_finish E x of
       (Ok (evm, out), x') \<Rightarrow>
         (Ok (evm, out), (x', lg @ [Block_Finished (saturating_to_u64 (block_number V evm)) (saturating_to_u64 (block_timestamp V evm))]))
     | (r, x') \<Rightarrow> (r, (x', lg)))"

definition nx_execute_transaction_without_commit where
  "nx_execute_transaction_without_commit E tx = (\<lambda>(x, lg). case x_without_commit E tx x of (r, x') \<Rightarrow> (r, (x', lg)))"

definition nx_commit_transaction where
  "nx_commit_transaction E res tx = (\<lambda>(x, lg). case x_commit E res tx x of (r, x') \<Rightarrow> (r, (x', lg)))"

definition NexusEthBlockExecutor ::
    "('t, 'e) BlockView \<Rightarrow> ('x, 't, 'h, 'v, 'k, 'e, 'r, 'o) Executor \<Rightarrow> ('x \<times> block_log list, 't, 'h, 'v, 'k, 'e, 'r, 'o) Executor" where
  "NexusEthBlockExecutor V E =
     \<lparr>x_apply_pre = nx_apply_pre_execution_changes V E, x_execute = nx_execute_transaction_with_commit_condition V E,
      x_finish = nx_finish V E, x_set_state_hook = (\<lambda>hook (x, lg). (x_set_state_hook E hook x, lg)),
      x_evm_mut = (\<lambda>f (x, lg). (x_evm_mut E f x, lg)), x_evm = (\<lambda>(x, lg). x_evm E x), x_receipts = (\<lambda>(x, lg). x_receipts E x),
      x_without_commit = nx_execute_transaction_without_commit E, x_commit = nx_commit_transaction E\<rparr>"

section \<open>Factories and configuration (block.rs, config.rs, evm.rs)\<close>

record ('c, 'f, 'b) EthBlockExecutorFactory =
  receipt_builder :: 'b
  f_spec :: 'c
  f_evm_factory :: 'f

datatype ('c, 'f, 'b) NexusEthBlockExecutorFactory =
  NexusEthBlockExecutorFactory (factory_inner: "('c, 'f, 'b) EthBlockExecutorFactory")

definition NexusFactory_new :: "'b \<Rightarrow> 'c \<Rightarrow> 'f \<Rightarrow> ('c, 'f, 'b) NexusEthBlockExecutorFactory" where
  "NexusFactory_new rb spec evm_factory =
     NexusEthBlockExecutorFactory \<lparr>receipt_builder = rb, f_spec = spec, f_evm_factory = evm_factory\<rparr>"

text \<open>\<open>eth_new\<close> is \<open>EthBlockExecutor::new\<close>.\<close>

definition create_executor ::
    "('e \<Rightarrow> 'ctx \<Rightarrow> 'c \<Rightarrow> 'b \<Rightarrow> 'x) \<Rightarrow> ('c, 'f, 'b) NexusEthBlockExecutorFactory \<Rightarrow> 'e \<Rightarrow> 'ctx \<Rightarrow> 'x" where
  "create_executor eth_new fac evm ctx =
     eth_new evm ctx (f_spec (factory_inner fac)) (receipt_builder (factory_inner fac))"

record 'c NexusEthEvmFactory =
  chain_spec :: 'c

text \<open>
  An EVM: mainnet's rules over a database, with the configuration and block of its environment, an inspector and whether
  it is called, and precompiles. \<open>eth_precompiles\<close> are Ethereum's for the default specification.
\<close>

record ('db, 'cfg, 'blk, 'i, 'p) EthEvm =
  evm_db :: 'db
  evm_cfg :: 'cfg
  evm_block :: 'blk
  inspector :: 'i
  precompiles :: 'p
  inspect :: bool

definition create_evm :: "'p \<Rightarrow> 'i \<Rightarrow> 'db \<Rightarrow> 'cfg \<times> 'blk \<Rightarrow> ('db, 'cfg, 'blk, 'i, 'p) EthEvm" where
  "create_evm eth_precompiles no_op db env =
     \<lparr>evm_db = db, evm_cfg = fst env, evm_block = snd env, inspector = no_op, precompiles = eth_precompiles, inspect = False\<rparr>"

definition create_evm_with_inspector :: "'p \<Rightarrow> 'j \<Rightarrow> 'db \<Rightarrow> 'cfg \<times> 'blk \<Rightarrow> 'i \<Rightarrow> ('db, 'cfg, 'blk, 'i, 'p) EthEvm" where
  "create_evm_with_inspector eth_precompiles no_op db input insp =
     (let inner = create_evm eth_precompiles no_op db input
      in \<lparr>evm_db = evm_db inner, evm_cfg = evm_cfg inner, evm_block = evm_block inner, inspector = insp,
          precompiles = precompiles inner, inspect = True\<rparr>)"

text \<open>The assembler of blocks is made from a chain specification alone.\<close>

record ('c, 'f, 'b) EthEvmConfig =
  eth_block_assembler :: 'c
  eth_executor_factory :: "('c, 'f, 'b) EthBlockExecutorFactory"

record ('c, 'f, 'b) NexusEthEvmConfig =
  executor_factory :: "('c, 'f, 'b) NexusEthBlockExecutorFactory"
  config_inner :: "('c, 'f, 'b) EthEvmConfig"

definition new_with_evm_factory :: "'b \<Rightarrow> 'c \<Rightarrow> 'f \<Rightarrow> ('c, 'f, 'b) NexusEthEvmConfig" where
  "new_with_evm_factory default_builder spec factory =
     \<lparr>executor_factory = NexusFactory_new default_builder spec factory,
      config_inner = \<lparr>eth_block_assembler = spec,
        eth_executor_factory = \<lparr>receipt_builder = default_builder, f_spec = spec, f_evm_factory = factory\<rparr>\<rparr>\<rparr>"

definition block_executor_factory :: "('c, 'f, 'b) NexusEthEvmConfig \<Rightarrow> ('c, 'f, 'b) NexusEthBlockExecutorFactory" where
  "block_executor_factory cfg = executor_factory cfg"

definition block_assembler :: "('c, 'f, 'b) NexusEthEvmConfig \<Rightarrow> 'c" where
  "block_assembler cfg = eth_block_assembler (config_inner cfg)"

text \<open>
  The environments, contexts and transactions of a block or payload (\<open>evm_env\<close>, \<open>next_evm_env\<close>, \<open>context_for_block\<close>, \<open>context_for_next_block\<close>,
  \<open>evm_env_for_payload\<close>, \<open>context_for_payload\<close>, \<open>tx_iterator_for_payload\<close>) all come from Ethereum's configuration; \<open>method\<close> is the one called.
\<close>

definition inner_method :: "(('c, 'f, 'b) EthEvmConfig \<Rightarrow> 'a) \<Rightarrow> ('c, 'f, 'b) NexusEthEvmConfig \<Rightarrow> 'a" where
  "inner_method method cfg = method (config_inner cfg)"

definition build_evm :: "'b \<Rightarrow> 'c \<Rightarrow> ('c, 'c NexusEthEvmFactory, 'b) NexusEthEvmConfig outcome" where
  "build_evm default_builder spec = Ok (new_with_evm_factory default_builder spec \<lparr>chain_spec = spec\<rparr>)"

section \<open>The process (main.rs)\<close>

text \<open>
  \<open>launch\<close> starts a node with a chain specification and a builder of its EVM, and \<open>wait\<close> waits for its exit.
\<close>

definition client_main ::
    "('c, 'g) RethLib \<Rightarrow> 'b \<Rightarrow> ('c \<Rightarrow> ('c \<Rightarrow> ('c, 'c NexusEthEvmFactory, 'b) NexusEthEvmConfig outcome) \<Rightarrow> 'n outcome) \<Rightarrow> ('n \<Rightarrow> unit outcome)
     \<Rightarrow> NexusConfig \<Rightarrow> 'c \<Rightarrow> unit outcome" where
  "client_main R default_builder launch wait cfg chain =
     bindO (apply_forks R cfg chain) (\<lambda>spec.
     bindO (launch spec (build_evm default_builder)) (\<lambda>handle. wait handle))"

section \<open>Calls of an executor\<close>

text \<open>What a caller may do with an executor before it finishes, and what it is told.\<close>

datatype ('t, 'h, 'v, 'k, 'e) call =
    Apply_Pre
  | Execute 't "'h \<Rightarrow> bool"
  | Set_Hook "'k option"
  | Evm_Mut "'e \<Rightarrow> 'e"
  | Evm
  | Receipts
  | Without_Commit 't
  | Commit 'v 't

datatype ('v, 'e, 'r) answer =
    Applied "unit outcome"
  | Executed "u64 option outcome"
  | Nothing
  | The_Evm 'e
  | The_Receipts "'r list"
  | Result "'v outcome"
  | Committed "u64 outcome"

fun perform ::
    "('x, 't, 'h, 'v, 'k, 'e, 'r, 'o) Executor \<Rightarrow> ('t, 'h, 'v, 'k, 'e) call \<Rightarrow> 'x \<Rightarrow> ('v, 'e, 'r) answer \<times> 'x" where
  "perform E Apply_Pre x = apfst Applied (x_apply_pre E x)"
| "perform E (Execute tx f) x = apfst Executed (x_execute E tx f x)"
| "perform E (Set_Hook h) x = (Nothing, x_set_state_hook E h x)"
| "perform E (Evm_Mut f) x = (Nothing, x_evm_mut E f x)"
| "perform E Evm x = (The_Evm (x_evm E x), x)"
| "perform E Receipts x = (The_Receipts (x_receipts E x), x)"
| "perform E (Without_Commit tx) x = apfst Result (x_without_commit E tx x)"
| "perform E (Commit res tx) x = apfst Committed (x_commit E res tx x)"

fun session ::
    "('x, 't, 'h, 'v, 'k, 'e, 'r, 'o) Executor \<Rightarrow> ('t, 'h, 'v, 'k, 'e) call list \<Rightarrow> 'x \<Rightarrow> ('v, 'e, 'r) answer list \<times> 'x" where
  "session E [] x = ([], x)"
| "session E (c # cs) x = (let (a, x1) = perform E c x; (as, x2) = session E cs x1 in (a # as, x2))"

fun is_logged :: "('t, 'h, 'v, 'k, 'e) call \<Rightarrow> bool" where
  "is_logged Apply_Pre = True"
| "is_logged (Execute tx f) = True"
| "is_logged c = False"

text \<open>
  The contract of a wrapper: through \<open>abs\<close> it behaves as what it wraps, and a size of its own grows only with some calls.
\<close>

locale transparent_wrapper =
  fixes E :: "('x, 't, 'h, 'v, 'k, 'e, 'r, 'o) Executor" and W :: "('y, 't, 'h, 'v, 'k, 'e, 'r, 'o) Executor"
    and abs :: "'y \<Rightarrow> 'x" and size' :: "'y \<Rightarrow> nat" and counted :: "('t, 'h, 'v, 'k, 'e) call \<Rightarrow> bool"
  assumes step: "perform E c (abs y) = apsnd abs (perform W c y)"
    and grow: "size' (snd (perform W c y)) = size' y + of_bool (counted c)"
    and finish: "fst (x_finish W y) = fst (x_finish E (abs y))"
begin

lemma session_abs: "session E cs (abs y) = apsnd abs (session W cs y)"
proof (induction cs arbitrary: y)
  case (Cons c cs)
  obtain a y1 where "perform W c y = (a, y1)" by force
  with step [of c y] Cons.IH [of y1] show ?case by (auto simp: Let_def split: prod.splits)
qed simp

lemma session_size: "size' (snd (session W cs y)) = size' y + length (filter counted cs)"
proof (induction cs arbitrary: y)
  case (Cons c cs)
  obtain a y1 where "perform W c y = (a, y1)" by force
  with grow [of c y] Cons.IH [of y1] show ?case by (auto simp: Let_def split: prod.splits)
qed simp

end

lemmas nexus_executor_defs = NexusEthBlockExecutor_def nx_apply_pre_execution_changes_def nx_execute_transaction_with_commit_condition_def
  nx_finish_def nx_execute_transaction_without_commit_def nx_commit_transaction_def

interpretation nexus_executor: transparent_wrapper E "NexusEthBlockExecutor V E" fst "\<lambda>y. length (snd y)" is_logged for E V
proof unfold_locales
  fix c y
  show "perform E c (fst y) = apsnd fst (perform (NexusEthBlockExecutor V E) c y)"
    by (cases y, cases c) (simp_all add: nexus_executor_defs Let_def split: prod.splits)
  show "length (snd (snd (perform (NexusEthBlockExecutor V E) c y))) = length (snd y) + of_bool (is_logged c)"
    by (cases y, cases c) (simp_all add: nexus_executor_defs Let_def split: prod.splits)
next
  fix y
  show "fst (x_finish (NexusEthBlockExecutor V E) y) = fst (x_finish E (fst y))"
    by (cases y) (simp add: nexus_executor_defs split: prod.splits outcome.splits)
qed

lemma client_main_OkE:
  assumes "client_main R rb launch wait cfg base = Ok ()" "\<And>c b. launch c b = bindO (b c) (start c)"
  obtains spec n where "apply_forks R cfg base = Ok spec"
    "start spec (new_with_evm_factory rb spec \<lparr>chain_spec = spec\<rparr>) = Ok n" "wait n = Ok ()"
  using assms unfolding client_main_def build_evm_def by (auto simp: outcome_simps)

section \<open>Properties\<close>

text \<open>
  C17. The client executes blocks as Ethereum does, under the forks of its own configuration. When the process ends well, the node
  ran with a specification whose Prague and Osaka activate when the configuration says, where it says so, and as before where it does not; the
  executor of blocks, the assembler of blocks and Ethereum's unused factory all have that specification; and whatever calls are made of
  an executor of the client, the answers, the state and the result are those of Ethereum's executor: only the log grows, by a line for each
  block and each transaction started.
\<close>

theorem client_executes_as_ethereum:
  assumes law: "builder_law R" and launch: "\<And>c b. launch c b = bindO (b c) (start c)"
    and run: "client_main R rb launch wait cfg base = Ok ()"
  shows "\<exists>spec conf n. start spec conf = Ok n \<and> wait n = Ok ()
    \<and> (\<forall>t. is_active R spec Prague t = (case prague_time (fork_timings cfg) of None \<Rightarrow> is_active R base Prague t | Some u \<Rightarrow> u \<le> t))
    \<and> (\<forall>t. is_active R spec Osaka t = (case osaka_time (fork_timings cfg) of None \<Rightarrow> is_active R base Osaka t | Some u \<Rightarrow> u \<le> t))
    \<and> block_assembler conf = spec \<and> chain_spec (f_evm_factory (factory_inner (block_executor_factory conf))) = spec
    \<and> eth_executor_factory (config_inner conf) = factory_inner (block_executor_factory conf)
    \<and> (\<forall>evm ctx cs as x y as'. session E cs (eth_new evm ctx spec rb) = (as, x) \<longrightarrow>
         session (NexusEthBlockExecutor V E) cs (create_executor eth_new (block_executor_factory conf) evm ctx, []) = (as', y) \<longrightarrow>
         as' = as \<and> fst y = x \<and> fst (x_finish (NexusEthBlockExecutor V E) y) = fst (x_finish E x)
         \<and> length (snd y) = length (filter is_logged cs))"
proof -
  obtain spec n where spec: "apply_forks R cfg base = Ok spec"
    and n: "start spec (new_with_evm_factory rb spec \<lparr>chain_spec = spec\<rparr>) = Ok n" "wait n = Ok ()"
    by (rule client_main_OkE [OF run launch])
  let ?conf = "new_with_evm_factory rb spec \<lparr>chain_spec = spec\<rparr>"
  have x: "create_executor eth_new (block_executor_factory ?conf) evm ctx = eth_new evm ctx spec rb" for evm ctx
    by (simp add: create_executor_def block_executor_factory_def new_with_evm_factory_def NexusFactory_new_def)
  have ses: "as' = as \<and> fst y = x \<and> fst (x_finish (NexusEthBlockExecutor V E) y) = fst (x_finish E x)
      \<and> length (snd y) = length (filter is_logged cs)"
    if "session E cs (eth_new evm ctx spec rb) = (as, x)" "session (NexusEthBlockExecutor V E) cs (eth_new evm ctx spec rb, []) = (as', y)"
    for evm ctx cs as x y as'
    using that nexus_executor.session_abs [of E cs "(eth_new evm ctx spec rb, [])" V]
      nexus_executor.session_size [of V E cs "(eth_new evm ctx spec rb, [])"] nexus_executor.finish [of V E y] by simp
  have parts: "block_assembler ?conf = spec" "chain_spec (f_evm_factory (factory_inner (block_executor_factory ?conf))) = spec"
    "eth_executor_factory (config_inner ?conf) = factory_inner (block_executor_factory ?conf)"
    by (simp_all add: block_assembler_def block_executor_factory_def new_with_evm_factory_def NexusFactory_new_def)
  show ?thesis
    by (rule exI [of _ spec], rule exI [of _ ?conf], rule exI [of _ n], unfold x)
      (intro conjI allI impI n parts apply_forks_active [OF law spec]; use ses in blast)
qed

text \<open>
  The witness: executors that only count their transactions, and a configuration that moves Prague to time 7.
\<close>

definition sample_executor :: "(nat, bytes, unit, nat, unit, nat, nat, nat) Executor" where
  "sample_executor = \<lparr>x_apply_pre = (\<lambda>x. (Ok (), x)), x_execute = (\<lambda>tx f x. (Ok (if f () then Some 21000 else None), x + 1)),
     x_finish = (\<lambda>x. (Ok (x, 2 * x), x)), x_set_state_hook = (\<lambda>h x. x), x_evm_mut = (\<lambda>f x. f x), x_evm = (\<lambda>x. x),
     x_receipts = (\<lambda>x. [x]), x_without_commit = (\<lambda>tx x. (Ok x, x)), x_commit = (\<lambda>r tx x. (Ok 21000, x + 1))\<rparr>"

definition sample_view :: "(bytes, nat) BlockView" where
  "sample_view = \<lparr>block_number = (\<lambda>e. e + 5), block_timestamp = (\<lambda>e. 2 ^ 70), trie_hash = (\<lambda>t. t)\<rparr>"

definition sample_cfg :: NexusConfig where
  "sample_cfg = \<lparr>fork_timings = \<lparr>prague_time = Some 7, osaka_time = None\<rparr>\<rparr>"

lemma saturating_bounds:
  "n < 2 ^ 64 \<Longrightarrow> unat (saturating_to_u64 n) = n" "2 ^ 64 \<le> n \<Longrightarrow> unat (saturating_to_u64 n) = 2 ^ 64 - 1"
proof -
  have "unat (- 1 :: u64) = 2 ^ 64 - 1" by (simp add: unsigned_minus_1_eq_mask mask_eq_exp_minus_1)
  then show "n < 2 ^ 64 \<Longrightarrow> unat (saturating_to_u64 n) = n" "2 ^ 64 \<le> n \<Longrightarrow> unat (saturating_to_u64 n) = 2 ^ 64 - 1"
    by (simp_all add: saturating_to_u64_def unat_of_nat)
qed

theorem client_executes_as_ethereum_witness:
  "\<exists>spec. (\<forall>t. is_active sample_reth spec Prague t = (7 \<le> t)) \<and>
     fst (session (NexusEthBlockExecutor sample_view sample_executor) [Apply_Pre, Execute ''tx'' (\<lambda>_. True), Evm]
       (create_executor (\<lambda>e c s b. e) (NexusFactory_new () spec \<lparr>chain_spec = spec\<rparr>) 3 (), []))
     = [Applied (Ok ()), Executed (Ok (Some 21000)), The_Evm 4]"
proof -
  let ?launch = "\<lambda>c b. bindO (b c) (\<lambda>_. Ok ())" and ?W = "NexusEthBlockExecutor sample_view sample_executor"
  let ?cs = "[Apply_Pre, Execute ''tx'' (\<lambda>_. True), Evm]"
  have law: "builder_law sample_reth" by (auto simp: builder_law_def sample_reth_def)
  have run: "client_main sample_reth () ?launch (\<lambda>_. Ok ()) sample_cfg (\<lambda>_. None) = Ok ()"
    by (simp add: client_main_def build_evm_def apply_forks_def ForkTimings_validate_def sample_cfg_def Let_def)
  from client_executes_as_ethereum [where start = "\<lambda>c conf. Ok ()" and eth_new = "\<lambda>e (c::unit) s b. e" and E = sample_executor
      and V = sample_view, OF law refl run]
  obtain spec and conf :: "(EthereumHardfork \<Rightarrow> u64 option, (EthereumHardfork \<Rightarrow> u64 option) NexusEthEvmFactory, unit) NexusEthEvmConfig"
    where a: "\<forall>t. is_active sample_reth spec Prague t = (7 \<le> t)"
    and s: "\<And>evm ctx cs as x y as'. session sample_executor cs evm = (as, x) \<Longrightarrow>
       session ?W cs (create_executor (\<lambda>e (c::unit) s b. e) (block_executor_factory conf) evm ctx, []) = (as', y) \<Longrightarrow> as' = as"
    by (simp add: sample_cfg_def del: split_paired_All) blast
  have c: "create_executor (\<lambda>e (c::unit) s b. e) f evm ctx = evm" for f evm ctx by (simp add: create_executor_def)
  have x: "session sample_executor ?cs 3 = ([Applied (Ok ()), Executed (Ok (Some 21000)), The_Evm 4], 4)"
    by (simp add: sample_executor_def)
  obtain as' y where y: "session ?W ?cs (3, []) = (as', y)" by (rule prod.exhaust)
  with s [OF x, of "()" as' y] have "fst (session ?W ?cs (3, [])) = [Applied (Ok ()), Executed (Ok (Some 21000)), The_Evm 4]"
    unfolding c by simp
  with a show ?thesis unfolding c by blast
qed

end
