(* ===== verification/Block_Monitor.thy ===== *)
theory Block_Monitor
  imports Go_Std "HOL-Library.Multiset" "HOL-Library.Sublist"
begin

text \<open>
  The monitor of block times (\<open>reth/block-time-util/src/main.rs\<close>): statistics over a window of the last gaps between blocks, and
  the loops that feed it by polling or from a subscription. Floating-point numbers are the values of a type \<open>'f\<close> whose
  operations are an argument, so that nothing is assumed of their rounding. What the network answers, and when, is the input of a loop:
  a list of answers is what a loop has seen so far. Colours and column widths of the terminal are not modelled.
\<close>

section \<open>Statistics\<close>

record 'f F64 =
  f_zero :: 'f
  f_add :: "'f \<Rightarrow> 'f \<Rightarrow> 'f"
  f_sub :: "'f \<Rightarrow> 'f \<Rightarrow> 'f"
  f_div :: "'f \<Rightarrow> 'f \<Rightarrow> 'f"
  f_le :: "'f \<Rightarrow> 'f \<Rightarrow> bool"
  total_le :: "'f \<Rightarrow> 'f \<Rightarrow> bool"
  of_usize :: "nat \<Rightarrow> 'f"
  as_secs_f64 :: "nat \<Rightarrow> 'f"

record 'f Stats =
  window :: nat
  samples :: "'f list"
  total :: 'f

definition Stats_new :: "'f F64 \<Rightarrow> nat \<Rightarrow> 'f Stats outcome" where
  "Stats_new F w =
     (if w = 0 then Panic (New ''window size must be non-zero'')
      else Ok \<lparr>window = w, samples = [], total = f_zero F\<rparr>)"

definition Stats_push :: "'f F64 \<Rightarrow> 'f \<Rightarrow> 'f Stats \<Rightarrow> 'f Stats outcome" where
  "Stats_push F val st =
     bindO (if length (samples st) = window st
            then (case samples st of
                    [] \<Rightarrow> Panic (New ''called `Option::unwrap()` on a `None` value'')
                  | x # xs \<Rightarrow> Ok (st\<lparr>total := f_sub F (total st) x, samples := xs\<rparr>))
            else Ok st) (\<lambda>st.
     Ok (st\<lparr>samples := samples st @ [val], total := f_add F (total st) val\<rparr>))"

definition Stats_mean :: "'f F64 \<Rightarrow> 'f Stats \<Rightarrow> 'f" where
  "Stats_mean F st = (if samples st = [] then f_zero F else f_div F (total st) (of_usize F (length (samples st))))"

text \<open>The stable sort of the standard library, by the total order of floating-point numbers.\<close>

fun insert_by :: "('f \<Rightarrow> 'f \<Rightarrow> bool) \<Rightarrow> 'f \<Rightarrow> 'f list \<Rightarrow> 'f list" where
  "insert_by le x [] = [x]"
| "insert_by le x (y # ys) = (if le x y then x # y # ys else y # insert_by le x ys)"

definition sort_by :: "('f \<Rightarrow> 'f \<Rightarrow> bool) \<Rightarrow> 'f list \<Rightarrow> 'f list" where
  "sort_by le xs = foldr (insert_by le) xs []"

definition Stats_median :: "'f F64 \<Rightarrow> 'f Stats \<Rightarrow> 'f" where
  "Stats_median F st =
     (if samples st = [] then f_zero F
      else let sorted = sort_by (total_le F) (samples st); n = length sorted
           in if n mod 2 = 0 then f_div F (f_add F (sorted ! (n div 2 - 1)) (sorted ! (n div 2))) (of_usize F 2)
              else sorted ! (n div 2))"

section \<open>Recording a block\<close>

text \<open>A printed line: the block, and from the second block on the gap, whether it is green, the mean and the median.\<close>

record 'f Row =
  row_block :: u64
  row_stats :: "('f \<times> bool \<times> 'f \<times> 'f) option"

record 'f Monitor =
  mon_stats :: "'f Stats"
  last_seen :: "nat option"
  rows :: "'f Row list"

text \<open>
  The clock is read twice, for the instant that is kept and inside \<open>elapsed\<close>; instants are in nanoseconds, and an instant later
  than now has elapsed by nothing.
\<close>

definition record_block :: "'f F64 \<Rightarrow> u64 \<Rightarrow> nat \<Rightarrow> nat \<Rightarrow> 'f Monitor \<Rightarrow> 'f Monitor outcome" where
  "record_block F block now now' m =
     (case last_seen m of
        Some prev \<Rightarrow>
          let elapsed = as_secs_f64 F (now' - prev)
          in bindO (Stats_push F elapsed (mon_stats m)) (\<lambda>st.
             let mean = Stats_mean F st
             in Ok (m\<lparr>mon_stats := st, last_seen := Some now,
                   rows := rows m @ [\<lparr>row_block = block, row_stats = Some (elapsed, f_le F elapsed mean, mean, Stats_median F st)\<rparr>]\<rparr>))
      | None \<Rightarrow> Ok (m\<lparr>last_seen := Some now, rows := rows m @ [\<lparr>row_block = block, row_stats = None\<rparr>]\<rparr>))"

section \<open>Polling\<close>

record Args =
  url :: string
  arg_window :: nat
  poll_ms :: u64
  smoke :: bool
  smoke_timeout_secs :: u64

definition contains :: "string \<Rightarrow> string \<Rightarrow> bool" where
  "contains pat s = list_ex (\<lambda>i. take (length pat) (drop i s) = pat) [0..<Suc (length s)]"

definition starts_with :: "string \<Rightarrow> string \<Rightarrow> bool" where
  "starts_with pre s = (take (length pre) s = pre)"

text \<open>An answer: the number of the latest block and the two readings of the clock, or an error as it prints.\<close>

datatype poll = Polled u64 nat nat | Poll_Error string

datatype 'f progress =
    Stopped "unit outcome"
  | Exited int
  | Watching "'f Monitor" "u64 option"

abbreviation rate_limited :: "string \<Rightarrow> bool" where
  "rate_limited msg \<equiv> contains ''429'' msg \<or> contains ''Too Many Requests'' msg"

fun poll_loop :: "'f F64 \<Rightarrow> poll list \<Rightarrow> 'f Monitor \<Rightarrow> u64 option \<Rightarrow> 'f progress" where
  "poll_loop F [] m last_block = Watching m last_block"
| "poll_loop F (Polled block now now' # ps) m last_block =
     (if Some block \<noteq> last_block
      then case record_block F block now now' m of
             Ok m' \<Rightarrow> poll_loop F ps m' (Some block)
           | Err e \<Rightarrow> Stopped (Err e)
           | Panic e \<Rightarrow> Stopped (Panic e)
      else poll_loop F ps m last_block)"
| "poll_loop F (Poll_Error msg # ps) m last_block =
     (if rate_limited msg then Exited 1 else poll_loop F ps m last_block)"

definition run_http :: "'f F64 \<Rightarrow> (string \<Rightarrow> unit outcome) \<Rightarrow> poll list \<Rightarrow> Args \<Rightarrow> 'f progress" where
  "run_http F connect polls args =
     (case wrapO ''failed to connect to rpc'' [] (connect (url args)) of
        Ok _ \<Rightarrow>
          (case Stats_new F (arg_window args) of
             Ok st \<Rightarrow> poll_loop F polls \<lparr>mon_stats = st, last_seen = None, rows = []\<rparr> None
           | Err e \<Rightarrow> Stopped (Err e)
           | Panic e \<Rightarrow> Stopped (Panic e))
      | Err e \<Rightarrow> Stopped (Err e)
      | Panic e \<Rightarrow> Stopped (Panic e))"

section \<open>Subscribing\<close>

datatype first_head = Timed_Out | Ended | Head u64

definition run_ws_smoke :: "(string \<Rightarrow> unit outcome) \<Rightarrow> unit outcome \<Rightarrow> first_head \<Rightarrow> Args \<Rightarrow> u64 outcome" where
  "run_ws_smoke connect_ws subscribe_blocks first args =
     bindO (wrapO ''failed to connect via WebSocket'' [] (connect_ws (url args))) (\<lambda>_.
     bindO (wrapO ''failed to subscribe to blocks (eth_subscribe / newHeads)'' [] subscribe_blocks) (\<lambda>_.
     case first of
       Timed_Out \<Rightarrow> Err (New (''timed out after '' @ show_u64 (smoke_timeout_secs args)
                      @ ''s waiting for first newHeads from subscription''))
     | Ended \<Rightarrow> Err (New ''[ws] subscription stream ended before first block'')
     | Head n \<Rightarrow> Ok n))"

fun head_loop :: "'f F64 \<Rightarrow> (u64 \<times> nat \<times> nat) list \<Rightarrow> 'f Monitor \<Rightarrow> 'f Monitor outcome" where
  "head_loop F [] m = Ok m"
| "head_loop F ((block, now, now') # hs) m = bindO (record_block F block now now' m) (head_loop F hs)"

text \<open>The stream is what has arrived and whether it ended.\<close>

definition run_ws ::
    "'f F64 \<Rightarrow> (string \<Rightarrow> unit outcome) \<Rightarrow> unit outcome \<Rightarrow> (u64 \<times> nat \<times> nat) list \<times> bool \<Rightarrow> Args \<Rightarrow> 'f progress" where
  "run_ws F connect_ws subscribe_blocks stream args =
     (case bindO (wrapO ''failed to connect via WebSocket'' [] (connect_ws (url args))) (\<lambda>_.
           bindO (wrapO ''failed to subscribe to blocks'' [] subscribe_blocks) (\<lambda>_.
           bindO (Stats_new F (arg_window args)) (\<lambda>st.
           head_loop F (fst stream) \<lparr>mon_stats = st, last_seen = None, rows = []\<rparr>))) of
        Ok m \<Rightarrow> if snd stream then Stopped (Err (New ''[ws] subscription stream ended unexpectedly'')) else Watching m None
      | Err e \<Rightarrow> Stopped (Err e)
      | Panic e \<Rightarrow> Stopped (Panic e))"

record Network =
  net_connect :: "string \<Rightarrow> unit outcome"
  net_connect_ws :: "string \<Rightarrow> unit outcome"
  net_subscribe :: "unit outcome"
  net_polls :: "poll list"
  net_first :: first_head
  net_stream :: "(u64 \<times> nat \<times> nat) list \<times> bool"

definition monitor_main :: "'f F64 \<Rightarrow> Network \<Rightarrow> Args \<Rightarrow> 'f progress" where
  "monitor_main F net args =
     (let ws = starts_with ''ws://'' (url args) \<or> starts_with ''wss://'' (url args)
      in if smoke args \<and> \<not> ws then Exited 1
         else if ws
         then (if smoke args
               then Stopped (bindO (run_ws_smoke (net_connect_ws net) (net_subscribe net) (net_first net) args) (\<lambda>_. Ok ()))
               else run_ws F (net_connect_ws net) (net_subscribe net) (net_stream net) args)
         else if starts_with ''http://'' (url args) \<or> starts_with ''https://'' (url args)
         then run_http F (net_connect net) (net_polls net) args
         else Exited 1)"

section \<open>Lemmas\<close>

subsection \<open>The window\<close>

definition last_n :: "nat \<Rightarrow> 'a list \<Rightarrow> 'a list" where
  "last_n n xs = drop (length xs - n) xs"

lemma last_n_snoc: "0 < n \<Longrightarrow> last_n n (xs @ [x]) = (if length (last_n n xs) = n then tl (last_n n xs) else last_n n xs) @ [x]"
  by (auto simp: last_n_def tl_drop Suc_diff_le min_def simp flip: drop_Suc split: if_splits)

lemma push_window:
  assumes "window st = w" "0 < w" "samples st = last_n w xs"
  shows "\<exists>t. Stats_push F v st = Ok \<lparr>window = w, samples = last_n w (xs @ [v]), total = t\<rparr>"
proof (cases "length (last_n w xs) = w")
  case True
  with assms(2) obtain y ys where l: "last_n w xs = y # ys" by (cases "last_n w xs") auto
  then show ?thesis using assms True by (cases st) (auto simp: Stats_push_def last_n_snoc)
next
  case False
  then show ?thesis using assms by (cases st) (auto simp: Stats_push_def last_n_snoc)
qed

subsection \<open>The median\<close>

lemma insert_by_mset [simp]: "mset (insert_by le x xs) = add_mset x (mset xs)"
  by (induction xs) auto

lemma sort_by_mset [simp]: "mset (sort_by le xs) = mset xs"
  by (induction xs) (auto simp: sort_by_def)

definition total_order :: "('f \<Rightarrow> 'f \<Rightarrow> bool) \<Rightarrow> bool" where
  "total_order le \<longleftrightarrow> (\<forall>x y. le x y \<or> le y x) \<and> (\<forall>x y z. le x y \<longrightarrow> le y z \<longrightarrow> le x z)"

lemma insert_by_set [simp]: "set (insert_by le x xs) = insert x (set xs)"
  by (induction xs) auto

lemma insert_by_sorted: "total_order le \<Longrightarrow> sorted_wrt le xs \<Longrightarrow> sorted_wrt le (insert_by le x xs)"
proof (induction xs)
  case (Cons y ys)
  then show ?case unfolding total_order_def by (simp, metis)
qed simp

lemma sort_by_sorted: "total_order le \<Longrightarrow> sorted_wrt le (sort_by le xs)"
  by (induction xs) (auto simp: sort_by_def insert_by_sorted)

subsection \<open>The loops\<close>

definition gaps :: "'f Row list \<Rightarrow> 'f list" where
  "gaps rs = map (\<lambda>r. fst (the (row_stats r))) (filter (\<lambda>r. row_stats r \<noteq> None) rs)"

text \<open>What a monitor with a window of \<open>w\<close> holds after the blocks \<open>bs\<close> were recorded.\<close>

definition monitors :: "nat \<Rightarrow> u64 list \<Rightarrow> 'f Monitor \<Rightarrow> bool" where
  "monitors w bs m \<longleftrightarrow> window (mon_stats m) = w \<and> samples (mon_stats m) = last_n w (gaps (rows m))
     \<and> map row_block (rows m) = bs \<and> length (gaps (rows m)) = length bs - 1 \<and> (last_seen m = None \<longleftrightarrow> bs = [])"

lemma record_monitors:
  assumes "monitors w bs m" "0 < w"
  shows "\<exists>m'. record_block F b t t' m = Ok m' \<and> monitors w (bs @ [b]) m'"
proof (cases "last_seen m")
  case None
  with assms show ?thesis by (auto simp: record_block_def monitors_def gaps_def)
next
  case (Some prev)
  let ?v = "as_secs_f64 F (t' - prev)"
  from assms obtain st where st: "Stats_push F ?v (mon_stats m) = Ok st" "window st = w" "samples st = last_n w (gaps (rows m) @ [?v])"
    using push_window [of "mon_stats m" w "gaps (rows m)" F ?v] by (auto simp: monitors_def)
  from Some assms(1) have "bs \<noteq> []" by (auto simp: monitors_def)
  then show ?thesis using assms Some st
    by (auto simp: record_block_def monitors_def gaps_def Let_def Suc_diff_Suc)
qed

fun heights :: "poll list \<Rightarrow> u64 list" where
  "heights [] = []"
| "heights (Polled b t t' # ps) = b # heights ps"
| "heights (Poll_Error e # ps) = heights ps"

fun hits_limit :: "poll \<Rightarrow> bool" where
  "hits_limit (Poll_Error e) = rate_limited e"
| "hits_limit (Polled b t t') = False"

definition last_of :: "'a list \<Rightarrow> 'a option" where
  "last_of xs = (if xs = [] then None else Some (last xs))"

lemma remdups_adj_last:
  "last_of bs = Some b \<Longrightarrow> remdups_adj (bs @ [b]) = remdups_adj bs"
  "last_of bs \<noteq> Some b \<Longrightarrow> remdups_adj (bs @ [b]) = remdups_adj bs @ [b]"
  by (cases bs rule: rev_cases; simp add: last_of_def remdups_adj_append_two)+

lemma last_of_snoc [simp]: "last_of (xs @ [x]) = Some x"
  by (simp add: last_of_def)

lemma poll_loop_watches:
  assumes "monitors w (remdups_adj bs) m" "0 < w" "lb = last_of bs" "\<not> list_ex hits_limit ps"
  shows "\<exists>m' lb'. poll_loop F ps m lb = Watching m' lb' \<and> monitors w (remdups_adj (bs @ heights ps)) m'"
  using assms
proof (induction ps arbitrary: bs m lb)
  case (Cons p ps)
  show ?case
  proof (cases p)
    case (Poll_Error e)
    then show ?thesis using Cons by auto
  next
    case (Polled b t t')
    show ?thesis
    proof (cases "Some b = lb")
      case True
      with Cons.prems(3) have "remdups_adj (bs @ [b]) = remdups_adj bs" by (simp add: remdups_adj_last)
      with Cons.IH [of "bs @ [b]" m lb] Cons.prems True Polled show ?thesis by simp
    next
      case False
      with Cons.prems(3) have "remdups_adj (bs @ [b]) = remdups_adj bs @ [b]" by (simp add: remdups_adj_last)
      moreover obtain m1 where "record_block F b t t' m = Ok m1" "monitors w (remdups_adj bs @ [b]) m1"
        using record_monitors [OF Cons.prems(1,2)] by blast
      ultimately show ?thesis using Cons.IH [of "bs @ [b]" m1 "Some b"] Cons.prems False Polled by simp
    qed
  qed
qed simp

lemma poll_loop_exits:
  assumes "monitors w bs m" "0 < w" "list_ex hits_limit ps"
  shows "poll_loop F ps m lb = Exited 1"
  using assms
proof (induction ps arbitrary: bs m lb)
  case (Cons p ps)
  show ?case
  proof (cases p)
    case (Polled b t t')
    obtain m1 where "record_block F b t t' m = Ok m1" "monitors w (bs @ [b]) m1"
      using record_monitors [OF Cons.prems(1,2)] by blast
    then show ?thesis using Cons.IH [of "bs @ [b]" m1] Cons.IH [OF Cons.prems(1)] Cons.prems Polled by simp
  qed (use Cons in auto)
qed simp

section \<open>Properties\<close>


text \<open>A window of two, over whole numbers of nanoseconds.\<close>

definition nat_floats :: "nat F64" where
  "nat_floats = \<lparr>f_zero = 0, f_add = (+), f_sub = (-), f_div = (div), f_le = (\<le>), total_le = (\<le>), of_usize = (\<lambda>n. n), as_secs_f64 = (\<lambda>n. n)\<rparr>"

definition monitor_network :: Network where
  "monitor_network = \<lparr>net_connect = (\<lambda>_. Ok ()), net_connect_ws = (\<lambda>_. Ok ()), net_subscribe = Ok (),
     net_polls = [Polled 5 100 100, Polled 5 200 200, Poll_Error ''timeout'', Polled 6 300 300, Polled 7 350 350, Polled 8 360 360],
     net_first = Timed_Out, net_stream = ([], False)\<rparr>"

definition monitor_args :: Args where
  "monitor_args = \<lparr>url = ''http://node'', arg_window = 2, poll_ms = 200, smoke = False, smoke_timeout_secs = 60\<rparr>"


end
