(* ===== verification/Spec2Isabelle.thy ===== *)
theory Spec2Isabelle
  imports Block_State Root_Command Testnet_Agreement Testnet_Accounts Query_Gateway Application Modules Start_Command Http_Routes
    Execution_Client Block_Monitor
begin

text \<open>
  Verification of the Nexus node: a consensus client in Go (\<open>src/cosmos\<close>), built on the Cosmos SDK,
  that drives an Ethereum execution client over the Engine API, and that execution client, a thin layer
  over reth in Rust (\<open>src/reth\<close>).

  \<^bold>\<open>The program.\<close> A proposer asks the execution client to build a payload on the stored head
  (\<open>PrepareProposal\<close>), wraps it into a transaction and adds transactions of the mempool. Validators check
  a proposal (\<open>ProcessProposal\<close>) and vote. When a block is final, the message handler
  (\<open>ExecutionPayload\<close>) submits the payload to the execution client, moves its fork choice, and
  stores the new head. Around this core are the genesis, the authentication of the connections,
  the handler in front of transactions with the minimum gas price, the scheduled operations on
  validators at the end of a block, the alerts of upgrades, the metrics, and the readiness probe. A node is put together when it starts
  (\<open>New\<close>), from the configuration of its modules and its configuration file; the command line starts it, exports its
  state, and makes test networks, afresh or out of the state of a node.

  \<^bold>\<open>How code becomes definitions.\<close> A Go function is a HOL function of the same name. Its result is an
  \<open>outcome\<close>: \<open>Ok\<close>, an error value (\<open>Err\<close>) or a panic (\<open>Panic\<close>), so every early return is a branch. A
  method that changes state takes the state and returns it; the state of the node is its store
  \<open>'s\<close> and the outside \<open>'e\<close> (clock, network, execution client). A loop that may not end is a
  \<open>partial_function (option)\<close>, where \<open>None\<close> is not returning. Unsigned and signed 64-bit integers are
  words. Libraries outside the repository are arguments (records of functions), and what the code
  relies on of them are named predicates (\<open>item_law\<close>, \<open>clock_law\<close>, \<open>jwt_law\<close>, \<open>bank_law\<close>, \<open>dec_law\<close>, \<open>builder_law\<close>,
  \<dots>), each satisfied by an instance in the witness of a property that assumes it.

  \<^bold>\<open>Theories.\<close>
  \<^item> \<open>Nexus_Prelude\<close>, \<open>Calls\<close>, \<open>Go_Std\<close>, \<open>Go_Context\<close>, \<open>Base64\<close>, \<open>Json\<close>, \<open>Files\<close>: errors and outcomes, frame rules of calls, and what
    the sources use of Go's standard library: decimal and boolean parsing, hexadecimal, strings,
    contexts, \<open>retry\<close> of \<open>x/evm/keeper/async.go\<close>, base64, encoding and decoding of JSON, and paths and files over a disk. \<open>Calls\<close> has the
    ways in which calls are combined and, in the locale \<open>change_preorder\<close>, the rules on what a call may change, interpreted for
    projections of a state, for disks and for the host of a test network.
  \<^item> \<open>Chain_Spec\<close> (\<open>app/types/chain.go\<close>, \<open>app/chain.go\<close>, \<open>lib/config.go\<close>): the fork schedule and the Engine API
    versions it selects. \<open>Reth_Forks\<close> (\<open>reth/evm/src/nexus.rs\<close>, \<open>forks.rs\<close>): the schedule of the execution
    client, and that both layers agree when their times do. \<open>Execution_Client\<close> (\<open>reth/evm/src\<close>, \<open>reth/nexus-node/src/main.rs\<close>):
    the block executor, its factories, the configuration, and the program; reth is a record of functions. The contract of an
    executor that hands every call on is the locale \<open>transparent_wrapper\<close>.
  \<^item> \<open>Evm_Types\<close>, \<open>Engine_Client\<close> (\<open>lib/engine.go\<close>), \<open>Jwt\<close> (\<open>lib/jwt.go\<close>, \<open>lib/grpc_jwt.go\<close>), \<open>Samples\<close>: data, the
    client interface with its two implementations (locale \<open>engine_client\<close>), tokens, and instances for
    witnesses.
  \<^item> \<open>Keeper\<close> (\<open>x/evm/keeper/keeper.go\<close>): configuration, stored head, timestamp rule. \<open>Block_State\<close>
    (\<open>x/evm/types/types.go\<close>): the codec of the stored head, and that a store of bytes under it obeys the
    law that \<open>Keeper\<close> assumes.
  \<^item> \<open>Msg_Server\<close> (\<open>msg_server.go\<close>, \<open>proposal_server.go\<close>): checking and finalizing a payload. \<open>Abci\<close> (\<open>abci.go\<close>):
    building one. \<open>Proposal\<close> (\<open>app/proposal.go\<close>): the two proposal handlers. \<open>Chain\<close>: the node as a step
    relation; the locale \<open>head_machine\<close> gives the invariants of every run. \<open>Application\<close>: whole blocks, in the order
    in which BaseApp calls the handlers that \<open>New\<close> sets: process proposal, pre-blocker, begin-blocker, each transaction
    through the ante handler and its messages, end-blocker; \<open>sdk_apart\<close> says that modules of the SDK keep to their own stores.
  \<^item> \<open>Proto\<close>, \<open>Proto_Messages\<close> (\<open>*.pb.go\<close>): the generated encoders and decoders, one definition for the
    code every file repeats, and the locale \<open>proto_message\<close> interpreted for twelve messages.
  \<^item> \<open>Genesis\<close> (\<open>x/evm/types/genesis.go\<close>, \<open>genesis_compat.go\<close>, \<open>x/evm/keeper/genesis.go\<close>, \<open>genesis/genesis.go\<close>):
    default, validation, import and export.
  \<^item> \<open>Global_Fee\<close> (\<open>x/globalfee\<close>, \<open>app/ante.go\<close>): the minimum gas price and the handler in front of every
    transaction.
  \<^item> \<open>Upgrades\<close> (\<open>app/upgrades.go\<close>), \<open>Metrics\<close> (\<open>app/metrics.go\<close>), \<open>Block_Hooks\<close> (\<open>app/block_hooks.go\<close>, \<open>EndBlocker\<close>):
    operations on validators, gauges, and the hooks that the end of a block performs. \<open>Export\<close>
    (\<open>app/export.go\<close>): the state as a genesis file, also for a chain that starts afresh.
  \<^item> \<open>Notifiers\<close> (\<open>app/webhook_notifier.go\<close>, \<open>upgrade_logging.go\<close>, \<open>halt_logging.go\<close>, \<open>PreBlocker\<close>): alerts.
    \<open>Readiness\<close> (\<open>app/rpc_readiness.go\<close>): the probe.
  \<^item> \<open>App_Config\<close> (\<open>app/app_config.go\<close>, \<open>config.go\<close>, \<open>genesis_account.go\<close>): module accounts, permissions and orders.
    \<open>Start_Up\<close> (\<open>app/app.go\<close>, \<open>ibc.go\<close>, \<open>migrations.go\<close>, \<open>x/evm/module/depinject.go\<close>): how a node is put together; what the SDK
    registers is the record \<open>Registry\<close>, and \<open>granted\<close> says which calls it documents to accept.
  \<^item> \<open>Root_Command\<close> (\<open>root.go\<close>, \<open>main.go\<close>), \<open>Node_Commands\<close> (\<open>commands.go\<close>, \<open>root.go\<close>), \<open>In_Place_Testnet\<close> (\<open>testnet.go\<close>),
    \<open>Testnet_Files\<close>, \<open>Testnet_Agreement\<close>, \<open>Testnet_Accounts\<close> (\<open>testnet_multi_node.go\<close>): the commands of \<open>cmd/nexusd/cmd\<close>.
  \<^item> \<open>Core_Service\<close> (\<open>lib/core_client.go\<close>, \<open>lib/cosmos_grpc_server.go\<close>, \<open>PostSetup\<close> of \<open>commands.go\<close>): the connections with Core and
    the step relation of their goroutines. \<open>Query_Gateway\<close> (\<open>x/evm/types/query.pb.gw.go\<close>): the query service over HTTP.
  \<^item> \<open>Modules\<close> (\<open>x/evm/module\<close>, \<open>x/globalfee/module\<close>): the modules as the SDK sees them. \<open>Http_Routes\<close> (\<open>docs/docs.go\<close>,
    \<open>RegisterAPIRoutes\<close>): the routes of the HTTP server. \<open>Start_Command\<close> (\<open>cmd/nexusd/cmd/config.go\<close>, \<open>commands.go\<close>): defaults of the
    configuration files, the tree of commands, and starting a node. \<open>Block_Monitor\<close> (the block time monitor in Rust): its window of
    block times and its polling loop, where floating-point arithmetic is an argument.

  \<^bold>\<open>What is shown.\<close>
  \<^item> Safety of the chain: over every run of messages, and over every run of whole blocks of a started node, the finalized payloads
    form a linked chain with increasing timestamps whose last block is the stored head; from genesis it is numbered from 1
    and starts at the block that the genesis file names; a finalization does exactly what its
    specification says or leaves the head alone; the vote of a validator is characterized by a
    declarative specification, and an honest proposal is accepted and can be finalized, also within a whole block.
  \<^item> Execution client: it executes blocks as reth's Ethereum executor does, under the fork schedule it was given.
  \<^item> Termination: building a block always returns; finalizing returns under a deadline, and without
    one a payload that is refused before it is sent makes it run forever; polling gives up; decoding
    of protobuf ends on every input.
  \<^item> Round trips: protobuf messages, the stored head, genesis of both modules, secrets, public keys.
  \<^item> Configuration: both fork schedules, the keeper's configuration, typed hooks.
  \<^item> Operations: validators jailed by an export, the staking pools after reconciliation, removed validators, failing hooks never fail a
    block, alerts raised once and in bounded time, gauges that add up, when the probe answers ok, and that the
    block time monitor reports each new block once, over the window asked for.
  \<^item> Composition: a node with a valid configuration starts, with every handler set before it is sealed; two nodes
    started from one configuration file agree on proposals; the module accounts have the permissions that the hooks need; the
    connections with Core end cleanly and serve only who has the secret.
  \<^item> Commands: the embedded genesis is written where and when it should be, all nodes of a new test network
    have the same genesis, ports that do not meet, a test network in place has one validator, an export is that of the height asked for.

  \<^bold>\<open>Bounds and fuel.\<close> \<open>json_parse\<close> runs its recursive descent with fuel twice the length of the text
  plus one; \<open>json_fuel\<close> shows that more fuel never changes the result. Its nesting limit of 10000 is that of
  the standard library. All other recursions are structural, have a termination proof, or are
  partial functions whose termination is a theorem. Heights in \<open>Readiness\<close> are below \<open>2 ^ 63\<close>,
  where Go's conversion to \<open>int64\<close> is exact.

  \<^bold>\<open>Not modelled.\<close> Logging other than the lines that are themselves behaviour, telemetry counters, and
  256-bit overflow of \<open>math.Int\<close>. The container of \<open>depinject\<close>, the subcommands that the SDK provides, the simulation manager, codecs and
  plain accessors of \<open>app/app.go\<close>, which only hand objects of the SDK on. The
  generated gRPC stubs and message tables of the Core service, and the accessors and descriptors of generated messages, which have no
  behaviour of their own. Interfaces of keepers that no method calls, imports of tools, and a helper of tests that opens a
  socket. Of the block time monitor, colours of the terminal and the rounding of floating-point numbers.
\<close>

section \<open>From genesis to the chain\<close>

text \<open>The head that the module's genesis leaves in the store of a chain that starts from nothing.\<close>

lemma genesis_head:
  assumes laws: "item_law (BlockStateItem (am_keeper am))" "item_law (ParamsItem (am_keeper am))" "separate_items (am_keeper am)"
    and init: "AppModule_InitGenesis X j am bz s0 = (Ok (), s)"
    and fresh: "GenesisStateFromJSON (UnmarshalJSON (am_cdc am)) j bz = Ok gs" "CurrentBlockHash gs = []"
  shows "GetBlockState (am_keeper am) s = Ok \<lparr>Hash = HexToHash X (GenesisExecutionBlockHash gs), Height = 0, Timestamp = 0\<rparr>"
  using Module_InitGenesis_OkD [OF init [unfolded AppModule_InitGenesis_def]] fresh InitGenesis_Ok(2) [OF laws] by fastforce

text \<open>
  C1. The chain grows from genesis. Let a started node initialize its store from a genesis file that names an execution block and no
  current block. After any run of accepted blocks the finalized payloads are numbered 1, 2, 3, and so on; the first of them has the
  block of the genesis file as its parent, each of the others the one before it; and the last one is the stored head.
\<close>

theorem chain_grows_from_genesis:
  assumes start: "NewApp A N I loadLatest H r = Some (Ok app, r')" and apart: "sdk_apart H P app"
    and items: "item_law (ParamsItem (EvmKeeper app))" "separate_items (EvmKeeper app)"
    and init: "AppModule_InitGenesis (ext H) j (NewAppModule cdc (EvmKeeper app)) bz s0 = (Ok (), s)"
    and fresh: "GenesisStateFromJSON (UnmarshalJSON cdc) j bz = Ok gs" "CurrentBlockHash gs = []"
    and steps: "run (block_step (ext H) P) (app, s, e) ps (app', s', e')" and some: "ps \<noteq> []"
  shows "map ParentHash ps = butlast (HexToHash (ext H) (GenesisExecutionBlockHash gs) # map BlockHash ps)
    \<and> (\<forall>i < length ps. Number (ps ! i) = of_nat (Suc i))
    \<and> sorted_wrt (<) (map PayloadTimestamp ps)
    \<and> GetBlockState (EvmKeeper app') s' = Ok (next_head (last ps))"
proof -
  let ?b = "\<lparr>Hash = HexToHash (ext H) (GenesisExecutionBlockHash gs), Height = 0, Timestamp = 0\<rparr>"
  have am: "am_keeper (NewAppModule cdc (EvmKeeper app)) = EvmKeeper app" "am_cdc (NewAppModule cdc (EvmKeeper app)) = cdc"
    by (simp_all add: NewAppModule_def)
  have "item_law (BlockStateItem (EvmKeeper app))" using apart by (simp add: sdk_apart_def lawful_store_def)
  then have "GetBlockState (EvmKeeper app) s = Ok ?b"
    using genesis_head [of "NewAppModule cdc (EvmKeeper app)" "ext H" j bz s0 s gs] items init fresh unfolding am by blast
  note c = started_run_chained [OF start apart steps this]
  show ?thesis
    using c(2) chained_parents [OF c(1)] chained_Number [OF c(1)] chained_sorted [OF c(1)] head_after_last [OF some] by simp
qed

text \<open>The node of the other witnesses, from a genesis file that names block 1.\<close>

definition genesis_codec :: JsonCodec where
  "genesis_codec = \<lparr>MarshalJSON = (\<lambda>gs. Err (New ''read only'')),
     UnmarshalJSON = (\<lambda>bz gs. (Ok (), gs\<lparr>GenesisExecutionBlockHash := sample_hex 1\<rparr>))\<rparr>"

definition genesis_state :: BlockState where
  "genesis_state = \<lparr>Hash = 1, Height = 0, Timestamp = 0\<rparr>"

lemma genesis_accepted:
  "processProposalHandler (proposalRouter sample_ext (sample_keeper None)) sample_ext sample_config 1
     sample_ctx sample_proposal (Some genesis_state) = Ok ACCEPT"
proof -
  have h: "proc_Height sample_proposal \<noteq> 1" by (simp add: sample_proposal_def)
  have q: "\<not> sint v \<le> sint (quot_i64 (t * 2) 3)" if "tally (Votes sample_proposal) = (t, v)" for t v
    using quorum_exact [OF sample_power(1) that] sample_power by simp
  have "GetBlockState (sample_keeper None) (Some genesis_state) = Ok genesis_state" "extends genesis_state sample_payload"
    "PayloadTimestamp sample_payload
       = CalculateTimestamp (sample_keeper None) (BlockTime sample_ctx) (HeaderHeight sample_ctx) (Timestamp genesis_state)"
    by (simp_all add: GetBlockState_def sample_keeper_def sample_item_def extends_def genesis_state_def sample_payload_def
        CalculateTimestamp_def sample_ctx_def)
  then have ok: "proposal_ExecutionPayload sample_ext (sample_keeper None) sample_ctx sample_req (Some genesis_state) = Ok ()"
    using sample_facts by (auto simp: proposal_ExecutionPayload_Ok validatePayload_Ok)
  show ?thesis
    unfolding process_ACCEPT [OF h] using q ok sample_txs
    by (cases "tally (Votes sample_proposal)")
      (fastforce simp: sample_proposal_def MaxTxSize_def intro!: exI [of _ "[''send'']"])
qed

theorem chain_grows_from_genesis_witness:
  "\<exists>app r' s app' s'. NewApp sample_answers sdk_names sample_ibc_names True (sample_env sample_plan) sample_registry = Some (Ok app, r')
    \<and> AppModule_InitGenesis sample_ext (\<lambda>_ gs. (Err (New ''no''), gs)) (NewAppModule genesis_codec (EvmKeeper app)) ''{}'' None = (Ok (), s)
    \<and> run (block_step sample_ext sample_platform) (app, s, 0) [sample_payload] (app', s', 2)
    \<and> ParentHash sample_payload = HexToHash sample_ext (sample_hex 1)"
proof -
  let ?j = "\<lambda>_ gs. (Err (New ''no''), gs)" and ?gs = "GenesisState_zero\<lparr>GenesisExecutionBlockHash := sample_hex 1\<rparr>"
  obtain app r' where start: "NewApp sample_answers sdk_names sample_ibc_names True (sample_env sample_plan) sample_registry = Some (Ok app, r')"
    and a: "EvmKeeper app = sample_keeper None" "app_txConfig app = sample_config" "app_hooks app = Map.empty"
      "h_ProcessProposal app = processProposalHandler (proposalRouter sample_ext (sample_keeper None)) sample_ext sample_config 1"
    and apart: "sdk_apart (sample_env sample_plan) sample_platform app"
    using sample_started by blast
  have law: "lawful_app sample_ext sample_platform app" using started_lawful [OF start apart] by (simp add: sample_parts(1))
  have acc: "h_ProcessProposal app sample_ctx sample_proposal (Some genesis_state) = Ok ACCEPT" using genesis_accepted by (simp add: a)
  obtain app' s' where r: "run (block_step (ext (sample_env sample_plan)) sample_platform) (app, Some genesis_state, 0) [sample_payload] (app', s', 2)"
    using sample_block_runs [OF law a(1-3) acc] by (auto simp: sample_parts(1))
  have items: "item_law (ParamsItem (EvmKeeper app))" "separate_items (EvmKeeper app)"
    by (auto simp: a item_law_def separate_items_def sample_keeper_def sample_params_item_def sample_item_def)
      (metis Params.exhaust)
  have hex: "sample_hex 1 \<noteq> []" by (simp add: sample_hex_def)
  have fresh: "GenesisStateFromJSON (UnmarshalJSON genesis_codec) ?j ''{}'' = Ok ?gs" "CurrentBlockHash ?gs = []"
    by (simp_all add: GenesisStateFromJSON_def genesis_codec_def NormalizeGenesisState_def hex) (simp add: GenesisState_zero_def)
  have init: "AppModule_InitGenesis (ext (sample_env sample_plan)) ?j (NewAppModule genesis_codec (EvmKeeper app)) ''{}'' None
    = (Ok (), Some genesis_state)"
    using fresh(1) hex
    by (simp add: AppModule_InitGenesis_def NewAppModule_def Module_InitGenesis_def InitGenesis_def a sample_keeper_def sample_params_item_def
        SetBlockState_def sample_item_def NewBlockState_def GenesisState_zero_def genesis_state_def sample_parts(1))
      (simp add: sample_ext_def)
  from chain_grows_from_genesis [OF start apart items init fresh r] start init r show ?thesis
    by (auto simp: sample_parts(1))
qed

end
